(* ===== verification/Prelude.thy ===== *)
theory Prelude
  imports Main "HOL-Library.Word" "HOL-Library.Multiset"
begin

text \<open>
  Shared vocabulary of the development: machine integers, Go errors as values, the programs
  (goroutine bodies) as sequences of atomic actions on a state, their sequential execution, and
  the list operations that the document collections are made of.
\<close>

section \<open>Names for the machine types\<close>

type_synonym u16 = "16 word"
type_synonym u32 = "32 word"
type_synonym u64 = "64 word"
type_synonym i64 = "64 word"
type_synonym bytes = "8 word list"

text \<open>
  \<^bigskip> Go's \<^verbatim>\<open>int64\<close> and \<^verbatim>\<open>uint64\<close> are both 64-bit words here: a conversion between them keeps the
  bits, and the signed comparisons of the source are written with the signed order of words.
\<close>

named_theorems prog_defs \<open>the derived program combinators\<close>
named_theorems db_defs \<open>the database operations\<close>
named_theorems handler_defs \<open>the service handlers\<close>
named_theorems complies_rules \<open>what every operation guarantees to the other goroutines\<close>

section \<open>Errors\<close>

text \<open>
  A Go error value. \<open>Wrapped\<close> is what \<^verbatim>\<open>fmt.Errorf\<close> makes with a \<^verbatim>\<open>%w\<close> verb: it keeps the error below it
  for \<^verbatim>\<open>errors.Is\<close>. \<open>OtherError\<close> is an error without an error below it, \<open>JoinedErrors\<close> the list of errors
  that several attempts leave behind.
\<close>

datatype error =
    NotFoundError string string
  | DuplicateKeyError string string
  | ErrFinalityProviderAlreadySlashed
  | ErrInvalidUnbondingTx
  | Wrapped string error
  | JoinedErrors "error list"
  | OtherError string

text \<open>The outcome of a Go call: a value, an error, or a panic (also \<^verbatim>\<open>log.Fatal\<close>) that ends the process.\<close>

datatype 'a result = Ok 'a | Err error | Panic string

fun bind_result :: "'a result \<Rightarrow> ('a \<Rightarrow> 'b result) \<Rightarrow> 'b result" where
  "bind_result (Ok x) k = k x"
| "bind_result (Err err) k = Err err"
| "bind_result (Panic s) k = Panic s"

fun wrap_result :: "string \<Rightarrow> 'a result \<Rightarrow> 'a result" where
  "wrap_result msg (Ok x) = Ok x"
| "wrap_result msg (Err err) = Err (Wrapped msg err)"
| "wrap_result msg (Panic s) = Panic s"

fun of_lib :: "string + 'a \<Rightarrow> 'a result" where
  "of_lib (Inl msg) = Err (OtherError msg)"
| "of_lib (Inr x) = Ok x"

lemma bind_result_eq_Ok [simp]:
  "bind_result r k = Ok y \<longleftrightarrow> (\<exists>x. r = Ok x \<and> k x = Ok y)"
  by (cases r) auto

lemma wrap_result_eq_Ok [simp]: "wrap_result msg r = Ok x \<longleftrightarrow> r = Ok x"
  by (cases r) auto

lemma of_lib_eq_Ok [simp]: "of_lib r = Ok x \<longleftrightarrow> r = Inr x"
  by (cases r) auto

lemma of_lib_not_Panic [simp]: "of_lib r \<noteq> Panic s"
  by (cases r) auto

lemma wrap_result_eq_Panic [simp]: "wrap_result msg r = Panic s \<longleftrightarrow> r = Panic s"
  by (cases r) auto

definition no_panic :: "'a result \<Rightarrow> bool" where
  "no_panic r \<longleftrightarrow> (\<forall>msg. r \<noteq> Panic msg)"

lemma no_panic_simps [simp]: "no_panic (Ok x)" "no_panic (Err err)" "\<not> no_panic (Panic msg)"
  by (simp_all add: no_panic_def)

text \<open>\<^verbatim>\<open>xs[i]\<close> on a slice panics out of range.\<close>

definition index_or_panic :: "'a list \<Rightarrow> nat \<Rightarrow> 'a result" where
  "index_or_panic xs i = (if i < length xs then Ok (xs ! i) else Panic ''index out of range'')"

lemma index_or_panic_eq_Ok [simp]:
  "index_or_panic xs i = Ok x \<longleftrightarrow> i < length xs \<and> x = xs ! i"
  by (auto simp: index_or_panic_def)

lemma index_or_panic_not_Err [simp]: "index_or_panic xs i \<noteq> Err err"
  by (simp add: index_or_panic_def)

text \<open>A fallible conversion applied to every element of a slice, stopping at the first failure.\<close>

fun map_result :: "('a \<Rightarrow> 'b result) \<Rightarrow> 'a list \<Rightarrow> 'b list result" where
  "map_result f [] = Ok []"
| "map_result f (x # xs) = bind_result (f x) (\<lambda>y. bind_result (map_result f xs) (\<lambda>ys. Ok (y # ys)))"

lemma map_result_eq_Ok:
  "map_result f xs = Ok ys \<longleftrightarrow> list_all2 (\<lambda>x y. f x = Ok y) xs ys"
  by (induction xs arbitrary: ys) (auto simp: list_all2_Cons1)

section \<open>Programs\<close>

text \<open>
  The body of a goroutine: either it is done, or it performs one atomic action on the shared
  state and goes on with the program that the action's result selects. Between two actions any
  other goroutine may act.
\<close>

datatype ('w, 'a) prog = Done "'a result" | Act "'w \<Rightarrow> ('w, 'a) prog \<times> 'w"

abbreviation ret :: "'a \<Rightarrow> ('w, 'a) prog" where "ret x \<equiv> Done (Ok x)"
abbreviation throw :: "error \<Rightarrow> ('w, 'a) prog" where "throw err \<equiv> Done (Err err)"
abbreviation panic :: "string \<Rightarrow> ('w, 'a) prog" where "panic msg \<equiv> Done (Panic msg)"

text \<open>Induction along the actions of a program, whatever the state answers.\<close>

lemma prog_actions_induct [case_names Done Act]:
  assumes "\<And>r. P (Done r)" and "\<And>f. (\<And>w. P (fst (f w))) \<Longrightarrow> P (Act f)"
  shows "P p"
proof (induction p)
  case (Done r)
  show ?case by (rule assms(1))
next
  case (Act f)
  show ?case
  proof (rule assms(2))
    fix w
    have "fst (f w) \<in> Basic_BNFs.fsts (f w)" by (simp add: prod_set_defs)
    then show "P (fst (f w))" using Act [of "f w"] by simp
  qed
qed

text \<open>Sequencing: an error or a panic of the first program ends the whole.\<close>

primrec andThen :: "('w, 'a) prog \<Rightarrow> ('a \<Rightarrow> ('w, 'b) prog) \<Rightarrow> ('w, 'b) prog" where
  "andThen (Done r) k = (case r of Ok x \<Rightarrow> k x | Err err \<Rightarrow> throw err | Panic msg \<Rightarrow> panic msg)"
| "andThen (Act f) k = Act (\<lambda>w. map_prod (\<lambda>p. andThen p k) id (f w))"

text \<open>\<^verbatim>\<open>if err != nil\<close> with a body of its own.\<close>

primrec on_error :: "('w, 'a) prog \<Rightarrow> (error \<Rightarrow> ('w, 'a) prog) \<Rightarrow> ('w, 'a) prog" where
  "on_error (Done r) h = (case r of Ok x \<Rightarrow> ret x | Err err \<Rightarrow> h err | Panic msg \<Rightarrow> panic msg)"
| "on_error (Act f) h = Act (\<lambda>w. map_prod (\<lambda>p. on_error p h) id (f w))"

definition wrap_err :: "string \<Rightarrow> ('w, 'a) prog \<Rightarrow> ('w, 'a) prog" where
  [prog_defs]: "wrap_err msg p = on_error p (\<lambda>err. throw (Wrapped msg err))"

text \<open>The result as a value: the caller looks at the error itself.\<close>

definition attempt :: "('w, 'a) prog \<Rightarrow> ('w, error + 'a) prog" where
  [prog_defs]: "attempt p = on_error (andThen p (\<lambda>x. ret (Inr x))) (\<lambda>err. ret (Inl err))"

definition atomically :: "('w \<Rightarrow> 'a result \<times> 'w) \<Rightarrow> ('w, 'a) prog" where
  "atomically f = Act (\<lambda>w. map_prod Done id (f w))"

text \<open>A \<^verbatim>\<open>for _, x := range xs\<close> loop whose body may return an error.\<close>

primrec for_each :: "'b list \<Rightarrow> ('b \<Rightarrow> ('w, unit) prog) \<Rightarrow> ('w, unit) prog" where
  "for_each [] body = ret ()"
| "for_each (x # xs) body = andThen (body x) (\<lambda>_. for_each xs body)"

text \<open>
  The documented behaviour of \<^verbatim>\<open>retry.Do\<close> with a number of attempts: the first attempt that succeeds
  ends it, and when all fail the errors of all attempts are returned.
\<close>

primrec retry_from :: "nat \<Rightarrow> error list \<Rightarrow> ('w, 'a) prog \<Rightarrow> ('w, 'a) prog" where
  "retry_from 0 errs p = throw (JoinedErrors errs)"
| "retry_from (Suc n) errs p = on_error p (\<lambda>err. retry_from n (errs @ [err]) p)"

abbreviation retry_Do :: "nat \<Rightarrow> ('w, 'a) prog \<Rightarrow> ('w, 'a) prog" where
  "retry_Do n p \<equiv> retry_from n [] p"

subsection \<open>Sequential execution\<close>

text \<open>A program run alone, all its actions one after the other. It always ends.\<close>

primrec run :: "('w, 'a) prog \<Rightarrow> 'w \<Rightarrow> 'a result \<times> 'w" where
  "run (Done r) = (\<lambda>w. (r, w))"
| "run (Act f) = (\<lambda>w. (\<lambda>(g, w'). g w') (map_prod run id (f w)))"

lemma run_Act [simp]: "run (Act f) w = run (fst (f w)) (snd (f w))"
  by (simp add: case_prod_beta)

declare run.simps(2) [simp del]

definition continue_with :: "'a result \<times> 'w \<Rightarrow> ('a \<Rightarrow> 'w \<Rightarrow> 'b result \<times> 'w) \<Rightarrow> 'b result \<times> 'w" where
  "continue_with rw k = (case rw of (Ok x, w) \<Rightarrow> k x w | (Err err, w) \<Rightarrow> (Err err, w) | (Panic s, w) \<Rightarrow> (Panic s, w))"

lemma continue_with_simps [simp]:
  "continue_with (Ok x, w) k = k x w"
  "continue_with (Err err, w) k = (Err err, w)"
  "continue_with (Panic s, w) k = (Panic s, w)"
  by (simp_all add: continue_with_def)

lemma run_andThen [simp]: "run (andThen p k) w = continue_with (run p w) (\<lambda>x. run (k x))"
  by (induction p arbitrary: w rule: prog_actions_induct) (auto split: result.splits)

lemma run_on_error:
  "run (on_error p h) w =
     (case run p w of (Ok x, w') \<Rightarrow> (Ok x, w') | (Err err, w') \<Rightarrow> run (h err) w' | (Panic s, w') \<Rightarrow> (Panic s, w'))"
by (induction p arbitrary: w rule: prog_actions_induct) (auto split: result.splits)

lemma run_wrap_err [simp]: "run (wrap_err msg p) w = map_prod (wrap_result msg) id (run p w)"
  by (auto simp: wrap_err_def run_on_error split: prod.splits result.splits)

lemma run_attempt [simp]:
  "run (attempt p) w =
     (case run p w of (Ok x, w') \<Rightarrow> (Ok (Inr x), w') | (Err err, w') \<Rightarrow> (Ok (Inl err), w') | (Panic s, w') \<Rightarrow> (Panic s, w'))"
  by (auto simp: attempt_def run_on_error continue_with_def split: prod.splits result.splits)

lemma run_atomically [simp]: "run (atomically f) w = f w"
  by (simp add: atomically_def)

lemma run_for_each_Cons:
  "run (for_each (x # xs) body) w = continue_with (run (body x) w) (\<lambda>_. run (for_each xs body))"
  by simp

lemma continue_with_eq_Ok [simp]:
  "continue_with rw k = (Ok y, w') \<longleftrightarrow> (\<exists>x w. rw = (Ok x, w) \<and> k x w = (Ok y, w'))"
  by (cases rw; cases "fst rw") (auto simp: continue_with_def)

text \<open>A program that succeeds at once is not retried.\<close>

lemma run_retry_Ok: "run p w = (Ok x, w') \<Longrightarrow> run (retry_from (Suc n) errs p) w = (Ok x, w')"
  by (simp add: run_on_error)

text \<open>What every attempt of a retried program preserves, the retried program preserves.\<close>

lemma run_retry_invariant:
  assumes step: "\<And>w. P w \<Longrightarrow> P (snd (run p w))" and "P w"
  shows "P (snd (run (retry_from n errs p) w))"
  using \<open>P w\<close>
proof (induction n arbitrary: w errs)
  case 0
  then show ?case by simp
next
  case (Suc n)
  then show ?case
    using step [OF Suc.prems] by (auto simp: run_on_error split: prod.splits result.splits)
qed

lemma run_for_each_invariant:
  assumes "\<And>x w. x \<in> set xs \<Longrightarrow> P w \<Longrightarrow> P (snd (run (body x) w))" and "P w"
  shows "P (snd (run (for_each xs body) w))"
  using assms
proof (induction xs arbitrary: w)
  case (Cons x xs)
  have "P (snd (run (body x) w))" using Cons.prems by simp
  then show ?case
    using Cons.IH Cons.prems(1) by (auto simp: continue_with_def split: prod.splits result.splits)
qed simp

section \<open>Collections of documents\<close>

text \<open>The first document that satisfies a filter, replaced; \<open>None\<close> when there is none.\<close>

fun modify_first :: "('d \<Rightarrow> bool) \<Rightarrow> ('d \<Rightarrow> 'd) \<Rightarrow> 'd list \<Rightarrow> 'd list option" where
  "modify_first P f [] = None"
| "modify_first P f (d # ds) =
     (if P d then Some (f d # ds) else map_option ((#) d) (modify_first P f ds))"

lemma modify_first_None_iff [simp]: "modify_first P f ds = None \<longleftrightarrow> (\<forall>d \<in> set ds. \<not> P d)"
  by (induction ds) auto

lemma modify_first_SomeE:
  assumes "modify_first P f ds = Some ds'"
  obtains xs d ys where "ds = xs @ d # ys" "P d" "\<forall>x \<in> set xs. \<not> P x" "ds' = xs @ f d # ys"
  using assms
proof (induction ds arbitrary: ds' thesis)
  case Nil
  then show ?case by simp
next
  case (Cons d ds)
  show ?case
  proof (cases "P d")
    case True
    with Cons.prems show ?thesis by (auto intro: Cons.prems(1) [of "[]"])
  next
    case False
    with Cons.prems(2) obtain es where es: "modify_first P f ds = Some es" "ds' = d # es" by auto
    from es(1) obtain xs x ys where "ds = xs @ x # ys" "P x" "\<forall>x \<in> set xs. \<not> P x" "es = xs @ f x # ys"
      by (rule Cons.IH [rotated])
    with False es(2) show ?thesis by (simp add: Cons.prems(1) [of "d # xs" x ys])
  qed
qed

lemma modify_first_keys:
  assumes "modify_first P f ds = Some ds'" and "\<And>d. key (f d) = key d"
  shows "map key ds' = map key ds"
  using assms(1) by (rule modify_first_SomeE) (simp add: assms(2))

lemma modify_first_cong:
  "(\<And>d. d \<in> set ds \<Longrightarrow> P d = Q d) \<Longrightarrow> (\<And>d. d \<in> set ds \<Longrightarrow> P d \<Longrightarrow> f d = g d) \<Longrightarrow>
     modify_first P f ds = modify_first Q g ds"
  by (induction ds) auto

text \<open>The positions of a collection in some scan order, and the removal of one document.\<close>

definition remove_at :: "nat \<Rightarrow> 'd list \<Rightarrow> 'd list" where
  "remove_at i ds = take i ds @ drop (Suc i) ds"

lemma mset_remove_at: "i < length ds \<Longrightarrow> mset ds = add_mset (ds ! i) (mset (remove_at i ds))"
proof -
  assume "i < length ds"
  then have "ds = take i ds @ ds ! i # drop (Suc i) ds" by (simp add: id_take_nth_drop)
  then have "mset ds = mset (take i ds @ ds ! i # drop (Suc i) ds)" by (rule arg_cong)
  then show ?thesis by (simp add: remove_at_def)
qed

lemma set_remove_at_subset: "set (remove_at i ds) \<subseteq> set ds"
  by (auto simp: remove_at_def dest: in_set_takeD in_set_dropD)

definition scan :: "nat list \<Rightarrow> 'd list \<Rightarrow> 'd list" where
  "scan order ds = map ((!) ds) order"

lemma scan_upt [simp]: "scan [0..<length ds] ds = ds"
  by (simp add: scan_def map_nth)

lemma mset_scan: "mset order = mset [0..<length ds] \<Longrightarrow> mset (scan order ds) = mset ds"
proof -
  assume "mset order = mset [0..<length ds]"
  then have "mset (map ((!) ds) order) = mset (map ((!) ds) [0..<length ds])"
    by (simp only: mset_map)
  then show ?thesis by (simp add: scan_def map_nth)
qed

lemma set_scan: "mset order = mset [0..<length ds] \<Longrightarrow> set (scan order ds) = set ds"
  by (rule mset_eq_setD [OF mset_scan])

end
