(* ===== verification/Indexer_Types.thy ===== *)
theory Indexer_Types
  imports Prelude
begin

text \<open>
  \<^verbatim>\<open>internal/types\<close> and \<^verbatim>\<open>internal/db/error.go\<close>: delegation states and sub-states, the states that
  qualify for each transition, the event names, and the error tests.
\<close>

section \<open>Delegation states\<close>

text \<open>
  The Go types are strings with named constants. Every other string is kept by the constructor
  \<open>StateOther\<close> (\<open>SubStateOther\<close>), so that a conversion from a string is total, as in Go.
\<close>

datatype DelegationState =
    StatePending | StateVerified | StateActive | StateUnbonding | StateWithdrawable
  | StateSlashed | StateWithdrawn | StateExpanded | StateOther string

fun DelegationState_String :: "DelegationState \<Rightarrow> string" where
  "DelegationState_String StatePending = ''PENDING''"
| "DelegationState_String StateVerified = ''VERIFIED''"
| "DelegationState_String StateActive = ''ACTIVE''"
| "DelegationState_String StateUnbonding = ''UNBONDING''"
| "DelegationState_String StateWithdrawable = ''WITHDRAWABLE''"
| "DelegationState_String StateSlashed = ''SLASHED''"
| "DelegationState_String StateWithdrawn = ''WITHDRAWN''"
| "DelegationState_String StateExpanded = ''EXPANDED''"
| "DelegationState_String (StateOther s) = s"

text \<open>The conversion \<^verbatim>\<open>types.DelegationState(s)\<close>.\<close>

definition DelegationState_of :: "string \<Rightarrow> DelegationState" where
  "DelegationState_of s =
     (if s = ''PENDING'' then StatePending
      else if s = ''VERIFIED'' then StateVerified
      else if s = ''ACTIVE'' then StateActive
      else if s = ''UNBONDING'' then StateUnbonding
      else if s = ''WITHDRAWABLE'' then StateWithdrawable
      else if s = ''SLASHED'' then StateSlashed
      else if s = ''WITHDRAWN'' then StateWithdrawn
      else if s = ''EXPANDED'' then StateExpanded
      else StateOther s)"

datatype DelegationSubState =
    SubStateTimelock | SubStateEarlyUnbonding | SubStateTimelockSlashing
  | SubStateEarlyUnbondingSlashing | SubStateOther string

text \<open>The Go zero value of the sub-state is the empty string.\<close>

abbreviation NoSubState :: DelegationSubState where "NoSubState \<equiv> SubStateOther ''''"

fun DelegationSubState_String :: "DelegationSubState \<Rightarrow> string" where
  "DelegationSubState_String SubStateTimelock = ''TIMELOCK''"
| "DelegationSubState_String SubStateEarlyUnbonding = ''EARLY_UNBONDING''"
| "DelegationSubState_String SubStateTimelockSlashing = ''TIMELOCK_SLASHING''"
| "DelegationSubState_String SubStateEarlyUnbondingSlashing = ''EARLY_UNBONDING_SLASHING''"
| "DelegationSubState_String (SubStateOther s) = s"

section \<open>Qualified states\<close>

text \<open>
  The names of Babylon's delegation statuses (\<^verbatim>\<open>bbntypes.BTCDelegationStatus_X.String()\<close>) and of the
  finality provider statuses the indexer compares with.
\<close>

abbreviation "BTCDelegationStatus_PENDING \<equiv> ''PENDING''"
abbreviation "BTCDelegationStatus_VERIFIED \<equiv> ''VERIFIED''"
abbreviation "BTCDelegationStatus_ACTIVE \<equiv> ''ACTIVE''"
abbreviation "BTCDelegationStatus_UNBONDED \<equiv> ''UNBONDED''"
abbreviation "BTCDelegationStatus_EXPIRED \<equiv> ''EXPIRED''"
abbreviation "FINALITY_PROVIDER_STATUS_INACTIVE \<equiv> ''FINALITY_PROVIDER_STATUS_INACTIVE''"
abbreviation "FINALITY_PROVIDER_STATUS_SLASHED \<equiv> ''FINALITY_PROVIDER_STATUS_SLASHED''"

text \<open>The nil slice is the empty list: none of these functions returns an empty slice that is not nil.\<close>

definition QualifiedStatesForCovenantQuorumReached :: "string \<Rightarrow> DelegationState list" where
  "QualifiedStatesForCovenantQuorumReached babylonState =
     (if babylonState = BTCDelegationStatus_VERIFIED \<or> babylonState = BTCDelegationStatus_ACTIVE
      then [StatePending] else [])"

definition QualifiedStatesForInclusionProofReceived :: "string \<Rightarrow> DelegationState list" where
  "QualifiedStatesForInclusionProofReceived babylonState =
     (if babylonState = BTCDelegationStatus_ACTIVE then [StateVerified]
      else if babylonState = BTCDelegationStatus_PENDING then [StatePending]
      else [])"

definition QualifiedStatesForUnbondedEarly :: "DelegationState list" where
  "QualifiedStatesForUnbondedEarly = [StateActive, StateUnbonding]"

definition QualifiedStatesForExpired :: "DelegationState list" where
  "QualifiedStatesForExpired = [StateActive]"

definition QualifiedStatesForWithdrawn :: "DelegationState list" where
  "QualifiedStatesForWithdrawn = [StateActive, StateUnbonding, StateWithdrawable, StateSlashed]"

fun QualifiedStatesForWithdrawable :: "DelegationSubState \<Rightarrow> DelegationState list result" where
  "QualifiedStatesForWithdrawable SubStateEarlyUnbonding = Ok [StateUnbonding]"
| "QualifiedStatesForWithdrawable SubStateTimelock = Ok [StateUnbonding]"
| "QualifiedStatesForWithdrawable SubStateTimelockSlashing = Ok [StateSlashed]"
| "QualifiedStatesForWithdrawable SubStateEarlyUnbondingSlashing = Ok [StateSlashed]"
| "QualifiedStatesForWithdrawable (SubStateOther s) = Err (OtherError (''unknown delegation sub state: '' @ s))"

definition QualifiedStatesForSlashed :: "DelegationState list" where
  "QualifiedStatesForSlashed = [StateActive, StateUnbonding, StateWithdrawable]"

lemmas qualified_defs =
  QualifiedStatesForCovenantQuorumReached_def QualifiedStatesForInclusionProofReceived_def
  QualifiedStatesForUnbondedEarly_def QualifiedStatesForExpired_def QualifiedStatesForWithdrawn_def
  QualifiedStatesForSlashed_def

section \<open>Event names\<close>

definition EventBTCDelegationCreated :: string where
  "EventBTCDelegationCreated = ''babylon.btcstaking.v1.EventBTCDelegationCreated''"
definition EventCovenantQuorumReached :: string where
  "EventCovenantQuorumReached = ''babylon.btcstaking.v1.EventCovenantQuorumReached''"
definition EventCovenantSignatureReceived :: string where
  "EventCovenantSignatureReceived = ''babylon.btcstaking.v1.EventCovenantSignatureReceived''"
definition EventBTCDelegationInclusionProofReceived :: string where
  "EventBTCDelegationInclusionProofReceived = ''babylon.btcstaking.v1.EventBTCDelegationInclusionProofReceived''"
definition EventBTCDelegationUnbondedEarly :: string where
  "EventBTCDelegationUnbondedEarly = ''babylon.btcstaking.v1.EventBTCDelgationUnbondedEarly''"
definition EventBTCDelegationExpired :: string where
  "EventBTCDelegationExpired = ''babylon.btcstaking.v1.EventBTCDelegationExpired''"
definition EventFinalityProviderCreatedType :: string where
  "EventFinalityProviderCreatedType = ''babylon.btcstaking.v1.EventFinalityProviderCreated''"
definition EventFinalityProviderEditedType :: string where
  "EventFinalityProviderEditedType = ''babylon.btcstaking.v1.EventFinalityProviderEdited''"
definition EventFinalityProviderStatusChange :: string where
  "EventFinalityProviderStatusChange = ''babylon.btcstaking.v1.EventFinalityProviderStatusChange''"

lemmas event_type_defs =
  EventBTCDelegationCreated_def EventCovenantQuorumReached_def EventCovenantSignatureReceived_def
  EventBTCDelegationInclusionProofReceived_def EventBTCDelegationUnbondedEarly_def
  EventBTCDelegationExpired_def EventFinalityProviderCreatedType_def
  EventFinalityProviderEditedType_def EventFinalityProviderStatusChange_def

text \<open>\<^verbatim>\<open>strings.Split\<close> at a one-character separator.\<close>

fun split_at :: "char \<Rightarrow> string \<Rightarrow> string list" where
  "split_at sep [] = [[]]"
| "split_at sep (c # cs) =
     (if c = sep then [] # split_at sep cs
      else (case split_at sep cs of [] \<Rightarrow> [[c]] | part # parts \<Rightarrow> (c # part) # parts))"

definition ShortName :: "string \<Rightarrow> string" where
  "ShortName e = (let parts = split_at (CHR ''.'') e in if 0 < length parts then last parts else e)"

section \<open>Error tests\<close>

text \<open>\<^verbatim>\<open>errors.Is\<close> follows the wrapped errors down.\<close>

fun IsNotFoundError :: "error \<Rightarrow> bool" where
  "IsNotFoundError (NotFoundError key msg) = True"
| "IsNotFoundError (Wrapped msg err) = IsNotFoundError err"
| "IsNotFoundError (JoinedErrors errs) = list_ex IsNotFoundError errs"
| "IsNotFoundError _ = False"

fun IsDuplicateKeyError :: "error \<Rightarrow> bool" where
  "IsDuplicateKeyError (DuplicateKeyError key msg) = True"
| "IsDuplicateKeyError (Wrapped msg err) = IsDuplicateKeyError err"
| "IsDuplicateKeyError (JoinedErrors errs) = list_ex IsDuplicateKeyError errs"
| "IsDuplicateKeyError _ = False"

fun IsAlreadySlashedError :: "error \<Rightarrow> bool" where
  "IsAlreadySlashedError ErrFinalityProviderAlreadySlashed = True"
| "IsAlreadySlashedError (Wrapped msg err) = IsAlreadySlashedError err"
| "IsAlreadySlashedError (JoinedErrors errs) = list_ex IsAlreadySlashedError errs"
| "IsAlreadySlashedError _ = False"

section \<open>Facts about the states\<close>

lemma DelegationState_of_String:
  "\<forall>t. st = StateOther t \<longrightarrow> DelegationState_of t = StateOther t \<Longrightarrow>
     DelegationState_of (DelegationState_String st) = st"
  by (cases st) (auto simp: DelegationState_of_def)

lemma DelegationState_String_of [simp]: "DelegationState_String (DelegationState_of s) = s"
  by (simp add: DelegationState_of_def)

lemma QualifiedStatesForWithdrawable_eq_Ok:
  "QualifiedStatesForWithdrawable sub = Ok qs \<longleftrightarrow>
     (sub = SubStateEarlyUnbonding \<or> sub = SubStateTimelock) \<and> qs = [StateUnbonding] \<or>
     (sub = SubStateTimelockSlashing \<or> sub = SubStateEarlyUnbondingSlashing) \<and> qs = [StateSlashed]"
  by (cases sub) auto

end
