(* ===== verification/Go_Utils.thy ===== *)
theory Go_Utils
  imports Indexer_Types
begin

text \<open>
  \<^verbatim>\<open>internal/utils\<close> with the parts of Go's standard library it uses: decimal and hexadecimal parsing,
  Bitcoin network names, transactions, function names; and \<^verbatim>\<open>pkg\<close>.
\<close>

section \<open>Decimal numbers\<close>

definition is_digit :: "char \<Rightarrow> bool" where
  "is_digit c \<longleftrightarrow> 48 \<le> (of_char c :: nat) \<and> (of_char c :: nat) \<le> 57"

definition digit_val :: "char \<Rightarrow> nat" where
  "digit_val c = of_char c - 48"

text \<open>
  The digit loop of \<^verbatim>\<open>strconv.ParseUint(s, 10, bitSize)\<close>: a character that is no digit is a syntax error
  with result 0, a value above the maximum is a range error with the maximum as result, and the first
  of the two that is met decides.
\<close>

fun parse_digits :: "nat \<Rightarrow> nat \<Rightarrow> string \<Rightarrow> nat \<times> error option" where
  "parse_digits maxVal n [] = (n, None)"
| "parse_digits maxVal n (c # cs) =
     (if \<not> is_digit c then (0, Some (OtherError ''invalid syntax''))
      else if maxVal < n * 10 + digit_val c then (maxVal, Some (OtherError ''value out of range''))
      else parse_digits maxVal (n * 10 + digit_val c) cs)"

definition ParseUint :: "nat \<Rightarrow> string \<Rightarrow> nat \<times> error option" where
  "ParseUint bitSize s =
     (if s = [] then (0, Some (OtherError ''invalid syntax'')) else parse_digits (2 ^ bitSize - 1) 0 s)"

text \<open>The value is returned together with the error; some callers drop the error.\<close>

definition ParseUint32 :: "string \<Rightarrow> u32 \<times> error option" where
  "ParseUint32 s = (let (v, err) = ParseUint 32 s in (word_of_nat v, err))"

text \<open>The value as a result, for the callers that return the error.\<close>

definition ParseUint32_result :: "string \<Rightarrow> u32 result" where
  "ParseUint32_result s = (case ParseUint32 s of (v, None) \<Rightarrow> Ok v | (v, Some err) \<Rightarrow> Err err)"

text \<open>The number that a string of decimal digits denotes, and the decimal digits of a number.\<close>

fun decimal_value :: "nat \<Rightarrow> string \<Rightarrow> nat" where
  "decimal_value n [] = n"
| "decimal_value n (c # cs) = decimal_value (n * 10 + digit_val c) cs"

fun decimal :: "nat \<Rightarrow> string" where
  "decimal n = (if n < 10 then [char_of (48 + n)] else decimal (n div 10) @ [char_of (48 + n mod 10)])"

declare decimal.simps [simp del]

lemma decimal_value_ge: "n \<le> decimal_value n cs"
  by (induction n cs rule: decimal_value.induct) auto

lemma parse_digits_None_iff:
  "parse_digits maxVal n cs = (v, None) \<longleftrightarrow>
     list_all is_digit cs \<and> v = decimal_value n cs \<and> (cs \<noteq> [] \<longrightarrow> decimal_value n cs \<le> maxVal)"
proof (induction maxVal n cs rule: parse_digits.induct)
  case (2 maxVal n c cs)
  have "n * 10 + digit_val c \<le> decimal_value (n * 10 + digit_val c) cs" by (rule decimal_value_ge)
  then show ?case using 2 by (cases cs) auto
qed auto

lemma ParseUint32_None_iff:
  "ParseUint32 s = (v, None) \<longleftrightarrow>
     s \<noteq> [] \<and> list_all is_digit s \<and> decimal_value 0 s < 2 ^ 32 \<and> v = word_of_nat (decimal_value 0 s)"
proof (cases "s = []")
  case True
  then show ?thesis by (simp add: ParseUint32_def ParseUint_def)
next
  case False
  obtain n err where eq: "parse_digits (2 ^ 32 - 1) 0 s = (n, err)" by (cases "parse_digits (2 ^ 32 - 1) 0 s")
  have parsed: "err = None \<and> n = m \<longleftrightarrow> list_all is_digit s \<and> m = decimal_value 0 s \<and> decimal_value 0 s < 2 ^ 32" for m
    using parse_digits_None_iff [of "2 ^ 32 - 1" 0 s m] eq False by auto
  show ?thesis
    using eq False parsed [of n] parsed [of "decimal_value 0 s"]
    by (auto simp: ParseUint32_def ParseUint_def)
qed

lemma ParseUint32_result_eq_Ok:
  "ParseUint32_result s = Ok v \<longleftrightarrow> ParseUint32 s = (v, None)"
  by (auto simp: ParseUint32_result_def split: prod.splits option.splits)

lemma decimal_value_append: "decimal_value n (cs @ ds) = decimal_value (decimal_value n cs) ds"
  by (induction n cs rule: decimal_value.induct) auto

lemma is_digit_char_of: "d < 10 \<Longrightarrow> is_digit (char_of (48 + d :: nat)) \<and> digit_val (char_of (48 + d :: nat)) = d"
  by (simp add: is_digit_def digit_val_def)

lemma decimal_nonempty: "decimal n \<noteq> []"
  by (subst decimal.simps) simp

lemma decimal_digits: "list_all is_digit (decimal n) \<and> decimal_value 0 (decimal n) = n"
proof (induction n rule: decimal.induct)
  case (1 n)
  show ?case
  proof (cases "n < 10")
    case True
    then show ?thesis by (subst (1 2) decimal.simps) (simp add: is_digit_char_of)
  next
    case False
    with 1 have "list_all is_digit (decimal (n div 10)) \<and> decimal_value 0 (decimal (n div 10)) = n div 10"
      by simp
    with False show ?thesis
      using is_digit_char_of [of "n mod 10"] by (simp add: decimal.simps [of n] decimal_value_append)
  qed
qed

section \<open>Hexadecimal strings\<close>

definition hex_digit :: "char \<Rightarrow> nat option" where
  "hex_digit c =
     (let n = of_char c :: nat in
      if 48 \<le> n \<and> n \<le> 57 then Some (n - 48)
      else if 97 \<le> n \<and> n \<le> 102 then Some (n - 87)
      else if 65 \<le> n \<and> n \<le> 70 then Some (n - 55)
      else None)"

text \<open>\<^verbatim>\<open>hex.DecodeString\<close>: two digits a byte, an odd length is an error.\<close>

fun hex_DecodeString :: "string \<Rightarrow> bytes result" where
  "hex_DecodeString [] = Ok []"
| "hex_DecodeString [c] = Err (OtherError ''encoding/hex: odd length hex string'')"
| "hex_DecodeString (a # b # cs) =
     (case (hex_digit a, hex_digit b) of
        (Some x, Some y) \<Rightarrow> bind_result (hex_DecodeString cs) (\<lambda>bs. Ok (word_of_nat (16 * x + y) # bs))
      | _ \<Rightarrow> Err (OtherError ''encoding/hex: invalid byte''))"

text \<open>\<^verbatim>\<open>hex.EncodeToString\<close>.\<close>

definition hex_char :: "nat \<Rightarrow> char" where
  "hex_char d = (if d < 10 then char_of (48 + d) else char_of (87 + d))"

definition hex_EncodeToString :: "bytes \<Rightarrow> string" where
  "hex_EncodeToString bs = concat (map (\<lambda>b. [hex_char (unat b div 16), hex_char (unat b mod 16)]) bs)"

lemma hex_digit_char: "d < 16 \<Longrightarrow> hex_digit (hex_char d) = Some d"
  by (simp add: hex_digit_def hex_char_def)

lemma hex_Decode_Encode [simp]: "hex_DecodeString (hex_EncodeToString bs) = Ok bs"
proof (induction bs)
  case Nil
  show ?case by (simp add: hex_EncodeToString_def)
next
  case (Cons b bs)
  have "unat b < 2 ^ 8" using unsigned_less [of b] by simp
  then have "unat b div 16 < 16" "unat b mod 16 < 16" by auto
  then show ?case
    using Cons by (simp add: hex_EncodeToString_def hex_digit_char mult.commute [of 16])
qed

lemma hex_DecodeString_length: "hex_DecodeString s = Ok bs \<Longrightarrow> length s = 2 * length bs"
  by (induction s arbitrary: bs rule: hex_DecodeString.induct) (auto split: option.splits)

section \<open>Bitcoin wire types\<close>

text \<open>
  The fields of \<^verbatim>\<open>wire.MsgTx\<close> and its parts that the indexer reads. A hash is given by its hexadecimal
  string, which is how it is stored.
\<close>

record OutPoint =
  op_Hash :: string
  op_Index :: u32

record TxIn =
  ti_PreviousOutPoint :: OutPoint
  ti_Witness :: "bytes list"
  ti_Sequence :: u32

record TxOut =
  to_Value :: i64
  to_PkScript :: bytes

record MsgTx =
  tx_TxIn :: "TxIn list"
  tx_TxOut :: "TxOut list"
  tx_LockTime :: u32

text \<open>A nil pointer is \<open>None\<close>; the result is the error, if any.\<close>

definition IsTransferTx :: "MsgTx option \<Rightarrow> error option" where
  "IsTransferTx tx =
     (case tx of
        None \<Rightarrow> Some (OtherError ''transfer transaction must have cannot be nil'')
      | Some tx \<Rightarrow>
          if length (tx_TxIn tx) \<noteq> 1 then Some (OtherError ''transfer transaction must have exactly one input'')
          else if length (tx_TxOut tx) \<noteq> 1 then Some (OtherError ''transfer transaction must have exactly one output'')
          else None)"

text \<open>The deserialisation of the transaction itself is the library's, a parameter.\<close>

definition DeserializeBtcTransactionFromHex :: "(bytes \<Rightarrow> string + MsgTx) \<Rightarrow> string \<Rightarrow> MsgTx result" where
  "DeserializeBtcTransactionFromHex deserialize txHex =
     bind_result (wrap_result ''failed to decode hex string'' (hex_DecodeString txHex)) (\<lambda>txBytes.
       wrap_result ''failed to deserialize transaction'' (of_lib (deserialize txBytes)))"

section \<open>Bitcoin networks\<close>

datatype ChainParams = MainNetParams | TestNet3Params | SimNetParams | RegressionNetParams | SigNetParams

abbreviation "BtcMainnet \<equiv> ''mainnet''"
abbreviation "BtcTestnet \<equiv> ''testnet''"
abbreviation "BtcSimnet \<equiv> ''simnet''"
abbreviation "BtcRegtest \<equiv> ''regtest''"
abbreviation "BtcSignet \<equiv> ''signet''"

definition GetBTCParams :: "string \<Rightarrow> ChainParams result" where
  "GetBTCParams net =
     (if net = BtcMainnet then Ok MainNetParams
      else if net = BtcTestnet then Ok TestNet3Params
      else if net = BtcSimnet then Ok SimNetParams
      else if net = BtcRegtest then Ok RegressionNetParams
      else if net = BtcSignet then Ok SigNetParams
      else Err (OtherError (''BTC network with name '' @ net @ '' does not exist'')))"

definition GetValidNetParams :: "string \<rightharpoonup> bool" where
  "GetValidNetParams =
     [BtcMainnet \<mapsto> True, BtcTestnet \<mapsto> True, BtcSimnet \<mapsto> True, BtcRegtest \<mapsto> True, BtcSignet \<mapsto> True]"

lemma GetBTCParams_never_panics [simp]: "GetBTCParams net \<noteq> Panic s"
  by (simp add: GetBTCParams_def)

section \<open>Function names\<close>

text \<open>\<^verbatim>\<open>strings.LastIndex\<close> and \<^verbatim>\<open>strings.Index\<close> of one character, \<open>None\<close> for -1.\<close>

fun Index :: "char \<Rightarrow> string \<Rightarrow> nat option" where
  "Index c [] = None"
| "Index c (x # xs) = (if x = c then Some 0 else map_option Suc (Index c xs))"

fun LastIndex :: "char \<Rightarrow> string \<Rightarrow> nat option" where
  "LastIndex c [] = None"
| "LastIndex c (x # xs) =
     (case LastIndex c xs of Some i \<Rightarrow> Some (Suc i) | None \<Rightarrow> if x = c then Some 0 else None)"

definition shortFuncName :: "string \<Rightarrow> string" where
  "shortFuncName fullName =
     (let name = (case LastIndex (CHR ''/'') fullName of Some idx \<Rightarrow> drop (idx + 1) fullName | None \<Rightarrow> fullName)
      in (case Index (CHR ''.'') name of Some idx \<Rightarrow> drop (idx + 1) name | None \<Rightarrow> name))"

text \<open>
  \<open>caller d\<close> is the full name of the function \<open>d\<close> calls above, as the runtime knows it.
\<close>

definition GetFunctionName :: "(nat \<Rightarrow> string option) \<Rightarrow> nat \<Rightarrow> string" where
  "GetFunctionName caller depth =
     (case caller (depth + 1) of None \<Rightarrow> ''unknown'' | Some fullFunctionName \<Rightarrow> shortFuncName fullFunctionName)"

section \<open>Transactions\<close>

text \<open>The serialisation, its inverse and the hash are the library's.\<close>

definition GetTxHash :: "(bytes \<Rightarrow> string + MsgTx) \<Rightarrow> (MsgTx \<Rightarrow> string) \<Rightarrow> bytes \<Rightarrow> string result" where
  "GetTxHash deserialize txHash txBytes = bind_result (of_lib (deserialize txBytes)) (\<lambda>msgTx. Ok (txHash msgTx))"

definition SerializeBtcTransaction :: "(MsgTx \<Rightarrow> string + bytes) \<Rightarrow> MsgTx \<Rightarrow> bytes result" where
  "SerializeBtcTransaction serialize tx = of_lib (serialize tx)"

lemma GetTxHash_Serialize:
  assumes "\<And>bs. serialize tx = Inr bs \<Longrightarrow> deserialize bs = Inr tx" "SerializeBtcTransaction serialize tx = Ok bs"
  shows "GetTxHash deserialize txHash bs = Ok (txHash tx)"
  using assms by (simp add: SerializeBtcTransaction_def GetTxHash_def)

record WrappedTx =
  wtx_MsgTx :: MsgTx
  wtx_Index :: nat

definition GetWrappedTxs :: "MsgTx list \<Rightarrow> WrappedTx list" where
  "GetWrappedTxs transactions = map (\<lambda>(i, tx). \<lparr>wtx_MsgTx = tx, wtx_Index = i\<rparr>) (enumerate 0 transactions)"

lemma GetWrappedTxs_nth: "i < length txs \<Longrightarrow> GetWrappedTxs txs ! i = \<lparr>wtx_MsgTx = txs ! i, wtx_Index = i\<rparr>"
  by (simp add: GetWrappedTxs_def nth_enumerate_eq)

section \<open>The package \<^verbatim>\<open>pkg\<close>\<close>

definition Getenv :: "(string \<rightharpoonup> string) \<Rightarrow> string \<Rightarrow> string \<Rightarrow> string" where
  "Getenv environment key defaultValue = (case environment key of Some found \<Rightarrow> found | None \<Rightarrow> defaultValue)"

text \<open>\<open>draws i\<close> is the number that the generator gives for the \<open>i\<close>-th letter. Growing by a negative number panics.\<close>

definition letters :: string where
  "letters = ''abcdefghijklmnopqrstuvwxyzABCDEFGHIJKLMNOPQRSTUVWXYZ0123456789''"

definition RandString :: "(nat \<Rightarrow> nat) \<Rightarrow> int \<Rightarrow> string result" where
  "RandString draws n =
     (if n < 0 then Panic ''strings.Builder.Grow: negative count'' else Ok (map (\<lambda>i. letters ! draws i) [0..<nat n]))"

lemma RandString_Ok:
  assumes "\<And>i. draws i < length letters" "RandString draws n = Ok s"
  shows "int (length s) = n \<and> set s \<subseteq> set letters"
  using assms by (auto simp: RandString_def split: if_splits)

end
