(* ===== verification/Db_Model.thy ===== *)
theory Db_Model
  imports Go_Utils
begin

text \<open>
  \<^verbatim>\<open>internal/db/model\<close> and the parameter types of \<^verbatim>\<open>internal/clients/bbnclient/types.go\<close>: the documents
  that the collections hold, the Babylon events they are made from, and the conversions.
\<close>

section \<open>The collections\<close>

text \<open>Their names, in \<^verbatim>\<open>setup.go\<close>.\<close>

definition FinalityProviderDetailsCollection :: string where "FinalityProviderDetailsCollection = ''finality_provider_details''"
definition FinalityProviderStatsCollection :: string where "FinalityProviderStatsCollection = ''finality_provider_stats''"
definition BTCDelegationDetailsCollection :: string where "BTCDelegationDetailsCollection = ''btc_delegation_details''"
definition TimeLockCollection :: string where "TimeLockCollection = ''timelock''"
definition GlobalParamsCollection :: string where "GlobalParamsCollection = ''global_params''"
definition LastProcessedHeightCollection :: string where "LastProcessedHeightCollection = ''last_processed_height''"
definition NetworkInfoCollection :: string where "NetworkInfoCollection = ''network_info''"
definition StatsCollection :: string where "StatsCollection = ''stats''"

text \<open>An index as it is asked for: its keys in their order; without keys it is the empty model.\<close>

record IndexModel =
  im_Keys :: "(string \<times> int) list option"
  im_Unique :: bool

section \<open>Babylon events\<close>

text \<open>The fields of the typed Babylon events that the indexer reads.\<close>

record BTCDelegationCreated =
  bcd_StakingTxHex :: string
  bcd_StakingOutputIndex :: string
  bcd_ParamsVersion :: string
  bcd_FinalityProviderBtcPksHex :: "string list"
  bcd_StakerBtcPkHex :: string
  bcd_StakingTime :: string
  bcd_UnbondingTime :: string
  bcd_UnbondingTx :: string
  bcd_NewState :: string
  bcd_StakerAddr :: string
  bcd_PreviousStakingTxHashHex :: string

record CovenantQuorumReached =
  cqr_StakingTxHash :: string
  cqr_NewState :: string

record CovenantSignatureReceived =
  csr_StakingTxHash :: string
  csr_CovenantBtcPkHex :: string
  csr_CovenantUnbondingSignatureHex :: string
  csr_CovenantStakeExpansionSignatureHex :: string

record InclusionProofReceived =
  ipr_StakingTxHash :: string
  ipr_StartHeight :: string
  ipr_EndHeight :: string
  ipr_NewState :: string

record UnbondedEarly =
  ube_StakingTxHash :: string
  ube_StartHeight :: string
  ube_NewState :: string
  ube_StakeExpansionTxHash :: string

record DelegationExpired =
  exp_StakingTxHash :: string
  exp_NewState :: string

record FinalityProviderCreated =
  fpc_BtcPkHex :: string
  fpc_Addr :: string
  fpc_Commission :: string
  fpc_Moniker :: string
  fpc_Identity :: string
  fpc_Website :: string
  fpc_SecurityContact :: string
  fpc_Details :: string

record FinalityProviderEdited =
  fpe_BtcPkHex :: string
  fpe_Commission :: string
  fpe_Moniker :: string
  fpe_Identity :: string
  fpe_Website :: string
  fpe_SecurityContact :: string
  fpe_Details :: string

record FinalityProviderStatusChanged =
  fps_BtcPk :: string
  fps_NewState :: string

section \<open>Delegations\<close>

record CovenantSignature =
  cs_CovenantBtcPkHex :: string
  cs_SignatureHex :: string
  cs_StakeExpansionSignatureHex :: string

record BTCDelegationCreatedBbnBlock =
  cb_Height :: i64
  cb_Timestamp :: i64

record SlashingTx =
  st_SpendingHeight :: u32
  st_SlashingTxHex :: string
  st_SlashingBTCTimestamp :: i64
  st_UnbondingSlashingTxHex :: string
  st_UnbondingSlashingBTCTimestamp :: i64

record StateRecord =
  sr_State :: DelegationState
  sr_SubState :: DelegationSubState
  sr_BbnHeight :: i64
  sr_BtcHeight :: u32
  sr_BbnEventType :: string

record WithdrawalTx =
  wt_TxHash :: string

record BTCDelegationDetails =
  d_StakingTxHashHex :: string
  d_StakingTxHex :: string
  d_StakingTime :: u32
  d_StakingAmount :: u64
  d_StakingOutputIdx :: u32
  d_StakingBTCTimestamp :: i64
  d_StakerBtcPkHex :: string
  d_StakerBabylonAddress :: string
  d_FinalityProviderBtcPksHex :: "string list"
  d_StartHeight :: u32
  d_EndHeight :: u32
  d_State :: DelegationState
  d_SubState :: DelegationSubState
  d_StateHistory :: "StateRecord list"
  d_ParamsVersion :: u32
  d_UnbondingTime :: u32
  d_UnbondingTx :: string
  d_UnbondingStartHeight :: u32
  d_UnbondingBTCTimestamp :: i64
  d_CovenantSignatures :: "CovenantSignature list"
  d_BTCDelegationCreatedBlock :: BTCDelegationCreatedBbnBlock
  d_SlashingTx :: SlashingTx
  d_WithdrawalTx :: WithdrawalTx
  d_PreviousStakingTxHashHex :: string

text \<open>The Go zero values of the nested documents.\<close>

definition zero_SlashingTx :: SlashingTx where
  "zero_SlashingTx = \<lparr>st_SpendingHeight = 0, st_SlashingTxHex = '''', st_SlashingBTCTimestamp = 0,
     st_UnbondingSlashingTxHex = '''', st_UnbondingSlashingBTCTimestamp = 0\<rparr>"

definition zero_WithdrawalTx :: WithdrawalTx where
  "zero_WithdrawalTx = \<lparr>wt_TxHash = ''''\<rparr>"

definition FromEventBTCDelegationCreated ::
  "(bytes \<Rightarrow> string + MsgTx) \<Rightarrow> (MsgTx \<Rightarrow> string) \<Rightarrow> BTCDelegationCreated \<Rightarrow> i64 \<Rightarrow> i64 \<Rightarrow> BTCDelegationDetails result" where
  "FromEventBTCDelegationCreated deserialize txHash event bbnBlockHeight bbnBlockTime =
     bind_result (wrap_result ''failed to parse staking output index'' (ParseUint32_result (bcd_StakingOutputIndex event))) (\<lambda>stakingOutputIdx.
     bind_result (wrap_result ''failed to parse params version'' (ParseUint32_result (bcd_ParamsVersion event))) (\<lambda>paramsVersion.
     bind_result (wrap_result ''failed to parse staking time'' (ParseUint32_result (bcd_StakingTime event))) (\<lambda>stakingTime.
     bind_result (wrap_result ''failed to parse unbonding time'' (ParseUint32_result (bcd_UnbondingTime event))) (\<lambda>unbondingTime.
     bind_result (wrap_result ''failed to deserialize staking tx''
                    (DeserializeBtcTransactionFromHex deserialize (bcd_StakingTxHex event))) (\<lambda>stakingTx.
     bind_result (index_or_panic (tx_TxOut stakingTx) (unat stakingOutputIdx)) (\<lambda>stakingOutput.
     Ok \<lparr>d_StakingTxHashHex = txHash stakingTx,
         d_StakingTxHex = bcd_StakingTxHex event,
         d_StakingTime = stakingTime,
         d_StakingAmount = to_Value stakingOutput,
         d_StakingOutputIdx = stakingOutputIdx,
         d_StakingBTCTimestamp = 0,
         d_StakerBtcPkHex = bcd_StakerBtcPkHex event,
         d_StakerBabylonAddress = bcd_StakerAddr event,
         d_FinalityProviderBtcPksHex = bcd_FinalityProviderBtcPksHex event,
         d_StartHeight = 0,
         d_EndHeight = 0,
         d_State = StatePending,
         d_SubState = NoSubState,
         d_StateHistory =
           [\<lparr>sr_State = StatePending, sr_SubState = NoSubState, sr_BbnHeight = bbnBlockHeight,
             sr_BtcHeight = 0, sr_BbnEventType = ShortName EventBTCDelegationCreated\<rparr>],
         d_ParamsVersion = paramsVersion,
         d_UnbondingTime = unbondingTime,
         d_UnbondingTx = bcd_UnbondingTx event,
         d_UnbondingStartHeight = 0,
         d_UnbondingBTCTimestamp = 0,
         d_CovenantSignatures = [],
         d_BTCDelegationCreatedBlock = \<lparr>cb_Height = bbnBlockHeight, cb_Timestamp = bbnBlockTime\<rparr>,
         d_SlashingTx = zero_SlashingTx,
         d_WithdrawalTx = zero_WithdrawalTx,
         d_PreviousStakingTxHashHex = bcd_PreviousStakingTxHashHex event\<rparr>))))))"

definition HasInclusionProof :: "BTCDelegationDetails \<Rightarrow> bool" where
  "HasInclusionProof d \<longleftrightarrow> 0 < d_StartHeight d \<and> 0 < d_EndHeight d"

definition ToStateStrings :: "StateRecord list \<Rightarrow> string list" where
  "ToStateStrings stateHistory = map (\<lambda>record. DelegationState_String (sr_State record)) stateHistory"

section \<open>Finality providers\<close>

record Description =
  ds_Moniker :: string
  ds_Identity :: string
  ds_Website :: string
  ds_SecurityContact :: string
  ds_Details :: string

record FinalityProviderDetails =
  fp_BtcPk :: string
  fp_BabylonAddress :: string
  fp_Commission :: string
  fp_State :: string
  fp_Description :: Description

definition FromEventFinalityProviderCreated :: "FinalityProviderCreated \<Rightarrow> FinalityProviderDetails" where
  "FromEventFinalityProviderCreated event =
     \<lparr>fp_BtcPk = fpc_BtcPkHex event,
      fp_BabylonAddress = fpc_Addr event,
      fp_Commission = fpc_Commission event,
      fp_State = FINALITY_PROVIDER_STATUS_INACTIVE,
      fp_Description =
        \<lparr>ds_Moniker = fpc_Moniker event, ds_Identity = fpc_Identity event, ds_Website = fpc_Website event,
         ds_SecurityContact = fpc_SecurityContact event, ds_Details = fpc_Details event\<rparr>\<rparr>"

definition FromEventFinalityProviderEdited :: "FinalityProviderEdited \<Rightarrow> FinalityProviderDetails" where
  "FromEventFinalityProviderEdited event =
     \<lparr>fp_BtcPk = fpe_BtcPkHex event,
      fp_BabylonAddress = '''',
      fp_Commission = fpe_Commission event,
      fp_State = '''',
      fp_Description =
        \<lparr>ds_Moniker = fpe_Moniker event, ds_Identity = fpe_Identity event, ds_Website = fpe_Website event,
         ds_SecurityContact = fpe_SecurityContact event, ds_Details = fpe_Details event\<rparr>\<rparr>"

section \<open>Timelocks, parameters, statistics\<close>

record TimeLockDocument =
  tl_StakingTxHashHex :: string
  tl_ExpireHeight :: u32
  tl_DelegationSubState :: DelegationSubState

definition NewTimeLockDocument :: "string \<Rightarrow> u32 \<Rightarrow> DelegationSubState \<Rightarrow> TimeLockDocument" where
  "NewTimeLockDocument stakingTxHashHex expireHeight subState =
     \<lparr>tl_StakingTxHashHex = stakingTxHashHex, tl_ExpireHeight = expireHeight, tl_DelegationSubState = subState\<rparr>"

record StakingParams =
  sp_CovenantPks :: "string list"
  sp_CovenantQuorum :: u32
  sp_MinStakingValueSat :: i64
  sp_MaxStakingValueSat :: i64
  sp_MinStakingTimeBlocks :: u32
  sp_MaxStakingTimeBlocks :: u32
  sp_SlashingPkScript :: string
  sp_MinSlashingTxFeeSat :: i64
  sp_SlashingRate :: string
  sp_UnbondingTimeBlocks :: u32
  sp_UnbondingFeeSat :: i64
  sp_MinCommissionRate :: string
  sp_DelegationCreationBaseGasFee :: u64
  sp_AllowListExpirationHeight :: u64
  sp_BtcActivationHeight :: u32

record CheckpointParams =
  cp_BtcConfirmationDepth :: u32
  cp_CheckpointFinalizationTimeout :: u32
  cp_CheckpointTag :: string

record NetworkInfo =
  ni_ChainID :: string

record OverallStatsDocument =
  os_ActiveTvl :: u64
  os_ActiveDelegations :: u64

record FinalityProviderStatsDocument =
  fs_FpBtcPkHex :: string
  fs_ActiveTvl :: u64
  fs_ActiveDelegations :: u64

section \<open>What a new delegation is\<close>

lemma FromEventBTCDelegationCreated_Ok:
  assumes "FromEventBTCDelegationCreated deserialize txHash event height time = Ok d"
  shows "d_State d = StatePending" "d_SubState d = NoSubState" "map sr_State (d_StateHistory d) = [StatePending]"
    "map sr_SubState (d_StateHistory d) = [NoSubState]" "\<not> HasInclusionProof d" "d_CovenantSignatures d = []"
  using assms by (auto simp: FromEventBTCDelegationCreated_def HasInclusionProof_def)

end
