(* ===== verification/Rely_Guarantee.thy ===== *)
theory Rely_Guarantee
  imports Prelude
begin

text \<open>
  What a program may rely on and what it guarantees when other programs run between its actions.
  All programs share one guarantee: every action moves the state upwards in an order \<open>below\<close> and keeps
  an invariant \<open>good\<close>. A program that reads a fact which is stable under \<open>below\<close> may rely on it later.
\<close>

section \<open>Programs that respect an order and an invariant\<close>

text \<open>
  \<open>complies below good Q w p\<close>: started in any state above \<open>w\<close> that satisfies the invariant, with other
  programs moving the state upwards between its actions, \<open>p\<close> only performs actions that move the
  state upwards and keep the invariant, and a value it returns satisfies the postcondition \<open>Q\<close>.
\<close>

inductive complies :: "('w \<Rightarrow> 'w \<Rightarrow> bool) \<Rightarrow> ('w \<Rightarrow> bool) \<Rightarrow> ('w \<Rightarrow> 'a \<Rightarrow> bool) \<Rightarrow> 'w \<Rightarrow> ('w, 'a) prog \<Rightarrow> bool"
  for below good Q where
  Done_Ok: "(\<And>w'. below w w' \<Longrightarrow> good w' \<Longrightarrow> Q w' x) \<Longrightarrow> complies below good Q w (Done (Ok x))"
| Done_Err: "complies below good Q w (Done (Err err))"
| Done_Panic: "complies below good Q w (Done (Panic msg))"
| Act: "(\<And>w'. below w w' \<Longrightarrow> good w' \<Longrightarrow> below w' (snd (f w')) \<and> good (snd (f w'))) \<Longrightarrow>
        (\<And>w'. below w w' \<Longrightarrow> good w' \<Longrightarrow> complies below good Q (snd (f w')) (fst (f w'))) \<Longrightarrow>
        complies below good Q w (Act f)"

inductive_cases complies_OkE: "complies below good Q w (Done (Ok x))"
inductive_cases complies_ActE: "complies below good Q w (Act f)"

text \<open>The trivial postcondition.\<close>

definition any :: "'w \<Rightarrow> 'a \<Rightarrow> bool" where "any w x = True"

lemma any_intro [intro]: "any w x"
  by (simp add: any_def)

section \<open>The calculus\<close>

locale rely_guarantee =
  fixes below :: "'w \<Rightarrow> 'w \<Rightarrow> bool" and good :: "'w \<Rightarrow> bool"
  assumes below_refl: "below w w"
    and below_trans: "below u v \<Longrightarrow> below v w \<Longrightarrow> below u w"
begin

lemma complies_later:
  assumes "complies below good Q w p" and "below w w'"
  shows "complies below good Q w' p"
  using assms
proof (cases rule: complies.cases)
  case (Done_Ok x)
  then show ?thesis using assms(2) by (auto intro: complies.Done_Ok below_trans)
next
  case (Act f)
  then show ?thesis using assms(2) by (auto intro!: complies.Act intro: below_trans)
qed (auto intro: complies.intros)

lemma complies_weaken:
  assumes "complies below good Q w p" and "\<And>w' x. below w w' \<Longrightarrow> good w' \<Longrightarrow> Q w' x \<Longrightarrow> R w' x"
  shows "complies below good R w p"
  using assms
proof (induction rule: complies.induct)
  case (Done_Ok w x)
  then show ?case by (auto intro: complies.Done_Ok)
next
  case (Act w f)
  show ?case
  proof (rule complies.Act)
    fix w' assume w': "below w w'" "good w'"
    show "below w' (snd (f w')) \<and> good (snd (f w'))" using Act.hyps(1) w' by blast
    show "complies below good R (snd (f w')) (fst (f w'))"
    proof (rule Act.IH [OF w'])
      fix v x assume "below (snd (f w')) v" "good v" "Q v x"
      moreover have "below w v" using Act.hyps(1) [OF w'] w'(1) \<open>below (snd (f w')) v\<close> by (blast intro: below_trans)
      ultimately show "R v x" by (blast intro: Act.prems)
    qed
  qed
qed (auto intro: complies.intros)

lemma complies_any: "complies below good Q w p \<Longrightarrow> complies below good any w p"
  by (erule complies_weaken) (rule any_intro)

lemma complies_ret: "complies below good any w (ret x)"
  by (rule complies.Done_Ok) (rule any_intro)

lemma complies_ret_Q: "(\<And>w'. below w w' \<Longrightarrow> good w' \<Longrightarrow> Q w' x) \<Longrightarrow> complies below good Q w (ret x)"
  by (rule complies.Done_Ok)

lemma complies_throw: "complies below good Q w (throw err)"
  by (rule complies.Done_Err)

lemma complies_panic: "complies below good Q w (panic msg)"
  by (rule complies.Done_Panic)

lemma complies_Done: "complies below good any w (Done r)"
  by (cases r) (auto intro: complies.intros)

lemma complies_andThen:
  assumes "complies below good Q w p" and "good w"
    and "\<And>w' x. below w w' \<Longrightarrow> good w' \<Longrightarrow> Q w' x \<Longrightarrow> complies below good R w' (k x)"
  shows "complies below good R w (andThen p k)"
  using assms
proof (induction rule: complies.induct)
  case (Done_Ok w x)
  then show ?case using below_refl by simp
next
  case (Act w f)
  show ?case
    unfolding andThen.simps
  proof (rule complies.Act)
    fix w' assume w': "below w w'" "good w'"
    note up = Act.hyps(1) [OF w']
    then show "below w' (snd (map_prod (\<lambda>p. andThen p k) id (f w'))) \<and>
        good (snd (map_prod (\<lambda>p. andThen p k) id (f w')))" by simp
    have "complies below good R (snd (f w')) (andThen (fst (f w')) k)"
      by (rule Act.IH [OF w']) (use up w'(1) Act.prems(2) in \<open>blast intro: below_trans\<close>)+
    then show "complies below good R (snd (map_prod (\<lambda>p. andThen p k) id (f w')))
        (fst (map_prod (\<lambda>p. andThen p k) id (f w')))" by simp
  qed
qed (auto intro: complies.intros)

lemma complies_on_error:
  assumes "complies below good Q w p" and "good w"
    and "\<And>w' err. below w w' \<Longrightarrow> good w' \<Longrightarrow> complies below good Q w' (h err)"
  shows "complies below good Q w (on_error p h)"
  using assms
proof (induction rule: complies.induct)
  case (Done_Err w err)
  then show ?case using below_refl by simp
next
  case (Act w f)
  show ?case
    unfolding on_error.simps
  proof (rule complies.Act)
    fix w' assume w': "below w w'" "good w'"
    note up = Act.hyps(1) [OF w']
    then show "below w' (snd (map_prod (\<lambda>p. on_error p h) id (f w'))) \<and>
        good (snd (map_prod (\<lambda>p. on_error p h) id (f w')))" by simp
    have "complies below good Q (snd (f w')) (on_error (fst (f w')) h)"
      by (rule Act.IH [OF w']) (use up w'(1) Act.prems(2) in \<open>blast intro: below_trans\<close>)+
    then show "complies below good Q (snd (map_prod (\<lambda>p. on_error p h) id (f w')))
        (fst (map_prod (\<lambda>p. on_error p h) id (f w')))" by simp
  qed
qed (auto intro: complies.intros)

lemma complies_wrap_err:
  "complies below good Q w p \<Longrightarrow> good w \<Longrightarrow> complies below good Q w (wrap_err msg p)"
  unfolding wrap_err_def by (erule complies_on_error) (auto intro: complies_throw)

lemma complies_attempt:
  assumes "complies below good Q w p" and "good w"
  shows "complies below good (\<lambda>w' r. \<forall>x. r = Inr x \<longrightarrow> Q w' x) w (attempt p)"
proof -
  have "complies below good (\<lambda>w' r. \<forall>x. r = Inr x \<longrightarrow> Q w' x) w (andThen p (\<lambda>x. ret (Inr x)))"
    using assms
  proof (induction rule: complies.induct)
    case (Act w f)
    show ?case
      unfolding andThen.simps
      by (rule complies.Act) (use Act.hyps(1) Act.IH in auto)
  qed (auto intro: complies.intros)
  then show ?thesis
    unfolding attempt_def by (rule complies_on_error [OF _ assms(2)]) (auto intro: complies_ret_Q)
qed

lemma complies_atomically:
  assumes "\<And>w'. below w w' \<Longrightarrow> good w' \<Longrightarrow> below w' (snd (f w')) \<and> good (snd (f w'))"
    and "\<And>w' x v. below w w' \<Longrightarrow> good w' \<Longrightarrow> fst (f w') = Ok x \<Longrightarrow> below (snd (f w')) v \<Longrightarrow> good v \<Longrightarrow> Q v x"
  shows "complies below good Q w (atomically f)"
  unfolding atomically_def
proof (rule complies.Act)
  fix w' assume w': "below w w'" "good w'"
  show "below w' (snd (map_prod Done id (f w'))) \<and> good (snd (map_prod Done id (f w')))"
    using assms(1) [OF w'] by simp
  show "complies below good Q (snd (map_prod Done id (f w'))) (fst (map_prod Done id (f w')))"
    using assms(2) [OF w'] by (cases "fst (f w')") (auto intro: complies.intros)
qed

lemma complies_for_each:
  assumes "good w"
    and "\<And>x w'. x \<in> set xs \<Longrightarrow> below w w' \<Longrightarrow> good w' \<Longrightarrow> complies below good any w' (body x)"
  shows "complies below good any w (for_each xs body)"
  using assms
proof (induction xs arbitrary: w)
  case Nil
  show ?case unfolding for_each.simps by (rule complies_ret)
next
  case (Cons x xs)
  have "complies below good any w (body x)"
    using Cons.prems below_refl by simp
  then show ?case
    unfolding for_each.simps
    by (rule complies_andThen [OF _ Cons.prems(1)])
       (use Cons.IH Cons.prems(2) in \<open>auto intro: below_trans\<close>)
qed

lemma complies_retry:
  assumes "good w" and "\<And>w'. below w w' \<Longrightarrow> good w' \<Longrightarrow> complies below good Q w' p"
  shows "complies below good Q w (retry_from n errs p)"
  using assms
proof (induction n arbitrary: w errs)
  case 0
  show ?case by (simp add: complies_throw)
next
  case (Suc n)
  have "complies below good Q w p" using Suc.prems below_refl by blast
  then show ?case
    unfolding retry_from.simps
    by (rule complies_on_error [OF _ Suc.prems(1)])
       (use Suc.IH Suc.prems(2) in \<open>blast intro: below_trans\<close>)
qed

text \<open>A program that runs alone keeps its guarantee.\<close>

lemma complies_run:
  assumes "complies below good Q w p" and "good w"
  shows "below w (snd (run p w)) \<and> good (snd (run p w)) \<and> (\<forall>x. fst (run p w) = Ok x \<longrightarrow> Q (snd (run p w)) x)"
  using assms
proof (induction rule: complies.induct)
  case (Act w f)
  from Act.hyps(1) [OF below_refl Act.prems] Act.IH [OF below_refl Act.prems]
  show ?case by (auto intro: below_trans)
qed (auto intro: below_refl)

text \<open>Each action of a program that complies the guarantee keeps it, and so does what remains.\<close>

lemma complies_step:
  assumes "complies below good Q w (Act f)" and "good w"
  shows "below w (snd (f w)) \<and> good (snd (f w)) \<and> complies below good Q (snd (f w)) (fst (f w))"
  using assms below_refl by (blast elim: complies_ActE)

end

end
