(* ===== verification/World.thy ===== *)
theory World
  imports Db_Model Rely_Guarantee
begin

text \<open>
  The state that all goroutines share, what the indexer asks of the code outside the repository, and
  the atomic actions that a program is made of: one database call, one remote call, one message, one
  goroutine started.
\<close>

section \<open>Babylon block events\<close>

record EventAttribute =
  at_Key :: string
  at_Value :: string
  at_Index :: bool

record AbciEvent =
  ae_Type :: string
  ae_Attributes :: "EventAttribute list"

text \<open>The typed message that \<^verbatim>\<open>sdk.ParseTypedEvent\<close> returns.\<close>

datatype ProtoMessage =
    MsgBTCDelegationCreated BTCDelegationCreated
  | MsgCovenantQuorumReached CovenantQuorumReached
  | MsgCovenantSignatureReceived CovenantSignatureReceived
  | MsgInclusionProofReceived InclusionProofReceived
  | MsgUnbondedEarly UnbondedEarly
  | MsgDelegationExpired DelegationExpired
  | MsgFinalityProviderCreated FinalityProviderCreated
  | MsgFinalityProviderEdited FinalityProviderEdited
  | MsgFinalityProviderStatusChange FinalityProviderStatusChanged
  | MsgOther string

section \<open>The staking script library\<close>

record StakingScriptArgs =
  sa_StakerPk :: bytes
  sa_FinalityProviderPks :: "bytes list"
  sa_CovenantPks :: "bytes list"
  sa_CovenantQuorum :: u32
  sa_LockTime :: u16
  sa_Value :: i64
  sa_Net :: ChainParams

record StakingInfo =
  si_TimeLockPath :: "string + bytes"
  si_UnbondingPath :: "string + bytes"
  si_SlashingPath :: "string + bytes"

record UnbondingInfo =
  ui_UnbondingOutput :: TxOut
  ui_TimeLockPath :: "string + bytes"
  ui_SlashingPath :: "string + bytes"

section \<open>Messages to the API queue\<close>

datatype StakingEventType = ActiveStakingEventType | UnbondingStakingEventType

record StakingEvent =
  se_EventType :: StakingEventType
  se_StakingTxHashHex :: string
  se_StakerBtcPkHex :: string
  se_FinalityProviderBtcPksHex :: "string list"
  se_StakingAmount :: u64
  se_StateHistory :: "string list"

section \<open>Spend watchers\<close>

text \<open>What a goroutine that waits for the spend of an output does when it comes.\<close>

datatype Watch =
    WatchStaking string
  | WatchUnbonding BTCDelegationDetails
  | WatchSlashingChange BTCDelegationDetails DelegationSubState

text \<open>A goroutine that has been started to register for a spend notification.\<close>

record SpendJob =
  job_OutPoint :: OutPoint
  job_Tx :: MsgTx
  job_OutputIdx :: nat
  job_HeightHint :: u32
  job_Watch :: Watch

section \<open>Babylon's parameters\<close>

text \<open>
  What the Babylon query client answers, with the keys and the decimal numbers in the text form that
  their own methods print.
\<close>

record BbnStakingParams =
  bsp_CovenantPksHex :: "string list"
  bsp_CovenantQuorum :: u32
  bsp_MinStakingValueSat :: i64
  bsp_MaxStakingValueSat :: i64
  bsp_MinStakingTimeBlocks :: u32
  bsp_MaxStakingTimeBlocks :: u32
  bsp_SlashingPkScript :: bytes
  bsp_MinSlashingTxFeeSat :: i64
  bsp_SlashingRate :: string
  bsp_UnbondingTimeBlocks :: u32
  bsp_UnbondingFeeSat :: i64
  bsp_MinCommissionRate :: string
  bsp_DelegationCreationBaseGasFee :: u64
  bsp_AllowListExpirationHeight :: u64
  bsp_BtcActivationHeight :: u32

record BbnCheckpointParams =
  bcp_BtcConfirmationDepth :: u32
  bcp_CheckpointFinalizationTimeout :: u32
  bcp_CheckpointTag :: string

section \<open>The code outside the repository\<close>

text \<open>
  A call to a remote service may be lost before it takes effect, or take effect with its answer lost.
\<close>

datatype fault = Lost string | Unacked string

text \<open>
  Every call to a service happens at some moment of the clock, and the services may answer anything at
  any moment. \<open>mongo_order\<close> is the order in which the server returns the documents of a query without a
  sort, \<open>mongo_indexes\<close> the indexes of the database, with the names of their collections. The libraries (\<^verbatim>\<open>lib_\<close>) are functions of their arguments. \<open>cfg_\<close> fields are the configuration.
\<close>

record env =
  mongo_fault :: "nat \<Rightarrow> fault option"
  mongo_order :: "nat \<Rightarrow> nat \<Rightarrow> nat list"
  mongo_indexes :: "(string \<times> IndexModel) list"
  queue_fault :: "nat \<Rightarrow> fault option"
  notifier_RegisterSpendNtfn :: "nat \<Rightarrow> OutPoint \<Rightarrow> bytes \<Rightarrow> u32 \<Rightarrow> string option"
  btc_GetBlockCount :: "nat \<Rightarrow> string + i64"
  btc_GetBlockHash :: "nat \<Rightarrow> i64 \<Rightarrow> string + string"
  btc_GetBlock :: "nat \<Rightarrow> string \<Rightarrow> string + i64"
  rpc_Status :: "nat \<Rightarrow> string + (string \<times> i64)"
  rpc_Block :: "nat \<Rightarrow> i64 \<Rightarrow> string + i64"
  rpc_BlockResults :: "nat \<Rightarrow> i64 \<Rightarrow> string + (AbciEvent list list \<times> AbciEvent list)"
  rpc_BTCCheckpointParams :: "nat \<Rightarrow> string + BbnCheckpointParams"
  rpc_BTCStakingParamsByVersion :: "nat \<Rightarrow> u32 \<Rightarrow> string + BbnStakingParams"
  rpc_BTCDelegation :: "nat \<Rightarrow> string \<Rightarrow> string + string"
  lib_ValidateCheckpointParams :: "BbnCheckpointParams \<Rightarrow> string option"
  lib_ErrParamsNotFound :: string
  lib_ParseTypedEvent :: "AbciEvent \<Rightarrow> string + ProtoMessage"
  lib_Deserialize :: "bytes \<Rightarrow> string + MsgTx"
  lib_TxHash :: "MsgTx \<Rightarrow> string"
  lib_NewHashFromStr :: "string \<Rightarrow> string + string"
  lib_NewBTCTxFromBytes :: "bytes \<Rightarrow> string + MsgTx"
  lib_SlashingTxToHex :: "MsgTx \<Rightarrow> string + string"
  lib_NewBIP340PubKeyFromHex :: "string \<Rightarrow> string + bytes"
  lib_MustToBTCPK :: "bytes \<Rightarrow> bytes option"
  lib_BuildStakingInfo :: "StakingScriptArgs \<Rightarrow> string + StakingInfo"
  lib_BuildUnbondingInfo :: "StakingScriptArgs \<Rightarrow> string + UnbondingInfo"
  lib_GetFromBech32 :: "string \<Rightarrow> string \<Rightarrow> string + bytes"
  lib_VerifyAddressFormat :: "bytes \<Rightarrow> string option"
  cfg_NetParams :: string
  cfg_BTC_MaxRetryTimes :: nat
  cfg_BBN_MaxRetryTimes :: nat
  cfg_ExpiredDelegationsLimit :: u64

text \<open>The named hypotheses about these services.\<close>

definition scan_ok :: "env \<Rightarrow> bool" where
  "scan_ok e \<longleftrightarrow> (\<forall>t n. mset (mongo_order e t n) = mset [0..<n])"

text \<open>
  The server refuses a second document with the same values in the fields of a unique index. The index of \<^verbatim>\<open>_id\<close> is
  always there; any other one only when it has been created.
\<close>

definition unique_index :: "env \<Rightarrow> string \<Rightarrow> string list \<Rightarrow> bool" where
  "unique_index e collectionName keyFields \<longleftrightarrow> list_ex (\<lambda>(name, model). name = collectionName \<and> im_Unique model \<and>
     (case im_Keys model of None \<Rightarrow> False | Some keys \<Rightarrow> set (map fst keys) = set keyFields)) (mongo_indexes e)"

abbreviation params_index :: "env \<Rightarrow> bool" where
  "params_index e \<equiv> unique_index e GlobalParamsCollection [''type'', ''version'']"

definition no_faults :: "env \<Rightarrow> bool" where
  "no_faults e \<longleftrightarrow> (\<forall>t. mongo_fault e t = None \<and> queue_fault e t = None)"

section \<open>The shared state\<close>

record world =
  w_delegations :: "BTCDelegationDetails list"
  w_fps :: "FinalityProviderDetails list"
  w_timelocks :: "TimeLockDocument list"
  w_staking_params :: "(u32 \<times> StakingParams) list"
  w_checkpoint_params :: "CheckpointParams option"
  w_last_height :: "u64 option"
  w_network :: "NetworkInfo option"
  w_overall_stats :: "OverallStatsDocument option"
  w_fp_stats :: "FinalityProviderStatsDocument list"
  w_queue :: "StakingEvent list"
  w_jobs :: "SpendJob list"
  w_watches :: "(OutPoint \<times> Watch) list"
  w_params_version :: u32
  w_clock :: nat

definition tick :: "world \<Rightarrow> world" where
  "tick w = w\<lparr>w_clock := Suc (w_clock w)\<rparr>"

lemma tick_fields [simp]:
  "w_delegations (tick w) = w_delegations w" "w_fps (tick w) = w_fps w"
  "w_timelocks (tick w) = w_timelocks w" "w_staking_params (tick w) = w_staking_params w"
  "w_checkpoint_params (tick w) = w_checkpoint_params w" "w_last_height (tick w) = w_last_height w"
  "w_network (tick w) = w_network w" "w_overall_stats (tick w) = w_overall_stats w"
  "w_fp_stats (tick w) = w_fp_stats w" "w_queue (tick w) = w_queue w" "w_jobs (tick w) = w_jobs w"
  "w_watches (tick w) = w_watches w" "w_params_version (tick w) = w_params_version w"
  "w_clock (tick w) = Suc (w_clock w)"
  by (simp_all add: tick_def)

section \<open>Atomic actions\<close>

text \<open>One call to the database.\<close>

definition db_call :: "env \<Rightarrow> (world \<Rightarrow> 'a result \<times> world) \<Rightarrow> (world, 'a) prog" where
  "db_call e act = atomically (\<lambda>w.
     case mongo_fault e (w_clock w) of
       None \<Rightarrow> act (tick w)
     | Some (Lost msg) \<Rightarrow> (Err (OtherError msg), tick w)
     | Some (Unacked msg) \<Rightarrow> (Err (OtherError msg), snd (act (tick w))))"

text \<open>One question to a remote service.\<close>

definition ask :: "(nat \<Rightarrow> string + 'a) \<Rightarrow> (world, 'a) prog" where
  "ask f = atomically (\<lambda>w. (of_lib (f (w_clock w)), tick w))"

text \<open>One message to the queue.\<close>

definition push_event :: "env \<Rightarrow> StakingEvent \<Rightarrow> (world, unit) prog" where
  "push_event e ev = atomically (\<lambda>w.
     case queue_fault e (w_clock w) of
       None \<Rightarrow> (Ok (), (tick w)\<lparr>w_queue := w_queue w @ [ev]\<rparr>)
     | Some (Lost msg) \<Rightarrow> (Err (OtherError msg), tick w)
     | Some (Unacked msg) \<Rightarrow> (Err (OtherError msg), (tick w)\<lparr>w_queue := w_queue w @ [ev]\<rparr>))"

text \<open>A \<^verbatim>\<open>go\<close> statement that starts a goroutine to register for a spend.\<close>

definition go_job :: "SpendJob \<Rightarrow> (world, unit) prog" where
  "go_job job = atomically (\<lambda>w. (Ok (), w\<lparr>w_jobs := w_jobs w @ [job]\<rparr>))"

definition peek :: "(world \<Rightarrow> 'a) \<Rightarrow> (world, 'a) prog" where
  "peek f = atomically (\<lambda>w. (Ok (f w), w))"

definition poke :: "(world \<Rightarrow> world) \<Rightarrow> (world, unit) prog" where
  "poke f = atomically (\<lambda>w. (Ok (), f w))"

lemma run_db_call [simp]:
  "mongo_fault e (w_clock w) = None \<Longrightarrow> run (db_call e act) w = act (tick w)"
  by (simp add: db_call_def)

lemma run_ask [simp]: "run (ask f) w = (of_lib (f (w_clock w)), tick w)"
  by (simp add: ask_def)

lemma run_push_event [simp]:
  "queue_fault e (w_clock w) = None \<Longrightarrow> run (push_event e ev) w = (Ok (), (tick w)\<lparr>w_queue := w_queue w @ [ev]\<rparr>)"
  by (simp add: push_event_def)

lemma run_go_job [simp]: "run (go_job job) w = (Ok (), w\<lparr>w_jobs := w_jobs w @ [job]\<rparr>)"
  by (simp add: go_job_def)

lemma run_peek [simp]: "run (peek f) w = (Ok (f w), w)"
  by (simp add: peek_def)

lemma run_poke [simp]: "run (poke f) w = (Ok (), f w)"
  by (simp add: poke_def)

text \<open>The three outcomes of a database call.\<close>

lemma run_db_call_cases:
  obtains (served) "run (db_call e act) w = act (tick w)"
  | (lost) msg where "run (db_call e act) w = (Err (OtherError msg), tick w)"
  | (unacked) msg where "run (db_call e act) w = (Err (OtherError msg), snd (act (tick w)))"
  by (cases "mongo_fault e (w_clock w)"; cases "the (mongo_fault e (w_clock w))") (auto simp: db_call_def)

lemma run_push_event_cases:
  obtains (served) "run (push_event e ev) w = (Ok (), (tick w)\<lparr>w_queue := w_queue w @ [ev]\<rparr>)"
  | (lost) msg where "run (push_event e ev) w = (Err (OtherError msg), tick w)"
  | (unacked) msg where "run (push_event e ev) w = (Err (OtherError msg), (tick w)\<lparr>w_queue := w_queue w @ [ev]\<rparr>)"
  by (cases "queue_fault e (w_clock w)"; cases "the (queue_fault e (w_clock w))") (auto simp: push_event_def)

lemma no_faultsD [simp]:
  "no_faults e \<Longrightarrow> mongo_fault e t = None"
  "no_faults e \<Longrightarrow> queue_fault e t = None"
  by (simp_all add: no_faults_def)

end
