(* ===== verification/Keyed_Collection.thy ===== *)
theory Keyed_Collection
  imports Prelude
begin

text \<open>
  A collection of documents with a primary key: what the driver's \<^verbatim>\<open>FindOne\<close>, \<^verbatim>\<open>InsertOne\<close> and \<^verbatim>\<open>UpdateOne\<close> do
  on the list of its documents, the contract that the handlers rely on, and what follows from the contract
  for a client that inserts and ignores duplicates.
\<close>

section \<open>The operations\<close>

definition find_doc :: "('d \<Rightarrow> 'k) \<Rightarrow> 'k \<Rightarrow> 'd list \<Rightarrow> 'd option" where
  "find_doc key k ds = find (\<lambda>d. key d = k) ds"

text \<open>\<^verbatim>\<open>InsertOne\<close>: the unique index on the key refuses a second document with the same key.\<close>

definition insert_doc :: "('d \<Rightarrow> 'k) \<Rightarrow> 'd \<Rightarrow> 'd list \<Rightarrow> 'd list option" where
  "insert_doc key d ds = (if key d \<in> key ` set ds then None else Some (ds @ [d]))"

text \<open>\<^verbatim>\<open>UpdateOne\<close> on a key and a condition; \<open>None\<close> when nothing matches.\<close>

definition update_doc :: "('d \<Rightarrow> 'k) \<Rightarrow> 'k \<Rightarrow> ('d \<Rightarrow> bool) \<Rightarrow> ('d \<Rightarrow> 'd) \<Rightarrow> 'd list \<Rightarrow> 'd list option" where
  "update_doc key k cond f ds = modify_first (\<lambda>d. key d = k \<and> cond d) f ds"

text \<open>\<^verbatim>\<open>UpdateOne\<close> with \<^verbatim>\<open>SetUpsert(true)\<close> on a key.\<close>

definition upsert_doc :: "('d \<Rightarrow> 'k) \<Rightarrow> 'd \<Rightarrow> 'd list \<Rightarrow> 'd list" where
  "upsert_doc key d ds =
     (case modify_first (\<lambda>x. key x = key d) (\<lambda>_. d) ds of None \<Rightarrow> ds @ [d] | Some ds' \<Rightarrow> ds')"

section \<open>The contract\<close>

locale keyed_collection =
  fixes key :: "'d \<Rightarrow> 'k"
    and valid :: "'c \<Rightarrow> bool"
    and lookup :: "'k \<Rightarrow> 'c \<Rightarrow> 'd option"
    and add :: "'d \<Rightarrow> 'c \<Rightarrow> 'c option"
    and change :: "'k \<Rightarrow> ('d \<Rightarrow> bool) \<Rightarrow> ('d \<Rightarrow> 'd) \<Rightarrow> 'c \<Rightarrow> 'c option"
  assumes lookup_key: "lookup k c = Some d \<Longrightarrow> key d = k"
    and add_defined: "(add d c = None) \<longleftrightarrow> lookup (key d) c \<noteq> None"
    and lookup_add: "add d c = Some c' \<Longrightarrow> lookup k c' = (if k = key d then Some d else lookup k c)"
    and valid_add: "valid c \<Longrightarrow> add d c = Some c' \<Longrightarrow> valid c'"
    and change_defined: "valid c \<Longrightarrow> (change k cond f c = None) \<longleftrightarrow> (\<forall>d. lookup k c = Some d \<longrightarrow> \<not> cond d)"
    and lookup_change: "valid c \<Longrightarrow> (\<And>d. key (f d) = key d) \<Longrightarrow> change k cond f c = Some c' \<Longrightarrow>
      lookup j c' = (if j = k then map_option f (lookup k c) else lookup j c)"
    and valid_change: "valid c \<Longrightarrow> (\<And>d. key (f d) = key d) \<Longrightarrow> change k cond f c = Some c' \<Longrightarrow> valid c'"
begin

text \<open>Inserting and ignoring a duplicate, as the handlers of the creation events do.\<close>

definition ensure :: "'d \<Rightarrow> 'c \<Rightarrow> 'c" where
  "ensure d c = (case add d c of None \<Rightarrow> c | Some c' \<Rightarrow> c')"

lemma lookup_ensure:
  "lookup k (ensure d c) = (if k = key d \<and> lookup k c = None then Some d else lookup k c)"
  using add_defined [of d c] by (auto simp: ensure_def lookup_add split: option.splits)

lemma ensure_idem: "ensure d (ensure d c) = ensure d c"
  using add_defined [of d "ensure d c"] lookup_ensure [of "key d" d c]
  by (cases "lookup (key d) c") (auto simp: ensure_def split: option.splits)

lemma ensure_present: "lookup (key d) c = Some x \<Longrightarrow> ensure d c = c"
  using add_defined [of d c] by (auto simp: ensure_def split: option.splits)

lemma valid_ensure: "valid c \<Longrightarrow> valid (ensure d c)"
  by (auto simp: ensure_def intro: valid_add split: option.splits)

text \<open>A guarded update succeeds exactly on a stored document that satisfies the guard.\<close>

lemma change_Some_iff:
  "valid c \<Longrightarrow> (\<exists>c'. change k cond f c = Some c') \<longleftrightarrow> (\<exists>d. lookup k c = Some d \<and> cond d)"
  using change_defined [of c k cond f] by (cases "change k cond f c") auto

text \<open>A second update whose guard the first has made false does nothing.\<close>

lemma change_twice:
  assumes "valid c" "\<And>d. key (f d) = key d" "change k cond f c = Some c'" "\<And>d. cond d \<Longrightarrow> \<not> cond (f d)"
  shows "change k cond g c' = None"
proof -
  from assms(1,3) obtain d where "lookup k c = Some d" "cond d" using change_Some_iff by blast
  then have "lookup k c' = Some (f d)" using lookup_change [OF assms(1-3)] by simp
  with assms(4) \<open>cond d\<close> show ?thesis using change_defined [OF valid_change [OF assms(1-3)]] by simp
qed

end

section \<open>The collections of the indexer keep the contract\<close>

lemma find_append: "find P (xs @ ys) = (case find P xs of None \<Rightarrow> find P ys | Some x \<Rightarrow> Some x)"
  by (induction xs) auto

lemma find_doc_None_iff: "find_doc key k ds = None \<longleftrightarrow> k \<notin> key ` set ds"
  by (auto simp: find_doc_def find_None_iff)

lemma find_doc_SomeD: "find_doc key k ds = Some d \<Longrightarrow> d \<in> set ds \<and> key d = k"
  by (auto simp: find_doc_def find_Some_iff)

lemma find_doc_distinct: "distinct (map key ds) \<Longrightarrow> d \<in> set ds \<Longrightarrow> find_doc key (key d) ds = Some d"
  by (induction ds) (auto simp: find_doc_def)

lemma find_doc_append: "find_doc key k (xs @ ys) = (case find_doc key k xs of None \<Rightarrow> find_doc key k ys | Some d \<Rightarrow> Some d)"
  unfolding find_doc_def by (rule find_append)

lemma update_doc_cases:
  assumes "distinct (map key ds)" "update_doc key k cond f ds = Some ds'"
  obtains xs d ys where "ds = xs @ d # ys" "key d = k" "cond d" "ds' = xs @ f d # ys" "k \<notin> key ` set xs" "k \<notin> key ` set ys"
proof -
  from assms(2) obtain xs d ys where ds: "ds = xs @ d # ys" "key d = k \<and> cond d" "ds' = xs @ f d # ys"
    unfolding update_doc_def by (rule modify_first_SomeE)
  with assms(1) show thesis by (intro that) auto
qed

interpretation store: keyed_collection key "\<lambda>ds. distinct (map key ds)" "find_doc key" "insert_doc key" "update_doc key"
  for key :: "'d \<Rightarrow> 'k"
proof
  fix k ds and d :: 'd
  show "find_doc key k ds = Some d \<Longrightarrow> key d = k" by (auto dest: find_doc_SomeD)
next
  fix d ds
  show "(insert_doc key d ds = None) \<longleftrightarrow> find_doc key (key d) ds \<noteq> None"
    by (simp add: insert_doc_def find_doc_None_iff)
next
  fix d ds ds' k
  assume "insert_doc key d ds = Some ds'"
  then show "find_doc key k ds' = (if k = key d then Some d else find_doc key k ds)"
    using find_doc_None_iff [of key "key d" ds]
    by (auto simp: insert_doc_def find_doc_append split: if_splits option.splits) (auto simp: find_doc_def)
next
  fix d ds ds'
  show "distinct (map key ds) \<Longrightarrow> insert_doc key d ds = Some ds' \<Longrightarrow> distinct (map key ds')"
    by (auto simp: insert_doc_def split: if_splits)
next
  fix ds k cond and f :: "'d \<Rightarrow> 'd"
  assume "distinct (map key ds)"
  then show "(update_doc key k cond f ds = None) \<longleftrightarrow> (\<forall>d. find_doc key k ds = Some d \<longrightarrow> \<not> cond d)"
    unfolding update_doc_def modify_first_None_iff
    using find_doc_distinct [of key ds] find_doc_SomeD [of key k ds] by blast
next
  fix ds ds' k j cond and f :: "'d \<Rightarrow> 'd"
  assume a: "distinct (map key ds)" "\<And>d. key (f d) = key d" "update_doc key k cond f ds = Some ds'"
  from a(1,3) obtain xs d ys where
    "ds = xs @ d # ys" "key d = k" "cond d" "ds' = xs @ f d # ys" "k \<notin> key ` set xs" "k \<notin> key ` set ys"
    by (rule update_doc_cases)
  then show "find_doc key j ds' = (if j = k then map_option f (find_doc key k ds) else find_doc key j ds)"
    using a(2) find_doc_None_iff [of key k xs]
    by (auto simp: find_doc_append split: option.splits) (auto simp: find_doc_def)
next
  fix ds ds' k cond and f :: "'d \<Rightarrow> 'd"
  assume a: "distinct (map key ds)" "\<And>d. key (f d) = key d" "update_doc key k cond f ds = Some ds'"
  then have "map key ds' = map key ds" by (auto simp: update_doc_def elim: modify_first_keys)
  with a(1) show "distinct (map key ds')" by simp
qed

text \<open>An upsert replaces or adds.\<close>

lemma lookup_upsert:
  assumes "distinct (map key ds)"
  shows "find_doc key k (upsert_doc key d ds) = (if k = key d then Some d else find_doc key k ds)"
    and "distinct (map key (upsert_doc key d ds))"
proof -
  have "find_doc key k (upsert_doc key d ds) = (if k = key d then Some d else find_doc key k ds) \<and>
    distinct (map key (upsert_doc key d ds))"
  proof (cases "modify_first (\<lambda>x. key x = key d) (\<lambda>_. d) ds")
    case None
    then have "key d \<notin> key ` set ds" by auto
    then show ?thesis
      using assms None store.lookup_add [of key d ds "ds @ [d]" k]
      by (simp add: upsert_doc_def insert_doc_def del: modify_first_None_iff)
  next
    case (Some ds')
    then obtain xs x ys where x: "ds = xs @ x # ys" "key x = key d" "ds' = xs @ d # ys"
      by (rule modify_first_SomeE)
    with assms have "key d \<notin> key ` set xs" by auto
    then have "find_doc key (key d) xs = None" by (simp add: find_doc_None_iff)
    with x Some assms show ?thesis
      by (auto simp: upsert_doc_def find_doc_append split: option.splits) (auto simp: find_doc_def)
  qed
  then show "find_doc key k (upsert_doc key d ds) = (if k = key d then Some d else find_doc key k ds)"
    and "distinct (map key (upsert_doc key d ds))" by auto
qed

end
