(* ===== verification/Database.thy ===== *)
theory Database
  imports World Keyed_Collection
begin

text \<open>
  \<^verbatim>\<open>internal/db\<close>: the operations of \<^verbatim>\<open>DbInterface\<close> on the collections. A collection is the list of its
  documents; a filter is a predicate on documents and an update a function on them. A call to the
  driver may fail at any moment (\<open>db_call\<close>).
\<close>

section \<open>Delegations\<close>

record slashingTxInfo =
  sti_txHex :: string
  sti_spendingHeight :: u32
  sti_btcTimestamp :: i64

record updateOptions =
  uo_subState :: "DelegationSubState option"
  uo_bbnHeight :: "i64 option"
  uo_btcHeight :: "u32 option"
  uo_stakingSlashingTxInfo :: "slashingTxInfo option"
  uo_unbondingSlashingTxInfo :: "slashingTxInfo option"
  uo_withdrawalTxInfo :: "string option"
  uo_stakingStartHeight :: "u32 option"
  uo_stakingEndHeight :: "u32 option"
  uo_stakingBTCTimestamp :: "i64 option"
  uo_unbondingBTCTimestamp :: "i64 option"
  uo_unbondingStartHeight :: "u32 option"
  uo_bbnEventType :: "string option"

definition empty_options :: updateOptions where
  "empty_options = \<lparr>uo_subState = None, uo_bbnHeight = None, uo_btcHeight = None,
     uo_stakingSlashingTxInfo = None, uo_unbondingSlashingTxInfo = None, uo_withdrawalTxInfo = None,
     uo_stakingStartHeight = None, uo_stakingEndHeight = None, uo_stakingBTCTimestamp = None,
     uo_unbondingBTCTimestamp = None, uo_unbondingStartHeight = None, uo_bbnEventType = None\<rparr>"

type_synonym UpdateOption = "updateOptions \<Rightarrow> updateOptions"

definition WithSubState :: "DelegationSubState \<Rightarrow> UpdateOption" where
  [db_defs]: "WithSubState subState opts = opts\<lparr>uo_subState := Some subState\<rparr>"
definition WithBbnHeight :: "i64 \<Rightarrow> UpdateOption" where
  [db_defs]: "WithBbnHeight height opts = opts\<lparr>uo_bbnHeight := Some height\<rparr>"
definition WithBtcHeight :: "u32 \<Rightarrow> UpdateOption" where
  [db_defs]: "WithBtcHeight height opts = opts\<lparr>uo_btcHeight := Some height\<rparr>"
definition WithStakingStartHeight :: "u32 \<Rightarrow> UpdateOption" where
  [db_defs]: "WithStakingStartHeight height opts = opts\<lparr>uo_stakingStartHeight := Some height\<rparr>"
definition WithStakingEndHeight :: "u32 \<Rightarrow> UpdateOption" where
  [db_defs]: "WithStakingEndHeight height opts = opts\<lparr>uo_stakingEndHeight := Some height\<rparr>"
definition WithUnbondingStartHeight :: "u32 \<Rightarrow> UpdateOption" where
  [db_defs]: "WithUnbondingStartHeight height opts = opts\<lparr>uo_unbondingStartHeight := Some height\<rparr>"
definition WithStakingBTCTimestamp :: "i64 \<Rightarrow> UpdateOption" where
  [db_defs]: "WithStakingBTCTimestamp btcTimestamp opts = opts\<lparr>uo_stakingBTCTimestamp := Some btcTimestamp\<rparr>"
definition WithUnbondingBTCTimestamp :: "i64 \<Rightarrow> UpdateOption" where
  [db_defs]: "WithUnbondingBTCTimestamp btcTimestamp opts = opts\<lparr>uo_unbondingBTCTimestamp := Some btcTimestamp\<rparr>"
definition WithStakingSlashingTx :: "string \<Rightarrow> u32 \<Rightarrow> i64 \<Rightarrow> UpdateOption" where
  [db_defs]: "WithStakingSlashingTx txHex spendingHeight btcTimestamp opts = opts\<lparr>uo_stakingSlashingTxInfo :=
     Some \<lparr>sti_txHex = txHex, sti_spendingHeight = spendingHeight, sti_btcTimestamp = btcTimestamp\<rparr>\<rparr>"
definition WithUnbondingSlashingTx :: "string \<Rightarrow> u32 \<Rightarrow> i64 \<Rightarrow> UpdateOption" where
  [db_defs]: "WithUnbondingSlashingTx txHex spendingHeight btcTimestamp opts = opts\<lparr>uo_unbondingSlashingTxInfo :=
     Some \<lparr>sti_txHex = txHex, sti_spendingHeight = spendingHeight, sti_btcTimestamp = btcTimestamp\<rparr>\<rparr>"
definition WithWithdrawalTx :: "string \<Rightarrow> UpdateOption" where
  [db_defs]: "WithWithdrawalTx txHash opts = opts\<lparr>uo_withdrawalTxInfo := Some txHash\<rparr>"
definition WithBbnEventType :: "string \<Rightarrow> UpdateOption" where
  [db_defs]: "WithBbnEventType eventType opts = opts\<lparr>uo_bbnEventType := Some eventType\<rparr>"

definition SaveNewBTCDelegation :: "env \<Rightarrow> BTCDelegationDetails \<Rightarrow> (world, unit) prog" where
  [db_defs]: "SaveNewBTCDelegation e delegationDoc = db_call e (\<lambda>w.
     case insert_doc d_StakingTxHashHex delegationDoc (w_delegations w) of
       None \<Rightarrow> (Err (DuplicateKeyError (d_StakingTxHashHex delegationDoc) ''delegation already exists''), w)
     | Some ds \<Rightarrow> (Ok (), w\<lparr>w_delegations := ds\<rparr>))"

text \<open>The state record that \<^verbatim>\<open>UpdateBTCDelegationState\<close> pushes to the history.\<close>

definition stateRecord_of :: "DelegationState \<Rightarrow> updateOptions \<Rightarrow> StateRecord" where
  "stateRecord_of newState options =
     \<lparr>sr_State = newState,
      sr_SubState = (case uo_subState options of Some subState \<Rightarrow> subState | None \<Rightarrow> NoSubState),
      sr_BbnHeight = (case uo_bbnHeight options of Some height \<Rightarrow> height | None \<Rightarrow> 0),
      sr_BtcHeight = (case uo_btcHeight options of Some height \<Rightarrow> height | None \<Rightarrow> 0),
      sr_BbnEventType = (case uo_bbnEventType options of Some eventType \<Rightarrow> ShortName eventType | None \<Rightarrow> '''')\<rparr>"

text \<open>
  The slashing fields: the staking slashing and the unbonding slashing have their own transaction and
  timestamp and share the spending height, which the later assignment decides.
\<close>

definition set_slashing :: "updateOptions \<Rightarrow> SlashingTx \<Rightarrow> SlashingTx" where
  "set_slashing options s0 =
     (let s1 = (case uo_stakingSlashingTxInfo options of
                  Some i \<Rightarrow> s0\<lparr>st_SlashingTxHex := sti_txHex i, st_SpendingHeight := sti_spendingHeight i,
                              st_SlashingBTCTimestamp := sti_btcTimestamp i\<rparr>
                | None \<Rightarrow> s0)
      in (case uo_unbondingSlashingTxInfo options of
            Some i \<Rightarrow> s1\<lparr>st_UnbondingSlashingTxHex := sti_txHex i, st_SpendingHeight := sti_spendingHeight i,
                        st_UnbondingSlashingBTCTimestamp := sti_btcTimestamp i\<rparr>
          | None \<Rightarrow> s1))"

text \<open>The \<^verbatim>\<open>$set\<close> and \<^verbatim>\<open>$push\<close> of the update document.\<close>

definition apply_update :: "DelegationState \<Rightarrow> updateOptions \<Rightarrow> BTCDelegationDetails \<Rightarrow> BTCDelegationDetails" where
  "apply_update newState options d = d
     \<lparr>d_State := newState,
      d_SubState := (case uo_subState options of Some subState \<Rightarrow> subState | None \<Rightarrow> d_SubState d),
      d_SlashingTx := set_slashing options (d_SlashingTx d),
      d_WithdrawalTx := (case uo_withdrawalTxInfo options of Some txHash \<Rightarrow> \<lparr>wt_TxHash = txHash\<rparr> | None \<Rightarrow> d_WithdrawalTx d),
      d_StartHeight := (case uo_stakingStartHeight options of Some height \<Rightarrow> height | None \<Rightarrow> d_StartHeight d),
      d_EndHeight := (case uo_stakingEndHeight options of Some height \<Rightarrow> height | None \<Rightarrow> d_EndHeight d),
      d_StakingBTCTimestamp := (case uo_stakingBTCTimestamp options of Some t \<Rightarrow> t | None \<Rightarrow> d_StakingBTCTimestamp d),
      d_UnbondingBTCTimestamp := (case uo_unbondingBTCTimestamp options of Some t \<Rightarrow> t | None \<Rightarrow> d_UnbondingBTCTimestamp d),
      d_UnbondingStartHeight := (case uo_unbondingStartHeight options of Some height \<Rightarrow> height | None \<Rightarrow> d_UnbondingStartHeight d),
      d_StateHistory := d_StateHistory d @ [stateRecord_of newState options]\<rparr>"

definition options_of :: "UpdateOption list \<Rightarrow> updateOptions" where
  "options_of opts = fold (\<lambda>opt options. opt options) opts empty_options"

definition UpdateBTCDelegationState ::
  "env \<Rightarrow> string \<Rightarrow> DelegationState list \<Rightarrow> DelegationState \<Rightarrow> UpdateOption list \<Rightarrow> (world, unit) prog" where
  "UpdateBTCDelegationState e stakingTxHash qualifiedPreviousStates newState opts =
     (if length qualifiedPreviousStates = 0
      then throw (OtherError ''qualified previous states array cannot be empty'')
      else db_call e (\<lambda>w.
        case update_doc d_StakingTxHashHex stakingTxHash (\<lambda>d. d_State d \<in> set qualifiedPreviousStates)
               (apply_update newState (options_of opts)) (w_delegations w) of
          None \<Rightarrow> (Err (NotFoundError stakingTxHash
                    ''BTC delegation not found or current state is not qualified states''), w)
        | Some ds \<Rightarrow> (Ok (), w\<lparr>w_delegations := ds\<rparr>)))"

definition GetBTCDelegationByStakingTxHash :: "env \<Rightarrow> string \<Rightarrow> (world, BTCDelegationDetails) prog" where
  [db_defs]: "GetBTCDelegationByStakingTxHash e stakingTxHash = db_call e (\<lambda>w.
     case find_doc d_StakingTxHashHex stakingTxHash (w_delegations w) of
       None \<Rightarrow> (Err (NotFoundError stakingTxHash ''BTC delegation not found when getting by staking tx hash''), w)
     | Some d \<Rightarrow> (Ok d, w))"

definition GetBTCDelegationState :: "env \<Rightarrow> string \<Rightarrow> (world, DelegationState) prog" where
  [db_defs]: "GetBTCDelegationState e stakingTxHash =
     andThen (GetBTCDelegationByStakingTxHash e stakingTxHash) (\<lambda>delegation. ret (d_State delegation))"

text \<open>\<^verbatim>\<open>UpdateOne\<close> whose result is not looked at: no error when no document matches.\<close>

definition update_delegation :: "string \<Rightarrow> (BTCDelegationDetails \<Rightarrow> BTCDelegationDetails) \<Rightarrow> world \<Rightarrow> world" where
  "update_delegation stakingTxHash f w =
     (case modify_first (\<lambda>d. d_StakingTxHashHex d = stakingTxHash) f (w_delegations w) of
        None \<Rightarrow> w | Some ds \<Rightarrow> w\<lparr>w_delegations := ds\<rparr>)"

definition SaveBTCDelegationCovenantSignature ::
  "env \<Rightarrow> string \<Rightarrow> string \<Rightarrow> string \<Rightarrow> string \<Rightarrow> (world, unit) prog" where
  [db_defs]: "SaveBTCDelegationCovenantSignature e stakingTxHash covenantBtcPkHex signatureHex stakeExpansionSignatureHex =
     (let values = \<lparr>cs_CovenantBtcPkHex = covenantBtcPkHex, cs_SignatureHex = signatureHex, cs_StakeExpansionSignatureHex = ''''\<rparr>;
          values = (if stakeExpansionSignatureHex \<noteq> '''' then values\<lparr>cs_StakeExpansionSignatureHex := stakeExpansionSignatureHex\<rparr> else values)
      in db_call e (\<lambda>w. (Ok (), update_delegation stakingTxHash
           (\<lambda>d. d\<lparr>d_CovenantSignatures := d_CovenantSignatures d @ [values]\<rparr>) w)))"

text \<open>A query for all documents that satisfy a filter, in the server's order.\<close>

definition find_all :: "env \<Rightarrow> ('d \<Rightarrow> bool) \<Rightarrow> 'd list \<Rightarrow> nat \<Rightarrow> 'd list" where
  "find_all e P ds t = filter P (scan (mongo_order e t (length ds)) ds)"

definition GetDelegationsByFinalityProvider :: "env \<Rightarrow> string \<Rightarrow> (world, BTCDelegationDetails list) prog" where
  [db_defs]: "GetDelegationsByFinalityProvider e fpBTCPKHex = wrap_err ''failed to find delegations'' (db_call e (\<lambda>w.
     (Ok (find_all e (\<lambda>d. fpBTCPKHex \<in> set (d_FinalityProviderBtcPksHex d)) (w_delegations w) (w_clock w)), w)))"

definition SaveBTCDelegationSlashingTxHex :: "env \<Rightarrow> string \<Rightarrow> string \<Rightarrow> u32 \<Rightarrow> (world, unit) prog" where
  [db_defs]: "SaveBTCDelegationSlashingTxHex e stakingTxHash slashingTxHex spendingHeight = db_call e (\<lambda>w.
     case modify_first (\<lambda>d. d_StakingTxHashHex d = stakingTxHash)
            (\<lambda>d. d\<lparr>d_SlashingTx := (d_SlashingTx d)\<lparr>st_SlashingTxHex := slashingTxHex, st_SpendingHeight := spendingHeight\<rparr>\<rparr>)
            (w_delegations w) of
       None \<Rightarrow> (Err (NotFoundError stakingTxHash ''BTC delegation not found when updating slashing tx hex''), w)
     | Some ds \<Rightarrow> (Ok (), w\<lparr>w_delegations := ds\<rparr>))"

definition SaveBTCDelegationUnbondingSlashingTxHex :: "env \<Rightarrow> string \<Rightarrow> string \<Rightarrow> u32 \<Rightarrow> (world, unit) prog" where
  [db_defs]: "SaveBTCDelegationUnbondingSlashingTxHex e stakingTxHash unbondingSlashingTxHex spendingHeight = db_call e (\<lambda>w.
     case modify_first (\<lambda>d. d_StakingTxHashHex d = stakingTxHash)
            (\<lambda>d. d\<lparr>d_SlashingTx := (d_SlashingTx d)\<lparr>st_UnbondingSlashingTxHex := unbondingSlashingTxHex, st_SpendingHeight := spendingHeight\<rparr>\<rparr>)
            (w_delegations w) of
       None \<Rightarrow> (Err (NotFoundError stakingTxHash ''BTC delegation not found when updating unbonding slashing tx hex''), w)
     | Some ds \<Rightarrow> (Ok (), w\<lparr>w_delegations := ds\<rparr>))"

definition GetBTCDelegationsByStates :: "env \<Rightarrow> DelegationState list \<Rightarrow> (world, BTCDelegationDetails list) prog" where
  [db_defs]: "GetBTCDelegationsByStates e states = db_call e (\<lambda>w.
     (Ok (find_all e (\<lambda>d. d_State d \<in> set states) (w_delegations w) (w_clock w)), w))"

definition GetDelegationsWithEmptyStakerAddress :: "env \<Rightarrow> (world, BTCDelegationDetails list) prog" where
  [db_defs]: "GetDelegationsWithEmptyStakerAddress e = wrap_err ''failed to find delegations'' (db_call e (\<lambda>w.
     (Ok (find_all e (\<lambda>d. d_StakerBabylonAddress d = '''') (w_delegations w) (w_clock w)), w)))"

definition UpdateDelegationStakerBabylonAddress :: "env \<Rightarrow> string \<Rightarrow> string \<Rightarrow> (world, unit) prog" where
  [db_defs]: "UpdateDelegationStakerBabylonAddress e stakingTxHash stakerAddr = db_call e (\<lambda>w.
     (Ok (), update_delegation stakingTxHash (\<lambda>d. d\<lparr>d_StakerBabylonAddress := stakerAddr\<rparr>) w))"

section \<open>Timelocks\<close>

definition SaveNewTimeLockExpire :: "env \<Rightarrow> string \<Rightarrow> u32 \<Rightarrow> DelegationSubState \<Rightarrow> (world, unit) prog" where
  [db_defs]: "SaveNewTimeLockExpire e stakingTxHashHex expireHeight subState = db_call e (\<lambda>w.
     (Ok (), w\<lparr>w_timelocks := w_timelocks w @ [NewTimeLockDocument stakingTxHashHex expireHeight subState]\<rparr>))"

text \<open>
  \<^verbatim>\<open>SetLimit(int64(limit))\<close>: no limit for 0, and the absolute value of a negative one. A height above
  the largest signed value cannot be marshalled.
\<close>

definition take_limit :: "u64 \<Rightarrow> 'd list \<Rightarrow> 'd list" where
  "take_limit limit ds = (if limit = 0 then ds else take (nat \<bar>sint limit\<bar>) ds)"

definition FindExpiredDelegations :: "env \<Rightarrow> u64 \<Rightarrow> u64 \<Rightarrow> (world, TimeLockDocument list) prog" where
  [db_defs]: "FindExpiredDelegations e btcTipHeight limit = db_call e (\<lambda>w.
     if sint btcTipHeight < 0 then (Err (OtherError ''uint64 overflows int64''), w)
     else (Ok (take_limit limit (find_all e (\<lambda>d. unat (tl_ExpireHeight d) \<le> unat btcTipHeight)
                                   (w_timelocks w) (w_clock w))), w))"

text \<open>\<^verbatim>\<open>DeleteOne\<close> removes the document that the server meets first among those that match.\<close>

definition DeleteExpiredDelegation :: "env \<Rightarrow> string \<Rightarrow> (world, unit) prog" where
  [db_defs]: "DeleteExpiredDelegation e stakingTxHashHex =
     andThen
       (wrap_err ''failed to delete expired delegation'' (db_call e (\<lambda>w.
          case find (\<lambda>i. tl_StakingTxHashHex (w_timelocks w ! i) = stakingTxHashHex)
                 (mongo_order e (w_clock w) (length (w_timelocks w))) of
            None \<Rightarrow> (Ok 0, w)
          | Some i \<Rightarrow> (Ok 1, w\<lparr>w_timelocks := remove_at i (w_timelocks w)\<rparr>))))
       (\<lambda>deletedCount.
          if deletedCount = (0::nat) then throw (OtherError ''no expired delegation found with stakingTxHashHex'')
          else ret ())"

section \<open>Finality providers\<close>

definition SaveNewFinalityProvider :: "env \<Rightarrow> FinalityProviderDetails \<Rightarrow> (world, unit) prog" where
  [db_defs]: "SaveNewFinalityProvider e fpDoc = db_call e (\<lambda>w.
     case insert_doc fp_BtcPk fpDoc (w_fps w) of
       None \<Rightarrow> (Err (DuplicateKeyError (fp_BtcPk fpDoc) ''finality provider already exists''), w)
     | Some ds \<Rightarrow> (Ok (), w\<lparr>w_fps := ds\<rparr>))"

definition set_if :: "string \<Rightarrow> string \<Rightarrow> string" where
  "set_if new old = (if new \<noteq> '''' then new else old)"

definition set_details :: "FinalityProviderDetails \<Rightarrow> FinalityProviderDetails \<Rightarrow> FinalityProviderDetails" where
  "set_details new fp = fp
     \<lparr>fp_Commission := set_if (fp_Commission new) (fp_Commission fp),
      fp_Description :=
        \<lparr>ds_Moniker = set_if (ds_Moniker (fp_Description new)) (ds_Moniker (fp_Description fp)),
         ds_Identity = set_if (ds_Identity (fp_Description new)) (ds_Identity (fp_Description fp)),
         ds_Website = set_if (ds_Website (fp_Description new)) (ds_Website (fp_Description fp)),
         ds_SecurityContact = set_if (ds_SecurityContact (fp_Description new)) (ds_SecurityContact (fp_Description fp)),
         ds_Details = set_if (ds_Details (fp_Description new)) (ds_Details (fp_Description fp))\<rparr>\<rparr>"

definition has_details :: "FinalityProviderDetails \<Rightarrow> bool" where
  "has_details new \<longleftrightarrow> fp_Commission new \<noteq> '''' \<or> ds_Moniker (fp_Description new) \<noteq> '''' \<or>
     ds_Identity (fp_Description new) \<noteq> '''' \<or> ds_Website (fp_Description new) \<noteq> '''' \<or>
     ds_SecurityContact (fp_Description new) \<noteq> '''' \<or> ds_Details (fp_Description new) \<noteq> ''''"

definition UpdateFinalityProviderDetailsFromEvent :: "env \<Rightarrow> FinalityProviderDetails \<Rightarrow> (world, unit) prog" where
  [db_defs]: "UpdateFinalityProviderDetailsFromEvent e detailsToUpdate =
     (if has_details detailsToUpdate
      then db_call e (\<lambda>w.
        case update_doc fp_BtcPk (fp_BtcPk detailsToUpdate) (\<lambda>_. True) (set_details detailsToUpdate) (w_fps w) of
          None \<Rightarrow> (Err (NotFoundError (fp_BtcPk detailsToUpdate) ''finality provider not found when updating details''), w)
        | Some ds \<Rightarrow> (Ok (), w\<lparr>w_fps := ds\<rparr>))
      else ret ())"

definition UpdateFinalityProviderState :: "env \<Rightarrow> string \<Rightarrow> string \<Rightarrow> (world, unit) prog" where
  [db_defs]: "UpdateFinalityProviderState e btcPk newState = db_call e (\<lambda>w.
     case update_doc fp_BtcPk btcPk (\<lambda>_. True) (\<lambda>fp. fp\<lparr>fp_State := newState\<rparr>) (w_fps w) of
       None \<Rightarrow> (Err (NotFoundError btcPk ''finality provider not found when updating state''), w)
     | Some ds \<Rightarrow> (Ok (), w\<lparr>w_fps := ds\<rparr>))"

definition GetFinalityProviderByBtcPk :: "env \<Rightarrow> string \<Rightarrow> (world, FinalityProviderDetails) prog" where
  [db_defs]: "GetFinalityProviderByBtcPk e btcPk = db_call e (\<lambda>w.
     case find_doc fp_BtcPk btcPk (w_fps w) of
       None \<Rightarrow> (Err (NotFoundError btcPk ''finality provider not found when getting by btc public key''), w)
     | Some fp \<Rightarrow> (Ok fp, w))"

definition GetAllFinalityProviders :: "env \<Rightarrow> (world, FinalityProviderDetails list) prog" where
  [db_defs]: "GetAllFinalityProviders e = db_call e (\<lambda>w. (Ok (find_all e (\<lambda>_. True) (w_fps w) (w_clock w)), w))"

section \<open>Global parameters, heights, network\<close>

text \<open>
  The \<^verbatim>\<open>_id\<close> of a parameter document is new each time. Only a unique index on the type and the version, that the setup asks for
  at the start, makes the server refuse a second document of a version.
\<close>

definition SaveStakingParams :: "env \<Rightarrow> u32 \<Rightarrow> StakingParams \<Rightarrow> (world, unit) prog" where
  [db_defs]: "SaveStakingParams e version params = db_call e (\<lambda>w.
     case (if params_index e then insert_doc fst (version, params) (w_staking_params w)
           else Some (w_staking_params w @ [(version, params)])) of
       None \<Rightarrow> (Err (DuplicateKeyError '''' ''duplicate key error''), w)
     | Some ds \<Rightarrow> (Ok (), w\<lparr>w_staking_params := ds\<rparr>))"

definition GetStakingParams :: "env \<Rightarrow> u32 \<Rightarrow> (world, StakingParams) prog" where
  [db_defs]: "GetStakingParams e version = wrap_err ''failed to get staking params'' (db_call e (\<lambda>w.
     case find_doc fst version (w_staking_params w) of
       None \<Rightarrow> (Err (OtherError ''mongo: no documents in result''), w)
     | Some doc \<Rightarrow> (Ok (snd doc), w)))"

definition SaveCheckpointParams :: "env \<Rightarrow> CheckpointParams \<Rightarrow> (world, unit) prog" where
  [db_defs]: "SaveCheckpointParams e params = db_call e (\<lambda>w. (Ok (), w\<lparr>w_checkpoint_params := Some params\<rparr>))"

definition GetCheckpointParams :: "env \<Rightarrow> (world, CheckpointParams) prog" where
  [db_defs]: "GetCheckpointParams e = wrap_err ''failed to get checkpoint params'' (db_call e (\<lambda>w.
     case w_checkpoint_params w of
       None \<Rightarrow> (Err (OtherError ''mongo: no documents in result''), w)
     | Some params \<Rightarrow> (Ok params, w)))"

definition GetLastProcessedBbnHeight :: "env \<Rightarrow> (world, u64) prog" where
  [db_defs]: "GetLastProcessedBbnHeight e = db_call e (\<lambda>w.
     case w_last_height w of None \<Rightarrow> (Ok 0, w) | Some height \<Rightarrow> (Ok height, w))"

definition UpdateLastProcessedBbnHeight :: "env \<Rightarrow> u64 \<Rightarrow> (world, unit) prog" where
  [db_defs]: "UpdateLastProcessedBbnHeight e height = db_call e (\<lambda>w. (Ok (), w\<lparr>w_last_height := Some height\<rparr>))"

definition GetNetworkInfo :: "env \<Rightarrow> (world, NetworkInfo) prog" where
  [db_defs]: "GetNetworkInfo e = db_call e (\<lambda>w.
     case w_network w of
       None \<Rightarrow> (Err (NotFoundError ''singleton'' ''network info not found''), w)
     | Some info \<Rightarrow> (Ok info, w))"

definition UpsertNetworkInfo :: "env \<Rightarrow> NetworkInfo \<Rightarrow> (world, unit) prog" where
  [db_defs]: "UpsertNetworkInfo e networkInfo = db_call e (\<lambda>w. (Ok (), w\<lparr>w_network := Some networkInfo\<rparr>))"

section \<open>Statistics\<close>

text \<open>
  The sums are words of 64 bits. MongoDB would turn a sum that leaves the signed range into a double, and the driver refuses to
  store a \<^verbatim>\<open>uint64\<close> above the largest \<^verbatim>\<open>int64\<close>; with at most 21 million bitcoins, about \<open>2 ^ 51\<close> satoshis, neither can happen.
\<close>

definition UpsertOverallStats :: "env \<Rightarrow> u64 \<Rightarrow> u64 \<Rightarrow> (world, unit) prog" where
  [db_defs]: "UpsertOverallStats e activeTvl activeDelegations = db_call e (\<lambda>w.
     (Ok (), w\<lparr>w_overall_stats := Some \<lparr>os_ActiveTvl = activeTvl, os_ActiveDelegations = activeDelegations\<rparr>\<rparr>))"

definition UpsertFinalityProviderStats :: "env \<Rightarrow> string \<Rightarrow> u64 \<Rightarrow> u64 \<Rightarrow> (world, unit) prog" where
  [db_defs]: "UpsertFinalityProviderStats e fpBtcPkHex activeTvl activeDelegations = db_call e (\<lambda>w.
     (Ok (), w\<lparr>w_fp_stats := upsert_doc fs_FpBtcPkHex
        \<lparr>fs_FpBtcPkHex = fpBtcPkHex, fs_ActiveTvl = activeTvl, fs_ActiveDelegations = activeDelegations\<rparr> (w_fp_stats w)\<rparr>))"

text \<open>The stages of the aggregation pipelines: match, unwind with \<^verbatim>\<open>$toLower\<close>, group.\<close>

definition match_active :: "BTCDelegationDetails list \<Rightarrow> BTCDelegationDetails list" where
  "match_active ds = filter (\<lambda>d. d_State d = StateActive) ds"

definition ascii_lower :: "char \<Rightarrow> char" where
  "ascii_lower c = (let n = of_char c :: nat in if 65 \<le> n \<and> n \<le> 90 then char_of (n + 32) else c)"

definition toLower :: "string \<Rightarrow> string" where
  "toLower s = map ascii_lower s"

definition unwind_fps :: "BTCDelegationDetails list \<Rightarrow> (string \<times> u64) list" where
  "unwind_fps ds = concat (map (\<lambda>d. map (\<lambda>fp. (toLower fp, d_StakingAmount d)) (d_FinalityProviderBtcPksHex d)) ds)"

definition group_fps :: "(string \<times> u64) list \<Rightarrow> FinalityProviderStatsDocument list" where
  "group_fps rows = map (\<lambda>k. let amounts = map snd (filter (\<lambda>r. fst r = k) rows) in
      \<lparr>fs_FpBtcPkHex = k, fs_ActiveTvl = sum_list amounts, fs_ActiveDelegations = word_of_nat (length amounts)\<rparr>)
     (remdups (map fst rows))"

definition CalculateActiveStatsAggregated ::
  "env \<Rightarrow> (world, u64 \<times> u64 \<times> FinalityProviderStatsDocument list) prog" where
  [db_defs]: "CalculateActiveStatsAggregated e =
     andThen (db_call e (\<lambda>w.
       let active = match_active (w_delegations w) in
       (Ok (sum_list (map d_StakingAmount active), word_of_nat (length active)), w)))
     (\<lambda>(overallTvl, overallDelegations).
       if overallDelegations = 0 then ret (0, 0, [])
       else andThen (db_call e (\<lambda>w.
              (Ok (find_all e (\<lambda>_. True) (group_fps (unwind_fps (match_active (w_delegations w)))) (w_clock w)), w)))
            (\<lambda>fpStats. ret (overallTvl, overallDelegations, fpStats)))"

end
