(* ===== verification/Chain_Clients.thy ===== *)
theory Chain_Clients
  imports Database
begin

text \<open>
  \<^verbatim>\<open>internal/clients/btcclient\<close> and \<^verbatim>\<open>internal/clients/bbnclient\<close>: the retries around the remote calls, the
  enumeration of the staking parameters, and the conversions of their answers.
\<close>

section \<open>Retries\<close>

text \<open>
  The documented behaviour of \<^verbatim>\<open>retry.DoWithData\<close> with \<^verbatim>\<open>LastErrorOnly(true)\<close>: the error of the last attempt
  is the result when all fail. The number of attempts is positive in a valid configuration.
\<close>

primrec retry_last :: "nat \<Rightarrow> ('w, 'a) prog \<Rightarrow> ('w, 'a) prog" where
  "retry_last 0 p = p"
| "retry_last (Suc n) p = on_error p (\<lambda>_. retry_last n p)"

definition clientCallWithRetry :: "nat \<Rightarrow> (world, 'a) prog \<Rightarrow> (world, 'a) prog" where
  "clientCallWithRetry maxRetryTimes call = retry_last (maxRetryTimes - 1) call"

section \<open>The Bitcoin client\<close>

definition GetTipHeight :: "env \<Rightarrow> (world, u64) prog" where
  "GetTipHeight e =
     wrap_err ''failed to get block count'' (clientCallWithRetry (cfg_BTC_MaxRetryTimes e) (ask (\<lambda>t. btc_GetBlockCount e t)))"

definition GetBlockTimestamp :: "env \<Rightarrow> u32 \<Rightarrow> (world, i64) prog" where
  "GetBlockTimestamp e height =
     wrap_err ''failed to get block timestamp'' (clientCallWithRetry (cfg_BTC_MaxRetryTimes e)
       (andThen (wrap_err ''failed to get block hash at height'' (ask (\<lambda>t. btc_GetBlockHash e t (ucast height)))) (\<lambda>hash.
        wrap_err ''failed to get block at height'' (ask (\<lambda>t. btc_GetBlock e t hash)))))"

section \<open>The Babylon client\<close>

definition getStatus :: "env \<Rightarrow> (world, string \<times> i64) prog" where
  "getStatus e = wrap_err ''failed to get status'' (clientCallWithRetry (cfg_BBN_MaxRetryTimes e) (ask (\<lambda>t. rpc_Status e t)))"

definition GetChainID :: "env \<Rightarrow> (world, string) prog" where
  "GetChainID e = andThen (getStatus e) (\<lambda>status. ret (fst status))"

definition GetLatestBlockNumber :: "env \<Rightarrow> (world, i64) prog" where
  "GetLatestBlockNumber e = andThen (getStatus e) (\<lambda>status. ret (snd status))"

definition FromBbnCheckpointParams :: "BbnCheckpointParams \<Rightarrow> CheckpointParams" where
  "FromBbnCheckpointParams params =
     \<lparr>cp_BtcConfirmationDepth = bcp_BtcConfirmationDepth params,
      cp_CheckpointFinalizationTimeout = bcp_CheckpointFinalizationTimeout params,
      cp_CheckpointTag = bcp_CheckpointTag params\<rparr>"

definition FromBbnStakingParams :: "BbnStakingParams \<Rightarrow> StakingParams" where
  "FromBbnStakingParams params =
     \<lparr>sp_CovenantPks = bsp_CovenantPksHex params,
      sp_CovenantQuorum = bsp_CovenantQuorum params,
      sp_MinStakingValueSat = bsp_MinStakingValueSat params,
      sp_MaxStakingValueSat = bsp_MaxStakingValueSat params,
      sp_MinStakingTimeBlocks = bsp_MinStakingTimeBlocks params,
      sp_MaxStakingTimeBlocks = bsp_MaxStakingTimeBlocks params,
      sp_SlashingPkScript = hex_EncodeToString (bsp_SlashingPkScript params),
      sp_MinSlashingTxFeeSat = bsp_MinSlashingTxFeeSat params,
      sp_SlashingRate = bsp_SlashingRate params,
      sp_UnbondingTimeBlocks = bsp_UnbondingTimeBlocks params,
      sp_UnbondingFeeSat = bsp_UnbondingFeeSat params,
      sp_MinCommissionRate = bsp_MinCommissionRate params,
      sp_DelegationCreationBaseGasFee = bsp_DelegationCreationBaseGasFee params,
      sp_AllowListExpirationHeight = bsp_AllowListExpirationHeight params,
      sp_BtcActivationHeight = bsp_BtcActivationHeight params\<rparr>"

definition GetCheckpointParams_rpc :: "env \<Rightarrow> (world, CheckpointParams) prog" where
  "GetCheckpointParams_rpc e =
     andThen (clientCallWithRetry (cfg_BBN_MaxRetryTimes e) (ask (\<lambda>t. rpc_BTCCheckpointParams e t))) (\<lambda>params.
       case lib_ValidateCheckpointParams e params of
         Some msg \<Rightarrow> throw (OtherError msg)
       | None \<Rightarrow> ret (FromBbnCheckpointParams params))"

text \<open>The text of an error and the test for a substring.\<close>

fun error_text :: "error \<Rightarrow> string" where
  "error_text (NotFoundError key msg) = msg @ '': '' @ key"
| "error_text (DuplicateKeyError key msg) = msg"
| "error_text ErrFinalityProviderAlreadySlashed = ''finality provider is already slashed, cannot change state, ignoring event''"
| "error_text ErrInvalidUnbondingTx = ''invalid unbonding tx''"
| "error_text (Wrapped msg err) = msg @ '': '' @ error_text err"
| "error_text (JoinedErrors errs) = concat (map (\<lambda>err. error_text err @ [CHR 0x0A]) errs)"
| "error_text (OtherError msg) = msg"

definition prefix_of :: "string \<Rightarrow> string \<Rightarrow> bool" where
  "prefix_of p s \<longleftrightarrow> take (length p) s = p"

fun contains :: "string \<Rightarrow> string \<Rightarrow> bool" where
  "contains [] sub \<longleftrightarrow> sub = []"
| "contains (c # cs) sub \<longleftrightarrow> prefix_of sub (c # cs) \<or> contains cs sub"

definition isParamsNotFoundError :: "env \<Rightarrow> error \<Rightarrow> bool" where
  "isParamsNotFoundError e err \<longleftrightarrow>
     contains (error_text err) (lib_ErrParamsNotFound e) \<or>
     contains (error_text err) ''does not exist'' \<or>
     contains (error_text err) ''parameters are not found''"

text \<open>
  The loop over the versions. It ends at the first version that does not exist; the fuel bounds the
  number of versions that are asked for.
\<close>

primrec GetStakingParams_from ::
  "nat \<Rightarrow> env \<Rightarrow> u32 \<Rightarrow> (u32 \<times> StakingParams option) list \<Rightarrow> (world, (u32 \<times> StakingParams option) list) prog" where
  "GetStakingParams_from 0 e version allParams = throw (OtherError ''out of fuel'')"
| "GetStakingParams_from (Suc n) e version allParams =
     andThen (attempt (ask (\<lambda>t. rpc_BTCStakingParamsByVersion e t version))) (\<lambda>first.
       case first of
         Inr params \<Rightarrow>
           GetStakingParams_from n e (version + 1) (upsert_doc fst (version, Some (FromBbnStakingParams params)) allParams)
       | Inl err \<Rightarrow>
           if isParamsNotFoundError e err then ret allParams
           else andThen (attempt (clientCallWithRetry (cfg_BBN_MaxRetryTimes e)
                  (ask (\<lambda>t. rpc_BTCStakingParamsByVersion e t version)))) (\<lambda>second.
             case second of
               Inr params \<Rightarrow>
                 GetStakingParams_from n e (version + 1) (upsert_doc fst (version, Some (FromBbnStakingParams params)) allParams)
             | Inl err \<Rightarrow>
                 if isParamsNotFoundError e err then ret allParams
                 else throw (Wrapped ''failed to get staking params for version'' err)))"

definition GetStakingParams_rpc :: "nat \<Rightarrow> env \<Rightarrow> u32 \<Rightarrow> (world, (u32 \<times> StakingParams option) list) prog" where
  "GetStakingParams_rpc fuel e minVersion = GetStakingParams_from fuel e minVersion []"

definition GetAllStakingParams :: "nat \<Rightarrow> env \<Rightarrow> (world, (u32 \<times> StakingParams option) list) prog" where
  "GetAllStakingParams fuel e = GetStakingParams_rpc fuel e 0"

definition GetBlockResults :: "env \<Rightarrow> i64 \<Rightarrow> (world, AbciEvent list list \<times> AbciEvent list) prog" where
  "GetBlockResults e blockHeight =
     clientCallWithRetry (cfg_BBN_MaxRetryTimes e) (ask (\<lambda>t. rpc_BlockResults e t blockHeight))"

definition BabylonStakerAddress :: "env \<Rightarrow> string \<Rightarrow> (world, string) prog" where
  "BabylonStakerAddress e stakingTxHashHex =
     clientCallWithRetry (cfg_BBN_MaxRetryTimes e) (ask (\<lambda>t. rpc_BTCDelegation e t stakingTxHashHex))"

text \<open>Of the block only the time is read.\<close>

definition GetBlock :: "env \<Rightarrow> i64 \<Rightarrow> (world, i64) prog" where
  "GetBlock e blockHeight = clientCallWithRetry (cfg_BBN_MaxRetryTimes e) (ask (\<lambda>t. rpc_Block e t blockHeight))"

end
