(* ===== verification/World_Invariant.thy ===== *)
theory World_Invariant
  imports Chain_Clients "HOL-Library.Sublist"
begin

text \<open>
  What holds of the shared state at every moment (\<open>good\<close>), how it may change from one moment to another
  (\<open>below\<close>), and that every operation on the state respects both.
\<close>

section \<open>The life of a delegation\<close>

text \<open>
  The abstract state machine: \<open>legal s s' sub\<close> says that a delegation may go from the state \<open>s\<close> to the
  state \<open>s'\<close> with the sub-state \<open>sub\<close>.
\<close>

abbreviation slashing_sub :: "DelegationSubState \<Rightarrow> bool" where
  "slashing_sub sub \<equiv> sub = SubStateTimelockSlashing \<or> sub = SubStateEarlyUnbondingSlashing"

abbreviation unbonding_sub :: "DelegationSubState \<Rightarrow> bool" where
  "unbonding_sub sub \<equiv> sub = SubStateTimelock \<or> sub = SubStateEarlyUnbonding"

fun legal :: "DelegationState \<Rightarrow> DelegationState \<Rightarrow> DelegationSubState \<Rightarrow> bool" where
  "legal s StatePending sub \<longleftrightarrow> s = StatePending \<and> sub = NoSubState"
| "legal s StateVerified sub \<longleftrightarrow> s = StatePending \<and> sub = NoSubState"
| "legal s StateActive sub \<longleftrightarrow> (s = StatePending \<or> s = StateVerified) \<and> sub = NoSubState"
| "legal s StateUnbonding sub \<longleftrightarrow>
     (s = StateActive \<and> unbonding_sub sub) \<or> (s = StateUnbonding \<and> sub = SubStateEarlyUnbonding)"
| "legal s StateExpanded sub \<longleftrightarrow> (s = StateActive \<or> s = StateUnbonding) \<and> sub = SubStateEarlyUnbonding"
| "legal s StateSlashed sub \<longleftrightarrow> (s = StateActive \<or> s = StateUnbonding \<or> s = StateWithdrawable) \<and> slashing_sub sub"
| "legal s StateWithdrawable sub \<longleftrightarrow> (s = StateUnbonding \<and> unbonding_sub sub) \<or> (s = StateSlashed \<and> slashing_sub sub)"
| "legal s StateWithdrawn sub \<longleftrightarrow>
     (s = StateActive \<or> s = StateUnbonding \<or> s = StateWithdrawable \<or> s = StateSlashed) \<and>
     (unbonding_sub sub \<or> slashing_sub sub)"
| "legal s (StateOther t) sub \<longleftrightarrow> False"

definition terminal :: "DelegationState \<Rightarrow> bool" where
  "terminal s \<longleftrightarrow> s = StateWithdrawn \<or> s = StateExpanded"

lemma terminal_no_step: "terminal s \<Longrightarrow> \<not> legal s s' sub"
  by (cases s') (auto simp: terminal_def)

definition legal_step :: "StateRecord \<Rightarrow> StateRecord \<Rightarrow> bool" where
  "legal_step r1 r2 = legal (sr_State r1) (sr_State r2) (sr_SubState r2)"

definition history_ok :: "StateRecord list \<Rightarrow> bool" where
  "history_ok h \<longleftrightarrow>
     h \<noteq> [] \<and> sr_State (hd h) = StatePending \<and> sr_SubState (hd h) = NoSubState \<and> successively legal_step h"

definition wf_delegation :: "BTCDelegationDetails \<Rightarrow> bool" where
  "wf_delegation d \<longleftrightarrow> history_ok (d_StateHistory d) \<and> d_State d = sr_State (last (d_StateHistory d)) \<and>
     d_SubState d = sr_SubState (last (d_StateHistory d))"

lemma history_ok_snoc:
  "history_ok h \<Longrightarrow> history_ok (h @ [r]) \<longleftrightarrow> legal_step (last h) r"
  by (auto simp: history_ok_def successively_append_iff)

lemma successively_last:
  "successively R xs \<Longrightarrow> x \<in> set xs \<Longrightarrow> x = hd xs \<or> (\<exists>y \<in> set xs. R y x)"
  by (induction xs rule: induct_list012) auto

lemma history_okE:
  assumes "history_ok h" "r \<in> set h"
  obtains (first) "sr_State r = StatePending" "sr_SubState r = NoSubState"
  | (step) q where "q \<in> set h" "legal (sr_State q) (sr_State r) (sr_SubState r)"
proof -
  from assms have "r = hd h \<or> (\<exists>q \<in> set h. legal_step q r)"
    by (intro successively_last) (simp_all add: history_ok_def)
  then show thesis
  proof
    assume "r = hd h"
    with assms show thesis by (intro first) (simp_all add: history_ok_def)
  next
    assume "\<exists>q \<in> set h. legal_step q r"
    then show thesis by (auto simp: legal_step_def intro: step)
  qed
qed

lemma history_ok_sub:
  assumes "history_ok h" "r \<in> set h"
  shows "sr_State r = StatePending \<or> sr_State r = StateVerified \<or> sr_State r = StateActive \<Longrightarrow> sr_SubState r = NoSubState"
    and "sr_State r = StateSlashed \<Longrightarrow> slashing_sub (sr_SubState r)"
    and "sr_State r = StateUnbonding \<Longrightarrow> unbonding_sub (sr_SubState r)"
    and "sr_State r = StateExpanded \<Longrightarrow> sr_SubState r = SubStateEarlyUnbonding"
    and "sr_State r = StateWithdrawable \<or> sr_State r = StateWithdrawn \<Longrightarrow> unbonding_sub (sr_SubState r) \<or> slashing_sub (sr_SubState r)"
    and "sr_State r \<noteq> StateOther t"
  using assms by (auto elim: history_okE)

lemma history_ok_terminal:
  assumes "history_ok h'" "prefix h h'" "h \<noteq> []" "terminal (sr_State (last h))"
  shows "h' = h"
proof -
  from assms(2) obtain rest where h': "h' = h @ rest" by (auto simp: prefix_def)
  show ?thesis
  proof (cases rest)
    case Nil
    with h' show ?thesis by simp
  next
    case (Cons r rs)
    with assms(1,3) h' have "legal (sr_State (last h)) (sr_State r) (sr_SubState r)"
      by (auto simp: history_ok_def successively_append_iff legal_step_def)
    with assms(4) show ?thesis using terminal_no_step by blast
  qed
qed

section \<open>The order\<close>

text \<open>
  \<open>older d d'\<close>: \<open>d'\<close> is the document \<open>d\<close> at a later moment. The fields that come from the creation of the
  delegation are the same, an address of the staker is not lost, the history and the covenant signatures have only
  grown.
\<close>

definition older :: "BTCDelegationDetails \<Rightarrow> BTCDelegationDetails \<Rightarrow> bool" where
  "older d d' \<longleftrightarrow>
     d_StakingTxHashHex d' = d_StakingTxHashHex d \<and> d_StakingTxHex d' = d_StakingTxHex d \<and>
     d_StakingTime d' = d_StakingTime d \<and> d_StakingAmount d' = d_StakingAmount d \<and>
     d_StakingOutputIdx d' = d_StakingOutputIdx d \<and> d_StakerBtcPkHex d' = d_StakerBtcPkHex d \<and>
     d_FinalityProviderBtcPksHex d' = d_FinalityProviderBtcPksHex d \<and>
     d_ParamsVersion d' = d_ParamsVersion d \<and> d_UnbondingTime d' = d_UnbondingTime d \<and>
     d_UnbondingTx d' = d_UnbondingTx d \<and> d_BTCDelegationCreatedBlock d' = d_BTCDelegationCreatedBlock d \<and>
     d_PreviousStakingTxHashHex d' = d_PreviousStakingTxHashHex d \<and>
     (d_StakerBabylonAddress d \<noteq> '''' \<longrightarrow> d_StakerBabylonAddress d' \<noteq> '''') \<and>
     prefix (d_StateHistory d) (d_StateHistory d') \<and> prefix (d_CovenantSignatures d) (d_CovenantSignatures d')"

lemma older_refl [simp]: "older d d"
  by (simp add: older_def)

lemma older_trans: "older c d \<Longrightarrow> older d e \<Longrightarrow> older c e"
  by (auto simp: older_def intro: prefix_order.trans)

lemma older_key: "older d d' \<Longrightarrow> d_StakingTxHashHex d' = d_StakingTxHashHex d"
  by (simp add: older_def)

definition same_fp :: "FinalityProviderDetails \<Rightarrow> FinalityProviderDetails \<Rightarrow> bool" where
  "same_fp fp fp' \<longleftrightarrow> fp_BtcPk fp' = fp_BtcPk fp \<and> fp_BabylonAddress fp' = fp_BabylonAddress fp"

definition known :: "world \<Rightarrow> BTCDelegationDetails \<Rightarrow> bool" where
  "known w d \<longleftrightarrow> (\<exists>d' \<in> set (w_delegations w). older d d')"

definition below :: "world \<Rightarrow> world \<Rightarrow> bool" where
  "below w w' \<longleftrightarrow>
     (\<forall>d \<in> set (w_delegations w). known w' d) \<and>
     (\<forall>fp \<in> set (w_fps w). \<exists>fp' \<in> set (w_fps w'). same_fp fp fp') \<and>
     prefix (w_staking_params w) (w_staking_params w') \<and>
     prefix (w_queue w) (w_queue w') \<and> w_clock w \<le> w_clock w'"

lemma known_self: "d \<in> set (w_delegations w) \<Longrightarrow> known w d"
  unfolding known_def by (rule bexI [of _ d]) simp_all

lemma known_mono: "below w w' \<Longrightarrow> known w d \<Longrightarrow> known w' d"
  by (auto simp: below_def known_def) (meson older_trans)

lemma below_refl [simp]: "below w w"
  by (auto simp: below_def known_self same_fp_def)

lemma below_trans:
  assumes "below u v" "below v w"
  shows "below u w"
proof -
  have fps: "\<exists>fp' \<in> set (w_fps w). same_fp fp fp'" if fp: "fp \<in> set (w_fps u)" for fp
  proof -
    obtain fq where "fq \<in> set (w_fps v)" "same_fp fp fq" using assms(1) fp by (auto simp: below_def)
    moreover from this obtain fr where "fr \<in> set (w_fps w)" "same_fp fq fr" using assms(2) by (auto simp: below_def)
    ultimately show ?thesis by (auto simp: same_fp_def)
  qed
  have ds: "known w d" if "d \<in> set (w_delegations u)" for d
    using assms that known_mono by (auto simp: below_def)
  show ?thesis
    using assms fps ds by (auto simp: below_def intro: prefix_order.trans)
qed

section \<open>The invariant\<close>

definition hashes :: "world \<Rightarrow> string set" where
  "hashes w = d_StakingTxHashHex ` set (w_delegations w)"

definition queued :: "world \<Rightarrow> StakingEventType \<Rightarrow> string \<Rightarrow> bool" where
  "queued w ty h \<longleftrightarrow> (\<exists>ev \<in> set (w_queue w). se_EventType ev = ty \<and> se_StakingTxHashHex ev = h)"

text \<open>Some earlier call to the Bitcoin node has answered with a tip at or above the height.\<close>

definition tip_seen :: "env \<Rightarrow> world \<Rightarrow> u32 \<Rightarrow> bool" where
  "tip_seen e w height \<longleftrightarrow>
     (\<exists>t < w_clock w. \<exists>count. btc_GetBlockCount e t = Inr count \<and> unat height \<le> unat count)"

text \<open>What has happened before a record is written to a history.\<close>

definition evidence :: "env \<Rightarrow> world \<Rightarrow> string \<Rightarrow> StateRecord \<Rightarrow> bool" where
  "evidence e w h r \<longleftrightarrow>
     (sr_State r = StateActive \<longrightarrow> queued w ActiveStakingEventType h) \<and>
     (sr_State r = StateExpanded \<or> sr_State r = StateUnbonding \<and> sr_SubState r = SubStateTimelock \<or>
      sr_State r = StateSlashed \<and> sr_SubState r = SubStateTimelockSlashing \<longrightarrow> queued w UnbondingStakingEventType h) \<and>
     (sr_State r = StateWithdrawable \<longrightarrow> tip_seen e w (sr_BtcHeight r))"

definition timelock_ok :: "world \<Rightarrow> TimeLockDocument \<Rightarrow> bool" where
  "timelock_ok w lock \<longleftrightarrow> tl_StakingTxHashHex lock \<in> hashes w \<and>
     (unbonding_sub (tl_DelegationSubState lock) \<or> slashing_sub (tl_DelegationSubState lock))"

fun watch_ok :: "world \<Rightarrow> Watch \<Rightarrow> bool" where
  "watch_ok w (WatchStaking h) \<longleftrightarrow> h \<in> hashes w"
| "watch_ok w (WatchUnbonding d) \<longleftrightarrow> known w d"
| "watch_ok w (WatchSlashingChange d sub) \<longleftrightarrow> known w d \<and> slashing_sub sub"

definition delegation_ok :: "env \<Rightarrow> world \<Rightarrow> BTCDelegationDetails \<Rightarrow> bool" where
  "delegation_ok e w d \<longleftrightarrow> wf_delegation d \<and> (\<forall>r \<in> set (d_StateHistory d). evidence e w (d_StakingTxHashHex d) r)"

definition good :: "env \<Rightarrow> world \<Rightarrow> bool" where
  "good e w \<longleftrightarrow>
     distinct (map d_StakingTxHashHex (w_delegations w)) \<and>
     distinct (map fp_BtcPk (w_fps w)) \<and>
     (params_index e \<longrightarrow> distinct (map fst (w_staking_params w))) \<and>
     (\<forall>d \<in> set (w_delegations w). delegation_ok e w d) \<and>
     (\<forall>lock \<in> set (w_timelocks w). timelock_ok w lock) \<and>
     (\<forall>job \<in> set (w_jobs w). watch_ok w (job_Watch job)) \<and>
     (\<forall>x \<in> set (w_watches w). watch_ok w (snd x))"

text \<open>Facts that no other goroutine can make false.\<close>

lemma known_hash: "known w d \<Longrightarrow> d_StakingTxHashHex d \<in> hashes w"
  by (auto simp: known_def hashes_def dest: older_key) (metis image_eqI older_key)

lemma hashes_mono: "below w w' \<Longrightarrow> h \<in> hashes w \<Longrightarrow> h \<in> hashes w'"
  by (auto simp: hashes_def below_def) (metis hashes_def known_hash)

lemma queued_mono: "below w w' \<Longrightarrow> queued w ty h \<Longrightarrow> queued w' ty h"
  unfolding below_def queued_def using set_mono_prefix by blast

lemma tip_seen_mono: "below w w' \<Longrightarrow> tip_seen e w height \<Longrightarrow> tip_seen e w' height"
  by (auto simp: below_def tip_seen_def) (meson less_le_trans)

lemma evidence_mono: "below w w' \<Longrightarrow> evidence e w h r \<Longrightarrow> evidence e w' h r"
  by (auto simp: evidence_def dest: queued_mono tip_seen_mono)

lemma delegation_ok_mono: "below w w' \<Longrightarrow> delegation_ok e w d \<Longrightarrow> delegation_ok e w' d"
  by (auto simp: delegation_ok_def dest: evidence_mono)

lemma timelock_ok_mono: "below w w' \<Longrightarrow> timelock_ok w lock \<Longrightarrow> timelock_ok w' lock"
  by (auto simp: timelock_ok_def dest: hashes_mono)

lemma watch_ok_mono: "below w w' \<Longrightarrow> watch_ok w x \<Longrightarrow> watch_ok w' x"
  by (cases x) (auto dest: hashes_mono known_mono)

lemmas stable_mono =
  known_mono hashes_mono queued_mono tip_seen_mono evidence_mono delegation_ok_mono timelock_ok_mono watch_ok_mono

interpretation world: rely_guarantee below "good e" for e
  by unfold_locales (auto intro: below_trans)

abbreviation guar :: "env \<Rightarrow> (world \<Rightarrow> 'a \<Rightarrow> bool) \<Rightarrow> world \<Rightarrow> (world, 'a) prog \<Rightarrow> bool" where
  "guar e \<equiv> complies below (good e)"

end
