(* ===== verification/Json_Scanner.thy ===== *)
theory Json_Scanner
  imports Main
begin

text \<open>
  \<^verbatim>\<open>json.Valid\<close> of Go's standard library, which decides how the attributes of an event are quoted
  (\<^verbatim>\<open>sanitizeEvent\<close> of \<^verbatim>\<open>internal/services/events.go\<close>): a scanner that takes one byte after the other, with a stack of
  the objects and arrays that are open.
\<close>

datatype open_value = ObjectKey | ObjectValue | ArrayValue

datatype scan_state =
    BeginValueOrEmpty | BeginValue | BeginStringOrEmpty | BeginString | EndValue | EndTop
  | InString | InStringEsc | InStringEscU nat | Neg | Digits | Zero | Dot | DotDigits | Exp | ExpSign | ExpDigits
  | Literal string

type_synonym scanner = "scan_state \<times> open_value list"

abbreviation json_byte :: "char \<Rightarrow> nat" where "json_byte c \<equiv> of_char c"

definition isSpace :: "char \<Rightarrow> bool" where
  "isSpace c \<longleftrightarrow> json_byte c \<in> {0x20, 0x09, 0x0D, 0x0A}"

definition json_digit :: "char \<Rightarrow> bool" where
  "json_digit c \<longleftrightarrow> 48 \<le> json_byte c \<and> json_byte c \<le> 57"

definition json_hex :: "char \<Rightarrow> bool" where
  "json_hex c \<longleftrightarrow> json_digit c \<or> (97 \<le> json_byte c \<and> json_byte c \<le> 102) \<or> (65 \<le> json_byte c \<and> json_byte c \<le> 70)"

definition maxNestingDepth :: nat where "maxNestingDepth = 10000"

text \<open>After a value: at the top level the scan is over, otherwise a separator or a closing bracket follows.\<close>

definition json_popped :: "open_value list \<Rightarrow> scanner" where
  "json_popped st = (if st = [] then (EndTop, []) else (EndValue, st))"

definition end_value :: "char \<Rightarrow> open_value list \<Rightarrow> scanner option" where
  "end_value c st =
     (case st of
        [] \<Rightarrow> if isSpace c then Some (EndTop, []) else None
      | v # below \<Rightarrow>
          if isSpace c then Some (EndValue, st)
          else (case v of
                  ObjectKey \<Rightarrow> if c = CHR '':'' then Some (BeginValue, ObjectValue # below) else None
                | ObjectValue \<Rightarrow> if c = CHR '','' then Some (BeginString, ObjectKey # below)
                    else if c = CHR 0x7D then Some (json_popped below) else None
                | ArrayValue \<Rightarrow> if c = CHR '','' then Some (BeginValue, st)
                    else if c = CHR 0x5D then Some (json_popped below) else None))"

definition json_pushed :: "scan_state \<Rightarrow> open_value \<Rightarrow> open_value list \<Rightarrow> scanner option" where
  "json_pushed state v st = (if length st < maxNestingDepth then Some (state, v # st) else None)"

definition begin_value :: "char \<Rightarrow> open_value list \<Rightarrow> scanner option" where
  "begin_value c st =
     (if isSpace c then Some (BeginValue, st)
      else if c = CHR 0x7B then json_pushed BeginStringOrEmpty ObjectKey st
      else if c = CHR 0x5B then json_pushed BeginValueOrEmpty ArrayValue st
      else if c = CHR 0x22 then Some (InString, st)
      else if c = CHR ''-'' then Some (Neg, st)
      else if c = CHR ''0'' then Some (Zero, st)
      else if c = CHR ''t'' then Some (Literal ''rue'', st)
      else if c = CHR ''f'' then Some (Literal ''alse'', st)
      else if c = CHR ''n'' then Some (Literal ''ull'', st)
      else if json_digit c then Some (Digits, st)
      else None)"

definition begin_string :: "char \<Rightarrow> open_value list \<Rightarrow> scanner option" where
  "begin_string c st =
     (if isSpace c then Some (BeginString, st) else if c = CHR 0x22 then Some (InString, st) else None)"

text \<open>What may follow the digits of a number.\<close>

definition after_integer :: "char \<Rightarrow> open_value list \<Rightarrow> scanner option" where
  "after_integer c st =
     (if c = CHR ''.'' then Some (Dot, st) else if c \<in> {CHR ''e'', CHR ''E''} then Some (Exp, st) else end_value c st)"

fun json_step :: "char \<Rightarrow> scanner \<Rightarrow> scanner option" where
  "json_step c (BeginValueOrEmpty, st) =
     (if isSpace c then Some (BeginValueOrEmpty, st) else if c = CHR 0x5D then end_value c st else begin_value c st)"
| "json_step c (BeginValue, st) = begin_value c st"
| "json_step c (BeginStringOrEmpty, st) =
     (if isSpace c then Some (BeginStringOrEmpty, st)
      else if c = CHR 0x7D then end_value c (ObjectValue # tl st) else begin_string c st)"
| "json_step c (BeginString, st) = begin_string c st"
| "json_step c (EndValue, st) = end_value c st"
| "json_step c (EndTop, st) = (if isSpace c then Some (EndTop, st) else None)"
| "json_step c (InString, st) =
     (if c = CHR 0x22 then Some (EndValue, st) else if c = CHR 0x5C then Some (InStringEsc, st)
      else if json_byte c < 0x20 then None else Some (InString, st))"
| "json_step c (InStringEsc, st) =
     (if c \<in> {CHR ''b'', CHR ''f'', CHR ''n'', CHR ''r'', CHR ''t'', CHR 0x5C, CHR ''/'', CHR 0x22} then Some (InString, st)
      else if c = CHR ''u'' then Some (InStringEscU 3, st) else None)"
| "json_step c (InStringEscU n, st) =
     (if json_hex c then Some (case n of 0 \<Rightarrow> InString | Suc m \<Rightarrow> InStringEscU m, st) else None)"
| "json_step c (Neg, st) = (if c = CHR ''0'' then Some (Zero, st) else if json_digit c then Some (Digits, st) else None)"
| "json_step c (Digits, st) = (if json_digit c then Some (Digits, st) else after_integer c st)"
| "json_step c (Zero, st) = after_integer c st"
| "json_step c (Dot, st) = (if json_digit c then Some (DotDigits, st) else None)"
| "json_step c (DotDigits, st) =
     (if json_digit c then Some (DotDigits, st) else if c \<in> {CHR ''e'', CHR ''E''} then Some (Exp, st) else end_value c st)"
| "json_step c (Exp, st) =
     (if c \<in> {CHR ''+'', CHR ''-''} then Some (ExpSign, st) else if json_digit c then Some (ExpDigits, st) else None)"
| "json_step c (ExpSign, st) = (if json_digit c then Some (ExpDigits, st) else None)"
| "json_step c (ExpDigits, st) = (if json_digit c then Some (ExpDigits, st) else end_value c st)"
| "json_step c (Literal [], st) = None"
| "json_step c (Literal (l # ls), st) =
     (if c \<noteq> l then None else Some (if ls = [] then EndValue else Literal ls, st))"

fun json_scan :: "string \<Rightarrow> scanner \<Rightarrow> scanner option" where
  "json_scan [] s = Some s"
| "json_scan (c # cs) s = (case json_step c s of None \<Rightarrow> None | Some s' \<Rightarrow> json_scan cs s')"

text \<open>At the end of the text a space is scanned, which ends a number.\<close>

definition json_Valid :: "string \<Rightarrow> bool" where
  "json_Valid s =
     (case json_scan (s @ [CHR '' '']) (BeginValue, []) of Some (EndTop, st) \<Rightarrow> True | _ \<Rightarrow> False)"

lemma json_scan_append: "json_scan (xs @ ys) s = (case json_scan xs s of None \<Rightarrow> None | Some s' \<Rightarrow> json_scan ys s')"
  by (induction xs arbitrary: s) (auto split: option.splits)

text \<open>A text of plain characters between quotes is valid, and a valid text has something else than spaces.\<close>

lemma json_scan_plain:
  "list_all (\<lambda>c. 0x20 \<le> json_byte c \<and> c \<noteq> CHR 0x22 \<and> c \<noteq> CHR 0x5C) s \<Longrightarrow> json_scan s (InString, st) = Some (InString, st)"
  by (induction s) auto

lemma json_Valid_plain:
  assumes "list_all (\<lambda>c. 0x20 \<le> json_byte c \<and> c \<noteq> CHR 0x22 \<and> c \<noteq> CHR 0x5C) s"
  shows "json_Valid (CHR 0x22 # s @ [CHR 0x22])"
proof -
  have "json_scan (CHR 0x22 # (s @ [CHR 0x22, CHR '' ''])) (BeginValue, []) = Some (EndTop, [])"
    by (simp add: begin_value_def isSpace_def json_scan_append json_scan_plain [OF assms] end_value_def)
  then show ?thesis by (simp add: json_Valid_def)
qed

lemma json_scan_spaces: "list_all isSpace s \<Longrightarrow> json_scan s (BeginValue, st) = Some (BeginValue, st)"
  by (induction s) (auto simp: begin_value_def)

lemma json_Valid_nonblank: "json_Valid s \<Longrightarrow> \<not> list_all isSpace s"
  using json_scan_spaces [of "s @ [CHR '' '']" "[]"] by (auto simp: json_Valid_def isSpace_def)

end
