(* ===== verification/Event_Parsing.thy ===== *)
theory Event_Parsing
  imports Chain_Clients Json_Scanner
begin

text \<open>
  The first half of \<^verbatim>\<open>internal/services/events.go\<close>: from the raw attributes of a block event to a typed
  message, and the checks on a message before its handler acts.
\<close>

section \<open>Sanitizing\<close>

definition quote :: char where "quote = CHR 0x22"

text \<open>\<^verbatim>\<open>strings.Trim\<close> with the quote as its cut set.\<close>

definition trim_quotes :: "string \<Rightarrow> string" where
  "trim_quotes s = rev (dropWhile ((=) quote) (rev (dropWhile ((=) quote) s)))"

definition is_json_obj_or_array :: "string \<Rightarrow> bool" where
  "is_json_obj_or_array value \<longleftrightarrow>
     (value \<noteq> [] \<and> (hd value = CHR 0x7B \<or> hd value = CHR 0x5B)) \<and> json_Valid value"

definition sanitize_value :: "string \<Rightarrow> string" where
  "sanitize_value raw =
     (let value = trim_quotes raw in
      if is_json_obj_or_array value then value else quote # value @ [quote])"

definition sanitizeEvent :: "AbciEvent \<Rightarrow> AbciEvent" where
  "sanitizeEvent event =
     \<lparr>ae_Type = ae_Type event,
      ae_Attributes = map (\<lambda>attr. \<lparr>at_Key = at_Key attr, at_Value = sanitize_value (at_Value attr), at_Index = at_Index attr\<rparr>)
                        (ae_Attributes event)\<rparr>"

section \<open>Typed messages\<close>

text \<open>The type assertions \<^verbatim>\<open>protoMsg.(T)\<close>.\<close>

fun as_BTCDelegationCreated :: "ProtoMessage \<Rightarrow> BTCDelegationCreated option" where
  "as_BTCDelegationCreated (MsgBTCDelegationCreated m) = Some m"
| "as_BTCDelegationCreated _ = None"
fun as_CovenantQuorumReached :: "ProtoMessage \<Rightarrow> CovenantQuorumReached option" where
  "as_CovenantQuorumReached (MsgCovenantQuorumReached m) = Some m"
| "as_CovenantQuorumReached _ = None"
fun as_CovenantSignatureReceived :: "ProtoMessage \<Rightarrow> CovenantSignatureReceived option" where
  "as_CovenantSignatureReceived (MsgCovenantSignatureReceived m) = Some m"
| "as_CovenantSignatureReceived _ = None"
fun as_InclusionProofReceived :: "ProtoMessage \<Rightarrow> InclusionProofReceived option" where
  "as_InclusionProofReceived (MsgInclusionProofReceived m) = Some m"
| "as_InclusionProofReceived _ = None"
fun as_UnbondedEarly :: "ProtoMessage \<Rightarrow> UnbondedEarly option" where
  "as_UnbondedEarly (MsgUnbondedEarly m) = Some m"
| "as_UnbondedEarly _ = None"
fun as_DelegationExpired :: "ProtoMessage \<Rightarrow> DelegationExpired option" where
  "as_DelegationExpired (MsgDelegationExpired m) = Some m"
| "as_DelegationExpired _ = None"
fun as_FinalityProviderCreated :: "ProtoMessage \<Rightarrow> FinalityProviderCreated option" where
  "as_FinalityProviderCreated (MsgFinalityProviderCreated m) = Some m"
| "as_FinalityProviderCreated _ = None"
fun as_FinalityProviderEdited :: "ProtoMessage \<Rightarrow> FinalityProviderEdited option" where
  "as_FinalityProviderEdited (MsgFinalityProviderEdited m) = Some m"
| "as_FinalityProviderEdited _ = None"
fun as_FinalityProviderStatusChange :: "ProtoMessage \<Rightarrow> FinalityProviderStatusChanged option" where
  "as_FinalityProviderStatusChange (MsgFinalityProviderStatusChange m) = Some m"
| "as_FinalityProviderStatusChange _ = None"

definition parseEvent :: "env \<Rightarrow> (ProtoMessage \<Rightarrow> 'm option) \<Rightarrow> string \<Rightarrow> AbciEvent \<Rightarrow> 'm result" where
  "parseEvent e as_T expectedType event =
     (if ae_Type event \<noteq> expectedType then Err (OtherError ''unexpected event type'')
      else if length (ae_Attributes event) = 0 then Err (OtherError ''no attributes found in the event'')
      else bind_result (wrap_result ''failed to parse typed event'' (of_lib (lib_ParseTypedEvent e (sanitizeEvent event))))
        (\<lambda>protoMsg. case as_T protoMsg of
            Some concreteMsg \<Rightarrow> Ok concreteMsg
          | None \<Rightarrow> Err (OtherError ''parsed event type does not match expected type'')))"

section \<open>Validation\<close>

definition validateBTCDelegationCreatedEvent :: "BTCDelegationCreated \<Rightarrow> unit result" where
  "validateBTCDelegationCreatedEvent event =
     (if bcd_StakingTxHex event = '''' then Err (OtherError ''new BTC delegation event missing staking tx hex'')
      else if bcd_StakingOutputIndex event = '''' then Err (OtherError ''new BTC delegation event missing staking output index'')
      else if bcd_NewState event \<noteq> BTCDelegationStatus_PENDING
        then Err (OtherError ''invalid delegation state from Babylon when processing EventBTCDelegationCreated'')
      else Ok ())"

text \<open>The boolean says whether the event is to be processed; an event that is not is ignored.\<close>

definition validateCovenantQuorumReachedEvent :: "env \<Rightarrow> CovenantQuorumReached \<Rightarrow> (world, bool) prog" where
  "validateCovenantQuorumReachedEvent e event =
     (if cqr_StakingTxHash event = '''' then throw (OtherError ''covenant quorum reached event missing staking tx hash'')
      else andThen (wrap_err ''failed to get BTC delegation by staking tx hash''
                      (GetBTCDelegationByStakingTxHash e (cqr_StakingTxHash event))) (\<lambda>delegation.
        let qualifiedStates = QualifiedStatesForCovenantQuorumReached (cqr_NewState event) in
        if qualifiedStates = [] then throw (OtherError ''invalid delegation state from Babylon'')
        else if d_State delegation \<notin> set qualifiedStates then ret False
        else if cqr_NewState event = BTCDelegationStatus_VERIFIED then
          (if HasInclusionProof delegation then ret False else ret True)
        else if cqr_NewState event = BTCDelegationStatus_ACTIVE then
          (if \<not> HasInclusionProof delegation then ret False else ret True)
        else ret True))"

definition validateBTCDelegationInclusionProofReceivedEvent :: "env \<Rightarrow> InclusionProofReceived \<Rightarrow> (world, bool) prog" where
  "validateBTCDelegationInclusionProofReceivedEvent e event =
     (if ipr_StakingTxHash event = '''' then throw (OtherError ''inclusion proof received event missing staking tx hash'')
      else if ipr_StartHeight event = '''' \<or> ipr_EndHeight event = ''''
        then throw (OtherError ''inclusion proof received event missing start height or end height'')
      else andThen (wrap_err ''failed to parse staking start height'' (Done (ParseUint32_result (ipr_StartHeight event)))) (\<lambda>_.
        andThen (wrap_err ''failed to parse staking end height'' (Done (ParseUint32_result (ipr_EndHeight event)))) (\<lambda>_.
        andThen (wrap_err ''failed to get BTC delegation by staking tx hash''
                   (GetBTCDelegationByStakingTxHash e (ipr_StakingTxHash event))) (\<lambda>delegation.
          let qualifiedStates = QualifiedStatesForInclusionProofReceived (ipr_NewState event) in
          if qualifiedStates = [] then throw (OtherError ''no qualified states defined for new state'')
          else if d_State delegation \<notin> set qualifiedStates then ret False
          else if HasInclusionProof delegation then ret False
          else ret True))))"

definition validateBTCDelegationUnbondedEarlyEvent :: "env \<Rightarrow> UnbondedEarly \<Rightarrow> (world, bool) prog" where
  "validateBTCDelegationUnbondedEarlyEvent e event =
     (if ube_StakingTxHash event = '''' then throw (OtherError ''unbonded early event missing staking tx hash'')
      else if ube_NewState event \<noteq> BTCDelegationStatus_UNBONDED
        then throw (OtherError ''invalid delegation state from Babylon when processing EventBTCDelegationUnbondedEarly'')
      else andThen (wrap_err ''failed to get BTC delegation by staking tx hash''
                      (GetBTCDelegationByStakingTxHash e (ube_StakingTxHash event))) (\<lambda>delegation.
        if d_State delegation \<notin> set QualifiedStatesForUnbondedEarly then ret False else ret True))"

definition validateBTCDelegationExpiredEvent :: "env \<Rightarrow> DelegationExpired \<Rightarrow> (world, bool) prog" where
  "validateBTCDelegationExpiredEvent e event =
     (if exp_StakingTxHash event = '''' then throw (OtherError ''expired event missing staking tx hash'')
      else if exp_NewState event \<noteq> BTCDelegationStatus_EXPIRED
        then throw (OtherError ''invalid delegation state from Babylon when processing EventBTCDelegationExpired'')
      else andThen (wrap_err ''failed to get BTC delegation by staking tx hash''
                      (GetBTCDelegationByStakingTxHash e (exp_StakingTxHash event))) (\<lambda>delegation.
        if d_State delegation \<notin> set QualifiedStatesForExpired then ret False else ret True))"

section \<open>Sanitizing is stable\<close>

lemma trim_quotes_nothing_left:
  "trim_quotes s = [] \<or> (hd (trim_quotes s) \<noteq> quote \<and> last (trim_quotes s) \<noteq> quote)"
proof (cases "trim_quotes s = []")
  case False
  define t where "t = dropWhile ((=) quote) s"
  have eq: "trim_quotes s = rev (dropWhile ((=) quote) (rev t))" by (simp add: trim_quotes_def t_def)
  with False have rest: "dropWhile ((=) quote) (rev t) \<noteq> []" by simp
  then have l: "last (trim_quotes s) \<noteq> quote" using hd_dropWhile [OF rest] by (auto simp: eq last_rev)
  have "t \<noteq> []" using rest by auto
  then have "hd t \<noteq> quote" using hd_dropWhile [of "(=) quote" s] by (auto simp: t_def)
  moreover have "t = trim_quotes s @ rev (takeWhile ((=) quote) (rev t))"
    by (metis eq rev_append rev_rev_ident takeWhile_dropWhile_id)
  then have "hd t = hd (trim_quotes s)" using False by (metis hd_append2)
  ultimately show ?thesis using l by simp
qed simp

lemma dropWhile_hd: "s = [] \<or> \<not> P (hd s) \<Longrightarrow> dropWhile P s = s"
  by (cases s) auto

lemma trim_quotes_id: "s = [] \<or> (hd s \<noteq> quote \<and> last s \<noteq> quote) \<Longrightarrow> trim_quotes s = s"
  by (subst trim_quotes_def, subst (1 2) dropWhile_hd) (auto simp: hd_rev dropWhile_hd)

lemma trim_quotes_idem [simp]: "trim_quotes (trim_quotes s) = trim_quotes s"
  using trim_quotes_id trim_quotes_nothing_left by blast

lemma trim_quotes_surround: "trim_quotes (quote # trim_quotes s @ [quote]) = trim_quotes s"
proof -
  have "trim_quotes (quote # t @ [quote]) = trim_quotes t" for t
  proof (cases "dropWhile ((=) quote) t = []")
    case True
    then have "\<forall>c \<in> set t. c = quote" by (auto simp: dropWhile_eq_Nil_conv)
    then have "\<forall>c \<in> set (quote # t @ [quote]). quote = c" by auto
    then have "dropWhile ((=) quote) (quote # t @ [quote]) = []" by (simp only: dropWhile_eq_Nil_conv)
    with True show ?thesis by (simp only: trim_quotes_def)
  next
    case False
    then obtain c where "c \<in> set t" "c \<noteq> quote" by (auto simp: dropWhile_eq_Nil_conv)
    then show ?thesis by (auto simp: trim_quotes_def dropWhile_append1)
  qed
  then show ?thesis by simp
qed

lemma sanitize_value_idem: "sanitize_value (sanitize_value raw) = sanitize_value raw"
  by (simp add: sanitize_value_def Let_def trim_quotes_surround del: append_Cons)

lemma parseEvent_Ok_type: "parseEvent e as_T expectedType event = Ok m \<Longrightarrow> ae_Type event = expectedType"
  by (simp add: parseEvent_def split: if_splits)

end
