(* ===== verification/Consumer_Events.thy ===== *)
theory Consumer_Events
  imports Event_Parsing
begin

text \<open>
  \<^verbatim>\<open>internal/services/consumer_events.go\<close>, \<^verbatim>\<open>delegation_helpers.go\<close> and \<^verbatim>\<open>btc_notifier.go\<close>: the messages to the
  API queue and the registration for spend notifications.
\<close>

section \<open>Messages\<close>

definition staking_event :: "StakingEventType \<Rightarrow> BTCDelegationDetails \<Rightarrow> StakingEvent" where
  "staking_event eventType delegation =
     \<lparr>se_EventType = eventType,
      se_StakingTxHashHex = d_StakingTxHashHex delegation,
      se_StakerBtcPkHex = d_StakerBtcPkHex delegation,
      se_FinalityProviderBtcPksHex = d_FinalityProviderBtcPksHex delegation,
      se_StakingAmount = d_StakingAmount delegation,
      se_StateHistory = ToStateStrings (d_StateHistory delegation)\<rparr>"

definition emitActiveDelegationEvent :: "env \<Rightarrow> BTCDelegationDetails \<Rightarrow> (world, unit) prog" where
  "emitActiveDelegationEvent e delegation =
     wrap_err ''failed to push the staking event to the queue'' (push_event e (staking_event ActiveStakingEventType delegation))"

definition emitUnbondingDelegationEvent :: "env \<Rightarrow> BTCDelegationDetails \<Rightarrow> (world, unit) prog" where
  "emitUnbondingDelegationEvent e delegation =
     wrap_err ''failed to push the unbonding event to the queue'' (push_event e (staking_event UnbondingStakingEventType delegation))"

section \<open>Spend notifications\<close>

definition btcNotifierMaxRetries :: nat where "btcNotifierMaxRetries = 3"

text \<open>\<^verbatim>\<open>btcNotifierWithRetries.RegisterSpendNtfn\<close>; the notification itself is the entry in \<open>w_watches\<close>.\<close>

definition RegisterSpendNtfn :: "env \<Rightarrow> OutPoint \<Rightarrow> bytes \<Rightarrow> u32 \<Rightarrow> (world, unit) prog" where
  "RegisterSpendNtfn e outpoint pkScript heightHint = retry_Do btcNotifierMaxRetries
     (ask (\<lambda>t. case notifier_RegisterSpendNtfn e t outpoint pkScript heightHint of None \<Rightarrow> Inr () | Some msg \<Rightarrow> Inl msg))"

text \<open>
  It is the method of the wrapper that the service puts around its notifier; the start of the notifier is not retried.
\<close>

record 'w BtcNotifier =
  btcn_Start :: "('w, unit) prog"
  btcn_RegisterSpendNtfn :: "OutPoint \<Rightarrow> bytes \<Rightarrow> u32 \<Rightarrow> ('w, unit) prog"

definition newBtcNotifierWithRetries :: "'w BtcNotifier \<Rightarrow> 'w BtcNotifier" where
  "newBtcNotifierWithRetries notifier = \<lparr>
     btcn_Start = btcn_Start notifier,
     btcn_RegisterSpendNtfn = (\<lambda>outpoint pkScript heightHint.
       retry_Do btcNotifierMaxRetries (btcn_RegisterSpendNtfn notifier outpoint pkScript heightHint))\<rparr>"

lemma RegisterSpendNtfn_wrapped:
  "RegisterSpendNtfn e = btcn_RegisterSpendNtfn (newBtcNotifierWithRetries \<lparr>btcn_Start = start,
     btcn_RegisterSpendNtfn = (\<lambda>outpoint pkScript heightHint. ask (\<lambda>t.
       case notifier_RegisterSpendNtfn e t outpoint pkScript heightHint of None \<Rightarrow> Inr () | Some msg \<Rightarrow> Inl msg))\<rparr>)"
  by (simp add: newBtcNotifierWithRetries_def RegisterSpendNtfn_def fun_eq_iff)

text \<open>
  The body of the goroutine that a \<open>SpendJob\<close> stands for: the script of the watched output is indexed in
  the goroutine, a failed registration is logged and dropped.
\<close>

definition spend_job :: "env \<Rightarrow> SpendJob \<Rightarrow> (world, unit) prog" where
  "spend_job e job =
     andThen (Done (index_or_panic (tx_TxOut (job_Tx job)) (job_OutputIdx job))) (\<lambda>output.
     andThen (attempt (RegisterSpendNtfn e (job_OutPoint job) (to_PkScript output) (job_HeightHint job))) (\<lambda>r.
       case r of
         Inl err \<Rightarrow> ret ()
       | Inr _ \<Rightarrow> poke (\<lambda>w. w\<lparr>w_watches := w_watches w @ [(job_OutPoint job, job_Watch job)]\<rparr>)))"

definition registerUnbondingSpendNotification :: "env \<Rightarrow> BTCDelegationDetails \<Rightarrow> (world, unit) prog" where
  "registerUnbondingSpendNotification e delegation =
     andThen (wrap_err ''failed to decode unbonding tx'' (Done (hex_DecodeString (d_UnbondingTx delegation)))) (\<lambda>unbondingTxBytes.
     andThen (wrap_err ''failed to parse unbonding tx'' (Done (of_lib (lib_NewBTCTxFromBytes e unbondingTxBytes)))) (\<lambda>unbondingTx.
       go_job \<lparr>job_OutPoint = \<lparr>op_Hash = lib_TxHash e unbondingTx, op_Index = 0\<rparr>,
               job_Tx = unbondingTx,
               job_OutputIdx = 0,
               job_HeightHint = d_StartHeight delegation,
               job_Watch = WatchUnbonding delegation\<rparr>))"

definition registerStakingSpendNotification :: "env \<Rightarrow> string \<Rightarrow> string \<Rightarrow> u32 \<Rightarrow> u32 \<Rightarrow> (world, unit) prog" where
  "registerStakingSpendNotification e stakingTxHashHex stakingTxHex stakingOutputIdx stakingStartHeight =
     andThen (wrap_err ''failed to parse staking tx hash'' (Done (of_lib (lib_NewHashFromStr e stakingTxHashHex)))) (\<lambda>stakingTxHash.
     andThen (wrap_err ''failed to deserialize staking tx''
                (Done (DeserializeBtcTransactionFromHex (lib_Deserialize e) stakingTxHex))) (\<lambda>stakingTx.
       go_job \<lparr>job_OutPoint = \<lparr>op_Hash = stakingTxHash, op_Index = stakingOutputIdx\<rparr>,
               job_Tx = stakingTx,
               job_OutputIdx = unat stakingOutputIdx,
               job_HeightHint = stakingStartHeight,
               job_Watch = WatchStaking stakingTxHashHex\<rparr>))"

end
