(* ===== verification/World_Rules.thy ===== *)
theory World_Rules
  imports World_Invariant Consumer_Events
begin

text \<open>
  One rule per operation: what it guarantees to the other goroutines, and what its caller may rely on.
  The rules named \<open>bind_\<close> are the same for an operation followed by the rest of a program.
\<close>

section \<open>Frames\<close>

lemma goodI:
  assumes "good e w" and "below w w'"
    and "distinct (map d_StakingTxHashHex (w_delegations w'))" and "distinct (map fp_BtcPk (w_fps w'))"
    and "params_index e \<Longrightarrow> distinct (map fst (w_staking_params w'))"
    and "\<And>d. d \<in> set (w_delegations w') \<Longrightarrow> d \<in> set (w_delegations w) \<or> delegation_ok e w' d"
    and "\<And>x. x \<in> set (w_timelocks w') \<Longrightarrow> x \<in> set (w_timelocks w) \<or> timelock_ok w' x"
    and "\<And>x. x \<in> set (w_jobs w') \<Longrightarrow> x \<in> set (w_jobs w) \<or> watch_ok w' (job_Watch x)"
    and "\<And>x. x \<in> set (w_watches w') \<Longrightarrow> x \<in> set (w_watches w) \<or> watch_ok w' (snd x)"
  shows "good e w'"
  unfolding good_def
  using assms(3-5) assms(1,2,6-9) [unfolded good_def] stable_mono(6-8) [OF assms(2)] by blast

text \<open>A change of a part of the state that the invariant does not speak of.\<close>

lemma good_frame:
  assumes "good e w"
    and "w_delegations w' = w_delegations w" "w_fps w' = w_fps w" "w_staking_params w' = w_staking_params w"
    and "set (w_timelocks w') \<subseteq> set (w_timelocks w)" "set (w_jobs w') \<subseteq> set (w_jobs w)"
    and "set (w_watches w') \<subseteq> set (w_watches w)" "prefix (w_queue w) (w_queue w')" "w_clock w \<le> w_clock w'"
  shows "below w w' \<and> good e w'"
proof -
  have "below w w'"
    using assms(2-4,8,9) by (auto simp: below_def known_def same_fp_def intro: older_refl)
  moreover have "good e w'"
    using assms(1) by (rule goodI [OF _ \<open>below w w'\<close>]) (use assms in \<open>auto simp: good_def\<close>)
  ultimately show ?thesis ..
qed

lemmas frame_rules = good_frame [THEN conjunct1] good_frame [THEN conjunct2]

lemma good_tick: "good e w \<Longrightarrow> below w (tick w) \<and> good e (tick w)"
  by (rule good_frame) simp_all

section \<open>Kinds of actions\<close>

lemma complies_db_call:
  assumes "\<And>w'. below w w' \<Longrightarrow> good e w' \<Longrightarrow> below w' (snd (act w')) \<and> good e (snd (act w'))"
    and "\<And>w' x v. below w w' \<Longrightarrow> good e w' \<Longrightarrow> fst (act w') = Ok x \<Longrightarrow> below (snd (act w')) v \<Longrightarrow> good e v \<Longrightarrow> Q v x"
  shows "guar e Q w (db_call e act)"
  unfolding db_call_def
proof (rule world.complies_atomically)
  fix w' assume w': "below w w'" "good e w'"
  note t = good_tick [OF w'(2)]
  then have "below w (tick w')" using w'(1) below_trans by blast
  note step = assms(1) [OF this] assms(2) [OF this]
  show "below w' (snd (case mongo_fault e (w_clock w') of None \<Rightarrow> act (tick w')
        | Some (Lost msg) \<Rightarrow> (Err (OtherError msg), tick w')
        | Some (Unacked msg) \<Rightarrow> (Err (OtherError msg), snd (act (tick w'))))) \<and>
      good e (snd (case mongo_fault e (w_clock w') of None \<Rightarrow> act (tick w')
        | Some (Lost msg) \<Rightarrow> (Err (OtherError msg), tick w')
        | Some (Unacked msg) \<Rightarrow> (Err (OtherError msg), snd (act (tick w')))))"
    using t step(1) below_trans by (auto split: option.splits fault.splits)
  show "Q v x" if "fst (case mongo_fault e (w_clock w') of None \<Rightarrow> act (tick w')
        | Some (Lost msg) \<Rightarrow> (Err (OtherError msg), tick w')
        | Some (Unacked msg) \<Rightarrow> (Err (OtherError msg), snd (act (tick w')))) = Ok x"
      "below (snd (case mongo_fault e (w_clock w') of None \<Rightarrow> act (tick w')
        | Some (Lost msg) \<Rightarrow> (Err (OtherError msg), tick w')
        | Some (Unacked msg) \<Rightarrow> (Err (OtherError msg), snd (act (tick w'))))) v" "good e v" for v x
    using that t step(2) by (auto split: option.splits fault.splits)
qed

text \<open>A query.\<close>

lemma complies_query:
  assumes "\<And>w'. snd (act w') = w'"
    and "\<And>w' x v. below w w' \<Longrightarrow> good e w' \<Longrightarrow> fst (act w') = Ok x \<Longrightarrow> below w' v \<Longrightarrow> Q v x"
  shows "guar e Q w (db_call e act)"
  by (rule complies_db_call) (simp_all add: assms)

text \<open>A command without a result that others rely on.\<close>

lemma complies_command:
  assumes "\<And>w'. below w w' \<Longrightarrow> good e w' \<Longrightarrow> below w' (snd (act w')) \<and> good e (snd (act w'))"
  shows "guar e any w (db_call e act)"
  by (rule complies_db_call) (auto simp: assms)

lemma complies_ask [complies_rules]: "guar e any w (ask f)"
  unfolding ask_def by (rule world.complies_atomically) (auto simp: good_tick)

lemma complies_ask_Q:
  assumes "\<And>t x v. f t = Inr x \<Longrightarrow> t < w_clock v \<Longrightarrow> Q v x"
  shows "guar e Q w (ask f)"
  unfolding ask_def
proof (rule world.complies_atomically)
  fix w' x v
  assume "fst (of_lib (f (w_clock w')), tick w') = Ok x" "below (snd (of_lib (f (w_clock w')), tick w')) v"
  then show "Q v x" by (intro assms [of "w_clock w'"]) (auto simp: below_def)
qed (auto simp: good_tick)

lemma complies_push_event:
  "guar e (\<lambda>v _. queued v (se_EventType ev) (se_StakingTxHashHex ev)) w (push_event e ev)"
  unfolding push_event_def
proof (rule world.complies_atomically, goal_cases)
  case (1 w')
  then have "below w' ((tick w')\<lparr>w_queue := w_queue w' @ [ev]\<rparr>) \<and> good e ((tick w')\<lparr>w_queue := w_queue w' @ [ev]\<rparr>)"
    by (intro good_frame) simp_all
  with good_tick [OF 1(2)] show ?case by (auto split: option.splits fault.splits)
next
  case (2 w' x v)
  then have "below ((tick w')\<lparr>w_queue := w_queue w' @ [ev]\<rparr>) v" by (auto split: option.splits fault.splits)
  then show ?case by (rule queued_mono) (simp add: queued_def)
qed

lemma complies_go_job:
  assumes "watch_ok w (job_Watch job)"
  shows "guar e any w (go_job job)"
  unfolding go_job_def
proof (rule world.complies_atomically)
  fix w' assume "below w w'" "good e w'"
  let ?v = "w'\<lparr>w_jobs := w_jobs w' @ [job]\<rparr>"
  have "below w' ?v" by (auto simp: below_def known_def same_fp_def intro: older_refl)
  moreover have "good e ?v"
    using \<open>good e w'\<close>
    by (rule goodI [OF _ \<open>below w' ?v\<close>])
       (use \<open>good e w'\<close> stable_mono(8) [OF \<open>below w' ?v\<close>] stable_mono(8) [OF \<open>below w w'\<close> assms] in \<open>auto simp: good_def\<close>)
  ultimately show "below w' (snd (Ok (), ?v)) \<and> good e (snd (Ok (), ?v))" by simp
qed (rule any_intro)

lemma complies_peek: "guar e any w (peek f)"
  unfolding peek_def by (rule world.complies_atomically) auto

section \<open>Retries\<close>

lemma complies_retry_last:
  assumes "good e w" and "\<And>w'. below w w' \<Longrightarrow> good e w' \<Longrightarrow> guar e Q w' p"
  shows "guar e Q w (retry_last n p)"
  using assms
proof (induction n arbitrary: w)
  case (Suc n)
  then show ?case
    unfolding retry_last.simps by (intro world.complies_on_error) (auto intro: below_trans)
qed simp

lemma complies_client_call:
  assumes "good e w" and "\<And>w'. good e w' \<Longrightarrow> guar e Q w' p"
  shows "guar e Q w (clientCallWithRetry n p)"
  unfolding clientCallWithRetry_def using assms by (intro complies_retry_last) auto

end
