(* ===== verification/Database_Rules.thy ===== *)
theory Database_Rules
  imports World_Rules
begin

text \<open>What each database operation guarantees and what its caller may rely on.\<close>

section \<open>Changes of one delegation\<close>

lemma good_modify_delegation:
  assumes good: "good e w"
    and m: "modify_first P f (w_delegations w) = Some ds'"
    and f: "\<And>d. d \<in> set (w_delegations w) \<Longrightarrow> P d \<Longrightarrow> older d (f d) \<and> delegation_ok e w (f d)"
  shows "below w (w\<lparr>w_delegations := ds'\<rparr>) \<and> good e (w\<lparr>w_delegations := ds'\<rparr>)"
proof -
  let ?w = "w\<lparr>w_delegations := ds'\<rparr>"
  from m obtain xs d ys where
    ds: "w_delegations w = xs @ d # ys" "P d" "ds' = xs @ f d # ys"
    by (rule modify_first_SomeE)
  have fd: "older d (f d)" "delegation_ok e w (f d)" using f [of d] ds by auto
  have b: "below w ?w"
    unfolding below_def using fd(1) ds by (auto simp: known_def same_fp_def intro: older_refl)
  have "map d_StakingTxHashHex (w_delegations ?w) = map d_StakingTxHashHex (w_delegations w)"
    using ds older_key [OF fd(1)] by simp
  then have "good e ?w"
    using good
    by (intro goodI [OF good b])
       (use ds delegation_ok_mono [OF b fd(2)] in \<open>auto simp: good_def\<close>)
  with b show ?thesis ..
qed

text \<open>A change that leaves the history alone.\<close>

lemma delegation_ok_same_history:
  "delegation_ok e w d \<Longrightarrow> d_StateHistory d' = d_StateHistory d \<Longrightarrow> d_State d' = d_State d \<Longrightarrow> d_SubState d' = d_SubState d \<Longrightarrow>
     d_StakingTxHashHex d' = d_StakingTxHashHex d \<Longrightarrow> delegation_ok e w d'"
  by (simp add: delegation_ok_def wf_delegation_def)

lemma good_delegation_ok: "good e w \<Longrightarrow> d \<in> set (w_delegations w) \<Longrightarrow> delegation_ok e w d"
  by (simp add: good_def)

text \<open>A state transition.\<close>

definition sub_of :: "UpdateOption list \<Rightarrow> DelegationSubState" where
  "sub_of opts = (case uo_subState (options_of opts) of Some sub \<Rightarrow> sub | None \<Rightarrow> NoSubState)"

lemma sr_of_stateRecord [simp]:
  "sr_State (stateRecord_of s opts) = s"
  "sr_SubState (stateRecord_of s (options_of os)) = sub_of os"
  by (simp_all add: stateRecord_of_def sub_of_def)

lemma apply_update_older: "older d (apply_update s opts d)"
  by (simp add: older_def apply_update_def)

lemma apply_update_ok:
  assumes ok: "delegation_ok e w d"
    and legal: "legal (d_State d) s (sub_of opts)"
    and sub: "uo_subState (options_of opts) = None \<Longrightarrow> d_State d = StatePending \<or> d_State d = StateVerified"
    and ev: "evidence e w (d_StakingTxHashHex d) (stateRecord_of s (options_of opts))"
  shows "delegation_ok e w (apply_update s (options_of opts) d)"
proof -
  from ok have wf: "wf_delegation d" by (simp add: delegation_ok_def)
  then have "history_ok (d_StateHistory d @ [stateRecord_of s (options_of opts)])"
    using legal by (auto simp: wf_delegation_def history_ok_snoc legal_step_def)
  moreover have "sub_of opts = (case uo_subState (options_of opts) of Some subState \<Rightarrow> subState | None \<Rightarrow> d_SubState d)"
  proof (cases "uo_subState (options_of opts)")
    case None
    from wf have h: "history_ok (d_StateHistory d)" "d_SubState d = sr_SubState (last (d_StateHistory d))"
      "d_State d = sr_State (last (d_StateHistory d))" by (simp_all add: wf_delegation_def)
    then have "last (d_StateHistory d) \<in> set (d_StateHistory d)" by (simp add: history_ok_def)
    from history_ok_sub(1) [OF h(1) this] h sub [OF None] have "d_SubState d = NoSubState" by auto
    with None show ?thesis by (simp add: sub_of_def)
  qed (simp add: sub_of_def)
  ultimately show ?thesis
    using ok ev by (simp add: delegation_ok_def wf_delegation_def apply_update_def)
qed

lemma complies_update:
  assumes legal: "\<And>s. s \<in> set qs \<Longrightarrow> legal s s' (sub_of opts)"
    and sub: "uo_subState (options_of opts) = None \<Longrightarrow> set qs \<subseteq> {StatePending, StateVerified}"
    and ev: "qs \<noteq> [] \<Longrightarrow> evidence e w h (stateRecord_of s' (options_of opts))"
  shows "guar e any w (UpdateBTCDelegationState e h qs s' opts)"
proof (cases "length qs = 0")
  case True
  then show ?thesis by (simp add: UpdateBTCDelegationState_def world.complies_throw)
next
  case False
  show ?thesis
    unfolding UpdateBTCDelegationState_def if_not_P [OF False] update_doc_def
  proof (rule complies_command)
    fix w' assume w': "below w w'" "good e w'"
    let ?m = "modify_first (\<lambda>d. d_StakingTxHashHex d = h \<and> d_State d \<in> set qs) (apply_update s' (options_of opts)) (w_delegations w')"
    have step: "below w' (w'\<lparr>w_delegations := ds\<rparr>) \<and> good e (w'\<lparr>w_delegations := ds\<rparr>)" if "?m = Some ds" for ds
    proof (rule good_modify_delegation [OF w'(2) that], rule conjI)
      fix d assume d: "d \<in> set (w_delegations w')" "d_StakingTxHashHex d = h \<and> d_State d \<in> set qs"
      show "older d (apply_update s' (options_of opts) d)" by (rule apply_update_older)
      show "delegation_ok e w' (apply_update s' (options_of opts) d)"
        by (rule apply_update_ok [OF good_delegation_ok [OF w'(2) d(1)]])
           (use d legal sub evidence_mono [OF w'(1) ev] False in auto)
    qed
    then show "below w' (snd (case ?m of
          None \<Rightarrow> (Err (NotFoundError h ''BTC delegation not found or current state is not qualified states''), w')
        | Some ds \<Rightarrow> (Ok (), w'\<lparr>w_delegations := ds\<rparr>))) \<and>
      good e (snd (case ?m of
          None \<Rightarrow> (Err (NotFoundError h ''BTC delegation not found or current state is not qualified states''), w')
        | Some ds \<Rightarrow> (Ok (), w'\<lparr>w_delegations := ds\<rparr>)))"
      using w'(2) by (auto split: option.splits simp del: modify_first_None_iff)
  qed
qed

section \<open>Delegations\<close>

lemma complies_save_delegation:
  assumes "delegation_ok e w d"
  shows "guar e any w (SaveNewBTCDelegation e d)"
  unfolding SaveNewBTCDelegation_def
proof (rule complies_command)
  fix w' assume w': "below w w'" "good e w'"
  let ?v = "w'\<lparr>w_delegations := w_delegations w' @ [d]\<rparr>"
  have b: "below w' ?v" by (auto simp: below_def known_def same_fp_def intro: older_refl)
  have "good e ?v" if "d_StakingTxHashHex d \<notin> d_StakingTxHashHex ` set (w_delegations w')"
    using w'(2)
    by (rule goodI [OF _ b])
       (use w'(2) that delegation_ok_mono [OF below_trans [OF w'(1) b] assms] in \<open>auto simp: good_def\<close>)
  with b w'(2) show "below w' (snd (case insert_doc d_StakingTxHashHex d (w_delegations w') of
          None \<Rightarrow> (Err (DuplicateKeyError (d_StakingTxHashHex d) ''delegation already exists''), w')
        | Some ds \<Rightarrow> (Ok (), w'\<lparr>w_delegations := ds\<rparr>))) \<and>
      good e (snd (case insert_doc d_StakingTxHashHex d (w_delegations w') of
          None \<Rightarrow> (Err (DuplicateKeyError (d_StakingTxHashHex d) ''delegation already exists''), w')
        | Some ds \<Rightarrow> (Ok (), w'\<lparr>w_delegations := ds\<rparr>)))"
    by (simp add: insert_doc_def)
qed

lemma complies_get_delegation:
  "guar e (\<lambda>v d. known v d \<and> delegation_ok e v d \<and> d_StakingTxHashHex d = h) w (GetBTCDelegationByStakingTxHash e h)"
  unfolding GetBTCDelegationByStakingTxHash_def
proof (rule complies_query)
  fix w' d v
  assume w': "good e w'" "below w' v" and
    "fst (case find_doc d_StakingTxHashHex h (w_delegations w') of
       None \<Rightarrow> (Err (NotFoundError h ''BTC delegation not found when getting by staking tx hash''), w')
     | Some d \<Rightarrow> (Ok d, w')) = Ok d"
  then have "d \<in> set (w_delegations w')" "d_StakingTxHashHex d = h"
    by (auto simp: find_doc_def find_Some_iff split: option.splits)
  with w' show "known v d \<and> delegation_ok e v d \<and> d_StakingTxHashHex d = h"
    using stable_mono(6) [OF w'(2) good_delegation_ok [OF w'(1)]] known_mono [OF w'(2) known_self] by blast
qed (auto split: option.splits)

lemma complies_get_state: "good e w \<Longrightarrow> guar e any w (GetBTCDelegationState e h)"
  unfolding GetBTCDelegationState_def
  by (rule world.complies_andThen [OF complies_get_delegation]) (auto intro: world.complies_ret)

lemma good_update_delegation:
  assumes "good e w" and "\<And>d. older d (f d) \<and> d_StateHistory (f d) = d_StateHistory d \<and> d_State (f d) = d_State d \<and> d_SubState (f d) = d_SubState d"
  shows "below w (update_delegation h f w) \<and> good e (update_delegation h f w)"
proof (cases "modify_first (\<lambda>d. d_StakingTxHashHex d = h) f (w_delegations w)")
  case (Some ds)
  have "older d (f d) \<and> delegation_ok e w (f d)" if "d \<in> set (w_delegations w)" for d
    using delegation_ok_same_history [OF good_delegation_ok [OF assms(1) that]] assms(2) older_key by metis
  then show ?thesis
    using good_modify_delegation [OF assms(1) Some] Some by (simp add: update_delegation_def)
qed (use assms(1) in \<open>simp add: update_delegation_def del: modify_first_None_iff\<close>)

lemma complies_save_signature: "guar e any w (SaveBTCDelegationCovenantSignature e h pk sig exp)"
  unfolding SaveBTCDelegationCovenantSignature_def Let_def
  by (rule complies_command, unfold snd_conv, rule good_update_delegation) (auto simp: older_def)

lemma complies_save_slashing: "guar e any w (SaveBTCDelegationSlashingTxHex e h tx height)"
  "guar e any w (SaveBTCDelegationUnbondingSlashingTxHex e h tx height)"
  unfolding SaveBTCDelegationSlashingTxHex_def SaveBTCDelegationUnbondingSlashingTxHex_def
  by (rule complies_command,
      auto split: option.splits simp del: modify_first_None_iff dest!: good_modify_delegation [rotated]
        intro!: delegation_ok_same_history [OF good_delegation_ok] simp: older_def)+

lemma complies_update_address: "addr \<noteq> '''' \<Longrightarrow> guar e any w (UpdateDelegationStakerBabylonAddress e h addr)"
  unfolding UpdateDelegationStakerBabylonAddress_def
  by (rule complies_command, unfold snd_conv, rule good_update_delegation) (auto simp: older_def)

section \<open>Queries for many documents\<close>

lemma set_find_all: "scan_ok e \<Longrightarrow> set (find_all e P ds t) = {d \<in> set ds. P d}"
  by (auto simp: find_all_def scan_ok_def set_scan)

lemma complies_find_delegations:
  assumes "scan_ok e"
  shows "guar e (\<lambda>v ds. \<forall>d \<in> set ds. known v d) w
           (db_call e (\<lambda>w. (Ok (find_all e P (w_delegations w) (w_clock w)), w)))"
  by (rule complies_query) (auto simp: set_find_all [OF assms] dest: known_mono [OF _ known_self])

lemma complies_get_by_states:
  "scan_ok e \<Longrightarrow> guar e (\<lambda>v ds. \<forall>d \<in> set ds. known v d) w (GetBTCDelegationsByStates e states)"
  unfolding GetBTCDelegationsByStates_def by (rule complies_find_delegations)

lemma complies_get_empty_address:
  "scan_ok e \<Longrightarrow> good e w \<Longrightarrow>
     guar e (\<lambda>v ds. \<forall>d \<in> set ds. known v d) w (GetDelegationsWithEmptyStakerAddress e)"
  unfolding GetDelegationsWithEmptyStakerAddress_def
  by (intro world.complies_wrap_err complies_find_delegations)

section \<open>Timelocks\<close>

lemma complies_save_timelock:
  assumes "h \<in> hashes w" "unbonding_sub sub \<or> slashing_sub sub"
  shows "guar e any w (SaveNewTimeLockExpire e h height sub)"
  unfolding SaveNewTimeLockExpire_def
proof (rule complies_command, unfold snd_conv)
  fix w' assume w': "below w w'" "good e w'"
  let ?v = "w'\<lparr>w_timelocks := w_timelocks w' @ [NewTimeLockDocument h height sub]\<rparr>"
  have b: "below w' ?v" by (auto simp: below_def known_def same_fp_def intro: older_refl)
  moreover have "good e ?v"
    using w'(2)
    by (rule goodI [OF _ b])
       (use w' assms hashes_mono [OF below_trans [OF w'(1) b] assms(1)] in
         \<open>auto simp: good_def timelock_ok_def NewTimeLockDocument_def\<close>)
  ultimately show "below w' ?v \<and> good e ?v" ..
qed

lemma set_take_limit: "set (take_limit limit ds) \<subseteq> set ds"
  by (auto simp: take_limit_def dest: in_set_takeD)

lemma complies_find_expired:
  assumes "scan_ok e"
  shows "guar e (\<lambda>v locks. \<forall>lock \<in> set locks. timelock_ok v lock \<and> unat (tl_ExpireHeight lock) \<le> unat tip) w
           (FindExpiredDelegations e tip limit)"
  unfolding FindExpiredDelegations_def
proof (rule complies_query)
  fix w' locks v
  assume "good e w'" "below w' v" "fst (if sint tip < 0 then (Err (OtherError ''uint64 overflows int64''), w')
     else (Ok (take_limit limit (find_all e (\<lambda>d. unat (tl_ExpireHeight d) \<le> unat tip) (w_timelocks w') (w_clock w'))), w')) = Ok locks"
  then show "\<forall>lock \<in> set locks. timelock_ok v lock \<and> unat (tl_ExpireHeight lock) \<le> unat tip"
    using set_take_limit [of limit "find_all e (\<lambda>d. unat (tl_ExpireHeight d) \<le> unat tip) (w_timelocks w') (w_clock w')"]
    by (auto simp: good_def set_find_all [OF assms] split: if_splits intro!: timelock_ok_mono [OF \<open>below w' v\<close>])
qed simp

lemma good_remove_timelock:
  "good e w \<Longrightarrow> below w (w\<lparr>w_timelocks := remove_at i (w_timelocks w)\<rparr>) \<and> good e (w\<lparr>w_timelocks := remove_at i (w_timelocks w)\<rparr>)"
  by (rule good_frame) (simp_all add: set_remove_at_subset)

lemma complies_delete_expired:
  assumes "good e w"
  shows "guar e any w (DeleteExpiredDelegation e h)"
  unfolding DeleteExpiredDelegation_def
proof (rule world.complies_andThen [OF world.complies_wrap_err [OF complies_command]])
  fix w' assume "below w w'" "good e w'"
  then show "below w' (snd (case find (\<lambda>i. tl_StakingTxHashHex (w_timelocks w' ! i) = h)
                 (mongo_order e (w_clock w') (length (w_timelocks w'))) of
            None \<Rightarrow> (Ok 0, w')
          | Some i \<Rightarrow> (Ok 1, w'\<lparr>w_timelocks := remove_at i (w_timelocks w')\<rparr>))) \<and>
       good e (snd (case find (\<lambda>i. tl_StakingTxHashHex (w_timelocks w' ! i) = h)
                 (mongo_order e (w_clock w') (length (w_timelocks w'))) of
            None \<Rightarrow> (Ok 0, w')
          | Some i \<Rightarrow> (Ok 1, w'\<lparr>w_timelocks := remove_at i (w_timelocks w')\<rparr>)))"
    by (cases "find (\<lambda>i. tl_StakingTxHashHex (w_timelocks w' ! i) = h)
                 (mongo_order e (w_clock w') (length (w_timelocks w')))") (auto simp: good_remove_timelock)
qed (auto simp: assms intro: world.complies_ret world.complies_throw)

section \<open>Finality providers\<close>

lemma good_modify_fp:
  assumes good: "good e w" and m: "modify_first P f (w_fps w) = Some ds'" and f: "\<And>fp. same_fp fp (f fp)"
  shows "below w (w\<lparr>w_fps := ds'\<rparr>) \<and> good e (w\<lparr>w_fps := ds'\<rparr>)"
proof -
  let ?w = "w\<lparr>w_fps := ds'\<rparr>"
  from m obtain xs d ys where ds: "w_fps w = xs @ d # ys" "ds' = xs @ f d # ys" by (rule modify_first_SomeE)
  have b: "below w ?w"
    unfolding below_def using f [of d] ds by (auto simp: known_def same_fp_def intro: older_refl)
  have "fp_BtcPk (f d) = fp_BtcPk d" using f [of d] by (simp add: same_fp_def)
  then have "map fp_BtcPk (w_fps ?w) = map fp_BtcPk (w_fps w)" using ds by simp
  then have "good e ?w" using good by (intro goodI [OF good b]) (auto simp: good_def)
  with b show ?thesis ..
qed

lemma complies_save_fp: "guar e any w (SaveNewFinalityProvider e fp)"
  unfolding SaveNewFinalityProvider_def
proof (rule complies_command)
  fix w' assume w': "below w w'" "good e w'"
  let ?v = "w'\<lparr>w_fps := w_fps w' @ [fp]\<rparr>"
  have b: "below w' ?v" by (auto simp: below_def known_def same_fp_def intro: older_refl)
  have "good e ?v" if "fp_BtcPk fp \<notin> fp_BtcPk ` set (w_fps w')"
    using w'(2) that by (intro goodI [OF w'(2) b]) (auto simp: good_def)
  with b w'(2) show "below w' (snd (case insert_doc fp_BtcPk fp (w_fps w') of
          None \<Rightarrow> (Err (DuplicateKeyError (fp_BtcPk fp) ''finality provider already exists''), w')
        | Some ds \<Rightarrow> (Ok (), w'\<lparr>w_fps := ds\<rparr>))) \<and>
      good e (snd (case insert_doc fp_BtcPk fp (w_fps w') of
          None \<Rightarrow> (Err (DuplicateKeyError (fp_BtcPk fp) ''finality provider already exists''), w')
        | Some ds \<Rightarrow> (Ok (), w'\<lparr>w_fps := ds\<rparr>)))"
    by (simp add: insert_doc_def)
qed

lemma complies_update_fp_state: "guar e any w (UpdateFinalityProviderState e pk s)"
  unfolding UpdateFinalityProviderState_def update_doc_def
  by (rule complies_command)
     (auto split: option.splits simp del: modify_first_None_iff dest!: good_modify_fp [rotated] simp: same_fp_def)

lemma complies_update_fp_details: "guar e any w (UpdateFinalityProviderDetailsFromEvent e fp)"
proof (cases "has_details fp")
  case True
  have "guar e any w (db_call e (\<lambda>w.
        case modify_first (\<lambda>x. fp_BtcPk x = fp_BtcPk fp \<and> True) (set_details fp) (w_fps w) of
          None \<Rightarrow> (Err (NotFoundError (fp_BtcPk fp) ''finality provider not found when updating details''), w)
        | Some ds \<Rightarrow> (Ok (), w\<lparr>w_fps := ds\<rparr>)))"
    by (rule complies_command)
       (auto split: option.splits simp del: modify_first_None_iff dest!: good_modify_fp [rotated]
          simp: same_fp_def set_details_def)
  with True show ?thesis by (simp add: UpdateFinalityProviderDetailsFromEvent_def update_doc_def)
qed (simp add: UpdateFinalityProviderDetailsFromEvent_def world.complies_ret)

lemma complies_get_fp: "guar e any w (GetFinalityProviderByBtcPk e pk)"
  unfolding GetFinalityProviderByBtcPk_def by (rule complies_query) (auto split: option.splits)

section \<open>Parameters, heights, network, statistics\<close>

lemma complies_save_params: "guar e any w (SaveStakingParams e version params)"
  unfolding SaveStakingParams_def
proof (rule complies_command)
  fix w' assume w': "below w w'" "good e w'"
  let ?v = "w'\<lparr>w_staking_params := w_staking_params w' @ [(version, params)]\<rparr>"
  have b: "below w' ?v" by (auto simp: below_def known_def same_fp_def intro: older_refl)
  let ?ds = "if params_index e then insert_doc fst (version, params) (w_staking_params w')
    else Some (w_staking_params w' @ [(version, params)])"
  have "good e ?v" if "params_index e \<Longrightarrow> version \<notin> fst ` set (w_staking_params w')"
    using w'(2) that by (intro goodI [OF w'(2) b]) (auto simp: good_def)
  with b w'(2) show "below w' (snd (case ?ds of
          None \<Rightarrow> (Err (DuplicateKeyError '''' ''duplicate key error''), w')
        | Some ds \<Rightarrow> (Ok (), w'\<lparr>w_staking_params := ds\<rparr>))) \<and>
      good e (snd (case ?ds of
          None \<Rightarrow> (Err (DuplicateKeyError '''' ''duplicate key error''), w')
        | Some ds \<Rightarrow> (Ok (), w'\<lparr>w_staking_params := ds\<rparr>)))"
    by (cases "params_index e") (simp_all add: insert_doc_def)
qed

lemma complies_get_params: "good e w \<Longrightarrow> guar e any w (GetStakingParams e version)"
  unfolding GetStakingParams_def
  by (intro world.complies_wrap_err complies_query) (auto split: option.splits)

lemma complies_singletons:
  "guar e any w (SaveCheckpointParams e cp)" "guar e any w (GetLastProcessedBbnHeight e)"
  "guar e any w (UpdateLastProcessedBbnHeight e height)" "guar e any w (GetNetworkInfo e)"
  "guar e any w (UpsertNetworkInfo e info)" "guar e any w (UpsertOverallStats e tvl n)"
  "guar e any w (UpsertFinalityProviderStats e fp tvl n)"
  by (auto simp: db_defs split: option.splits intro!: complies_command intro: frame_rules)

lemma complies_stats: "good e w \<Longrightarrow> guar e any w (CalculateActiveStatsAggregated e)"
  unfolding CalculateActiveStatsAggregated_def
  by (rule world.complies_andThen [OF complies_query [where Q = any]])
     (auto simp: Let_def intro!: world.complies_ret world.complies_andThen [OF complies_query [where Q = any]])

end
