(* ===== verification/Delegation_Events.thy ===== *)
theory Delegation_Events
  imports Consumer_Events
begin

text \<open>
  \<^verbatim>\<open>internal/services/delegation.go\<close>: the handlers of the delegation events of a Babylon block. Each
  definition is a whole handler, every remote call in the order of the code.
\<close>

definition processNewBTCDelegationEvent :: "env \<Rightarrow> AbciEvent \<Rightarrow> i64 \<Rightarrow> (world, unit) prog" where
  [handler_defs]: "processNewBTCDelegationEvent e event bbnBlockHeight =
     andThen (Done (parseEvent e as_BTCDelegationCreated EventBTCDelegationCreated event)) (\<lambda>newDelegation.
     andThen (Done (validateBTCDelegationCreatedEvent newDelegation)) (\<lambda>_.
     andThen (wrap_err ''failed to get block'' (GetBlock e bbnBlockHeight)) (\<lambda>bbnBlockTime.
     andThen (Done (FromEventBTCDelegationCreated (lib_Deserialize e) (lib_TxHash e) newDelegation bbnBlockHeight bbnBlockTime))
       (\<lambda>delegationDoc.
     on_error (SaveNewBTCDelegation e delegationDoc) (\<lambda>dbErr.
       if IsDuplicateKeyError dbErr then ret ()
       else throw (Wrapped ''failed to save new BTC delegation'' dbErr))))))"

definition processCovenantSignatureReceivedEvent :: "env \<Rightarrow> AbciEvent \<Rightarrow> (world, unit) prog" where
  [handler_defs]: "processCovenantSignatureReceivedEvent e event =
     andThen (Done (parseEvent e as_CovenantSignatureReceived EventCovenantSignatureReceived event)) (\<lambda>ev.
     andThen (wrap_err ''failed to get BTC delegation by staking tx hash''
                (GetBTCDelegationByStakingTxHash e (csr_StakingTxHash ev))) (\<lambda>delegation.
       if \<exists>signature \<in> set (d_CovenantSignatures delegation). cs_CovenantBtcPkHex signature = csr_CovenantBtcPkHex ev
       then ret ()
       else wrap_err ''failed to save BTC delegation unbonding covenant signature''
              (SaveBTCDelegationCovenantSignature e (csr_StakingTxHash ev) (csr_CovenantBtcPkHex ev)
                 (csr_CovenantUnbondingSignatureHex ev) (csr_CovenantStakeExpansionSignatureHex ev))))"

definition processCovenantQuorumReachedEvent :: "env \<Rightarrow> AbciEvent \<Rightarrow> i64 \<Rightarrow> (world, unit) prog" where
  [handler_defs]: "processCovenantQuorumReachedEvent e event bbnBlockHeight =
     andThen (Done (parseEvent e as_CovenantQuorumReached EventCovenantQuorumReached event)) (\<lambda>ev.
     andThen (validateCovenantQuorumReachedEvent e ev) (\<lambda>shouldProcess.
       if \<not> shouldProcess then ret ()
       else andThen (wrap_err ''failed to get BTC delegation by staking tx hash''
                       (GetBTCDelegationByStakingTxHash e (cqr_StakingTxHash ev))) (\<lambda>delegation.
         let newState = DelegationState_of (cqr_NewState ev) in
         andThen
           (if newState = StateActive
            then andThen (emitActiveDelegationEvent e delegation) (\<lambda>_.
                   registerStakingSpendNotification e (d_StakingTxHashHex delegation) (d_StakingTxHex delegation)
                     (d_StakingOutputIdx delegation) (d_StartHeight delegation))
            else ret ()) (\<lambda>_.
         wrap_err ''failed to update BTC delegation state''
           (UpdateBTCDelegationState e (cqr_StakingTxHash ev)
              (QualifiedStatesForCovenantQuorumReached (cqr_NewState ev)) newState
              [WithBbnHeight bbnBlockHeight, WithBbnEventType EventCovenantQuorumReached])))))"

definition processBTCDelegationInclusionProofReceivedEvent :: "env \<Rightarrow> AbciEvent \<Rightarrow> i64 \<Rightarrow> (world, unit) prog" where
  [handler_defs]: "processBTCDelegationInclusionProofReceivedEvent e event bbnBlockHeight =
     andThen (Done (parseEvent e as_InclusionProofReceived EventBTCDelegationInclusionProofReceived event)) (\<lambda>ev.
     andThen (validateBTCDelegationInclusionProofReceivedEvent e ev) (\<lambda>shouldProcess.
       if \<not> shouldProcess then ret ()
       else andThen (wrap_err ''failed to get BTC delegation by staking tx hash''
                       (GetBTCDelegationByStakingTxHash e (ipr_StakingTxHash ev))) (\<lambda>delegation.
         let newState = DelegationState_of (ipr_NewState ev) in
         andThen
           (if newState = StateActive
            then andThen (emitActiveDelegationEvent e delegation) (\<lambda>_.
                   registerStakingSpendNotification e (d_StakingTxHashHex delegation) (d_StakingTxHex delegation)
                     (d_StakingOutputIdx delegation) (fst (ParseUint32 (ipr_StartHeight ev))))
            else ret ()) (\<lambda>_.
         let stakingStartHeight = fst (ParseUint32 (ipr_StartHeight ev));
             stakingEndHeight = fst (ParseUint32 (ipr_EndHeight ev)) in
         andThen (wrap_err ''failed to get block timestamp'' (GetBlockTimestamp e stakingStartHeight))
           (\<lambda>stakingBtcTimestamp.
         wrap_err ''failed to update BTC delegation state''
           (UpdateBTCDelegationState e (ipr_StakingTxHash ev)
              (QualifiedStatesForInclusionProofReceived (ipr_NewState ev)) newState
              [WithBbnHeight bbnBlockHeight, WithStakingStartHeight stakingStartHeight,
               WithStakingEndHeight stakingEndHeight, WithStakingBTCTimestamp stakingBtcTimestamp,
               WithBbnEventType EventBTCDelegationInclusionProofReceived]))))))"

definition processBTCDelegationUnbondedEarlyEvent :: "env \<Rightarrow> AbciEvent \<Rightarrow> i64 \<Rightarrow> (world, unit) prog" where
  [handler_defs]: "processBTCDelegationUnbondedEarlyEvent e event bbnBlockHeight =
     andThen (Done (parseEvent e as_UnbondedEarly EventBTCDelegationUnbondedEarly event)) (\<lambda>ev.
     andThen (validateBTCDelegationUnbondedEarlyEvent e ev) (\<lambda>shouldProcess.
       if \<not> shouldProcess then ret ()
       else andThen (wrap_err ''failed to get BTC delegation by staking tx hash''
                       (GetBTCDelegationByStakingTxHash e (ube_StakingTxHash ev))) (\<lambda>delegation.
         andThen (emitUnbondingDelegationEvent e delegation) (\<lambda>_.
         andThen (wrap_err ''failed to parse start height'' (Done (ParseUint32_result (ube_StartHeight ev)))) (\<lambda>unbondingStartHeight.
         andThen (wrap_err ''failed to get block timestamp'' (GetBlockTimestamp e unbondingStartHeight))
           (\<lambda>unbondingBtcTimestamp.
         let subState = SubStateEarlyUnbonding;
             delegationExpansion = (ube_StakeExpansionTxHash ev \<noteq> '''');
             newState = (if delegationExpansion then StateExpanded else StateUnbonding) in
         andThen
           (if delegationExpansion then ret ()
            else wrap_err ''failed to save timelock expire''
                   (SaveNewTimeLockExpire e (d_StakingTxHashHex delegation)
                      (unbondingStartHeight + d_UnbondingTime delegation) subState)) (\<lambda>_.
         on_error
           (UpdateBTCDelegationState e (ube_StakingTxHash ev) QualifiedStatesForUnbondedEarly newState
              [WithSubState subState, WithBbnHeight bbnBlockHeight,
               WithUnbondingBTCTimestamp unbondingBtcTimestamp, WithUnbondingStartHeight unbondingStartHeight,
               WithBbnEventType EventBTCDelegationUnbondedEarly]) (\<lambda>err.
           if IsNotFoundError err then ret ()
           else throw (Wrapped ''failed to update BTC delegation state'' err)))))))))"

definition processBTCDelegationExpiredEvent :: "env \<Rightarrow> AbciEvent \<Rightarrow> i64 \<Rightarrow> (world, unit) prog" where
  [handler_defs]: "processBTCDelegationExpiredEvent e event bbnBlockHeight =
     andThen (Done (parseEvent e as_DelegationExpired EventBTCDelegationExpired event)) (\<lambda>ev.
     andThen (validateBTCDelegationExpiredEvent e ev) (\<lambda>shouldProcess.
       if \<not> shouldProcess then ret ()
       else andThen (wrap_err ''failed to get BTC delegation by staking tx hash''
                       (GetBTCDelegationByStakingTxHash e (exp_StakingTxHash ev))) (\<lambda>delegation.
         andThen (emitUnbondingDelegationEvent e delegation) (\<lambda>_.
         let subState = SubStateTimelock in
         andThen (wrap_err ''failed to save timelock expire''
                    (SaveNewTimeLockExpire e (d_StakingTxHashHex delegation) (d_EndHeight delegation) subState)) (\<lambda>_.
         wrap_err ''failed to update BTC delegation state''
           (UpdateBTCDelegationState e (d_StakingTxHashHex delegation) QualifiedStatesForExpired StateUnbonding
              [WithSubState subState, WithBbnHeight bbnBlockHeight, WithBbnEventType EventBTCDelegationExpired]))))))"

end
