(* ===== verification/Finality_Provider_Events.thy ===== *)
theory Finality_Provider_Events
  imports Event_Parsing
begin

text \<open>\<^verbatim>\<open>internal/services/finality_provider.go\<close>: the handlers of the finality provider events.\<close>

definition validateFinalityProviderCreatedEvent :: "FinalityProviderCreated \<Rightarrow> unit result" where
  "validateFinalityProviderCreatedEvent fpCreated =
     (if fpc_BtcPkHex fpCreated = '''' then Err (OtherError ''finality provider created event missing btc public key'')
      else Ok ())"

definition validateFinalityProviderEditedEvent :: "FinalityProviderEdited \<Rightarrow> unit result" where
  "validateFinalityProviderEditedEvent fpEdited =
     (if fpe_BtcPkHex fpEdited = '''' then Err (OtherError ''finality provider edited event missing btc public key'')
      else Ok ())"

definition validateFinalityProviderStateChangeEvent :: "env \<Rightarrow> FinalityProviderStatusChanged \<Rightarrow> (world, unit) prog" where
  "validateFinalityProviderStateChangeEvent e fpStateChange =
     andThen (wrap_err ''failed to get finality provider by btc public key''
                (GetFinalityProviderByBtcPk e (fps_BtcPk fpStateChange))) (\<lambda>fp.
       if fps_BtcPk fpStateChange = '''' then throw (OtherError ''finality provider State change event missing btc public key'')
       else if fps_NewState fpStateChange = '''' then throw (OtherError ''finality provider State change event missing State'')
       else if fp_State fp = FINALITY_PROVIDER_STATUS_SLASHED then throw ErrFinalityProviderAlreadySlashed
       else ret ())"

definition processNewFinalityProviderEvent :: "env \<Rightarrow> AbciEvent \<Rightarrow> (world, unit) prog" where
  [handler_defs]: "processNewFinalityProviderEvent e event =
     andThen (Done (parseEvent e as_FinalityProviderCreated EventFinalityProviderCreatedType event)) (\<lambda>newFinalityProvider.
     andThen (Done (validateFinalityProviderCreatedEvent newFinalityProvider)) (\<lambda>_.
     on_error (SaveNewFinalityProvider e (FromEventFinalityProviderCreated newFinalityProvider)) (\<lambda>dbErr.
       if IsDuplicateKeyError dbErr then ret ()
       else throw (Wrapped ''failed to save new finality provider'' dbErr))))"

definition processFinalityProviderEditedEvent :: "env \<Rightarrow> AbciEvent \<Rightarrow> (world, unit) prog" where
  [handler_defs]: "processFinalityProviderEditedEvent e event =
     andThen (Done (parseEvent e as_FinalityProviderEdited EventFinalityProviderEditedType event)) (\<lambda>finalityProviderEdited.
     andThen (Done (validateFinalityProviderEditedEvent finalityProviderEdited)) (\<lambda>_.
     wrap_err ''failed to update finality provider details''
       (UpdateFinalityProviderDetailsFromEvent e (FromEventFinalityProviderEdited finalityProviderEdited))))"

definition processFinalityProviderStateChangeEvent :: "env \<Rightarrow> AbciEvent \<Rightarrow> (world, unit) prog" where
  [handler_defs]: "processFinalityProviderStateChangeEvent e event =
     andThen (Done (parseEvent e as_FinalityProviderStatusChange EventFinalityProviderStatusChange event)) (\<lambda>ev.
     andThen (attempt (validateFinalityProviderStateChangeEvent e ev)) (\<lambda>validation.
       case validation of
         Inl validationErr \<Rightarrow> if IsAlreadySlashedError validationErr then ret () else throw validationErr
       | Inr _ \<Rightarrow> wrap_err ''failed to update finality provider state''
                    (UpdateFinalityProviderState e (fps_BtcPk ev) (fps_NewState ev))))"

end
