(* ===== verification/Event_Processor.thy ===== *)
theory Event_Processor
  imports Delegation_Events Finality_Provider_Events
begin

text \<open>
  The entry of \<^verbatim>\<open>internal/services/events.go\<close>: the choice of the handler and the retries. An event of a
  type that the indexer does not know is accepted without an action.
\<close>

definition processEventMaxRetries :: nat where "processEventMaxRetries = 3"

definition doProcessEvent :: "env \<Rightarrow> AbciEvent \<Rightarrow> i64 \<Rightarrow> (world, unit) prog" where
  "doProcessEvent e bbnEvent blockHeight =
     (if ae_Type bbnEvent = EventFinalityProviderCreatedType then processNewFinalityProviderEvent e bbnEvent
      else if ae_Type bbnEvent = EventFinalityProviderEditedType then processFinalityProviderEditedEvent e bbnEvent
      else if ae_Type bbnEvent = EventFinalityProviderStatusChange then processFinalityProviderStateChangeEvent e bbnEvent
      else if ae_Type bbnEvent = EventBTCDelegationCreated then processNewBTCDelegationEvent e bbnEvent blockHeight
      else if ae_Type bbnEvent = EventCovenantQuorumReached then processCovenantQuorumReachedEvent e bbnEvent blockHeight
      else if ae_Type bbnEvent = EventCovenantSignatureReceived then processCovenantSignatureReceivedEvent e bbnEvent
      else if ae_Type bbnEvent = EventBTCDelegationInclusionProofReceived
        then processBTCDelegationInclusionProofReceivedEvent e bbnEvent blockHeight
      else if ae_Type bbnEvent = EventBTCDelegationUnbondedEarly
        then processBTCDelegationUnbondedEarlyEvent e bbnEvent blockHeight
      else if ae_Type bbnEvent = EventBTCDelegationExpired then processBTCDelegationExpiredEvent e bbnEvent blockHeight
      else ret ())"

definition processEvent :: "env \<Rightarrow> AbciEvent \<Rightarrow> i64 \<Rightarrow> (world, unit) prog" where
  "processEvent e event blockHeight = retry_Do processEventMaxRetries (doProcessEvent e event blockHeight)"

end
