(* ===== verification/Btc_Scripts.thy ===== *)
theory Btc_Scripts
  imports Consumer_Events
begin

text \<open>
  The checks of \<^verbatim>\<open>internal/services/watch_btc_events.go\<close> that classify a spending transaction: which path of
  the staking or the unbonding output it unlocks, and whether it is the registered unbonding transaction.
  The construction of the scripts is the staking library's, a parameter.
\<close>

section \<open>Keys\<close>

text \<open>\<^verbatim>\<open>MustToBTCPK\<close> panics on bytes that are no point of the curve.\<close>

definition MustToBTCPK :: "env \<Rightarrow> bytes \<Rightarrow> bytes result" where
  "MustToBTCPK e pk = (case lib_MustToBTCPK e pk of Some point \<Rightarrow> Ok point | None \<Rightarrow> Panic ''MustToBTCPK'')"

definition parse_staker_pk :: "env \<Rightarrow> BTCDelegationDetails \<Rightarrow> bytes result" where
  "parse_staker_pk e delegation =
     wrap_result ''failed to convert staker btc pkh to a public key''
       (of_lib (lib_NewBIP340PubKeyFromHex e (d_StakerBtcPkHex delegation)))"

text \<open>The loops over the finality provider keys and the covenant keys.\<close>

definition parse_pks :: "env \<Rightarrow> string \<Rightarrow> string list \<Rightarrow> bytes list result" where
  "parse_pks e msg hexes =
     map_result (\<lambda>hex. bind_result (wrap_result msg (of_lib (lib_NewBIP340PubKeyFromHex e hex))) (MustToBTCPK e)) hexes"

abbreviation "fp_pk_msg \<equiv> ''failed to convert finality provider pk hex to a public key''"
abbreviation "covenant_pk_msg \<equiv> ''failed to convert covenant pk hex to a public key''"

definition staking_value :: "BTCDelegationDetails \<Rightarrow> MsgTx \<Rightarrow> i64 result" where
  "staking_value delegation stakingTx =
     bind_result (index_or_panic (tx_TxOut stakingTx) (unat (d_StakingOutputIdx delegation))) (\<lambda>output. Ok (to_Value output))"

text \<open>The second last element of a witness; one with fewer than two is a panic.\<close>

definition script_from_witness :: "TxIn \<Rightarrow> bytes result" where
  "script_from_witness input =
     (if length (ti_Witness input) < 2 then Panic ''spending tx should have at least 2 elements in witness''
      else Ok (ti_Witness input ! (length (ti_Witness input) - 2)))"

definition unlocks :: "MsgTx \<Rightarrow> nat \<Rightarrow> bytes \<Rightarrow> bool result" where
  "unlocks tx inputIdx script =
     bind_result (index_or_panic (tx_TxIn tx) inputIdx) (\<lambda>input.
     bind_result (script_from_witness input) (\<lambda>witnessScript. Ok (script = witnessScript)))"

text \<open>\<^verbatim>\<open>uint16(x)\<close> keeps the low half of the word.\<close>

definition to_uint16 :: "u32 \<Rightarrow> u16" where "to_uint16 x = ucast x"

section \<open>The paths\<close>

definition isSpendingStakingTxUnbondingPath ::
  "env \<Rightarrow> MsgTx \<Rightarrow> BTCDelegationDetails \<Rightarrow> StakingParams \<Rightarrow> bool result" where
  "isSpendingStakingTxUnbondingPath e tx delegation params =
     bind_result (wrap_result ''failed to deserialize staking tx''
       (DeserializeBtcTransactionFromHex (lib_Deserialize e) (d_StakingTxHex delegation))) (\<lambda>stakingTx.
     let stakingTxHash = lib_TxHash e stakingTx in
     if IsTransferTx (Some tx) \<noteq> None then Ok False
     else bind_result (index_or_panic (tx_TxIn tx) 0) (\<lambda>input.
     if op_Hash (ti_PreviousOutPoint input) \<noteq> stakingTxHash then Ok False
     else if op_Index (ti_PreviousOutPoint input) \<noteq> d_StakingOutputIdx delegation then Ok False
     else bind_result (parse_staker_pk e delegation) (\<lambda>stakerPk.
     bind_result (parse_pks e fp_pk_msg (d_FinalityProviderBtcPksHex delegation)) (\<lambda>finalityProviderPks.
     bind_result (parse_pks e fp_pk_msg (sp_CovenantPks params)) (\<lambda>covPks.
     bind_result (GetBTCParams (cfg_NetParams e)) (\<lambda>btcParams.
     bind_result (staking_value delegation stakingTx) (\<lambda>stakingValue.
     bind_result (MustToBTCPK e stakerPk) (\<lambda>staker.
     bind_result (wrap_result ''failed to rebuid the staking info'' (of_lib (lib_BuildStakingInfo e
         \<lparr>sa_StakerPk = staker, sa_FinalityProviderPks = finalityProviderPks, sa_CovenantPks = covPks,
          sa_CovenantQuorum = sp_CovenantQuorum params, sa_LockTime = to_uint16 (d_StakingTime delegation),
          sa_Value = stakingValue, sa_Net = btcParams\<rparr>))) (\<lambda>stakingInfo.
     bind_result (wrap_result ''failed to get the unbonding path spend info'' (of_lib (si_UnbondingPath stakingInfo)))
       (\<lambda>unbondingPathInfo. unlocks tx 0 unbondingPathInfo))))))))))"

definition validateUnbondingTxOutput :: "env \<Rightarrow> MsgTx \<Rightarrow> BTCDelegationDetails \<Rightarrow> StakingParams \<Rightarrow> bool result" where
  "validateUnbondingTxOutput e tx delegation params =
     bind_result (wrap_result ''failed to deserialize staking tx''
       (DeserializeBtcTransactionFromHex (lib_Deserialize e) (d_StakingTxHex delegation))) (\<lambda>stakingTx.
     bind_result (parse_staker_pk e delegation) (\<lambda>stakerPk.
     bind_result (parse_pks e fp_pk_msg (d_FinalityProviderBtcPksHex delegation)) (\<lambda>finalityProviderPks.
     bind_result (parse_pks e fp_pk_msg (sp_CovenantPks params)) (\<lambda>covPks.
     bind_result (GetBTCParams (cfg_NetParams e)) (\<lambda>btcParams.
     bind_result (staking_value delegation stakingTx) (\<lambda>stakingValue.
     bind_result (index_or_panic (tx_TxIn tx) 0) (\<lambda>input.
     if ti_Sequence input \<noteq> 0xFFFFFFFF \<or> tx_LockTime tx \<noteq> 0 then Ok False
     else let expectedUnbondingOutputValue = stakingValue - sp_UnbondingFeeSat params in
     if sint expectedUnbondingOutputValue \<le> 0 then Err (Wrapped ''staking output value is too low'' ErrInvalidUnbondingTx)
     else bind_result (MustToBTCPK e stakerPk) (\<lambda>staker.
     bind_result (wrap_result ''failed to rebuild the unbonding info'' (of_lib (lib_BuildUnbondingInfo e
         \<lparr>sa_StakerPk = staker, sa_FinalityProviderPks = finalityProviderPks, sa_CovenantPks = covPks,
          sa_CovenantQuorum = sp_CovenantQuorum params, sa_LockTime = to_uint16 (d_UnbondingTime delegation),
          sa_Value = expectedUnbondingOutputValue, sa_Net = btcParams\<rparr>))) (\<lambda>unbondingInfo.
     bind_result (index_or_panic (tx_TxOut tx) 0) (\<lambda>output.
     if to_PkScript output \<noteq> to_PkScript (ui_UnbondingOutput unbondingInfo) then Ok False
     else if to_Value output \<noteq> to_Value (ui_UnbondingOutput unbondingInfo) then Ok False
     else bind_result (wrap_result ''failed to decode unbonding tx'' (hex_DecodeString (d_UnbondingTx delegation)))
       (\<lambda>registeredUnbondingTxBytes.
     bind_result (wrap_result ''failed to parse unbonding tx'' (of_lib (lib_NewBTCTxFromBytes e registeredUnbondingTxBytes)))
       (\<lambda>registeredUnbondingTx.
     if lib_TxHash e registeredUnbondingTx \<noteq> lib_TxHash e tx then Ok False
     else Ok True))))))))))))"

text \<open>
  The four remaining checks differ in the path they ask for and in whether it is a path of the staking
  output or of the unbonding output; the code repeats the rest.
\<close>

definition staking_path ::
  "env \<Rightarrow> BTCDelegationDetails \<Rightarrow> StakingParams \<Rightarrow> (StakingInfo \<Rightarrow> string + bytes) \<Rightarrow> string \<Rightarrow> bytes result" where
  "staking_path e delegation params path msg =
     bind_result (parse_staker_pk e delegation) (\<lambda>stakerPk.
     bind_result (parse_pks e fp_pk_msg (d_FinalityProviderBtcPksHex delegation)) (\<lambda>finalityProviderPks.
     bind_result (parse_pks e covenant_pk_msg (sp_CovenantPks params)) (\<lambda>covPks.
     bind_result (GetBTCParams (cfg_NetParams e)) (\<lambda>btcParams.
     bind_result (wrap_result ''failed to deserialize staking tx''
       (DeserializeBtcTransactionFromHex (lib_Deserialize e) (d_StakingTxHex delegation))) (\<lambda>stakingTx.
     bind_result (staking_value delegation stakingTx) (\<lambda>stakingValue.
     bind_result (MustToBTCPK e stakerPk) (\<lambda>staker.
     bind_result (wrap_result ''failed to rebuid the staking info'' (of_lib (lib_BuildStakingInfo e
         \<lparr>sa_StakerPk = staker, sa_FinalityProviderPks = finalityProviderPks, sa_CovenantPks = covPks,
          sa_CovenantQuorum = sp_CovenantQuorum params, sa_LockTime = to_uint16 (d_StakingTime delegation),
          sa_Value = stakingValue, sa_Net = btcParams\<rparr>))) (\<lambda>stakingInfo.
     wrap_result msg (of_lib (path stakingInfo))))))))))"

definition unbonding_path ::
  "env \<Rightarrow> BTCDelegationDetails \<Rightarrow> StakingParams \<Rightarrow> (UnbondingInfo \<Rightarrow> string + bytes) \<Rightarrow> string \<Rightarrow> bytes result" where
  "unbonding_path e delegation params path msg =
     bind_result (parse_staker_pk e delegation) (\<lambda>stakerPk.
     bind_result (parse_pks e fp_pk_msg (d_FinalityProviderBtcPksHex delegation)) (\<lambda>finalityProviderPks.
     bind_result (parse_pks e covenant_pk_msg (sp_CovenantPks params)) (\<lambda>covPks.
     bind_result (GetBTCParams (cfg_NetParams e)) (\<lambda>btcParams.
     bind_result (wrap_result ''failed to deserialize staking tx''
       (DeserializeBtcTransactionFromHex (lib_Deserialize e) (d_StakingTxHex delegation))) (\<lambda>stakingTx.
     bind_result (staking_value delegation stakingTx) (\<lambda>stakingValue.
     bind_result (MustToBTCPK e stakerPk) (\<lambda>staker.
     bind_result (wrap_result ''failed to rebuid the unbonding info'' (of_lib (lib_BuildUnbondingInfo e
         \<lparr>sa_StakerPk = staker, sa_FinalityProviderPks = finalityProviderPks, sa_CovenantPks = covPks,
          sa_CovenantQuorum = sp_CovenantQuorum params, sa_LockTime = to_uint16 (d_UnbondingTime delegation),
          sa_Value = stakingValue - sp_UnbondingFeeSat params, sa_Net = btcParams\<rparr>))) (\<lambda>unbondingInfo.
     wrap_result msg (of_lib (path unbondingInfo))))))))))"

definition isSpendingStakingTxTimeLockPath ::
  "env \<Rightarrow> MsgTx \<Rightarrow> u32 \<Rightarrow> BTCDelegationDetails \<Rightarrow> StakingParams \<Rightarrow> bool result" where
  "isSpendingStakingTxTimeLockPath e tx spendingInputIdx delegation params =
     bind_result (staking_path e delegation params si_TimeLockPath ''failed to get the unbonding path spend info'')
       (\<lambda>timelockPathInfo. unlocks tx (unat spendingInputIdx) timelockPathInfo)"

definition isSpendingStakingTxSlashingPath ::
  "env \<Rightarrow> MsgTx \<Rightarrow> u32 \<Rightarrow> BTCDelegationDetails \<Rightarrow> StakingParams \<Rightarrow> bool result" where
  "isSpendingStakingTxSlashingPath e tx spendingInputIdx delegation params =
     bind_result (staking_path e delegation params si_SlashingPath ''failed to get the slashing path spend info'')
       (\<lambda>slashingPathInfo. unlocks tx (unat spendingInputIdx) slashingPathInfo)"

definition isSpendingUnbondingTxTimeLockPath ::
  "env \<Rightarrow> MsgTx \<Rightarrow> BTCDelegationDetails \<Rightarrow> u32 \<Rightarrow> StakingParams \<Rightarrow> bool result" where
  "isSpendingUnbondingTxTimeLockPath e tx delegation spendingInputIdx params =
     bind_result (unbonding_path e delegation params ui_TimeLockPath ''failed to get the unbonding path spend info'')
       (\<lambda>timelockPathInfo. unlocks tx (unat spendingInputIdx) timelockPathInfo)"

definition isSpendingUnbondingTxSlashingPath ::
  "env \<Rightarrow> MsgTx \<Rightarrow> BTCDelegationDetails \<Rightarrow> u32 \<Rightarrow> StakingParams \<Rightarrow> bool result" where
  "isSpendingUnbondingTxSlashingPath e tx delegation spendingInputIdx params =
     bind_result (unbonding_path e delegation params ui_SlashingPath ''failed to get the slashing path spend info'')
       (\<lambda>slashingPathInfo. unlocks tx (unat spendingInputIdx) slashingPathInfo)"

section \<open>Facts about the checks\<close>

lemma MustToBTCPK_not_Err [simp]: "MustToBTCPK e pk \<noteq> Err err"
  by (simp add: MustToBTCPK_def split: option.splits)

lemma unlocks_eq_Ok:
  "unlocks tx i script = Ok b \<longleftrightarrow>
     i < length (tx_TxIn tx) \<and> 2 \<le> length (ti_Witness (tx_TxIn tx ! i)) \<and>
     b = (script = ti_Witness (tx_TxIn tx ! i) ! (length (ti_Witness (tx_TxIn tx ! i)) - 2))"
  by (auto simp: unlocks_def script_from_witness_def)

lemma uint16_lossless: "unat x < 2 ^ 16 \<Longrightarrow> unat (to_uint16 x) = unat x"
  by (simp add: to_uint16_def unsigned_ucast_eq take_bit_nat_eq_self_iff)

end
