(* ===== verification/Spend_Watchers.thy ===== *)
theory Spend_Watchers
  imports Btc_Scripts
begin

text \<open>
  The rest of \<^verbatim>\<open>internal/services/watch_btc_events.go\<close>: what happens when a watched output is spent.
\<close>

record SpendDetail =
  sd_SpendingTx :: MsgTx
  sd_SpenderInputIndex :: u32
  sd_SpendingHeight :: u32

definition handleWithdrawal ::
  "env \<Rightarrow> BTCDelegationDetails \<Rightarrow> DelegationSubState \<Rightarrow> u32 \<Rightarrow> MsgTx \<Rightarrow> (world, unit) prog" where
  [handler_defs]: "handleWithdrawal e delegation subState spendingHeight spendingTx =
     andThen (wrap_err ''failed to get delegation state'' (GetBTCDelegationState e (d_StakingTxHashHex delegation)))
       (\<lambda>delegationState.
     if delegationState \<notin> set QualifiedStatesForWithdrawn
     then throw (OtherError ''current state is not qualified for withdrawal'')
     else UpdateBTCDelegationState e (d_StakingTxHashHex delegation) QualifiedStatesForWithdrawn StateWithdrawn
            [WithSubState subState, WithBtcHeight spendingHeight, WithWithdrawalTx (lib_TxHash e spendingTx)])"

definition startWatchingSlashingChange ::
  "env \<Rightarrow> MsgTx \<Rightarrow> u32 \<Rightarrow> BTCDelegationDetails \<Rightarrow> DelegationSubState \<Rightarrow> (world, unit) prog" where
  [handler_defs]: "startWatchingSlashingChange e slashingTx spendingHeight delegation subState =
     (let changeOutpoint = \<lparr>op_Hash = lib_TxHash e slashingTx, op_Index = 1\<rparr> in
     andThen (wrap_err ''failed to get staking params'' (GetStakingParams e (d_ParamsVersion delegation))) (\<lambda>stakingParams.
     let slashingChangeTimelockExpireHeight = spendingHeight + sp_UnbondingTimeBlocks stakingParams in
     andThen (wrap_err ''failed to save timelock expire''
       (SaveNewTimeLockExpire e (d_StakingTxHashHex delegation) slashingChangeTimelockExpireHeight subState)) (\<lambda>_.
     go_job \<lparr>job_OutPoint = changeOutpoint, job_Tx = slashingTx, job_OutputIdx = 1,
             job_HeightHint = d_StartHeight delegation,
             job_Watch = WatchSlashingChange delegation subState\<rparr>)))"

text \<open>
  The handler of a spent staking output. Its last two parts stand by themselves: the spend through the slashing path, and
  the spend through none of the paths, which is in order when the spending transaction is the staking transaction of an
  expansion.
\<close>

definition staking_slashed :: "env \<Rightarrow> MsgTx \<Rightarrow> u32 \<Rightarrow> BTCDelegationDetails \<Rightarrow> (world, unit) prog" where
  [handler_defs]: "staking_slashed e spendingTx spendingHeight delegation =
     andThen (wrap_err ''failed to convert slashing tx to bytes'' (Done (of_lib (lib_SlashingTxToHex e spendingTx)))) (\<lambda>slashingTxHex.
     andThen (emitUnbondingDelegationEvent e delegation) (\<lambda>_.
     andThen (wrap_err ''failed to get block timestamp'' (GetBlockTimestamp e spendingHeight))
       (\<lambda>slashingBtcTimestamp.
     andThen (wrap_err ''failed to update BTC delegation state''
       (UpdateBTCDelegationState e (d_StakingTxHashHex delegation) QualifiedStatesForSlashed StateSlashed
          [WithSubState SubStateTimelockSlashing, WithStakingSlashingTx slashingTxHex spendingHeight slashingBtcTimestamp,
           WithBtcHeight spendingHeight])) (\<lambda>_.
     startWatchingSlashingChange e spendingTx spendingHeight delegation SubStateTimelockSlashing))))"

definition staking_expanded :: "env \<Rightarrow> MsgTx \<Rightarrow> (world, unit) prog" where
  [handler_defs]: "staking_expanded e spendingTx =
     andThen (attempt (GetBTCDelegationByStakingTxHash e (lib_TxHash e spendingTx))) (\<lambda>newDelegation.
       case newDelegation of
         Inr d \<Rightarrow> if d_PreviousStakingTxHashHex d \<noteq> '''' then ret ()
                  else throw (OtherError ''spending tx is not unbonding, withdrawal, slashing or delegation expansion'')
       | Inl err \<Rightarrow> throw (OtherError ''spending tx is not unbonding, withdrawal, slashing or delegation expansion''))"

definition handleSpendingStakingTransaction ::
  "env \<Rightarrow> MsgTx \<Rightarrow> u32 \<Rightarrow> u32 \<Rightarrow> string \<Rightarrow> (world, unit) prog" where
  [handler_defs]: "handleSpendingStakingTransaction e spendingTx spendingInputIdx spendingHeight stakingTxHashHex =
     andThen (wrap_err ''failed to get BTC delegation by staking tx hash''
                (GetBTCDelegationByStakingTxHash e stakingTxHashHex)) (\<lambda>delegation.
     andThen (wrap_err ''failed to get staking params'' (GetStakingParams e (d_ParamsVersion delegation))) (\<lambda>params.
     andThen (wrap_err ''failed to check staking tx unbonding path''
                (Done (isSpendingStakingTxUnbondingPath e spendingTx delegation params))) (\<lambda>isUnbonding.
     if isUnbonding then
       andThen (wrap_err ''failed to get block timestamp'' (GetBlockTimestamp e spendingHeight))
         (\<lambda>unbondingBtcTimestamp.
       let subState = SubStateEarlyUnbonding in
       andThen (on_error
         (UpdateBTCDelegationState e (d_StakingTxHashHex delegation) QualifiedStatesForUnbondedEarly StateUnbonding
            [WithSubState subState, WithBtcHeight spendingHeight,
             WithUnbondingBTCTimestamp unbondingBtcTimestamp, WithUnbondingStartHeight spendingHeight])
         (\<lambda>err. if IsNotFoundError err then ret () else throw (Wrapped ''failed to update BTC delegation state'' err))) (\<lambda>_.
       andThen (wrap_err ''failed to validate unbonding tx output''
                  (Done (validateUnbondingTxOutput e spendingTx delegation params))) (\<lambda>validUnbondingOutput.
       if \<not> validUnbondingOutput then ret ()
       else andThen (emitUnbondingDelegationEvent e delegation) (\<lambda>_.
         let unbondingExpireHeight = spendingHeight + d_UnbondingTime delegation in
         andThen (wrap_err ''failed to save timelock expire''
           (SaveNewTimeLockExpire e (d_StakingTxHashHex delegation) unbondingExpireHeight subState)) (\<lambda>_.
         registerUnbondingSpendNotification e delegation)))))
     else andThen (wrap_err ''failed to validate withdrawal tx''
                (Done (isSpendingStakingTxTimeLockPath e spendingTx spendingInputIdx delegation params))) (\<lambda>isWithdrawal.
     if isWithdrawal then handleWithdrawal e delegation SubStateTimelock spendingHeight spendingTx
     else andThen (wrap_err ''failed to validate slashing tx''
                (Done (isSpendingStakingTxSlashingPath e spendingTx spendingInputIdx delegation params))) (\<lambda>isSlashing.
     if isSlashing then
       staking_slashed e spendingTx spendingHeight delegation
     else staking_expanded e spendingTx)))))"

definition handleSpendingUnbondingTransaction ::
  "env \<Rightarrow> MsgTx \<Rightarrow> u32 \<Rightarrow> u32 \<Rightarrow> BTCDelegationDetails \<Rightarrow> (world, unit) prog" where
  [handler_defs]: "handleSpendingUnbondingTransaction e spendingTx spendingHeight spendingInputIdx delegation =
     andThen (wrap_err ''failed to get staking params'' (GetStakingParams e (d_ParamsVersion delegation))) (\<lambda>params.
     andThen (wrap_err ''failed to validate withdrawal tx''
                (Done (isSpendingUnbondingTxTimeLockPath e spendingTx delegation spendingInputIdx params))) (\<lambda>isWithdrawal.
     if isWithdrawal then handleWithdrawal e delegation SubStateEarlyUnbonding spendingHeight spendingTx
     else andThen (wrap_err ''failed to validate slashing tx''
                (Done (isSpendingUnbondingTxSlashingPath e spendingTx delegation spendingInputIdx params))) (\<lambda>isSlashing.
     if isSlashing then
       andThen (wrap_err ''failed to convert unbonding slashing tx to bytes'' (Done (of_lib (lib_SlashingTxToHex e spendingTx))))
         (\<lambda>unbondingSlashingTxHex.
       andThen (wrap_err ''failed to get block timestamp'' (GetBlockTimestamp e spendingHeight))
         (\<lambda>unbondingSlashingBtcTimestamp.
       andThen (wrap_err ''failed to update BTC delegation state''
         (UpdateBTCDelegationState e (d_StakingTxHashHex delegation) QualifiedStatesForSlashed StateSlashed
            [WithSubState SubStateEarlyUnbondingSlashing,
             WithUnbondingSlashingTx unbondingSlashingTxHex spendingHeight unbondingSlashingBtcTimestamp,
             WithBtcHeight spendingHeight])) (\<lambda>_.
       startWatchingSlashingChange e spendingTx spendingHeight delegation SubStateEarlyUnbondingSlashing)))
     else throw (OtherError ''spending tx is neither withdrawal nor slashing''))))"

section \<open>The watching goroutines\<close>

text \<open>Once the spend arrives, an error of the handler is logged and the goroutine ends.\<close>

definition watchForSpendStakingTx :: "env \<Rightarrow> SpendDetail \<Rightarrow> string \<Rightarrow> (world, unit) prog" where
  "watchForSpendStakingTx e spendDetail stakingTxHashHex =
     on_error (handleSpendingStakingTransaction e (sd_SpendingTx spendDetail) (sd_SpenderInputIndex spendDetail)
                 (sd_SpendingHeight spendDetail) stakingTxHashHex) (\<lambda>err. ret ())"

definition watchForSpendUnbondingTx :: "env \<Rightarrow> SpendDetail \<Rightarrow> BTCDelegationDetails \<Rightarrow> (world, unit) prog" where
  "watchForSpendUnbondingTx e spendDetail delegation =
     on_error (handleSpendingUnbondingTransaction e (sd_SpendingTx spendDetail) (sd_SpendingHeight spendDetail)
                 (sd_SpenderInputIndex spendDetail) delegation) (\<lambda>err. ret ())"

definition watchForSpendSlashingChange ::
  "env \<Rightarrow> SpendDetail \<Rightarrow> BTCDelegationDetails \<Rightarrow> DelegationSubState \<Rightarrow> (world, unit) prog" where
  "watchForSpendSlashingChange e spendDetail delegation subState =
     on_error
       (andThen (GetBTCDelegationState e (d_StakingTxHashHex delegation)) (\<lambda>delegationState.
        if delegationState \<notin> set QualifiedStatesForWithdrawn then ret ()
        else UpdateBTCDelegationState e (d_StakingTxHashHex delegation) QualifiedStatesForWithdrawn StateWithdrawn
               [WithSubState subState, WithBtcHeight (sd_SpendingHeight spendDetail),
                WithWithdrawalTx (lib_TxHash e (sd_SpendingTx spendDetail))])) (\<lambda>err. ret ())"

fun watch_spend :: "env \<Rightarrow> Watch \<Rightarrow> SpendDetail \<Rightarrow> (world, unit) prog" where
  "watch_spend e (WatchStaking stakingTxHashHex) spendDetail = watchForSpendStakingTx e spendDetail stakingTxHashHex"
| "watch_spend e (WatchUnbonding delegation) spendDetail = watchForSpendUnbondingTx e spendDetail delegation"
| "watch_spend e (WatchSlashingChange delegation subState) spendDetail =
     watchForSpendSlashingChange e spendDetail delegation subState"

end
