(* ===== verification/Pollers.thy ===== *)
theory Pollers
  imports Event_Parsing
begin

text \<open>
  The periodic tasks: \<^verbatim>\<open>expiry_checker.go\<close>, \<^verbatim>\<open>stats_poller.go\<close> and \<^verbatim>\<open>global_params.go\<close> of
  \<^verbatim>\<open>internal/services\<close>, with the poller of \<^verbatim>\<open>internal/utils/poller\<close> that runs them.
\<close>

section \<open>The poller\<close>

text \<open>An error of the poll method is logged; the next tick runs the method again.\<close>

definition poll_once :: "(world, unit) prog \<Rightarrow> (world, unit) prog" where
  "poll_once pollMethod = on_error pollMethod (\<lambda>err. ret ())"

text \<open>
  \<open>ticks\<close> is the number of ticks that the loop takes before the context is cancelled: the method runs once at the
  start and once at each of them. A ticker panics on an interval that is not positive. The context of each call is in
  \<open>Tracing\<close>.
\<close>

record Poller =
  po_interval :: i64
  po_pollMethod :: "(world, unit) prog"

definition NewPoller :: "i64 \<Rightarrow> (world, unit) prog \<Rightarrow> Poller" where
  "NewPoller interval pollMethod = \<lparr>po_interval = interval, po_pollMethod = pollMethod\<rparr>"

primrec poller_rounds :: "(world, unit) prog \<Rightarrow> nat \<Rightarrow> (world, unit) prog" where
  "poller_rounds pollMethod 0 = poll_once pollMethod"
| "poller_rounds pollMethod (Suc ticks) = andThen (poll_once pollMethod) (\<lambda>_. poller_rounds pollMethod ticks)"

definition Poller_Start :: "Poller \<Rightarrow> nat \<Rightarrow> (world, unit) prog" where
  "Poller_Start p ticks =
     (if \<not> 0 < sint (po_interval p) then panic ''non-positive interval for NewTicker''
      else poller_rounds (po_pollMethod p) ticks)"

section \<open>Expiry\<close>

text \<open>
  The error that a failed state update leads to is made from the outer variable \<^verbatim>\<open>err\<close>, which is nil
  there: it wraps nothing.
\<close>

definition expire_one :: "env \<Rightarrow> TimeLockDocument \<Rightarrow> (world, unit) prog" where
  "expire_one e tlDoc =
     andThen (wrap_err ''failed to get BTC delegation by staking tx hash''
                (GetBTCDelegationByStakingTxHash e (tl_StakingTxHashHex tlDoc))) (\<lambda>delegation.
     andThen (wrap_err ''failed to get qualified states for withdrawable''
                (Done (QualifiedStatesForWithdrawable (tl_DelegationSubState tlDoc)))) (\<lambda>qualifiedStates.
     andThen (on_error
       (UpdateBTCDelegationState e (d_StakingTxHashHex delegation) qualifiedStates StateWithdrawable
          [WithSubState (tl_DelegationSubState tlDoc), WithBtcHeight (tl_ExpireHeight tlDoc)])
       (\<lambda>stateUpdateErr. if IsNotFoundError stateUpdateErr then ret ()
                          else throw (OtherError ''failed to update BTC delegation state to withdrawable: %!w(<nil>)''))) (\<lambda>_.
     wrap_err ''failed to delete expired delegation'' (DeleteExpiredDelegation e (d_StakingTxHashHex delegation)))))"

definition checkExpiry :: "env \<Rightarrow> (world, unit) prog" where
  "checkExpiry e =
     andThen (wrap_err ''failed to get BTC tip height'' (GetTipHeight e)) (\<lambda>btcTip.
     andThen (wrap_err ''failed to find expired delegations''
                (FindExpiredDelegations e btcTip (cfg_ExpiredDelegationsLimit e))) (\<lambda>expiredDelegations.
     for_each expiredDelegations (expire_one e)))"

section \<open>Statistics\<close>

definition calculateAndUpdateStats :: "env \<Rightarrow> (world, unit) prog" where
  "calculateAndUpdateStats e =
     andThen (wrap_err ''failed to calculate active stats'' (CalculateActiveStatsAggregated e))
       (\<lambda>(overallTvl, overallDelegations, fpStats).
     if overallDelegations = 0 then ret ()
     else andThen (wrap_err ''failed to upsert overall stats'' (UpsertOverallStats e overallTvl overallDelegations)) (\<lambda>_.
     for_each fpStats (\<lambda>fpStat.
       wrap_err ''failed to upsert finality provider stats''
         (UpsertFinalityProviderStats e (fs_FpBtcPkHex fpStat) (fs_ActiveTvl fpStat) (fs_ActiveDelegations fpStat)))))"

section \<open>Global parameters and the network\<close>

text \<open>\<open>fuel\<close> bounds the versions that one pass asks the chain for.\<close>

definition save_params_version :: "env \<Rightarrow> (u32 \<times> StakingParams option) list \<Rightarrow> u32 \<Rightarrow> (world, unit) prog" where
  "save_params_version e stakingParams version =
     (case map_of stakingParams version of
        Some (Some params) \<Rightarrow>
          andThen (on_error (SaveStakingParams e version params) (\<lambda>err.
            if IsDuplicateKeyError err then ret () else throw (Wrapped ''failed to save staking params'' err))) (\<lambda>_.
          poke (\<lambda>w. w\<lparr>w_params_version := version\<rparr>))
      | _ \<Rightarrow> throw (OtherError ''nil staking params''))"

definition fetchAndSaveParams :: "nat \<Rightarrow> env \<Rightarrow> (world, unit) prog" where
  "fetchAndSaveParams fuel e =
     andThen (wrap_err ''failed to get checkpoint params'' (GetCheckpointParams_rpc e)) (\<lambda>checkpointParams.
     andThen (wrap_err ''failed to save checkpoint params'' (SaveCheckpointParams e checkpointParams)) (\<lambda>_.
     andThen (peek w_params_version) (\<lambda>latestVersion.
     let nextVersion = (if latestVersion = 0 then 0 else latestVersion + 1) in
     andThen (wrap_err ''failed to get staking params'' (GetStakingParams_rpc fuel e nextVersion)) (\<lambda>stakingParams.
     for_each (sort (map fst stakingParams)) (save_params_version e stakingParams)))))"

primrec try_network_info :: "nat \<Rightarrow> env \<Rightarrow> (world, unit) prog" where
  "try_network_info 0 e = panic ''failed to fetch and store chain ID''"
| "try_network_info (Suc n) e =
     andThen (attempt (GetChainID e)) (\<lambda>r. case r of
       Inl err \<Rightarrow> try_network_info n e
     | Inr chainID \<Rightarrow>
         andThen (attempt (GetNetworkInfo e)) (\<lambda>stored.
           let upsert = andThen (attempt (UpsertNetworkInfo e \<lparr>ni_ChainID = chainID\<rparr>)) (\<lambda>r. case r of
                          Inl err \<Rightarrow> try_network_info n e | Inr _ \<Rightarrow> ret ()) in
           case stored of
             Inl err \<Rightarrow> if \<not> IsNotFoundError err then try_network_info n e else upsert
           | Inr storedChain \<Rightarrow>
               if ni_ChainID storedChain \<noteq> chainID then panic ''chainID from bbn node is different from value stored in db''
               else upsert))"

definition fetchAndSaveNetworkInfo :: "env \<Rightarrow> (world, unit) prog" where
  "fetchAndSaveNetworkInfo e = try_network_info 3 e"

end
