(* ===== verification/Bootstrap.thy ===== *)
theory Bootstrap
  imports Event_Processor Spend_Watchers Pollers
begin

text \<open>
  \<^verbatim>\<open>internal/services/bootstrap.go\<close>, \<^verbatim>\<open>subscription.go\<close> and \<^verbatim>\<open>service.go\<close>: the events of a block, the work on
  one block, the work on one staker address, and the subscriptions after a restart.
\<close>

section \<open>Blocks\<close>

datatype EventCategory = BlockCategory | TxCategory

record BbnEvent =
  be_Category :: EventCategory
  be_Event :: AbciEvent

definition NewBbnEvent :: "EventCategory \<Rightarrow> AbciEvent \<Rightarrow> BbnEvent" where
  "NewBbnEvent category event = \<lparr>be_Category = category, be_Event = event\<rparr>"

text \<open>The events of the transactions come first, in their order, then those of the block.\<close>

definition getEventsFromBlock :: "env \<Rightarrow> i64 \<Rightarrow> (world, BbnEvent list) prog" where
  "getEventsFromBlock e blockHeight =
     andThen (wrap_err ''failed to get block results'' (GetBlockResults e blockHeight)) (\<lambda>(txsResults, finalizeBlockEvents).
     ret (concat (map (map (NewBbnEvent TxCategory)) txsResults) @ map (NewBbnEvent BlockCategory) finalizeBlockEvents))"

text \<open>One item of the channel between the fetching and the processing goroutine.\<close>

record blockEvents =
  blk_blockHeight :: i64
  blk_events :: "BbnEvent list"

definition process_item :: "env \<Rightarrow> blockEvents \<Rightarrow> (world, unit) prog" where
  "process_item e item =
     andThen (for_each (blk_events item) (\<lambda>event. processEvent e (be_Event event) (blk_blockHeight item))) (\<lambda>_.
     wrap_err ''failed to update last processed height in database''
       (UpdateLastProcessedBbnHeight e (blk_blockHeight item)))"

text \<open>Draining the channel of new heights: the last one that is there.\<close>

fun getLatestHeight :: "i64 \<Rightarrow> i64 list \<Rightarrow> i64" where
  "getLatestHeight latestHeight [] = latestHeight"
| "getLatestHeight latestHeight (newHeight # pending) = getLatestHeight newHeight pending"

text \<open>
  The loop over the heights after the last one, as the list of heights; \<^verbatim>\<open>uint64(latestHeight)\<close> keeps the
  bits. The loop of the code does not end when the latest height is the largest number.
\<close>

definition heights_after :: "u64 \<Rightarrow> i64 \<Rightarrow> u64 list" where
  "heights_after lastProcessedHeight latestHeight =
     map word_of_nat [Suc (unat lastProcessedHeight)..<Suc (unat latestHeight)]"

text \<open>A new block event of the subscription; anything else, and the height 0, is fatal.\<close>

datatype SubscriptionEvent = EventDataNewBlock i64 | EventDataOther

fun new_block_height :: "SubscriptionEvent \<Rightarrow> i64 result" where
  "new_block_height (EventDataNewBlock height) =
     (if height = 0 then Panic ''Event doesn't contain block height information'' else Ok height)"
| "new_block_height EventDataOther = Panic ''Event is not a NewBlock event''"

section \<open>Restart\<close>

definition resubscribe_one :: "env \<Rightarrow> BTCDelegationDetails \<Rightarrow> (world, unit) prog" where
  "resubscribe_one e delegation =
     (if \<not> HasInclusionProof delegation then ret ()
      else on_error (registerStakingSpendNotification e (d_StakingTxHashHex delegation) (d_StakingTxHex delegation)
                       (d_StakingOutputIdx delegation) (d_StartHeight delegation))
             (\<lambda>err. panic ''failed to register spend notification''))"

definition ResubscribeToMissedBtcNotifications :: "env \<Rightarrow> (world, unit) prog" where
  "ResubscribeToMissedBtcNotifications e =
     andThen (on_error (GetBTCDelegationsByStates e [StateActive, StateUnbonding, StateWithdrawable, StateSlashed])
                (\<lambda>err. panic ''failed to get BTC delegations'')) (\<lambda>delegations.
     for_each delegations (resubscribe_one e))"

section \<open>Backfill of staker addresses\<close>

definition ValidateBabylonAddress :: "env \<Rightarrow> string \<Rightarrow> unit result" where
  "ValidateBabylonAddress e address =
     bind_result (of_lib (lib_GetFromBech32 e address ''bbn'')) (\<lambda>bz.
       case lib_VerifyAddressFormat e bz of Some msg \<Rightarrow> Err (OtherError msg) | None \<Rightarrow> Ok ())"

text \<open>The work of a worker on one hash.\<close>

definition fill_one :: "env \<Rightarrow> bool \<Rightarrow> string \<Rightarrow> (world, unit) prog" where
  "fill_one e dryRun stakingTxHashHex =
     andThen (BabylonStakerAddress e stakingTxHashHex) (\<lambda>bbnAddress.
     if bbnAddress = '''' then throw (OtherError ''empty staker address for tx'')
     else andThen (Done (ValidateBabylonAddress e bbnAddress)) (\<lambda>_.
     if \<not> dryRun then wrap_err ''failed to update delegation staker addr''
                        (UpdateDelegationStakerBabylonAddress e stakingTxHashHex bbnAddress)
     else ret ()))"

end
