(* ===== verification/Handler_Rules.thy ===== *)
theory Handler_Rules
  imports Database_Rules Bootstrap
begin

text \<open>
  Every handler, watcher and periodic task keeps the guarantee of \<open>World_Invariant\<close>, whatever the other
  goroutines and the services do.
\<close>

section \<open>Sequencing\<close>

lemma bind_any:
  "guar e any w p \<Longrightarrow> good e w \<Longrightarrow> (\<And>w' x. below w w' \<Longrightarrow> good e w' \<Longrightarrow> guar e R w' (k x)) \<Longrightarrow> guar e R w (andThen p k)"
  by (rule world.complies_andThen)

lemma bind_Done: "(\<And>x. r = Ok x \<Longrightarrow> guar e R w (k x)) \<Longrightarrow> guar e R w (andThen (Done r) k)"
  by (cases r) (auto intro: complies.intros)

lemma bind_wrap_Done: "(\<And>x. r = Ok x \<Longrightarrow> guar e R w (k x)) \<Longrightarrow> guar e R w (andThen (wrap_err msg (Done r)) k)"
  unfolding wrap_err_def by (cases r) (auto intro: complies.intros)

lemma complies_wrap: "guar e any w p \<Longrightarrow> good e w \<Longrightarrow> guar e any w (wrap_err msg p)"
  by (rule world.complies_wrap_err)

lemmas bind_get = world.complies_andThen [OF world.complies_wrap_err [OF complies_get_delegation]]
lemmas bind_wrap_any = bind_any [OF complies_wrap]

lemma complies_if: "(b \<Longrightarrow> guar e Q w p) \<Longrightarrow> (\<not> b \<Longrightarrow> guar e Q w q) \<Longrightarrow> guar e Q w (if b then p else q)"
  by simp

section \<open>Chain clients\<close>

lemma complies_clients:
  assumes "good e w"
  shows "guar e any w (GetBlockTimestamp e height)" "guar e any w (GetBlock e i)" "guar e any w (GetBlockResults e i)"
    "guar e any w (BabylonStakerAddress e h)" "guar e any w (GetChainID e)" "guar e any w (GetCheckpointParams_rpc e)"
  unfolding GetBlockTimestamp_def GetBlock_def GetBlockResults_def BabylonStakerAddress_def GetChainID_def
    getStatus_def GetCheckpointParams_rpc_def
  using assms
  by (auto intro!: complies_wrap bind_any complies_client_call complies_ask world.complies_ret world.complies_throw
      split: option.splits)

lemma complies_tip_height:
  assumes "good e w"
  shows "guar e (\<lambda>v tip. \<forall>height. unat height \<le> unat tip \<longrightarrow> tip_seen e v height) w (GetTipHeight e)"
  unfolding GetTipHeight_def
  by (intro world.complies_wrap_err complies_client_call complies_ask_Q) (use assms in \<open>auto simp: tip_seen_def\<close>)

lemma complies_params_from: "good e w \<Longrightarrow> guar e any w (GetStakingParams_from n e version acc)"
proof (induction n arbitrary: w version acc)
  case (Suc n)
  have attempt: "good e w' \<Longrightarrow> guar e any w' p \<Longrightarrow> guar e any w' (attempt p)" for w' and p :: "(world, BbnStakingParams) prog"
    by (rule world.complies_any, rule world.complies_attempt)
  show ?case
    unfolding GetStakingParams_from.simps
    using Suc
    by (intro bind_any attempt complies_ask)
       (auto split: sum.splits intro!: bind_any attempt complies_client_call complies_ask world.complies_ret world.complies_throw)
qed (simp add: world.complies_throw)

section \<open>Messages and spend notifications\<close>

lemma complies_emit:
  assumes "good e w"
  shows "guar e (\<lambda>v _. queued v ActiveStakingEventType (d_StakingTxHashHex d)) w (emitActiveDelegationEvent e d)"
    and "guar e (\<lambda>v _. queued v UnbondingStakingEventType (d_StakingTxHashHex d)) w (emitUnbondingDelegationEvent e d)"
  using complies_push_event [of e "staking_event ActiveStakingEventType d" w]
    complies_push_event [of e "staking_event UnbondingStakingEventType d" w] assms
  unfolding emitActiveDelegationEvent_def emitUnbondingDelegationEvent_def
  by (auto simp: staking_event_def intro: world.complies_wrap_err)

lemmas bind_emit = complies_emit [THEN world.complies_andThen]

lemma complies_register_staking: "h \<in> hashes w \<Longrightarrow> guar e any w (registerStakingSpendNotification e h tx i start)"
  unfolding registerStakingSpendNotification_def by (intro bind_wrap_Done complies_go_job) simp

lemma complies_register_unbonding: "known w d \<Longrightarrow> guar e any w (registerUnbondingSpendNotification e d)"
  unfolding registerUnbondingSpendNotification_def by (intro bind_wrap_Done complies_go_job) simp

lemma complies_spend_job:
  assumes "good e w" "watch_ok w (job_Watch job)"
  shows "guar e any w (spend_job e job)"
  unfolding spend_job_def
proof (intro bind_Done)
  fix txOut
  have "guar e any w (RegisterSpendNtfn e (job_OutPoint job) (to_PkScript txOut) (job_HeightHint job))"
    unfolding RegisterSpendNtfn_def using assms by (intro world.complies_retry complies_ask)
  then have "guar e any w (attempt (RegisterSpendNtfn e (job_OutPoint job) (to_PkScript txOut) (job_HeightHint job)))"
    using assms by (intro world.complies_any [OF world.complies_attempt])
  then show "guar e any w (andThen (attempt (RegisterSpendNtfn e (job_OutPoint job) (to_PkScript txOut) (job_HeightHint job)))
    (\<lambda>r. case r of Inl err \<Rightarrow> ret ()
      | Inr _ \<Rightarrow> poke (\<lambda>w. w\<lparr>w_watches := w_watches w @ [(job_OutPoint job, job_Watch job)]\<rparr>)))"
  proof (rule bind_any [OF _ assms(1)])
    fix w' r assume w': "below w w'" "good e w'"
    show "guar e any w' (case r of Inl err \<Rightarrow> ret ()
      | Inr _ \<Rightarrow> poke (\<lambda>w. w\<lparr>w_watches := w_watches w @ [(job_OutPoint job, job_Watch job)]\<rparr>))"
    proof (cases r)
      case (Inr u)
      show ?thesis
        unfolding Inr sum.case poke_def
      proof (rule world.complies_atomically, unfold snd_conv)
        fix v assume v: "below w' v" "good e v"
        let ?v = "v\<lparr>w_watches := w_watches v @ [(job_OutPoint job, job_Watch job)]\<rparr>"
        have b: "below v ?v" by (auto simp: below_def known_def same_fp_def intro: older_refl)
        have "watch_ok ?v (job_Watch job)"
          using watch_ok_mono [OF below_trans [OF below_trans [OF w'(1) v(1)] b] assms(2)] .
        then have "good e ?v" using v(2) by (intro goodI [OF v(2) b]) (auto simp: good_def)
        with b show "below v ?v \<and> good e ?v" ..
      qed (rule any_intro)
    qed (simp add: world.complies_ret)
  qed
qed

section \<open>Delegation events\<close>

lemma complies_validate:
  assumes "good e w"
  shows "guar e any w (validateCovenantQuorumReachedEvent e ev1)"
    "guar e any w (validateBTCDelegationInclusionProofReceivedEvent e ev2)"
    "guar e any w (validateBTCDelegationUnbondedEarlyEvent e ev3)"
    "guar e any w (validateBTCDelegationExpiredEvent e ev4)"
  unfolding validateCovenantQuorumReachedEvent_def validateBTCDelegationInclusionProofReceivedEvent_def
    validateBTCDelegationUnbondedEarlyEvent_def validateBTCDelegationExpiredEvent_def
  using assms
  by (auto simp: Let_def intro!: complies_if bind_wrap_Done bind_get world.complies_ret world.complies_throw)

lemma complies_process_new: 
  assumes "good e w"
  shows "guar e any w (processNewBTCDelegationEvent e event height)"
  unfolding processNewBTCDelegationEvent_def
proof (intro bind_Done bind_wrap_any complies_clients assms)
  fix w' d bbnBlockTime newDelegation
  assume w': "below w w'" "good e w'"
    and d: "FromEventBTCDelegationCreated (lib_Deserialize e) (lib_TxHash e) newDelegation height bbnBlockTime = Ok d"
  from FromEventBTCDelegationCreated_Ok [OF d] have "delegation_ok e w' d"
    by (auto simp: delegation_ok_def wf_delegation_def history_ok_def evidence_def)
  then show "guar e any w' (on_error (SaveNewBTCDelegation e d) (\<lambda>dbErr.
       if IsDuplicateKeyError dbErr then ret () else throw (Wrapped ''failed to save new BTC delegation'' dbErr)))"
    using w'(2) by (intro world.complies_on_error complies_save_delegation) (auto intro: world.complies_ret world.complies_throw)
qed

lemma complies_process_signature:
  "good e w \<Longrightarrow> guar e any w (processCovenantSignatureReceivedEvent e event)"
  unfolding processCovenantSignatureReceivedEvent_def
  by (intro bind_Done bind_get) (auto intro!: complies_wrap complies_save_signature world.complies_ret)

lemma sub_of_simps [simp]:
  "sub_of (opt # opts) = (case uo_subState (fold (\<lambda>opt options. opt options) opts (opt empty_options)) of
     Some sub \<Rightarrow> sub | None \<Rightarrow> NoSubState)"
  by (simp add: sub_of_def options_of_def)

lemmas options_simps =
  options_of_def empty_options_def WithSubState_def WithBbnHeight_def WithBtcHeight_def WithStakingStartHeight_def
  WithStakingEndHeight_def WithUnbondingStartHeight_def WithStakingBTCTimestamp_def WithUnbondingBTCTimestamp_def
  WithStakingSlashingTx_def WithUnbondingSlashingTx_def WithWithdrawalTx_def WithBbnEventType_def

lemma DelegationState_of_simps [simp]:
  "DelegationState_of ''PENDING'' = StatePending" "DelegationState_of ''VERIFIED'' = StateVerified"
  "DelegationState_of ''ACTIVE'' = StateActive"
  by (simp_all add: DelegationState_of_def)

text \<open>A message, then a subscription, before the state becomes active.\<close>

lemma complies_activate:
  assumes "good e w" "known w d"
  shows "guar e (\<lambda>v _. active \<longrightarrow> queued v ActiveStakingEventType (d_StakingTxHashHex d)) w
    (if active then andThen (emitActiveDelegationEvent e d) (\<lambda>_.
       registerStakingSpendNotification e (d_StakingTxHashHex d) tx i start) else ret ())"
proof (rule complies_if)
  assume active
  show "guar e (\<lambda>v _. active \<longrightarrow> queued v ActiveStakingEventType (d_StakingTxHashHex d)) w
    (andThen (emitActiveDelegationEvent e d) (\<lambda>_. registerStakingSpendNotification e (d_StakingTxHashHex d) tx i start))"
  proof (rule bind_emit(1) [OF assms(1) assms(1)])
    fix w' x assume w': "below w w'" "good e w'" "queued w' ActiveStakingEventType (d_StakingTxHashHex d)"
    have "guar e any w' (registerStakingSpendNotification e (d_StakingTxHashHex d) tx i start)"
      using known_hash [OF known_mono [OF w'(1) assms(2)]] by (rule complies_register_staking)
    then show "guar e (\<lambda>v _. active \<longrightarrow> queued v ActiveStakingEventType (d_StakingTxHashHex d)) w'
      (registerStakingSpendNotification e (d_StakingTxHashHex d) tx i start)"
      by (rule world.complies_weaken) (use queued_mono [OF _ w'(3)] in blast)
  qed
qed (auto intro: world.complies_ret_Q)

lemmas bind_activate = complies_activate [THEN world.complies_andThen]

lemmas bind_validate = complies_validate [THEN bind_any]
lemmas bind_timestamp = bind_any [OF complies_wrap [OF complies_clients(1)]]
lemmas bind_params = bind_any [OF complies_wrap [OF complies_get_params]]
lemmas bind_timelock = bind_any [OF complies_wrap [OF complies_save_timelock]]

lemma complies_process_quorum:
  assumes "good e w"
  shows "guar e any w (processCovenantQuorumReachedEvent e event height)"
  unfolding processCovenantQuorumReachedEvent_def Let_def
  by (intro bind_Done bind_validate assms complies_if bind_get bind_activate complies_wrap complies_update world.complies_ret)
     (auto simp: options_simps evidence_def stateRecord_of_def qualified_defs split: if_splits)

lemma complies_process_inclusion:
  assumes "good e w"
  shows "guar e any w (processBTCDelegationInclusionProofReceivedEvent e event height)"
  unfolding processBTCDelegationInclusionProofReceivedEvent_def Let_def
  by (intro bind_Done bind_validate assms complies_if bind_get bind_activate bind_timestamp complies_wrap complies_update
        world.complies_ret)
     (auto simp: options_simps evidence_def stateRecord_of_def qualified_defs dest: queued_mono split: if_splits)

lemma complies_process_unbonded_early:
  assumes "good e w"
  shows "guar e any w (processBTCDelegationUnbondedEarlyEvent e event height)"
  unfolding processBTCDelegationUnbondedEarlyEvent_def Let_def
  by (intro bind_Done bind_validate assms complies_if bind_get bind_emit bind_wrap_Done bind_timestamp
        bind_any [OF complies_if] complies_wrap complies_save_timelock
        world.complies_on_error complies_update world.complies_ret world.complies_throw)
     (auto simp: options_simps evidence_def stateRecord_of_def qualified_defs
        dest: queued_mono split: if_splits, metis hashes_mono known_hash)

lemma complies_process_expired:
  assumes "good e w"
  shows "guar e any w (processBTCDelegationExpiredEvent e event height)"
  unfolding processBTCDelegationExpiredEvent_def Let_def
  by (intro bind_Done bind_validate assms complies_if bind_get bind_emit bind_timelock complies_wrap complies_update
        world.complies_ret)
     (auto simp: options_simps evidence_def stateRecord_of_def qualified_defs
        dest: queued_mono hashes_mono known_hash split: if_splits)

section \<open>Finality provider events\<close>

lemma complies_process_new_fp: "good e w \<Longrightarrow> guar e any w (processNewFinalityProviderEvent e event)"
  unfolding processNewFinalityProviderEvent_def
  by (intro bind_Done world.complies_on_error complies_save_fp complies_if world.complies_ret world.complies_throw)

lemma complies_process_edited_fp: "good e w \<Longrightarrow> guar e any w (processFinalityProviderEditedEvent e event)"
  unfolding processFinalityProviderEditedEvent_def
  by (intro bind_Done complies_wrap complies_update_fp_details)

lemma complies_validate_fp: "good e w \<Longrightarrow> guar e any w (validateFinalityProviderStateChangeEvent e ev)"
  unfolding validateFinalityProviderStateChangeEvent_def
  by (intro bind_wrap_any complies_get_fp complies_if world.complies_ret world.complies_throw)

lemma complies_attempt_any: "guar e any w p \<Longrightarrow> good e w \<Longrightarrow> guar e any w (attempt p)"
  by (rule world.complies_any [OF world.complies_attempt])

lemma complies_process_fp_state: "good e w \<Longrightarrow> guar e any w (processFinalityProviderStateChangeEvent e event)"
  unfolding processFinalityProviderStateChangeEvent_def
  by (intro bind_Done bind_any complies_attempt_any complies_validate_fp)
     (auto split: sum.splits intro: complies_wrap complies_update_fp_state world.complies_ret world.complies_throw)

theorem complies_process_event:
  assumes "good e w"
  shows "guar e any w (processEvent e event height)"
proof -
  have "guar e any w' (doProcessEvent e event height)" if "good e w'" for w'
    unfolding doProcessEvent_def
    by (intro complies_if complies_process_new_fp complies_process_edited_fp complies_process_fp_state complies_process_new
          complies_process_quorum complies_process_signature complies_process_inclusion complies_process_unbonded_early
          complies_process_expired world.complies_ret that)
  then show ?thesis
    unfolding processEvent_def using assms by (intro world.complies_retry)
qed

section \<open>Spend watchers\<close>

lemma complies_withdrawal:
  assumes "good e w" "unbonding_sub sub \<or> slashing_sub sub"
  shows "guar e any w (handleWithdrawal e d sub height tx)"
  unfolding handleWithdrawal_def
  using assms
  by (intro bind_wrap_any complies_get_state complies_if world.complies_throw complies_update)
     (auto simp: options_simps evidence_def stateRecord_of_def qualified_defs)

lemma complies_slashing_change:
  assumes "good e w" "known w d" "slashing_sub sub"
  shows "guar e any w (startWatchingSlashingChange e tx height d sub)"
  unfolding startWatchingSlashingChange_def Let_def
  using assms
  by (intro bind_params bind_timelock complies_go_job) (auto intro: known_mono known_hash hashes_mono)

lemma complies_handle_staking:
  assumes "good e w"
  shows "guar e any w (handleSpendingStakingTransaction e tx i height h)"
  unfolding handleSpendingStakingTransaction_def staking_slashed_def staking_expanded_def Let_def
  by (intro bind_get bind_params bind_wrap_Done complies_if bind_timestamp assms
      bind_any [OF world.complies_on_error] complies_update bind_emit bind_timelock complies_register_unbonding
      complies_withdrawal bind_any [OF complies_wrap [OF complies_update]] complies_slashing_change
      bind_any [OF complies_attempt_any [OF world.complies_any [OF complies_get_delegation]]]
      world.complies_ret world.complies_throw)
    ((auto simp: options_simps evidence_def stateRecord_of_def qualified_defs
        dest: queued_mono split: if_splits sum.splits intro: world.complies_ret world.complies_throw;
      meson known_mono known_hash)+)

lemma complies_handle_unbonding:
  assumes "good e w" "known w d"
  shows "guar e any w (handleSpendingUnbondingTransaction e tx height i d)"
  unfolding handleSpendingUnbondingTransaction_def Let_def
  by (intro bind_params bind_wrap_Done complies_if bind_timestamp assms complies_withdrawal
      bind_any [OF complies_wrap [OF complies_update]] complies_slashing_change world.complies_throw)
    ((auto simp: options_simps evidence_def stateRecord_of_def qualified_defs split: if_splits;
      use assms in \<open>meson known_mono\<close>)+)

theorem complies_watch_spend:
  assumes "good e w" "watch_ok w watch"
  shows "guar e any w (watch_spend e watch detail)"
proof (cases watch)
  case (WatchStaking h)
  then show ?thesis
    using assms by (auto simp: watchForSpendStakingTx_def intro!: world.complies_on_error complies_handle_staking world.complies_ret)
next
  case (WatchUnbonding d)
  then show ?thesis
    using assms by (auto simp: watchForSpendUnbondingTx_def intro!: world.complies_on_error complies_handle_unbonding world.complies_ret)
next
  case (WatchSlashingChange d sub)
  with assms have "slashing_sub sub" by simp
  then have "guar e any w (andThen (GetBTCDelegationState e (d_StakingTxHashHex d)) (\<lambda>delegationState.
        if delegationState \<notin> set QualifiedStatesForWithdrawn then ret ()
        else UpdateBTCDelegationState e (d_StakingTxHashHex d) QualifiedStatesForWithdrawn StateWithdrawn
               [WithSubState sub, WithBtcHeight (sd_SpendingHeight detail),
                WithWithdrawalTx (lib_TxHash e (sd_SpendingTx detail))]))"
    using assms(1)
    by (intro bind_any complies_get_state complies_if world.complies_ret complies_update)
       (auto simp: options_simps evidence_def stateRecord_of_def qualified_defs)
  then show ?thesis
    unfolding WatchSlashingChange watch_spend.simps watchForSpendSlashingChange_def
    using assms(1) by (intro world.complies_on_error world.complies_ret)
qed

section \<open>Periodic tasks\<close>

lemma complies_expire_one:
  assumes "good e w" "timelock_ok w lock" "tip_seen e w (tl_ExpireHeight lock)"
  shows "guar e any w (expire_one e lock)"
  unfolding expire_one_def
  using assms(2,3)
  by (intro bind_get bind_wrap_Done bind_any [OF world.complies_on_error] complies_update complies_if assms(1)
      world.complies_ret world.complies_throw complies_wrap complies_delete_expired)
    (auto simp: options_simps evidence_def stateRecord_of_def QualifiedStatesForWithdrawable_eq_Ok
      intro: tip_seen_mono)

theorem complies_check_expiry:
  assumes "scan_ok e" "good e w"
  shows "guar e any w (checkExpiry e)"
  unfolding checkExpiry_def
proof (rule world.complies_andThen [OF world.complies_wrap_err [OF complies_tip_height [OF assms(2)] assms(2)] assms(2)])
  fix w1 and tip :: u64
  assume w1: "below w w1" "good e w1" "\<forall>height. unat height \<le> unat tip \<longrightarrow> tip_seen e w1 height"
  show "guar e any w1 (andThen (wrap_err ''failed to find expired delegations''
      (FindExpiredDelegations e tip (cfg_ExpiredDelegationsLimit e))) (\<lambda>expiredDelegations. for_each expiredDelegations (expire_one e)))"
  proof (rule world.complies_andThen [OF world.complies_wrap_err [OF complies_find_expired [OF assms(1)] w1(2)] w1(2)])
    fix w2 locks
    assume w2: "below w1 w2" "good e w2" "\<forall>lock \<in> set locks. timelock_ok w2 lock \<and> unat (tl_ExpireHeight lock) \<le> unat tip"
    then have "tip_seen e w2 (tl_ExpireHeight lock)" if "lock \<in> set locks" for lock
      using w1(3) that tip_seen_mono by blast
    then show "guar e any w2 (for_each locks (expire_one e))"
      using w2 by (intro world.complies_for_each complies_expire_one) (auto dest: timelock_ok_mono tip_seen_mono)
  qed
qed

theorem complies_update_stats:
  assumes "good e w"
  shows "guar e any w (calculateAndUpdateStats e)"
  unfolding calculateAndUpdateStats_def
  using assms
  by (intro bind_wrap_any complies_stats)
     (auto intro!: complies_if bind_wrap_any complies_singletons world.complies_for_each complies_wrap world.complies_ret)

lemma complies_poke_version: "guar e any w (poke (\<lambda>w. w\<lparr>w_params_version := v\<rparr>))"
  unfolding poke_def by (rule world.complies_atomically) (auto intro: frame_rules any_intro)

theorem complies_fetch_params:
  assumes "good e w"
  shows "guar e any w (fetchAndSaveParams fuel e)"
  unfolding fetchAndSaveParams_def GetStakingParams_rpc_def Let_def
  using assms
  by (intro bind_wrap_any complies_clients complies_singletons bind_any complies_peek complies_params_from world.complies_for_each)
     (auto simp: save_params_version_def split: option.splits
       intro!: bind_any world.complies_on_error complies_save_params complies_poke_version world.complies_ret world.complies_throw)

lemma complies_network: "good e w \<Longrightarrow> guar e any w (try_network_info n e)"
proof (induction n arbitrary: w)
  case (Suc n)
  show ?case
    unfolding try_network_info.simps Let_def
    using Suc
    by (intro bind_any complies_attempt_any complies_clients)
       (auto split: sum.splits intro!: bind_any complies_attempt_any complies_singletons world.complies_ret world.complies_panic)
qed (simp add: world.complies_panic)

theorem complies_resubscribe:
  assumes "scan_ok e" "good e w"
  shows "guar e any w (ResubscribeToMissedBtcNotifications e)"
  unfolding ResubscribeToMissedBtcNotifications_def
proof (rule world.complies_andThen [OF world.complies_on_error [OF complies_get_by_states [OF assms(1)]]])
  fix w' ds assume w': "below w w'" "good e w'" "\<forall>d \<in> set ds. known w' d"
  show "guar e any w' (for_each ds (resubscribe_one e))"
  proof (rule world.complies_for_each [OF w'(2)])
    fix d v assume d: "d \<in> set ds" "below w' v" "good e v"
    then have "d_StakingTxHashHex d \<in> hashes v" using w'(3) known_mono known_hash by blast
    then show "guar e any v (resubscribe_one e d)"
      unfolding resubscribe_one_def using d(3)
      by (intro complies_if world.complies_on_error complies_register_staking world.complies_ret world.complies_panic)
  qed
qed (use assms in \<open>auto intro: world.complies_panic\<close>)

theorem complies_fill:
  assumes "good e w"
  shows "guar e any w (fill_one e dryRun h)"
  unfolding fill_one_def
  using assms
  by (intro bind_any complies_clients complies_if bind_Done complies_wrap complies_update_address world.complies_ret world.complies_throw)

theorem complies_item:
  assumes "good e w"
  shows "guar e any w (process_item e item)"
  unfolding process_item_def
  using assms by (intro bind_any world.complies_for_each complies_process_event complies_wrap complies_singletons)

end
