(* ===== verification/System.thy ===== *)
theory System
  imports Handler_Rules
begin

text \<open>
  The whole process: any number of goroutines, each at some point of its program, on one shared state.
  A step starts a goroutine, performs one action of a running one, or is a crash with a restart, which
  loses everything but the databases, the queue and the goroutines of other processes on the same database. The
  schedule is arbitrary.
\<close>

section \<open>Steps\<close>

text \<open>The goroutines beside the block processor, and what starting one takes from the state.\<close>

inductive background :: "env \<Rightarrow> world \<Rightarrow> (world, unit) prog \<Rightarrow> world \<Rightarrow> bool" for e where
  expiry: "background e w (poll_once (checkExpiry e)) w"
| stats: "background e w (poll_once (calculateAndUpdateStats e)) w"
| params: "background e w (poll_once (fetchAndSaveParams fuel e)) w"
| network: "background e w (fetchAndSaveNetworkInfo e) w"
| resubscribe: "background e w (ResubscribeToMissedBtcNotifications e) w"
| unfilled: "background e w (andThen (GetDelegationsWithEmptyStakerAddress e) (\<lambda>_. ret ())) w"
| backfill: "background e w (fill_one e dryRun h) w"
| job: "i < length (w_jobs w) \<Longrightarrow>
    background e w (spend_job e (w_jobs w ! i)) (w\<lparr>w_jobs := remove_at i (w_jobs w)\<rparr>)"
| spend: "i < length (w_watches w) \<Longrightarrow> w_watches w ! i = (outpoint, watch) \<Longrightarrow>
    background e w (watch_spend e watch detail) (w\<lparr>w_watches := remove_at i (w_watches w)\<rparr>)"

text \<open>The block processor reads where it has to go on, fetches blocks and processes them.\<close>

inductive starts :: "env \<Rightarrow> world \<Rightarrow> (world, unit) prog \<Rightarrow> world \<Rightarrow> bool" for e where
  boot: "starts e w (andThen (GetLastProcessedBbnHeight e) (\<lambda>_. ret ())) w"
| fetch: "starts e w (andThen (getEventsFromBlock e height) (\<lambda>_. ret ())) w"
| block: "starts e w (process_item e item) w"
| other: "background e w p w' \<Longrightarrow> starts e w p w'"

type_synonym system = "world \<times> (world, unit) prog list"

inductive sys_step :: "env \<Rightarrow> system \<Rightarrow> system \<Rightarrow> bool" for e where
  start: "starts e w p w' \<Longrightarrow> sys_step e (w, ps) (w', ps @ [p])"
| act: "i < length ps \<Longrightarrow> ps ! i = Act f \<Longrightarrow> sys_step e (w, ps) (snd (f w), ps[i := fst (f w)])"
| crash: "mset survivors \<subseteq># mset ps \<Longrightarrow>
    sys_step e (w, ps) (w\<lparr>w_jobs := [], w_watches := [], w_params_version := 0\<rparr>, survivors)"

inductive_cases sys_stepE: "sys_step e s s'"

definition initial_world :: world where
  "initial_world = \<lparr>w_delegations = [], w_fps = [], w_timelocks = [], w_staking_params = [], w_checkpoint_params = None,
     w_last_height = None, w_network = None, w_overall_stats = None, w_fp_stats = [], w_queue = [], w_jobs = [],
     w_watches = [], w_params_version = 0, w_clock = 0\<rparr>"

inductive reachable :: "env \<Rightarrow> system \<Rightarrow> bool" for e where
  init: "reachable e (initial_world, [])"
| step: "reachable e s \<Longrightarrow> sys_step e s s' \<Longrightarrow> reachable e s'"

section \<open>The invariant of the system\<close>

definition sys_ok :: "env \<Rightarrow> system \<Rightarrow> bool" where
  "sys_ok e s \<longleftrightarrow> good e (fst s) \<and> (\<forall>p \<in> set (snd s). guar e any (fst s) p)"

lemma sys_ok_init: "sys_ok e (initial_world, [])"
  by (simp add: sys_ok_def initial_world_def good_def)

lemma complies_poll_once: "guar e any w p \<Longrightarrow> good e w \<Longrightarrow> guar e any w (poll_once p)"
  unfolding poll_once_def by (intro world.complies_on_error world.complies_ret)

lemma background_ok:
  assumes "background e w p w'" "good e w" "scan_ok e"
  shows "below w w' \<and> good e w' \<and> guar e any w' p"
  using assms(1)
proof cases
  case (job i)
  have "below w w' \<and> good e w'" using assms(2) by (rule good_frame) (simp_all add: job set_remove_at_subset)
  moreover have "watch_ok w (job_Watch (w_jobs w ! i))" using job assms(2) by (simp add: good_def)
  ultimately show ?thesis using job watch_ok_mono by (blast intro: complies_spend_job)
next
  case (spend i outpoint watch detail)
  have "below w w' \<and> good e w'" using assms(2) by (rule good_frame) (simp_all add: spend set_remove_at_subset)
  moreover have "(outpoint, watch) \<in> set (w_watches w)" using spend by (metis nth_mem)
  then have "watch_ok w watch" using assms(2) by (force simp: good_def)
  ultimately show ?thesis using spend watch_ok_mono by (blast intro: complies_watch_spend)
qed (use assms in \<open>auto simp: fetchAndSaveNetworkInfo_def intro: complies_poll_once complies_check_expiry
    complies_update_stats complies_fetch_params complies_network complies_resubscribe complies_fill
    world.complies_andThen [OF complies_get_empty_address] world.complies_ret\<close>)

lemma complies_fetch: "good e w \<Longrightarrow> guar e any w (getEventsFromBlock e height)"
  unfolding getEventsFromBlock_def
  by (intro bind_any complies_wrap complies_clients) (auto intro: world.complies_ret)

lemma starts_ok:
  assumes "starts e w p w'" "good e w" "scan_ok e"
  shows "below w w' \<and> good e w' \<and> guar e any w' p"
  using assms(1)
proof cases
  case boot
  then show ?thesis using assms(2) by (auto intro: bind_any complies_singletons world.complies_ret)
next
  case (fetch height)
  then show ?thesis using assms(2) by (auto intro: bind_any complies_fetch world.complies_ret)
next
  case (block item)
  then show ?thesis using assms(2) by (auto intro: complies_item)
next
  case other
  then show ?thesis using background_ok assms(2,3) by blast
qed

lemma sys_step_ok:
  assumes "sys_step e s s'" "sys_ok e s" "scan_ok e"
  shows "below (fst s) (fst s') \<and> sys_ok e s'"
  using assms(1)
proof cases
  case (start w p w' ps)
  then have "below w w' \<and> good e w' \<and> guar e any w' p"
    using starts_ok assms(2,3) by (simp add: sys_ok_def)
  then show ?thesis using start assms(2) by (auto simp: sys_ok_def intro: world.complies_later)
next
  case (act i ps f w)
  then have "guar e any w (Act f)" "good e w" using assms(2) by (auto simp: sys_ok_def) (metis nth_mem)
  from world.complies_step [OF this]
  have "below w (snd (f w))" "good e (snd (f w))" "guar e any (snd (f w)) (fst (f w))" by auto
  moreover from this(1) have "guar e any (snd (f w)) p" if "p \<in> set ps" for p
    using act that assms(2) by (auto simp: sys_ok_def intro: world.complies_later)
  ultimately show ?thesis
    using act by (auto simp: sys_ok_def dest!: set_update_subset_insert [THEN subsetD])
next
  case (crash survivors ps w)
  have b: "below w (fst s') \<and> good e (fst s')"
    unfolding crash fst_conv using assms(2) by (intro good_frame) (simp_all add: sys_ok_def crash)
  have "set survivors \<subseteq> set ps" using set_mset_mono [OF crash(3)] by simp
  then have "guar e any (fst s') p" if "p \<in> set (snd s')" for p
    using that crash assms(2) b by (auto simp: sys_ok_def intro: world.complies_later)
  then show ?thesis using crash b by (simp add: sys_ok_def)
qed

lemma reachable_ok:
  assumes "scan_ok e" "reachable e s"
  shows "sys_ok e s"
  using assms(2)
proof induction
  case (step s s')
  then show ?case using sys_step_ok assms(1) by blast
qed (rule sys_ok_init)

lemma steps_below:
  assumes "(sys_step e)\<^sup>*\<^sup>* s s'" "reachable e s" "scan_ok e"
  shows "below (fst s) (fst s') \<and> reachable e s'"
  using assms(1)
proof (induction rule: rtranclp_induct)
  case base
  show ?case using assms by simp
next
  case (step y z)
  have "below (fst y) (fst z)"
    using sys_step_ok [OF step.hyps(2)] reachable_ok [OF assms(3)] step.IH assms(3) by blast
  with step show ?case using below_trans reachable.step by blast
qed

lemma reachable_good: "scan_ok e \<Longrightarrow> reachable e (w, ps) \<Longrightarrow> good e w"
  using reachable_ok by (fastforce simp: sys_ok_def)

end
