(* ===== verification/Sample.thy ===== *)
theory Sample
  imports System
begin

text \<open>
  A concrete environment and concrete runs, to show that the hypotheses of the properties can hold: one
  delegation that Babylon creates, that reaches its quorum and becomes active.
\<close>

section \<open>An environment\<close>

definition sample_tx :: MsgTx where
  "sample_tx = \<lparr>tx_TxIn = [], tx_TxOut = [\<lparr>to_Value = 50000, to_PkScript = [1, 2]\<rparr>], tx_LockTime = 0\<rparr>"

definition sample_created :: BTCDelegationCreated where
  "sample_created = \<lparr>bcd_StakingTxHex = ''0a'', bcd_StakingOutputIndex = ''0'', bcd_ParamsVersion = ''0'',
     bcd_FinalityProviderBtcPksHex = [''fp1''], bcd_StakerBtcPkHex = ''pk'', bcd_StakingTime = ''100'',
     bcd_UnbondingTime = ''7'', bcd_UnbondingTx = ''0b'', bcd_NewState = ''PENDING'', bcd_StakerAddr = ''bbn1'',
     bcd_PreviousStakingTxHashHex = ''''\<rparr>"

definition sample_parse :: "AbciEvent \<Rightarrow> string + ProtoMessage" where
  "sample_parse ev =
     (if ae_Type ev = EventBTCDelegationCreated then Inr (MsgBTCDelegationCreated sample_created)
      else if ae_Type ev = EventBTCDelegationInclusionProofReceived then
        Inr (MsgInclusionProofReceived \<lparr>ipr_StakingTxHash = ''h'', ipr_StartHeight = ''5'', ipr_EndHeight = ''105'', ipr_NewState = ''PENDING''\<rparr>)
      else if ae_Type ev = EventCovenantQuorumReached then
        Inr (MsgCovenantQuorumReached \<lparr>cqr_StakingTxHash = ''h'', cqr_NewState = ''ACTIVE''\<rparr>)
      else if ae_Type ev = EventCovenantSignatureReceived then
        Inr (MsgCovenantSignatureReceived \<lparr>csr_StakingTxHash = ''h'', csr_CovenantBtcPkHex = ''c'',
          csr_CovenantUnbondingSignatureHex = ''s'', csr_CovenantStakeExpansionSignatureHex = ''''\<rparr>)
      else if ae_Type ev = EventBTCDelegationUnbondedEarly then
        Inr (MsgUnbondedEarly \<lparr>ube_StakingTxHash = ''h'', ube_StartHeight = ''50'', ube_NewState = ''UNBONDED'',
          ube_StakeExpansionTxHash = ''''\<rparr>)
      else if ae_Type ev = EventBTCDelegationExpired then
        Inr (MsgDelegationExpired \<lparr>exp_StakingTxHash = ''h'', exp_NewState = ''EXPIRED''\<rparr>)
      else if ae_Type ev = EventFinalityProviderCreatedType then
        Inr (MsgFinalityProviderCreated \<lparr>fpc_BtcPkHex = ''fp1'', fpc_Addr = ''bbn2'', fpc_Commission = ''0.05'', fpc_Moniker = ''m'',
          fpc_Identity = '''', fpc_Website = '''', fpc_SecurityContact = '''', fpc_Details = ''''\<rparr>)
      else if ae_Type ev = EventFinalityProviderStatusChange then
        Inr (MsgFinalityProviderStatusChange \<lparr>fps_BtcPk = ''fp1'', fps_NewState = FINALITY_PROVIDER_STATUS_SLASHED\<rparr>)
      else Inl ''unknown'')"

definition sample_params :: BbnStakingParams where
  "sample_params = \<lparr>bsp_CovenantPksHex = [''c''], bsp_CovenantQuorum = 1, bsp_MinStakingValueSat = 1,
     bsp_MaxStakingValueSat = 1000000, bsp_MinStakingTimeBlocks = 10, bsp_MaxStakingTimeBlocks = 1000,
     bsp_SlashingPkScript = [9], bsp_MinSlashingTxFeeSat = 1, bsp_SlashingRate = ''0.1'', bsp_UnbondingTimeBlocks = 20,
     bsp_UnbondingFeeSat = 100, bsp_MinCommissionRate = ''0.03'', bsp_DelegationCreationBaseGasFee = 1,
     bsp_AllowListExpirationHeight = 0, bsp_BtcActivationHeight = 0\<rparr>"

definition sample_event :: "string \<Rightarrow> AbciEvent" where
  "sample_event ty = \<lparr>ae_Type = ty, ae_Attributes = [\<lparr>at_Key = ''k'', at_Value = ''v'', at_Index = True\<rparr>]\<rparr>"

text \<open>The indexes that the setup has created.\<close>

definition sample_indexes :: "(string \<times> IndexModel) list" where
  "sample_indexes =
     [(BTCDelegationDetailsCollection, \<lparr>im_Keys = Some [(''staker_btc_pk_hex'', 1),
        (''btc_delegation_created_bbn_block.height'', - 1), (''_id'', 1)], im_Unique = False\<rparr>),
      (BTCDelegationDetailsCollection, \<lparr>im_Keys = Some [(''state'', 1)], im_Unique = False\<rparr>),
      (TimeLockCollection, \<lparr>im_Keys = Some [(''expire_height'', 1)], im_Unique = False\<rparr>),
      (GlobalParamsCollection, \<lparr>im_Keys = Some [(''type'', 1), (''version'', 1)], im_Unique = True\<rparr>)]"

definition sample_env :: env where
  "sample_env = \<lparr>mongo_fault = (\<lambda>t. None), mongo_order = (\<lambda>t n. [0..<n]), mongo_indexes = sample_indexes, queue_fault = (\<lambda>t. None),
     notifier_RegisterSpendNtfn = (\<lambda>t op script hint. None),
     btc_GetBlockCount = (\<lambda>t. Inr 200), btc_GetBlockHash = (\<lambda>t height. Inr ''b''), btc_GetBlock = (\<lambda>t hash. Inr 1000),
     rpc_Status = (\<lambda>t. Inr (''bbn-1'', 9)), rpc_Block = (\<lambda>t height. Inr 2000),
     rpc_BlockResults = (\<lambda>t height. if height = 1
        then Inr ([map sample_event [EventBTCDelegationCreated, EventBTCDelegationInclusionProofReceived]], [])
        else Inr ([], [])),
     rpc_BTCCheckpointParams = (\<lambda>t. Inr \<lparr>bcp_BtcConfirmationDepth = 6, bcp_CheckpointFinalizationTimeout = 100, bcp_CheckpointTag = ''t''\<rparr>),
     rpc_BTCStakingParamsByVersion = (\<lambda>t version. if version = 0 then Inr sample_params else Inl ''does not exist''),
     rpc_BTCDelegation = (\<lambda>t hash. Inr ''bbn1''),
     lib_ValidateCheckpointParams = (\<lambda>params. None), lib_ErrParamsNotFound = ''params not found'',
     lib_ParseTypedEvent = sample_parse,
     lib_Deserialize = (\<lambda>bs. Inr sample_tx), lib_TxHash = (\<lambda>tx. ''h''), lib_NewHashFromStr = Inr,
     lib_NewBTCTxFromBytes = (\<lambda>bs. Inr sample_tx), lib_SlashingTxToHex = (\<lambda>tx. Inr ''0c''),
     lib_NewBIP340PubKeyFromHex = (\<lambda>s. Inr [3]), lib_MustToBTCPK = Some,
     lib_BuildStakingInfo = (\<lambda>args. Inr \<lparr>si_TimeLockPath = Inr [10], si_UnbondingPath = Inr [11], si_SlashingPath = Inr [12]\<rparr>),
     lib_BuildUnbondingInfo = (\<lambda>args. Inr \<lparr>ui_UnbondingOutput = \<lparr>to_Value = sa_Value args, to_PkScript = [20]\<rparr>,
        ui_TimeLockPath = Inr [21], ui_SlashingPath = Inr [22]\<rparr>),
     lib_GetFromBech32 = (\<lambda>a p. Inr [1]), lib_VerifyAddressFormat = (\<lambda>bs. None),
     cfg_NetParams = ''mainnet'', cfg_BTC_MaxRetryTimes = 1, cfg_BBN_MaxRetryTimes = 1, cfg_ExpiredDelegationsLimit = 10\<rparr>"

lemma sample_env_ok: "scan_ok sample_env" "no_faults sample_env"
  by (simp_all add: sample_env_def scan_ok_def no_faults_def)

definition sample_item :: "i64 \<Rightarrow> string list \<Rightarrow> blockEvents" where
  "sample_item height types = \<lparr>blk_blockHeight = height, blk_events = map (\<lambda>ty. NewBbnEvent TxCategory (sample_event ty)) types\<rparr>"

section \<open>Evaluation\<close>

text \<open>
  A run on a concrete state is evaluated action by action: the rest of a program is not touched before its
  turn comes.
\<close>

lemma continue_cong: "rw = rw' \<Longrightarrow> continue_with rw k = continue_with rw' k" by simp

lemma run_retry: "run (retry_from (Suc n) errs p) w =
   (case run p w of (Ok x, w') \<Rightarrow> (Ok x, w') | (Err err, w') \<Rightarrow> run (retry_from n (errs @ [err]) p) w' | (Panic s, w') \<Rightarrow> (Panic s, w'))"
  by (simp add: run_on_error)

lemma sample_env_simps [simp]:
  "mongo_fault sample_env = (\<lambda>t. None)" "mongo_indexes sample_env = sample_indexes" "mongo_order sample_env = (\<lambda>t n. [0..<n])" "queue_fault sample_env = (\<lambda>t. None)"
  "btc_GetBlockCount sample_env = (\<lambda>t. Inr 200)" "btc_GetBlockHash sample_env = (\<lambda>t height. Inr ''b'')"
  "btc_GetBlock sample_env = (\<lambda>t hash. Inr 1000)" "rpc_Block sample_env = (\<lambda>t height. Inr 2000)"
  "rpc_BlockResults sample_env = (\<lambda>t height. if height = 1
     then Inr ([map sample_event [EventBTCDelegationCreated, EventBTCDelegationInclusionProofReceived]], []) else Inr ([], []))"
  "lib_ParseTypedEvent sample_env = sample_parse"
  "lib_Deserialize sample_env = (\<lambda>bs. Inr sample_tx)" "lib_TxHash sample_env = (\<lambda>tx. ''h'')"
  "lib_NewHashFromStr sample_env = Inr" "lib_NewBTCTxFromBytes sample_env = (\<lambda>bs. Inr sample_tx)"
  "rpc_BTCStakingParamsByVersion sample_env = (\<lambda>t version. if version = 0 then Inr sample_params else Inl ''does not exist'')"
  "rpc_BTCCheckpointParams sample_env =
     (\<lambda>t. Inr \<lparr>bcp_BtcConfirmationDepth = 6, bcp_CheckpointFinalizationTimeout = 100, bcp_CheckpointTag = ''t''\<rparr>)"
  "lib_ValidateCheckpointParams sample_env = (\<lambda>params. None)" "lib_ErrParamsNotFound sample_env = ''params not found''"
  "notifier_RegisterSpendNtfn sample_env = (\<lambda>t op script hint. None)"
  "lib_SlashingTxToHex sample_env = (\<lambda>tx. Inr ''0c'')"
  "lib_NewBIP340PubKeyFromHex sample_env = (\<lambda>s. Inr [3])" "lib_MustToBTCPK sample_env = Some"
  "lib_BuildStakingInfo sample_env =
     (\<lambda>args. Inr \<lparr>si_TimeLockPath = Inr [10], si_UnbondingPath = Inr [11], si_SlashingPath = Inr [12]\<rparr>)"
  "lib_BuildUnbondingInfo sample_env =
     (\<lambda>args. Inr \<lparr>ui_UnbondingOutput = \<lparr>to_Value = sa_Value args, to_PkScript = [20]\<rparr>,
        ui_TimeLockPath = Inr [21], ui_SlashingPath = Inr [22]\<rparr>)"
  "cfg_NetParams sample_env = ''mainnet''"
  "cfg_BTC_MaxRetryTimes sample_env = 1" "cfg_BBN_MaxRetryTimes sample_env = 1" "cfg_ExpiredDelegationsLimit sample_env = 10"
  by (simp_all add: sample_env_def)


lemma sample_params_index [simp]: "params_index sample_env"
  by (simp add: unique_index_def sample_indexes_def GlobalParamsCollection_def)

lemma max_retries: "processEventMaxRetries = Suc (Suc (Suc 0))" by (simp add: processEventMaxRetries_def)

lemmas prog_eval =  run_on_error run_retry process_item_def processEvent_def max_retries doProcessEvent_def handler_defs
  validateBTCDelegationCreatedEvent_def GetBlock_def clientCallWithRetry_def parseEvent_def sanitizeEvent_def
  FromEventBTCDelegationCreated_def ParseUint32_result_def ParseUint32_def ParseUint_def is_digit_def digit_val_def
  DeserializeBtcTransactionFromHex_def hex_digit_def Let_def db_defs insert_doc_def find_doc_def update_doc_def
  validateCovenantQuorumReachedEvent_def validateBTCDelegationInclusionProofReceivedEvent_def validateBTCDelegationUnbondedEarlyEvent_def
  validateBTCDelegationExpiredEvent_def qualified_defs DelegationState_of_def HasInclusionProof_def GetBlockTimestamp_def
  UpdateBTCDelegationState_def apply_update_def stateRecord_of_def options_of_def empty_options_def set_slashing_def ShortName_def
  emitActiveDelegationEvent_def staking_event_def emitUnbondingDelegationEvent_def registerStakingSpendNotification_def
  index_or_panic_def ToStateStrings_def zero_SlashingTx_def zero_WithdrawalTx_def NewTimeLockDocument_def

lemmas sample_eval = sample_parse_def sample_event_def sample_item_def sample_created_def sample_tx_def
  initial_world_def NewBbnEvent_def event_type_defs tick_def

section \<open>Runs\<close>

lemma act_run: "(sys_step e)\<^sup>*\<^sup>* (w, ps @ [p]) (snd (run p w), ps @ [Done (fst (run p w))])"
proof (induction p arbitrary: w rule: prog_actions_induct)
  case (Act f)
  have "sys_step e (w, ps @ [Act f]) (snd (f w), (ps @ [Act f])[length ps := fst (f w)])"
    by (rule sys_step.act) simp_all
  then have "sys_step e (w, ps @ [Act f]) (snd (f w), ps @ [fst (f w)])" by simp
  also have "(sys_step e)\<^sup>*\<^sup>* (snd (f w), ps @ [fst (f w)])
      (snd (run (fst (f w)) (snd (f w))), ps @ [Done (fst (run (fst (f w)) (snd (f w))))])"
    by (rule Act)
  finally show ?case by simp
qed simp

lemma steps_reachable: "(sys_step e)\<^sup>*\<^sup>* s s' \<Longrightarrow> reachable e s \<Longrightarrow> reachable e s'"
  by (induction rule: rtranclp_induct) (auto intro: reachable.step)

lemma run_steps:
  assumes "starts e w p w'"
  shows "(sys_step e)\<^sup>*\<^sup>* (w, ps) (snd (run p w'), ps @ [Done (fst (run p w'))])"
  using converse_rtranclp_into_rtranclp [OF sys_step.start [OF assms] act_run] .

text \<open>The delegation of the sample after its inclusion proof.\<close>

definition sample_delegation :: BTCDelegationDetails where
  "sample_delegation = \<lparr>d_StakingTxHashHex = ''h'', d_StakingTxHex = ''0a'', d_StakingTime = 100, d_StakingAmount = 50000,
     d_StakingOutputIdx = 0, d_StakingBTCTimestamp = 1000, d_StakerBtcPkHex = ''pk'', d_StakerBabylonAddress = ''bbn1'',
     d_FinalityProviderBtcPksHex = [''fp1''], d_StartHeight = 5, d_EndHeight = 105, d_State = StatePending,
     d_SubState = NoSubState,
     d_StateHistory =
       [\<lparr>sr_State = StatePending, sr_SubState = NoSubState, sr_BbnHeight = 1, sr_BtcHeight = 0,
         sr_BbnEventType = ''EventBTCDelegationCreated''\<rparr>,
        \<lparr>sr_State = StatePending, sr_SubState = NoSubState, sr_BbnHeight = 1, sr_BtcHeight = 0,
         sr_BbnEventType = ''EventBTCDelegationInclusionProofReceived''\<rparr>],
     d_ParamsVersion = 0, d_UnbondingTime = 7, d_UnbondingTx = ''0b'', d_UnbondingStartHeight = 0,
     d_UnbondingBTCTimestamp = 0, d_CovenantSignatures = [],
     d_BTCDelegationCreatedBlock = \<lparr>cb_Height = 1, cb_Timestamp = 2000\<rparr>,
     d_SlashingTx = \<lparr>st_SpendingHeight = 0, st_SlashingTxHex = [], st_SlashingBTCTimestamp = 0,
       st_UnbondingSlashingTxHex = [], st_UnbondingSlashingBTCTimestamp = 0\<rparr>,
     d_WithdrawalTx = \<lparr>wt_TxHash = []\<rparr>, d_PreviousStakingTxHashHex = []\<rparr>"

definition created_world :: world where
  "created_world = snd (run (process_item sample_env (sample_item 1
     [EventBTCDelegationCreated, EventBTCDelegationInclusionProofReceived])) initial_world)"

definition active_world :: world where
  "active_world = snd (run (process_item sample_env (sample_item 2 [EventCovenantQuorumReached])) created_world)"

definition unbonding_world :: world where
  "unbonding_world = snd (run (process_item sample_env (sample_item 3 [EventBTCDelegationUnbondedEarly])) active_world)"

definition withdrawable_world :: world where
  "withdrawable_world = snd (run (poll_once (checkExpiry sample_env)) unbonding_world)"

lemma created_world_eq:
  "created_world = initial_world\<lparr>w_delegations := [sample_delegation], w_last_height := Some 1, w_clock := 8\<rparr>"
  by (simp add: created_world_def sample_delegation_def prog_eval sample_eval del: andThen.simps on_error.simps retry_from.simps
      cong: continue_cong)

definition sample_record :: "DelegationState \<Rightarrow> DelegationSubState \<Rightarrow> i64 \<Rightarrow> u32 \<Rightarrow> string \<Rightarrow> StateRecord" where
  "sample_record s sub bbn btc ev = \<lparr>sr_State = s, sr_SubState = sub, sr_BbnHeight = bbn, sr_BtcHeight = btc, sr_BbnEventType = ev\<rparr>"

definition active_delegation :: BTCDelegationDetails where
  "active_delegation = sample_delegation\<lparr>d_State := StateActive, d_StateHistory := d_StateHistory sample_delegation @
     [sample_record StateActive NoSubState 2 0 ''EventCovenantQuorumReached'']\<rparr>"

definition unbonding_delegation :: BTCDelegationDetails where
  "unbonding_delegation = active_delegation\<lparr>d_State := StateUnbonding, d_SubState := SubStateEarlyUnbonding,
     d_StateHistory := d_StateHistory active_delegation @
       [sample_record StateUnbonding SubStateEarlyUnbonding 3 0 ''EventBTCDelgationUnbondedEarly''],
     d_UnbondingStartHeight := 50, d_UnbondingBTCTimestamp := 1000\<rparr>"

definition withdrawable_delegation :: BTCDelegationDetails where
  "withdrawable_delegation = unbonding_delegation\<lparr>d_State := StateWithdrawable,
     d_StateHistory := d_StateHistory unbonding_delegation @
       [sample_record StateWithdrawable SubStateEarlyUnbonding 0 57 '''']\<rparr>"

lemmas sample_delegation_defs =
  sample_delegation_def active_delegation_def unbonding_delegation_def withdrawable_delegation_def sample_record_def

definition sample_job :: SpendJob where
  "sample_job = \<lparr>job_OutPoint = \<lparr>op_Hash = ''h'', op_Index = 0\<rparr>, job_Tx = sample_tx, job_OutputIdx = 0,
     job_HeightHint = 5, job_Watch = WatchStaking ''h''\<rparr>"

lemma active_world_eq:
  "active_world = created_world\<lparr>w_delegations := [active_delegation], w_last_height := Some 2,
     w_queue := [staking_event ActiveStakingEventType sample_delegation], w_jobs := [sample_job], w_clock := 13\<rparr>"
  by (simp add: active_world_def created_world_eq sample_delegation_defs sample_job_def prog_eval sample_eval
      del: andThen.simps on_error.simps retry_from.simps cong: continue_cong)

lemma unbonding_world_eq:
  "unbonding_world = active_world\<lparr>w_delegations := [unbonding_delegation], w_last_height := Some 3,
     w_queue := [staking_event ActiveStakingEventType sample_delegation, staking_event UnbondingStakingEventType active_delegation],
     w_timelocks := [NewTimeLockDocument ''h'' 57 SubStateEarlyUnbonding], w_clock := 21\<rparr>"
  by (simp add: unbonding_world_def active_world_eq created_world_eq sample_delegation_defs sample_job_def prog_eval sample_eval
      del: andThen.simps on_error.simps retry_from.simps cong: continue_cong)

lemma withdrawable_world_eq:
  "withdrawable_world = unbonding_world\<lparr>w_delegations := [withdrawable_delegation], w_timelocks := [], w_clock := 26\<rparr>"
  by (simp add: withdrawable_world_def unbonding_world_eq active_world_eq created_world_eq sample_delegation_defs
      sample_job_def prog_eval sample_eval poll_once_def checkExpiry_def expire_one_def GetTipHeight_def find_all_def
      scan_def take_limit_def remove_at_def
      del: andThen.simps on_error.simps retry_from.simps cong: continue_cong)

text \<open>
  The parameters are fetched, the spend notification is registered, and the staker withdraws from the
  staking output after the time lock.
\<close>

definition params_world :: world where
  "params_world = snd (run (poll_once (fetchAndSaveParams (Suc (Suc (Suc 0))) sample_env)) withdrawable_world)"

definition watching_world :: world where
  "watching_world = snd (run (spend_job sample_env sample_job) (params_world\<lparr>w_jobs := []\<rparr>))"

definition withdraw_tx :: MsgTx where
  "withdraw_tx = \<lparr>tx_TxIn = [\<lparr>ti_PreviousOutPoint = \<lparr>op_Hash = ''h'', op_Index = 0\<rparr>, ti_Witness = [[10], [0]], ti_Sequence = 0\<rparr>],
     tx_TxOut = [\<lparr>to_Value = 1, to_PkScript = [30]\<rparr>, \<lparr>to_Value = 2, to_PkScript = [31]\<rparr>], tx_LockTime = 0\<rparr>"

definition withdraw_detail :: SpendDetail where
  "withdraw_detail = \<lparr>sd_SpendingTx = withdraw_tx, sd_SpenderInputIndex = 0, sd_SpendingHeight = 60\<rparr>"

definition withdrawn_world :: world where
  "withdrawn_world = snd (run (watch_spend sample_env (WatchStaking ''h'') withdraw_detail) (watching_world\<lparr>w_watches := []\<rparr>))"

definition withdrawn_delegation :: BTCDelegationDetails where
  "withdrawn_delegation = withdrawable_delegation\<lparr>d_State := StateWithdrawn, d_SubState := SubStateTimelock,
     d_WithdrawalTx := \<lparr>wt_TxHash = ''h''\<rparr>,
     d_StateHistory := d_StateHistory withdrawable_delegation @ [sample_record StateWithdrawn SubStateTimelock 0 60 '''']\<rparr>"

lemmas params_eval =
  fetchAndSaveParams_def GetCheckpointParams_rpc_def GetStakingParams_rpc_def isParamsNotFoundError_def prefix_of_def
  upsert_doc_def save_params_version_def FromBbnStakingParams_def FromBbnCheckpointParams_def sample_params_def
  hex_EncodeToString_def hex_char_def

lemma notifier_retries: "btcNotifierMaxRetries = Suc (Suc (Suc 0))"
  by (simp add: btcNotifierMaxRetries_def)

lemmas watch_eval =
  spend_job_def RegisterSpendNtfn_def notifier_retries watchForSpendStakingTx_def
  isSpendingStakingTxUnbondingPath_def IsTransferTx_def isSpendingStakingTxTimeLockPath_def isSpendingStakingTxSlashingPath_def
  staking_path_def unbonding_path_def parse_staker_pk_def parse_pks_def MustToBTCPK_def GetBTCParams_def staking_value_def
  unlocks_def script_from_witness_def

text \<open>Another course: the delegation expires.\<close>

definition expired_world :: world where
  "expired_world = snd (run (process_item sample_env (sample_item 3 [EventBTCDelegationExpired])) active_world)"

definition expired_delegation :: BTCDelegationDetails where
  "expired_delegation = active_delegation\<lparr>d_State := StateUnbonding, d_SubState := SubStateTimelock,
     d_StateHistory := d_StateHistory active_delegation @
       [sample_record StateUnbonding SubStateTimelock 3 0 ''EventBTCDelegationExpired'']\<rparr>"

lemma expired_world_eq:
  "expired_world = active_world\<lparr>w_delegations := [expired_delegation], w_last_height := Some 3,
     w_queue := [staking_event ActiveStakingEventType sample_delegation, staking_event UnbondingStakingEventType active_delegation],
     w_timelocks := [NewTimeLockDocument ''h'' 105 SubStateTimelock], w_clock := 19\<rparr>"
  by (simp add: expired_world_def expired_delegation_def active_world_eq created_world_eq sample_delegation_defs sample_job_def
      prog_eval sample_eval del: andThen.simps on_error.simps retry_from.simps cong: continue_cong)

text \<open>The unbonding event of the chain, seen again after the withdrawal.\<close>

definition replayed_world :: world where
  "replayed_world = snd (run (process_item sample_env (sample_item 4 [EventBTCDelegationUnbondedEarly])) withdrawn_world)"

lemma params_world_eq:
  "params_world = withdrawable_world\<lparr>w_checkpoint_params := Some \<lparr>cp_BtcConfirmationDepth = 6,
       cp_CheckpointFinalizationTimeout = 100, cp_CheckpointTag = ''t''\<rparr>,
     w_staking_params := [(0, FromBbnStakingParams sample_params)], w_clock := 31\<rparr>"
  by (simp add: params_world_def withdrawable_world_eq unbonding_world_eq active_world_eq created_world_eq
      prog_eval sample_eval poll_once_def params_eval
      del: andThen.simps on_error.simps retry_from.simps cong: continue_cong)

lemma watching_world_eq:
  "watching_world = params_world\<lparr>w_jobs := [], w_watches := [(\<lparr>op_Hash = ''h'', op_Index = 0\<rparr>, WatchStaking ''h'')], w_clock := 32\<rparr>"
  by (simp add: watching_world_def params_world_eq withdrawable_world_eq unbonding_world_eq active_world_eq created_world_eq
      prog_eval sample_eval sample_job_def watch_eval
      del: andThen.simps on_error.simps retry_from.simps cong: continue_cong)

lemma withdrawn_world_eq:
  "withdrawn_world = watching_world\<lparr>w_delegations := [withdrawn_delegation], w_watches := [], w_clock := 36\<rparr>"
  by (simp add: withdrawn_world_def withdrawn_delegation_def watching_world_eq params_world_eq withdrawable_world_eq unbonding_world_eq
      active_world_eq created_world_eq sample_delegation_defs withdraw_detail_def withdraw_tx_def
      prog_eval sample_eval params_eval watch_eval
      del: andThen.simps on_error.simps retry_from.simps cong: continue_cong)

lemma replayed_world_eq: "replayed_world = withdrawn_world\<lparr>w_last_height := Some 4, w_clock := 38\<rparr>"
  by (simp add: replayed_world_def withdrawn_world_eq withdrawn_delegation_def watching_world_eq params_world_eq
      withdrawable_world_eq unbonding_world_eq active_world_eq created_world_eq sample_delegation_defs prog_eval sample_eval
      del: andThen.simps on_error.simps retry_from.simps cong: continue_cong)

text \<open>These states are reached by the process.\<close>

definition sample_path :: "world \<Rightarrow> world \<Rightarrow> bool" where
  "sample_path w w' \<longleftrightarrow> (\<forall>ps. \<exists>ps'. (sys_step sample_env)\<^sup>*\<^sup>* (w, ps) (w', ps'))"

lemma sample_path_trans: "sample_path u v \<Longrightarrow> sample_path v w \<Longrightarrow> sample_path u w"
  unfolding sample_path_def by (meson rtranclp_trans)

lemmas start_rules = starts.block background.intros [THEN starts.other]

lemma sample_path_run: "starts sample_env w p w' \<Longrightarrow> sample_path w (snd (run p w'))"
  unfolding sample_path_def using run_steps by blast

lemma sample_path_first: "sample_path initial_world created_world" "sample_path created_world active_world"
    "sample_path active_world unbonding_world" "sample_path unbonding_world withdrawable_world"
    "sample_path withdrawable_world params_world"
  unfolding created_world_def active_world_def unbonding_world_def withdrawable_world_def params_world_def
  by (intro sample_path_run start_rules)+

lemma sample_path_watching: "sample_path params_world watching_world"
proof -
  have jobs: "w_jobs params_world = [sample_job]"
    by (simp add: params_world_eq withdrawable_world_eq unbonding_world_eq active_world_eq)
  then have "starts sample_env params_world (spend_job sample_env (w_jobs params_world ! 0))
      (params_world\<lparr>w_jobs := remove_at 0 (w_jobs params_world)\<rparr>)"
    by (intro starts.other background.job) simp
  then show ?thesis
    unfolding watching_world_def using sample_path_run jobs by (fastforce simp: remove_at_def)
qed

lemma sample_path_withdrawn: "sample_path watching_world withdrawn_world"
proof -
  have watches: "w_watches watching_world = [(\<lparr>op_Hash = ''h'', op_Index = 0\<rparr>, WatchStaking ''h'')]"
    by (simp add: watching_world_eq)
  then have "starts sample_env watching_world (watch_spend sample_env (WatchStaking ''h'') withdraw_detail)
      (watching_world\<lparr>w_watches := remove_at 0 (w_watches watching_world)\<rparr>)"
    by (intro starts.other background.spend) simp_all
  then show ?thesis
    unfolding withdrawn_world_def using sample_path_run watches by (fastforce simp: remove_at_def)
qed

lemma sample_path_replayed: "sample_path withdrawn_world replayed_world"
  unfolding replayed_world_def by (intro sample_path_run start_rules)

lemma reachable_path: "sample_path initial_world w \<Longrightarrow> \<exists>ps. reachable sample_env (w, ps)"
  unfolding sample_path_def using reachable.init steps_reachable by blast

lemmas sample_paths = sample_path_first sample_path_watching sample_path_withdrawn sample_path_replayed

lemma sample_reachable:
  "\<exists>ps. reachable sample_env (created_world, ps)" "\<exists>ps. reachable sample_env (active_world, ps)"
  "\<exists>ps. reachable sample_env (unbonding_world, ps)" "\<exists>ps. reachable sample_env (withdrawable_world, ps)"
  "\<exists>ps. reachable sample_env (params_world, ps)" "\<exists>ps. reachable sample_env (watching_world, ps)"
  "\<exists>ps. reachable sample_env (withdrawn_world, ps)"
  by (rule reachable_path, (rule sample_paths | rule sample_path_trans [OF _ sample_paths(2)]
      | rule sample_path_trans [OF _ sample_paths(3)] | rule sample_path_trans [OF _ sample_paths(4)]
      | rule sample_path_trans [OF _ sample_paths(5)] | rule sample_path_trans [OF _ sample_paths(6)]
      | rule sample_path_trans [OF _ sample_paths(7)])+)+

lemma sample_reachable_expired: "\<exists>ps. reachable sample_env (expired_world, ps)"
proof (rule reachable_path)
  have "sample_path active_world expired_world"
    unfolding expired_world_def by (intro sample_path_run start_rules)
  then show "sample_path initial_world expired_world" using sample_paths sample_path_trans by blast
qed

lemma sample_worlds_expired: "w_delegations expired_world = [expired_delegation]"
  by (simp add: expired_world_eq)

text \<open>The part of the sample worlds that the properties look at.\<close>

lemma sample_worlds:
  "w_delegations active_world = [active_delegation]" "w_delegations unbonding_world = [unbonding_delegation]"
  "w_delegations withdrawable_world = [withdrawable_delegation]" "w_delegations withdrawn_world = [withdrawn_delegation]"
  "w_timelocks unbonding_world = [NewTimeLockDocument ''h'' 57 SubStateEarlyUnbonding]"
  "w_staking_params params_world = [(0, FromBbnStakingParams sample_params)]"
  "w_queue active_world = [staking_event ActiveStakingEventType sample_delegation]"
  "w_delegations replayed_world = [withdrawn_delegation]" "w_queue withdrawn_world = w_queue unbonding_world"
  "w_queue unbonding_world =
     [staking_event ActiveStakingEventType sample_delegation, staking_event UnbondingStakingEventType active_delegation]"
  "w_staking_params withdrawn_world = w_staking_params params_world" "w_clock withdrawn_world = 36"
  by (simp_all add: replayed_world_eq withdrawn_world_eq watching_world_eq params_world_eq withdrawable_world_eq unbonding_world_eq
      active_world_eq created_world_eq initial_world_def)

end
