(* ===== verification/Index_Setup.thy ===== *)
theory Index_Setup
  imports Db_Model
begin

text \<open>
  \<^verbatim>\<open>internal/db/model/setup.go\<close>: the collections and indexes that the program asks the database server for when it
  starts. Go goes through a map in an arbitrary order, which is a parameter, and so are the answers of the server.
\<close>

section \<open>The collections and their indexes\<close>

text \<open>A map of the code is the list of its entries, whose keys are distinct.\<close>

record index =
  idx_Indexes :: "(string \<times> int) list"
  idx_Unique :: bool

definition collections :: "(string \<times> index list) list" where
  "collections =
     [(FinalityProviderDetailsCollection, []),
      (FinalityProviderStatsCollection, []),
      (BTCDelegationDetailsCollection,
        [\<lparr>idx_Indexes = [(''staker_btc_pk_hex'', 1), (''btc_delegation_created_bbn_block.height'', - 1), (''_id'', 1)],
          idx_Unique = False\<rparr>,
         \<lparr>idx_Indexes = [(''state'', 1)], idx_Unique = False\<rparr>]),
      (TimeLockCollection, [\<lparr>idx_Indexes = [(''expire_height'', 1)], idx_Unique = False\<rparr>]),
      (GlobalParamsCollection, [\<lparr>idx_Indexes = [(''type'', 1), (''version'', 1)], idx_Unique = True\<rparr>]),
      (LastProcessedHeightCollection, [\<lparr>idx_Indexes = [], idx_Unique = False\<rparr>]),
      (NetworkInfoCollection, [\<lparr>idx_Indexes = [], idx_Unique = False\<rparr>]),
      (StatsCollection, [\<lparr>idx_Indexes = [], idx_Unique = False\<rparr>])]"

section \<open>The server\<close>

record catalog =
  cat_collections :: "string list"
  cat_indexes :: "(string \<times> IndexModel) list"
  cat_clock :: nat

text \<open>
  \<open>ad_Connect\<close>, \<open>ad_CreateOne\<close> and \<open>ad_CreateCollection\<close> are the failures of the calls, \<open>range_order\<close> the order in
  which a map of some size is gone through.
\<close>

record mongo_admin =
  ad_Connect :: "nat \<Rightarrow> string option"
  ad_CreateOne :: "nat \<Rightarrow> string \<Rightarrow> IndexModel \<Rightarrow> string option"
  ad_CreateCollection :: "nat \<Rightarrow> string \<Rightarrow> string option"
  range_order :: "nat \<Rightarrow> nat \<Rightarrow> nat list"

definition admin_call :: "(nat \<Rightarrow> string option) \<Rightarrow> (catalog \<Rightarrow> catalog) \<Rightarrow> (catalog, unit) prog" where
  "admin_call failure act = atomically (\<lambda>c.
     let c' = c\<lparr>cat_clock := Suc (cat_clock c)\<rparr> in
     case failure (cat_clock c) of Some msg \<Rightarrow> (Err (OtherError msg), c') | None \<Rightarrow> (Ok (), act c'))"

text \<open>
  The documented behaviour of the server: an index that is there already is not created again, and the collection
  comes with its first index. Two indexes whose keys are ordered differently are different.
\<close>

definition add_once :: "'a \<Rightarrow> 'a list \<Rightarrow> 'a list" where
  "add_once x xs = (if x \<in> set xs then xs else xs @ [x])"

definition CreateOne :: "mongo_admin \<Rightarrow> string \<Rightarrow> IndexModel \<Rightarrow> (catalog, unit) prog" where
  "CreateOne a collectionName model = admin_call (\<lambda>t. ad_CreateOne a t collectionName model) (\<lambda>c.
     if im_Keys model = None then c
     else c\<lparr>cat_collections := add_once collectionName (cat_collections c),
            cat_indexes := add_once (collectionName, model) (cat_indexes c)\<rparr>)"

definition CreateCollection :: "mongo_admin \<Rightarrow> string \<Rightarrow> (catalog, unit) prog" where
  "CreateCollection a collectionName = admin_call (\<lambda>t. ad_CreateCollection a t collectionName) (\<lambda>c.
     c\<lparr>cat_collections := add_once collectionName (cat_collections c)\<rparr>)"

text \<open>Going through a map: a reading of the order, then the entries in it.\<close>

definition range_map :: "mongo_admin \<Rightarrow> 'a list \<Rightarrow> (catalog, 'a list) prog" where
  "range_map a xs = atomically (\<lambda>c.
     (Ok (map ((!) xs) (range_order a (cat_clock c) (length xs))), c\<lparr>cat_clock := Suc (cat_clock c)\<rparr>))"

section \<open>The setup\<close>

text \<open>Every error is logged and ends the work on the one collection or index.\<close>

definition createCollection :: "mongo_admin \<Rightarrow> string \<Rightarrow> (catalog, unit) prog" where
  "createCollection a collectionName =
     andThen (attempt (CreateOne a collectionName \<lparr>im_Keys = None, im_Unique = False\<rparr>)) (\<lambda>r.
     case r of Inl err \<Rightarrow> ret ()
     | Inr _ \<Rightarrow> on_error (CreateCollection a collectionName) (\<lambda>err. ret ()))"

definition createIndex :: "mongo_admin \<Rightarrow> string \<Rightarrow> index \<Rightarrow> (catalog, unit) prog" where
  "createIndex a collectionName idx =
     (if idx_Indexes idx = [] then ret ()
      else andThen (range_map a (idx_Indexes idx)) (\<lambda>indexKeys.
        on_error (CreateOne a collectionName \<lparr>im_Keys = Some indexKeys, im_Unique = idx_Unique idx\<rparr>) (\<lambda>err. ret ())))"

definition Setup :: "mongo_admin \<Rightarrow> (catalog, unit) prog" where
  "Setup a =
     andThen (admin_call (ad_Connect a) id) (\<lambda>_.
     andThen (range_map a collections) (\<lambda>cs.
     andThen (for_each cs (\<lambda>(collection, idxs). createCollection a collection)) (\<lambda>_.
     andThen (range_map a collections) (\<lambda>cs.
     for_each cs (\<lambda>(name, idxs). for_each idxs (\<lambda>idx. createIndex a name idx))))))"

section \<open>What is created\<close>

text \<open>The order is one of the entries; the indexes with keys are never refused.\<close>

definition fair_order :: "mongo_admin \<Rightarrow> bool" where
  "fair_order a \<longleftrightarrow> (\<forall>t n. mset (range_order a t n) = mset [0..<n])"

definition serves_indexes :: "mongo_admin \<Rightarrow> bool" where
  "serves_indexes a \<longleftrightarrow> (\<forall>t name model. im_Keys model \<noteq> None \<longrightarrow> ad_CreateOne a t name model = None)"

lemma fair_range: "fair_order a \<Longrightarrow> mset (map ((!) xs) (range_order a t (length xs))) = mset xs"
  by (metis fair_order_def map_nth mset_map)

text \<open>\<open>asked name model\<close>: the model is an index of the code, with its keys in some order.\<close>

definition asked :: "string \<Rightarrow> IndexModel \<Rightarrow> bool" where
  "asked name model \<longleftrightarrow> (\<exists>idxs idx keys. (name, idxs) \<in> set collections \<and> idx \<in> set idxs \<and> idx_Indexes idx \<noteq> [] \<and>
     model = \<lparr>im_Keys = Some keys, im_Unique = idx_Unique idx\<rparr> \<and> mset keys = mset (idx_Indexes idx))"

definition provided :: "string \<Rightarrow> index \<Rightarrow> catalog \<Rightarrow> bool" where
  "provided name idx c \<longleftrightarrow> idx_Indexes idx = [] \<or> (\<exists>keys. mset keys = mset (idx_Indexes idx) \<and>
     (name, \<lparr>im_Keys = Some keys, im_Unique = idx_Unique idx\<rparr>) \<in> set (cat_indexes c))"

text \<open>From \<open>c\<close> to \<open>c'\<close> indexes of the code are added and nothing is dropped.\<close>

definition grows :: "catalog \<Rightarrow> catalog \<Rightarrow> bool" where
  "grows c c' \<longleftrightarrow> set (cat_collections c) \<subseteq> set (cat_collections c') \<and> set (cat_indexes c) \<subseteq> set (cat_indexes c') \<and>
     (\<forall>(name, model) \<in> set (cat_indexes c') - set (cat_indexes c). asked name model)"

lemma grows_refl [simp]: "grows c c" "grows c (d\<lparr>cat_clock := t\<rparr>) = grows c d" "grows (c\<lparr>cat_clock := t\<rparr>) d = grows c d"
  by (simp_all add: grows_def)

lemma grows_trans: "grows c d \<Longrightarrow> grows d f \<Longrightarrow> grows c f"
  unfolding grows_def by blast

lemma provided_mono: "provided name idx c \<Longrightarrow> grows c c' \<Longrightarrow> provided name idx c'"
  unfolding provided_def grows_def by blast

lemma run_create_collection: "\<exists>c'. run (createCollection a name) c = (Ok (), c') \<and> grows c c'"
  by (auto simp: createCollection_def CreateOne_def CreateCollection_def admin_call_def run_on_error grows_def add_once_def Let_def
      split: option.splits)

lemma run_create_index:
  assumes "fair_order a" "(name, idxs) \<in> set collections" "idx \<in> set idxs"
  shows "\<exists>c'. run (createIndex a name idx) c = (Ok (), c') \<and> grows c c' \<and> (serves_indexes a \<longrightarrow> provided name idx c')"
proof (cases "idx_Indexes idx = []")
  case False
  let ?keys = "map ((!) (idx_Indexes idx)) (range_order a (cat_clock c) (length (idx_Indexes idx)))"
  let ?model = "\<lparr>im_Keys = Some ?keys, im_Unique = idx_Unique idx\<rparr>"
  have keys: "mset ?keys = mset (idx_Indexes idx)" by (rule fair_range [OF assms(1)])
  have model: "asked name ?model" unfolding asked_def using assms(2,3) False keys by blast
  show ?thesis
  proof (cases "ad_CreateOne a (Suc (cat_clock c)) name ?model")
    case None
    then show ?thesis
      using False model keys
      by (auto simp: createIndex_def range_map_def CreateOne_def admin_call_def run_on_error Let_def grows_def add_once_def provided_def
          simp del: mset_map)
  next
    case (Some msg)
    then have "\<not> serves_indexes a"
      unfolding serves_indexes_def by (metis IndexModel.select_convs(1) option.distinct(1))
    then show ?thesis
      using False Some by (simp add: createIndex_def range_map_def CreateOne_def admin_call_def run_on_error Let_def grows_def)
  qed
qed (simp add: createIndex_def provided_def)

text \<open>A loop over entries whose bodies succeed, each making something true that stays true.\<close>

lemma run_for_each_grows:
  assumes "\<And>x c. x \<in> set xs \<Longrightarrow> \<exists>c'. run (body x) c = (Ok (), c') \<and> grows c c' \<and> (s \<longrightarrow> Q x c')"
    and "\<And>x c c'. Q x c \<Longrightarrow> grows c c' \<Longrightarrow> Q x c'"
  shows "\<exists>c'. run (for_each xs body) c = (Ok (), c') \<and> grows c c' \<and> (s \<longrightarrow> (\<forall>x \<in> set xs. Q x c'))"
  using assms(1)
proof (induction xs arbitrary: c)
  case (Cons x xs)
  obtain c1 where c1: "run (body x) c = (Ok (), c1)" "grows c c1" "s \<longrightarrow> Q x c1" using Cons.prems [of x] by auto
  obtain c2 where c2: "run (for_each xs body) c1 = (Ok (), c2)" "grows c1 c2" "s \<longrightarrow> (\<forall>y \<in> set xs. Q y c2)"
    using Cons.IH [of c1] Cons.prems by (metis list.set_intros(2))
  show ?case
    using c1 c2 assms(2) [OF _ c2(2), of x] grows_trans [OF c1(2) c2(2)] by (intro exI [of _ c2]) auto
qed simp

text \<open>\<open>finished idxs\<close>: all indexes of an entry are there.\<close>

definition finished :: "string \<times> index list \<Rightarrow> catalog \<Rightarrow> bool" where
  "finished entry c \<longleftrightarrow> (\<forall>idx \<in> set (snd entry). provided (fst entry) idx c)"

lemma run_create_indexes:
  assumes "fair_order a" "entry \<in> set collections"
  shows "\<exists>c'. run (for_each (snd entry) (createIndex a (fst entry))) c = (Ok (), c') \<and> grows c c' \<and>
    (serves_indexes a \<longrightarrow> finished entry c')"
  unfolding finished_def
  by (rule run_for_each_grows [where Q = "provided (fst entry)"])
    (use assms run_create_index [OF assms(1), of "fst entry" "snd entry"] provided_mono in auto)

lemma run_Setup:
  assumes "fair_order a" "ad_Connect a (cat_clock c) = None"
  shows "\<exists>c'. run (Setup a) c = (Ok (), c') \<and> grows c c' \<and> (serves_indexes a \<longrightarrow> (\<forall>entry \<in> set collections. finished entry c'))"
proof -
  let ?order = "\<lambda>c. map ((!) collections) (range_order a (cat_clock c) (length collections))"
  have entries: "set (?order c) = set collections" for c by (rule mset_eq_setD [OF fair_range [OF assms(1)]])
  let ?c1 = "c\<lparr>cat_clock := Suc (Suc (cat_clock c))\<rparr>" and ?names = "?order (c\<lparr>cat_clock := Suc (cat_clock c)\<rparr>)"
  have "\<exists>c'. run (for_each ?names (\<lambda>(collection, idxs). createCollection a collection)) ?c1 = (Ok (), c') \<and> grows ?c1 c' \<and>
      (False \<longrightarrow> (\<forall>x \<in> set ?names. True))"
    by (rule run_for_each_grows [where Q = "\<lambda>_ _. True"]) (simp_all add: split_beta run_create_collection)
  then obtain c2 where c2: "run (for_each ?names (\<lambda>(collection, idxs). createCollection a collection)) ?c1 = (Ok (), c2)" "grows ?c1 c2"
    by blast
  let ?c3 = "c2\<lparr>cat_clock := Suc (cat_clock c2)\<rparr>"
  have mono: "finished entry d \<Longrightarrow> grows d d' \<Longrightarrow> finished entry d'" for entry d d'
    using provided_mono by (auto simp: finished_def)
  have body: "entry \<in> set (?order c2) \<Longrightarrow> \<exists>c'. run (for_each (snd entry) (createIndex a (fst entry))) d = (Ok (), c') \<and> grows d c' \<and>
      (serves_indexes a \<longrightarrow> finished entry c')" for entry d
    unfolding entries by (rule run_create_indexes [OF assms(1)])
  have "\<exists>c'. run (for_each (?order c2) (\<lambda>(name, idxs). for_each idxs (\<lambda>idx. createIndex a name idx))) ?c3 = (Ok (), c') \<and>
      grows ?c3 c' \<and> (serves_indexes a \<longrightarrow> (\<forall>entry \<in> set (?order c2). finished entry c'))"
    unfolding split_beta by (rule run_for_each_grows [where Q = finished]) (erule body, erule (1) mono)
  then obtain c4 where c4: "run (for_each (?order c2) (\<lambda>(name, idxs). for_each idxs (\<lambda>idx. createIndex a name idx))) ?c3 = (Ok (), c4)"
      "grows ?c3 c4" "serves_indexes a \<longrightarrow> (\<forall>entry \<in> set (?order c2). finished entry c4)" by blast
  have "run (Setup a) c = (Ok (), c4)"
    using assms(2) c2(1) c4(1) by (simp add: Setup_def admin_call_def Let_def range_map_def)
  moreover have "grows c c4" using grows_trans [of c c2 c4] c2(2) c4(2) by simp
  ultimately show ?thesis using c4(3) unfolding entries by blast
qed

text \<open>In particular the index that keeps the versions of the parameters apart.\<close>

lemma params_index_provided:
  assumes "\<forall>entry \<in> set collections. finished entry c"
  shows "\<exists>keys. mset keys = {#(''type'', 1), (''version'', 1)#} \<and>
    (GlobalParamsCollection, \<lparr>im_Keys = Some keys, im_Unique = True\<rparr>) \<in> set (cat_indexes c)"
proof -
  have "(GlobalParamsCollection, [\<lparr>idx_Indexes = [(''type'', 1), (''version'', 1)], idx_Unique = True\<rparr>]) \<in> set collections"
    by (simp add: collections_def)
  with assms show ?thesis by (fastforce simp: finished_def provided_def)
qed

lemma Setup_params_index:
  assumes "fair_order a" "serves_indexes a" "run (Setup a) c = (Ok (), c')"
  shows "\<exists>keys. mset keys = {#(''type'', 1), (''version'', 1)#} \<and>
    (GlobalParamsCollection, \<lparr>im_Keys = Some keys, im_Unique = True\<rparr>) \<in> set (cat_indexes c')"
proof -
  have "ad_Connect a (cat_clock c) = None"
    using assms(3) by (cases "ad_Connect a (cat_clock c)") (simp_all add: Setup_def admin_call_def Let_def)
  from run_Setup [OF assms(1) this] assms(2,3) show ?thesis by (auto intro: params_index_provided)
qed

text \<open>
  C39. The setup ends well exactly when it can connect, whatever else fails: it drops nothing, and each index that it
  adds is one of those that the code lists, with its keys in some order. When the server refuses none, every index of
  the code is there afterwards, in particular a unique one on the type and the version of the parameters.
\<close>

theorem setup_provides_indexes:
  assumes "fair_order a"
  shows "\<exists>r c'. run (Setup a) c = (r, c') \<and> (r = Ok () \<longleftrightarrow> ad_Connect a (cat_clock c) = None) \<and> grows c c' \<and>
    (r = Ok () \<and> serves_indexes a \<longrightarrow>
      (\<forall>(name, idxs) \<in> set collections. \<forall>idx \<in> set idxs. provided name idx c') \<and>
      (\<exists>keys. mset keys = {#(''type'', 1), (''version'', 1)#} \<and>
        (GlobalParamsCollection, \<lparr>im_Keys = Some keys, im_Unique = True\<rparr>) \<in> set (cat_indexes c')))"
proof (cases "ad_Connect a (cat_clock c)")
  case (Some msg)
  then show ?thesis by (simp add: Setup_def admin_call_def Let_def)
next
  case None
  from run_Setup [OF assms this] obtain c' where c': "run (Setup a) c = (Ok (), c')" "grows c c'"
    "serves_indexes a \<longrightarrow> (\<forall>entry \<in> set collections. finished entry c')" by blast
  then have "serves_indexes a \<Longrightarrow> \<exists>keys. mset keys = {#(''type'', 1), (''version'', 1)#} \<and>
      (GlobalParamsCollection, \<lparr>im_Keys = Some keys, im_Unique = True\<rparr>) \<in> set (cat_indexes c')"
    by (blast intro: params_index_provided)
  then show ?thesis
    using c' None by (intro exI [of _ "Ok ()"] exI [of _ c']) (auto simp: finished_def)
qed

section \<open>Two starts\<close>

definition sample_admin :: mongo_admin where
  "sample_admin = \<lparr>ad_Connect = (\<lambda>t. None),
     ad_CreateOne = (\<lambda>t name model. if im_Keys model = None then Some ''index model keys cannot be nil'' else None),
     ad_CreateCollection = (\<lambda>t name. None), range_order = (\<lambda>t n. if t < 30 then [0..<n] else rev [0..<n])\<rparr>"

definition empty_catalog :: catalog where
  "empty_catalog = \<lparr>cat_collections = [], cat_indexes = [], cat_clock = 0\<rparr>"

lemma sample_admin_ok: "fair_order sample_admin" "serves_indexes sample_admin"
  by (simp_all add: fair_order_def serves_indexes_def sample_admin_def)

theorem setup_provides_indexes_witness:
  "\<exists>keys. mset keys = {#(''type'', 1), (''version'', 1)#} \<and>
    (GlobalParamsCollection, \<lparr>im_Keys = Some keys, im_Unique = True\<rparr>) \<in> set (cat_indexes (snd (run (Setup sample_admin) empty_catalog)))"
proof -
  have "ad_Connect sample_admin (cat_clock empty_catalog) = None" by (simp add: sample_admin_def)
  with setup_provides_indexes [OF sample_admin_ok(1), of empty_catalog] sample_admin_ok(2) show ?thesis by auto
qed

text \<open>
  A start that goes through the map in another order adds the index again with its keys turned round: the indexes of
  a database accumulate over the restarts.
\<close>

lemma restart_adds_an_index:
  "let idx = \<lparr>idx_Indexes = [(''type'', 1), (''version'', 1)], idx_Unique = True\<rparr>;
       first = snd (run (createIndex sample_admin GlobalParamsCollection idx) empty_catalog);
       second = snd (run (createIndex sample_admin GlobalParamsCollection idx) (first\<lparr>cat_clock := 30\<rparr>)) in
   cat_indexes first = [(GlobalParamsCollection, \<lparr>im_Keys = Some [(''type'', 1), (''version'', 1)], im_Unique = True\<rparr>)] \<and>
   cat_indexes second =
     [(GlobalParamsCollection, \<lparr>im_Keys = Some [(''type'', 1), (''version'', 1)], im_Unique = True\<rparr>),
      (GlobalParamsCollection, \<lparr>im_Keys = Some [(''version'', 1), (''type'', 1)], im_Unique = True\<rparr>)]"
  by (simp add: createIndex_def range_map_def CreateOne_def admin_call_def run_on_error Let_def add_once_def sample_admin_def
      empty_catalog_def upt_rec)

end
