(* ===== verification/Lifecycle.thy ===== *)
theory Lifecycle
  imports Sample Index_Setup
begin

text \<open>
  The properties of the whole process, for every schedule of the goroutines, every answer and every fault
  of the services, and crashes with restarts at any moment. The only hypothesis on the services is that a
  query returns every document once (\<open>scan_ok\<close>).
\<close>

section \<open>Histories\<close>

text \<open>
  C1. In every reachable state the history of a stored delegation starts with PENDING and every record
  follows from the one before by a legal transition; the stored state and sub-state are those of the last
  record.
\<close>

theorem history_is_legal_path:
  assumes "scan_ok e" "reachable e (w, ps)" "d \<in> set (w_delegations w)"
  shows "d_StateHistory d \<noteq> [] \<and> sr_State (hd (d_StateHistory d)) = StatePending \<and>
    successively (\<lambda>r1 r2. legal (sr_State r1) (sr_State r2) (sr_SubState r2)) (d_StateHistory d) \<and>
    d_State d = sr_State (last (d_StateHistory d)) \<and> d_SubState d = sr_SubState (last (d_StateHistory d))"
  using reachable_good [OF assms(1,2)] assms(3)
  by (auto simp: good_def delegation_ok_def wf_delegation_def history_ok_def legal_step_def)

theorem history_is_legal_path_witness:
  "withdrawn_delegation \<in> set (w_delegations withdrawn_world) \<and>
   successively (\<lambda>r1 r2. legal (sr_State r1) (sr_State r2) (sr_SubState r2)) (d_StateHistory withdrawn_delegation) \<and>
   d_State withdrawn_delegation = sr_State (last (d_StateHistory withdrawn_delegation))"
  using sample_reachable(7) history_is_legal_path [OF sample_env_ok(1), of withdrawn_world _ withdrawn_delegation]
  by (auto simp: sample_worlds)

text \<open>
  C2. From a reachable state on, a stored delegation is never deleted. What its creation has stored stays as it is:
  the staking transaction with its hash, time, amount and output, the keys of the staker and of the finality
  providers, the version of the parameters, the unbonding transaction and time, the block of the creation and the hash
  of the delegation that it expands. Only the address of the staker may be written again, by the backfill, and an
  address that is there is not lost. The history and the covenant signatures only grow.
\<close>

theorem delegations_persist:
  assumes "scan_ok e" "reachable e (w, ps)" "(sys_step e)\<^sup>*\<^sup>* (w, ps) (w', ps')" "d \<in> set (w_delegations w)"
  shows "\<exists>d' \<in> set (w_delegations w'). d_StakingTxHashHex d' = d_StakingTxHashHex d \<and> d_StakingTxHex d' = d_StakingTxHex d \<and>
    d_StakingTime d' = d_StakingTime d \<and> d_StakingAmount d' = d_StakingAmount d \<and> d_StakingOutputIdx d' = d_StakingOutputIdx d \<and>
    d_StakerBtcPkHex d' = d_StakerBtcPkHex d \<and> d_FinalityProviderBtcPksHex d' = d_FinalityProviderBtcPksHex d \<and>
    d_ParamsVersion d' = d_ParamsVersion d \<and> d_UnbondingTx d' = d_UnbondingTx d \<and>
    d_UnbondingTime d' = d_UnbondingTime d \<and> d_BTCDelegationCreatedBlock d' = d_BTCDelegationCreatedBlock d \<and>
    d_PreviousStakingTxHashHex d' = d_PreviousStakingTxHashHex d \<and>
    (d_StakerBabylonAddress d \<noteq> '''' \<longrightarrow> d_StakerBabylonAddress d' \<noteq> '''') \<and>
    prefix (d_StateHistory d) (d_StateHistory d') \<and> prefix (d_CovenantSignatures d) (d_CovenantSignatures d')"
  using steps_below [OF assms(3,2,1)] assms(4) by (auto simp: below_def known_def older_def)

theorem delegations_persist_witness:
  "\<exists>d' \<in> set (w_delegations withdrawn_world). d_StakingTxHashHex d' = ''h'' \<and>
     d_StakingTime d' = 100 \<and> d_BTCDelegationCreatedBlock d' = \<lparr>cb_Height = 1, cb_Timestamp = 2000\<rparr> \<and>
     d_StakerBabylonAddress d' \<noteq> '''' \<and> prefix (d_StateHistory unbonding_delegation) (d_StateHistory d')"
proof -
  obtain ps where ps: "reachable sample_env (unbonding_world, ps)" using sample_reachable(3) by blast
  have "sample_path unbonding_world withdrawn_world" using sample_paths sample_path_trans by blast
  then obtain ps' where "(sys_step sample_env)\<^sup>*\<^sup>* (unbonding_world, ps) (withdrawn_world, ps')"
    by (auto simp: sample_path_def)
  from delegations_persist [OF sample_env_ok(1) ps this, of unbonding_delegation] show ?thesis
    by (auto simp: sample_worlds sample_delegation_defs)
qed

text \<open>
  C3. A delegation that is WITHDRAWN or EXPANDED stays as it is: whatever happens later, its state, its
  sub-state and its history are those it had.
\<close>

theorem terminal_states_absorb:
  assumes "scan_ok e" "reachable e (w, ps)" "(sys_step e)\<^sup>*\<^sup>* (w, ps) (w', ps')" "d \<in> set (w_delegations w)"
    and "d_State d = StateWithdrawn \<or> d_State d = StateExpanded"
    and "d' \<in> set (w_delegations w')" "d_StakingTxHashHex d' = d_StakingTxHashHex d"
  shows "d_StateHistory d' = d_StateHistory d \<and> d_State d' = d_State d \<and> d_SubState d' = d_SubState d"
proof -
  have b: "below w w'" "reachable e (w', ps')" using steps_below [OF assms(3,2,1)] by simp_all
  note g = reachable_good [OF assms(1,2)] and g' = reachable_good [OF assms(1) b(2)]
  from b(1) assms(4) obtain x where x: "x \<in> set (w_delegations w')" "older d x" by (auto simp: below_def known_def)
  have "distinct (map d_StakingTxHashHex (w_delegations w'))" using g' by (simp add: good_def)
  then have "x = d'"
    using x assms(6,7) older_key [OF x(2)] by (metis distinct_map inj_onD)
  with x have o: "prefix (d_StateHistory d) (d_StateHistory d')" by (simp add: older_def)
  have wf: "wf_delegation d" "wf_delegation d'"
    using good_delegation_ok [OF g assms(4)] good_delegation_ok [OF g' assms(6)] by (auto simp: delegation_ok_def)
  then have "d_StateHistory d' = d_StateHistory d"
    using assms(5) o
    by (intro history_ok_terminal) (auto simp: wf_delegation_def history_ok_def terminal_def)
  with wf show ?thesis by (simp add: wf_delegation_def)
qed

theorem terminal_states_absorb_witness:
  "d_State withdrawn_delegation = StateWithdrawn \<and>
   d_StateHistory (hd (w_delegations replayed_world)) = d_StateHistory withdrawn_delegation"
proof -
  obtain ps where ps: "reachable sample_env (withdrawn_world, ps)" using sample_reachable(7) by blast
  obtain ps' where "(sys_step sample_env)\<^sup>*\<^sup>* (withdrawn_world, ps) (replayed_world, ps')"
    using sample_path_replayed by (auto simp: sample_path_def)
  from terminal_states_absorb [OF sample_env_ok(1) ps this, of withdrawn_delegation "hd (w_delegations replayed_world)"]
  show ?thesis by (simp add: sample_worlds withdrawn_delegation_def)
qed

text \<open>The abstract state machine as a step relation.\<close>

definition lifecycle_step :: "DelegationState \<times> DelegationSubState \<Rightarrow> DelegationState \<times> DelegationSubState \<Rightarrow> bool" where
  "lifecycle_step s s' \<longleftrightarrow> legal (fst s) (fst s') (snd s')"

lemma history_path:
  assumes "successively legal_step (h @ rest)" "h \<noteq> []"
  shows "lifecycle_step\<^sup>*\<^sup>* (sr_State (last h), sr_SubState (last h)) (sr_State (last (h @ rest)), sr_SubState (last (h @ rest)))"
  using assms(1)
proof (induction rest rule: rev_induct)
  case (snoc r rest)
  have "h @ rest \<noteq> []" using assms(2) by simp
  with snoc.prems have "successively legal_step (h @ rest)" "legal_step (last (h @ rest)) r"
    by (auto simp: successively_append_iff simp flip: append_assoc)
  with snoc.IH show ?case by (auto simp: lifecycle_step_def legal_step_def intro: rtranclp.rtrancl_into_rtrancl)
qed simp

text \<open>
  C4. The abstract state machine is implemented: however the process goes on, the state and sub-state of a
  stored delegation move along legal transitions only.
\<close>

theorem process_refines_lifecycle:
  assumes "scan_ok e" "reachable e (w, ps)" "(sys_step e)\<^sup>*\<^sup>* (w, ps) (w', ps')"
    and "d \<in> set (w_delegations w)" "d' \<in> set (w_delegations w')" "d_StakingTxHashHex d' = d_StakingTxHashHex d"
  shows "lifecycle_step\<^sup>*\<^sup>* (d_State d, d_SubState d) (d_State d', d_SubState d')"
proof -
  have b: "below w w'" "reachable e (w', ps')" using steps_below [OF assms(3,2,1)] by simp_all
  note g = reachable_good [OF assms(1,2)] and g' = reachable_good [OF assms(1) b(2)]
  from b(1) assms(4) obtain x where x: "x \<in> set (w_delegations w')" "older d x" by (auto simp: below_def known_def)
  have "distinct (map d_StakingTxHashHex (w_delegations w'))" using g' by (simp add: good_def)
  then have "x = d'" using x assms(5,6) older_key [OF x(2)] by (metis distinct_map inj_onD)
  with x obtain rest where rest: "d_StateHistory d' = d_StateHistory d @ rest" by (auto simp: older_def prefix_def)
  have "wf_delegation d" "wf_delegation d'"
    using good_delegation_ok [OF g assms(4)] good_delegation_ok [OF g' assms(5)] by (auto simp: delegation_ok_def)
  then show ?thesis
    using history_path [of "d_StateHistory d" rest] by (simp add: wf_delegation_def history_ok_def rest)
qed

theorem process_refines_lifecycle_witness:
  "lifecycle_step\<^sup>*\<^sup>* (StateUnbonding, SubStateEarlyUnbonding) (StateWithdrawn, SubStateTimelock)"
proof -
  obtain ps where ps: "reachable sample_env (unbonding_world, ps)" using sample_reachable(3) by blast
  have "sample_path unbonding_world withdrawn_world" using sample_paths sample_path_trans by blast
  then obtain ps' where "(sys_step sample_env)\<^sup>*\<^sup>* (unbonding_world, ps) (withdrawn_world, ps')"
    by (auto simp: sample_path_def)
  from process_refines_lifecycle [OF sample_env_ok(1) ps this, of unbonding_delegation withdrawn_delegation]
  show ?thesis by (simp add: sample_worlds sample_delegation_defs withdrawn_delegation_def)
qed

section \<open>What has happened before a transition\<close>

text \<open>
  C5. The message of the activation is never lost: a delegation whose history contains ACTIVE has its
  message in the queue, also when the process was stopped between any two actions.
\<close>

theorem activation_was_announced:
  assumes "scan_ok e" "reachable e (w, ps)" "d \<in> set (w_delegations w)" "r \<in> set (d_StateHistory d)"
    and "sr_State r = StateActive"
  shows "\<exists>ev \<in> set (w_queue w). se_EventType ev = ActiveStakingEventType \<and> se_StakingTxHashHex ev = d_StakingTxHashHex d"
  using good_delegation_ok [OF reachable_good [OF assms(1,2)] assms(3)] assms(4,5)
  by (auto simp: delegation_ok_def evidence_def queued_def)

theorem activation_was_announced_witness:
  "\<exists>ev \<in> set (w_queue withdrawn_world). se_EventType ev = ActiveStakingEventType \<and> se_StakingTxHashHex ev = ''h''"
  using sample_reachable(7) activation_was_announced [OF sample_env_ok(1), of withdrawn_world _ withdrawn_delegation
    "sample_record StateActive NoSubState 2 0 ''EventCovenantQuorumReached''"]
  by (auto simp: sample_worlds withdrawn_delegation_def sample_delegation_defs)

text \<open>
  C6. The same for the end of a delegation: one that has expired (UNBONDING with TIMELOCK), was expanded, or
  was slashed through the staking output has its unbonding message in the queue.
\<close>

theorem unbonding_was_announced:
  assumes "scan_ok e" "reachable e (w, ps)" "d \<in> set (w_delegations w)" "r \<in> set (d_StateHistory d)"
    and "sr_State r = StateExpanded \<or> sr_State r = StateUnbonding \<and> sr_SubState r = SubStateTimelock \<or>
      sr_State r = StateSlashed \<and> sr_SubState r = SubStateTimelockSlashing"
  shows "\<exists>ev \<in> set (w_queue w). se_EventType ev = UnbondingStakingEventType \<and> se_StakingTxHashHex ev = d_StakingTxHashHex d"
  using good_delegation_ok [OF reachable_good [OF assms(1,2)] assms(3)] assms(4,5)
  by (auto simp: delegation_ok_def evidence_def queued_def)

theorem unbonding_was_announced_witness:
  "\<exists>ev \<in> set (w_queue expired_world). se_EventType ev = UnbondingStakingEventType \<and> se_StakingTxHashHex ev = ''h''"
  using sample_reachable_expired unbonding_was_announced [OF sample_env_ok(1), of expired_world _ expired_delegation
    "sample_record StateUnbonding SubStateTimelock 3 0 ''EventBTCDelegationExpired''"]
  by (auto simp: sample_worlds_expired expired_delegation_def sample_delegation_defs)

text \<open>
  C7. A delegation becomes WITHDRAWABLE only after the Bitcoin node has reported a tip at or above the height
  at which the time lock ends.
\<close>

theorem withdrawable_after_tip:
  assumes "scan_ok e" "reachable e (w, ps)" "d \<in> set (w_delegations w)" "r \<in> set (d_StateHistory d)"
    and "sr_State r = StateWithdrawable"
  shows "\<exists>t < w_clock w. \<exists>count. btc_GetBlockCount e t = Inr count \<and> unat (sr_BtcHeight r) \<le> unat count"
  using good_delegation_ok [OF reachable_good [OF assms(1,2)] assms(3)] assms(4,5)
  by (auto simp: delegation_ok_def evidence_def tip_seen_def)

theorem withdrawable_after_tip_witness:
  "\<exists>t < 36. \<exists>count. btc_GetBlockCount sample_env t = Inr count \<and> unat (57 :: u32) \<le> unat count"
  using sample_reachable(7) withdrawable_after_tip [OF sample_env_ok(1), of withdrawn_world _ withdrawn_delegation
    "sample_record StateWithdrawable SubStateEarlyUnbonding 0 57 ''''"]
  by (auto simp: sample_worlds withdrawn_delegation_def sample_delegation_defs)

section \<open>The collections\<close>

text \<open>
  C8. At most one document is stored for a staking transaction and for a finality provider key, since these are the
  \<^verbatim>\<open>_id\<close> of their documents. For a version of the staking parameters the same holds when the database has the
  indexes of a setup that ended well and was refused none of them.
\<close>

theorem ids_are_unique:
  assumes "scan_ok e" "reachable e (w, ps)"
  shows "distinct (map d_StakingTxHashHex (w_delegations w)) \<and> distinct (map fp_BtcPk (w_fps w)) \<and>
    (\<forall>a c c'. fair_order a \<and> serves_indexes a \<and> run (Setup a) c = (Ok (), c') \<and> set (cat_indexes c') \<subseteq> set (mongo_indexes e) \<longrightarrow>
      distinct (map fst (w_staking_params w)))"
proof -
  have g: "good e w" by (rule reachable_good [OF assms])
  have "distinct (map fst (w_staking_params w))"
    if ready: "fair_order a" "serves_indexes a" "run (Setup a) c = (Ok (), c')" "set (cat_indexes c') \<subseteq> set (mongo_indexes e)" for a c c'
  proof -
    obtain keys where keys: "mset keys = {#(''type'', 1), (''version'', 1)#}"
      "(GlobalParamsCollection, \<lparr>im_Keys = Some keys, im_Unique = True\<rparr>) \<in> set (mongo_indexes e)"
      using Setup_params_index [OF ready(1-3)] ready(4) by blast
    have "set (map fst keys) = set [''type'', ''version'']" using arg_cong [OF keys(1), of set_mset] by simp
    then have "params_index e" unfolding unique_index_def list_ex_iff by (intro bexI [OF _ keys(2)]) simp
    with g show ?thesis by (simp add: good_def)
  qed
  with g show ?thesis by (auto simp: good_def)
qed

lemma sample_setup:
  "run (Setup sample_admin) empty_catalog =
    (Ok (), \<lparr>cat_collections = [BTCDelegationDetailsCollection, TimeLockCollection, GlobalParamsCollection],
      cat_indexes = sample_indexes, cat_clock = 19\<rparr>)"
  by (simp add: Setup_def createIndex_def createCollection_def range_map_def CreateOne_def admin_call_def run_on_error Let_def
      add_once_def sample_admin_def empty_catalog_def collections_def sample_indexes_def BTCDelegationDetailsCollection_def
      TimeLockCollection_def GlobalParamsCollection_def del: andThen.simps on_error.simps)

theorem ids_are_unique_witness: "distinct (map fst (w_staking_params params_world))"
proof -
  have "set (cat_indexes (snd (run (Setup sample_admin) empty_catalog))) \<subseteq> set (mongo_indexes sample_env)"
    by (simp add: sample_setup)
  with sample_reachable(5) ids_are_unique [OF sample_env_ok(1), of params_world] sample_admin_ok sample_setup show ?thesis
    by fastforce
qed

text \<open>Without the index the server accepts a version again.\<close>

lemma versions_repeat_without_index:
  assumes "no_faults e" "\<not> params_index e"
  shows "run (andThen (SaveStakingParams e version params) (\<lambda>_. SaveStakingParams e version params')) w =
    (Ok (), (tick (tick w))\<lparr>w_staking_params := w_staking_params w @ [(version, params), (version, params')]\<rparr>)"
  by (simp add: SaveStakingParams_def no_faultsD [OF assms(1)] assms(2) del: andThen.simps)

text \<open>
  C9. The sub-state fits the state: none for PENDING, VERIFIED and ACTIVE, a time lock or an early unbonding for
  UNBONDING, early unbonding for EXPANDED (for which the documentation of the states lists none), one of the slashing
  sub-states for SLASHED, one of the four for WITHDRAWABLE and WITHDRAWN. No other state is stored.
\<close>

theorem sub_state_fits_state:
  assumes "scan_ok e" "reachable e (w, ps)" "d \<in> set (w_delegations w)"
  shows "case d_State d of
      StatePending \<Rightarrow> d_SubState d = NoSubState
    | StateVerified \<Rightarrow> d_SubState d = NoSubState
    | StateActive \<Rightarrow> d_SubState d = NoSubState
    | StateUnbonding \<Rightarrow> d_SubState d = SubStateTimelock \<or> d_SubState d = SubStateEarlyUnbonding
    | StateExpanded \<Rightarrow> d_SubState d = SubStateEarlyUnbonding
    | StateSlashed \<Rightarrow> d_SubState d = SubStateTimelockSlashing \<or> d_SubState d = SubStateEarlyUnbondingSlashing
    | StateWithdrawable \<Rightarrow> unbonding_sub (d_SubState d) \<or> slashing_sub (d_SubState d)
    | StateWithdrawn \<Rightarrow> unbonding_sub (d_SubState d) \<or> slashing_sub (d_SubState d)
    | StateOther t \<Rightarrow> False"
proof -
  have wf: "wf_delegation d"
    using good_delegation_ok [OF reachable_good [OF assms(1,2)] assms(3)] by (simp add: delegation_ok_def)
  then have "last (d_StateHistory d) \<in> set (d_StateHistory d)" by (simp add: wf_delegation_def history_ok_def)
  from history_ok_sub [OF _ this] wf show ?thesis
    by (auto simp: wf_delegation_def split: DelegationState.split)
qed

theorem sub_state_fits_state_witness:
  "d_State withdrawn_delegation = StateWithdrawn \<and>
   (unbonding_sub (d_SubState withdrawn_delegation) \<or> slashing_sub (d_SubState withdrawn_delegation))"
  using sample_reachable(7) sub_state_fits_state [OF sample_env_ok(1), of withdrawn_world _ withdrawn_delegation]
  by (auto simp: sample_worlds withdrawn_delegation_def)

text \<open>
  C10. Every time lock document belongs to a stored delegation and names one of the four sub-states for which
  a state to leave is defined; so the expiry task never meets an unknown sub-state.
\<close>

theorem timelocks_are_processable:
  assumes "scan_ok e" "reachable e (w, ps)" "lock \<in> set (w_timelocks w)"
  shows "(\<exists>d \<in> set (w_delegations w). d_StakingTxHashHex d = tl_StakingTxHashHex lock) \<and>
    (\<exists>qs. QualifiedStatesForWithdrawable (tl_DelegationSubState lock) = Ok qs \<and> qs \<noteq> [])"
  using reachable_good [OF assms(1,2)] assms(3)
  by (auto simp: good_def timelock_ok_def hashes_def dest!: bspec)

theorem timelocks_are_processable_witness:
  "\<exists>qs. QualifiedStatesForWithdrawable SubStateEarlyUnbonding = Ok qs \<and> qs \<noteq> []"
  using sample_reachable(3) timelocks_are_processable [OF sample_env_ok(1), of unbonding_world _
    "NewTimeLockDocument ''h'' 57 SubStateEarlyUnbonding"]
  by (auto simp: sample_worlds NewTimeLockDocument_def)

text \<open>
  C11. A stored version of the staking parameters is never overwritten, so the parameters that a delegation
  refers to are always those it was created under; and a message that was sent stays sent.
\<close>

theorem params_and_messages_persist:
  assumes "scan_ok e" "reachable e (w, ps)" "(sys_step e)\<^sup>*\<^sup>* (w, ps) (w', ps')"
    and "find_doc fst version (w_staking_params w) = Some doc"
  shows "find_doc fst version (w_staking_params w') = Some doc \<and> prefix (w_queue w) (w_queue w')"
proof -
  have "below w w'" using steps_below [OF assms(3,2,1)] by simp
  with assms(4) show ?thesis by (auto simp: below_def prefix_def find_doc_append)
qed

theorem params_and_messages_persist_witness:
  "find_doc fst 0 (w_staking_params withdrawn_world) = Some (0, FromBbnStakingParams sample_params)"
proof -
  obtain ps where ps: "reachable sample_env (params_world, ps)" using sample_reachable(5) by blast
  have "sample_path params_world withdrawn_world" using sample_paths sample_path_trans by blast
  then obtain ps' where "(sys_step sample_env)\<^sup>*\<^sup>* (params_world, ps) (withdrawn_world, ps')"
    by (auto simp: sample_path_def)
  from params_and_messages_persist [OF sample_env_ok(1) ps this, of 0 "(0, FromBbnStakingParams sample_params)"]
  show ?thesis by (simp add: sample_worlds find_doc_def)
qed

end
