(* ===== verification/Sequential.thy ===== *)
theory Sequential
  imports Sample
begin

text \<open>
  Reasoning about one program that runs alone: predicates on the state that a program preserves under all
  faults, and what the database operations do when no call fails.
\<close>

section \<open>Preserved predicates\<close>

definition preserves :: "('w \<Rightarrow> bool) \<Rightarrow> ('w, 'a) prog \<Rightarrow> bool" where
  "preserves P p \<longleftrightarrow> (\<forall>w. P w \<longrightarrow> P (snd (run p w)))"

lemma preservesD: "preserves P p \<Longrightarrow> P w \<Longrightarrow> P (snd (run p w))"
  by (simp add: preserves_def)

lemma preserves_Done: "preserves P (Done r)"
  by (simp add: preserves_def)

lemma preserves_andThen: "preserves P p \<Longrightarrow> (\<And>x. preserves P (k x)) \<Longrightarrow> preserves P (andThen p k)"
  unfolding preserves_def by (auto simp: continue_with_def split: prod.splits result.splits)

lemma preserves_on_error: "preserves P p \<Longrightarrow> (\<And>err. preserves P (h err)) \<Longrightarrow> preserves P (on_error p h)"
  unfolding preserves_def by (auto simp: run_on_error split: prod.splits result.splits)

lemma preserves_wrap_err: "preserves P p \<Longrightarrow> preserves P (wrap_err msg p)"
  by (simp add: preserves_def)

lemma preserves_attempt: "preserves P p \<Longrightarrow> preserves P (attempt p)"
  unfolding attempt_def by (intro preserves_on_error preserves_andThen preserves_Done)

lemma preserves_retry: "preserves P p \<Longrightarrow> preserves P (retry_from n errs p)"
  unfolding preserves_def using run_retry_invariant [of P p] by blast

lemma preserves_retry_last: "preserves P p \<Longrightarrow> preserves P (retry_last n p)"
  by (induction n) (auto intro: preserves_on_error)

lemma preserves_client_call: "preserves P p \<Longrightarrow> preserves P (clientCallWithRetry n p)"
  unfolding clientCallWithRetry_def by (rule preserves_retry_last)

lemma preserves_for_each: "(\<And>x. x \<in> set xs \<Longrightarrow> preserves P (body x)) \<Longrightarrow> preserves P (for_each xs body)"
  by (induction xs) (auto intro: preserves_andThen preserves_Done)

lemma preserves_if: "(b \<Longrightarrow> preserves P p) \<Longrightarrow> (\<not> b \<Longrightarrow> preserves P q) \<Longrightarrow> preserves P (if b then p else q)"
  by simp

lemmas preserves_rules =
  preserves_Done preserves_andThen preserves_on_error preserves_wrap_err preserves_attempt preserves_retry
  preserves_client_call preserves_for_each preserves_if

text \<open>Actions, for a predicate that does not look at the clock.\<close>

definition timeless :: "(world \<Rightarrow> bool) \<Rightarrow> bool" where
  "timeless P \<longleftrightarrow> (\<forall>w. P (tick w) = P w)"

lemma preserves_db_call:
  "timeless P \<Longrightarrow> (\<And>w. P w \<Longrightarrow> P (snd (act w))) \<Longrightarrow> preserves P (db_call e act)"
  by (auto simp: preserves_def timeless_def db_call_def split: option.splits fault.splits)

lemma preserves_ask: "timeless P \<Longrightarrow> preserves P (ask f)"
  by (simp add: preserves_def timeless_def)

lemma preserves_push:
  "timeless P \<Longrightarrow> (\<And>w. P w \<Longrightarrow> P (w\<lparr>w_queue := w_queue w @ [ev]\<rparr>)) \<Longrightarrow> preserves P (push_event e ev)"
  unfolding preserves_def timeless_def push_event_def
  by (auto split: option.splits fault.splits) (metis tick_fields(10))+

lemma preserves_go: "(\<And>w. P w \<Longrightarrow> P (w\<lparr>w_jobs := w_jobs w @ [job]\<rparr>)) \<Longrightarrow> preserves P (go_job job)"
  by (simp add: preserves_def)

section \<open>A predicate on one part of the state\<close>

text \<open>
  \<open>P\<close> looks at one field only. Then every operation that does not write the field preserves it; these are
  the operations that the handlers of the Babylon events use.
\<close>

lemma preserves_clients:
  assumes "timeless P"
  shows "preserves P (GetBlockTimestamp e height)" "preserves P (GetBlock e i)"
  unfolding GetBlockTimestamp_def GetBlock_def using assms
  by (auto intro!: preserves_rules preserves_ask)

lemma preserves_get: "timeless P \<Longrightarrow> preserves P (GetBTCDelegationByStakingTxHash e h)"
  unfolding GetBTCDelegationByStakingTxHash_def by (rule preserves_db_call) (auto split: option.splits)

lemma preserves_validate:
  assumes "timeless P"
  shows "preserves P (validateCovenantQuorumReachedEvent e ev1)"
    "preserves P (validateBTCDelegationInclusionProofReceivedEvent e ev2)"
    "preserves P (validateBTCDelegationUnbondedEarlyEvent e ev3)"
    "preserves P (validateBTCDelegationExpiredEvent e ev4)"
    "preserves P (validateFinalityProviderStateChangeEvent e ev5)"
  unfolding validateCovenantQuorumReachedEvent_def validateBTCDelegationInclusionProofReceivedEvent_def
    validateBTCDelegationUnbondedEarlyEvent_def validateBTCDelegationExpiredEvent_def
    validateFinalityProviderStateChangeEvent_def GetFinalityProviderByBtcPk_def
  using assms
  by (auto simp: Let_def split: option.splits intro!: preserves_rules preserves_get preserves_db_call)

text \<open>
  What a predicate has to stand for every handler of a Babylon event to preserve it: the operations that
  the handlers write with.
\<close>

locale event_writes =
  fixes P :: "world \<Rightarrow> bool" and e :: env
  assumes clock: "timeless P"
    and update: "preserves P (UpdateBTCDelegationState e h qs s opts)"
    and save_created: "FromEventBTCDelegationCreated des txHash m height time = Ok d \<Longrightarrow> preserves P (SaveNewBTCDelegation e d)"
    and signature: "preserves P (processCovenantSignatureReceivedEvent e event)"
    and timelocks: "P w \<Longrightarrow> P (w\<lparr>w_timelocks := locks\<rparr>)"
    and queue: "P w \<Longrightarrow> P (w\<lparr>w_queue := evs\<rparr>)"
    and jobs: "P w \<Longrightarrow> P (w\<lparr>w_jobs := js\<rparr>)"
    and save_fp: "preserves P (SaveNewFinalityProvider e fp)"
    and edit_fp: "preserves P (UpdateFinalityProviderDetailsFromEvent e fp)"
    and fp_state: "preserves P (processFinalityProviderStateChangeEvent e event)"
begin

lemma save_timelock: "preserves P (SaveNewTimeLockExpire e h height sub)"
  unfolding SaveNewTimeLockExpire_def by (auto intro!: preserves_db_call clock timelocks)

lemma emit: "preserves P (emitActiveDelegationEvent e d)" "preserves P (emitUnbondingDelegationEvent e d)"
  unfolding emitActiveDelegationEvent_def emitUnbondingDelegationEvent_def
  by (auto intro!: preserves_rules preserves_push clock queue)

lemma register: "preserves P (registerStakingSpendNotification e h tx i start)"
  unfolding registerStakingSpendNotification_def by (auto intro!: preserves_rules preserves_go jobs)

lemma creation: "preserves P (processNewBTCDelegationEvent e event height)"
proof -
  have save: "preserves P (andThen (Done (FromEventBTCDelegationCreated (lib_Deserialize e) (lib_TxHash e) m height t))
      (\<lambda>d. on_error (SaveNewBTCDelegation e d) (\<lambda>err. if IsDuplicateKeyError err then ret ()
         else throw (Wrapped ''failed to save new BTC delegation'' err))))" for m t
    by (cases "FromEventBTCDelegationCreated (lib_Deserialize e) (lib_TxHash e) m height t")
       (auto intro!: preserves_rules save_created)
  show ?thesis
    unfolding processNewBTCDelegationEvent_def by (intro preserves_rules(1-4) preserves_clients clock save)
qed

lemma delegation_handlers:
  "preserves P (processCovenantQuorumReachedEvent e event height)"
  "preserves P (processBTCDelegationInclusionProofReceivedEvent e event height)"
  "preserves P (processBTCDelegationUnbondedEarlyEvent e event height)"
  "preserves P (processBTCDelegationExpiredEvent e event height)"
  unfolding processCovenantQuorumReachedEvent_def processBTCDelegationInclusionProofReceivedEvent_def
    processBTCDelegationUnbondedEarlyEvent_def processBTCDelegationExpiredEvent_def Let_def
  by (intro preserves_rules preserves_clients preserves_get preserves_validate clock update save_timelock emit register)+

lemma every_event: "preserves P (processEvent e event height)"
  unfolding processEvent_def doProcessEvent_def processNewFinalityProviderEvent_def processFinalityProviderEditedEvent_def
  by (intro preserves_rules delegation_handlers creation signature save_fp edit_fp fp_state)

end

text \<open>A predicate on a part of the state that the delegation handlers do not write at all.\<close>

locale untouched =
  fixes P :: "world \<Rightarrow> bool"
  assumes untouched_clock: "timeless P"
    and untouched_delegations: "P w \<Longrightarrow> P (w\<lparr>w_delegations := ds\<rparr>)"
    and untouched_timelocks: "P w \<Longrightarrow> P (w\<lparr>w_timelocks := locks\<rparr>)"
    and untouched_queue: "P w \<Longrightarrow> P (w\<lparr>w_queue := evs\<rparr>)"
    and untouched_jobs: "P w \<Longrightarrow> P (w\<lparr>w_jobs := js\<rparr>)"
begin

lemma no_write:
  "preserves P (UpdateBTCDelegationState e h qs s opts)"
  "preserves P (SaveNewBTCDelegation e d)"
  "preserves P (processCovenantSignatureReceivedEvent e event)"
  unfolding UpdateBTCDelegationState_def SaveNewBTCDelegation_def processCovenantSignatureReceivedEvent_def
    SaveBTCDelegationCovenantSignature_def update_delegation_def Let_def
  by (auto simp del: andThen.simps on_error.simps split: option.splits
      intro!: preserves_rules preserves_db_call preserves_get untouched_clock untouched_delegations)

end

text \<open>The last processed height is written by no handler of a Babylon event.\<close>

interpretation height_field: untouched "\<lambda>w. w_last_height w = h" for h
  by unfold_locales (simp_all add: timeless_def)

interpretation height: event_writes "\<lambda>w. w_last_height w = h" e for h e
  by unfold_locales
     (auto simp: timeless_def SaveNewFinalityProvider_def UpdateFinalityProviderDetailsFromEvent_def
       processFinalityProviderStateChangeEvent_def UpdateFinalityProviderState_def
       simp del: andThen.simps on_error.simps
       split: option.splits sum.splits
       intro!: height_field.no_write preserves_rules preserves_db_call preserves_validate)

text \<open>The delegation handlers do not write the finality providers.\<close>

interpretation fps_field: untouched "\<lambda>w. Q (w_fps w)" for Q
  by unfold_locales (simp_all add: timeless_def)

section \<open>Operations without faults\<close>

lemma run_get:
  assumes "no_faults e"
  shows "run (GetBTCDelegationByStakingTxHash e h) w =
    (case find_doc d_StakingTxHashHex h (w_delegations w) of
       None \<Rightarrow> (Err (NotFoundError h ''BTC delegation not found when getting by staking tx hash''), tick w)
     | Some d \<Rightarrow> (Ok d, tick w))"
  using assms by (simp add: GetBTCDelegationByStakingTxHash_def split: option.splits)

lemma run_update:
  assumes "no_faults e" "qs \<noteq> []"
  shows "run (UpdateBTCDelegationState e h qs s opts) w =
    (case update_doc d_StakingTxHashHex h (\<lambda>d. d_State d \<in> set qs) (apply_update s (options_of opts)) (w_delegations w) of
       None \<Rightarrow> (Err (NotFoundError h ''BTC delegation not found or current state is not qualified states''), tick w)
     | Some ds \<Rightarrow> (Ok (), (tick w)\<lparr>w_delegations := ds\<rparr>))"
  using assms by (simp add: UpdateBTCDelegationState_def split: option.splits)

lemma run_save_timelock:
  "no_faults e \<Longrightarrow> run (SaveNewTimeLockExpire e h height sub) w =
     (Ok (), (tick w)\<lparr>w_timelocks := w_timelocks w @ [NewTimeLockDocument h height sub]\<rparr>)"
  by (simp add: SaveNewTimeLockExpire_def)

lemma run_emit:
  assumes "no_faults e"
  shows "run (emitActiveDelegationEvent e d) w = (Ok (), (tick w)\<lparr>w_queue := w_queue w @ [staking_event ActiveStakingEventType d]\<rparr>)"
    and "run (emitUnbondingDelegationEvent e d) w = (Ok (), (tick w)\<lparr>w_queue := w_queue w @ [staking_event UnbondingStakingEventType d]\<rparr>)"
  using assms by (simp_all add: emitActiveDelegationEvent_def emitUnbondingDelegationEvent_def)

lemma run_register_staking:
  assumes "lib_NewHashFromStr e h = Inr hash" "DeserializeBtcTransactionFromHex (lib_Deserialize e) tx = Ok stakingTx"
  shows "run (registerStakingSpendNotification e h tx i start) w = (Ok (), w\<lparr>w_jobs := w_jobs w @
    [\<lparr>job_OutPoint = \<lparr>op_Hash = hash, op_Index = i\<rparr>, job_Tx = stakingTx, job_OutputIdx = unat i,
      job_HeightHint = start, job_Watch = WatchStaking h\<rparr>]\<rparr>)"
  using assms by (simp add: registerStakingSpendNotification_def)

lemmas run_ops = run_get run_update run_save_timelock run_emit run_register_staking

text \<open>The first attempt of a client call.\<close>

lemma run_client_call_Ok: "run p w = (Ok x, w') \<Longrightarrow> run (clientCallWithRetry n p) w = (Ok x, w')"
  by (cases "n - 1") (simp_all add: clientCallWithRetry_def run_on_error)

end
