(* ===== verification/Handler_Spec.thy ===== *)
theory Handler_Spec
  imports Sequential
begin

text \<open>
  What the operations and the event handlers do when they run alone: their effect on every branch, and
  that processing an event again does not change what the first time has done.
\<close>

section \<open>The guarded update\<close>

lemma apply_update_key: "d_StakingTxHashHex (apply_update s opts d) = d_StakingTxHashHex d"
  by (simp add: apply_update_def)

text \<open>
  The state update is a guarded transition of one document: when the stored delegation is in a
  qualified state it is updated and no other document changes; otherwise the call reports that nothing was
  found and the collection stays as it was.
\<close>

theorem update_is_guarded:
  assumes "no_faults e" "distinct (map d_StakingTxHashHex (w_delegations w))" "qs \<noteq> []"
    and "run (UpdateBTCDelegationState e h qs s opts) w = (r, w')"
  shows "case find_doc d_StakingTxHashHex h (w_delegations w) of
      Some d \<Rightarrow>
        if d_State d \<in> set qs
        then r = Ok () \<and> find_doc d_StakingTxHashHex h (w_delegations w') = Some (apply_update s (options_of opts) d) \<and>
          (\<forall>k. k \<noteq> h \<longrightarrow> find_doc d_StakingTxHashHex k (w_delegations w') = find_doc d_StakingTxHashHex k (w_delegations w))
        else (\<exists>err. r = Err err \<and> IsNotFoundError err) \<and> w' = tick w
    | None \<Rightarrow> (\<exists>err. r = Err err \<and> IsNotFoundError err) \<and> w' = tick w"
proof (cases "update_doc d_StakingTxHashHex h (\<lambda>d. d_State d \<in> set qs) (apply_update s (options_of opts)) (w_delegations w)")
  case None
  then have "\<forall>d. find_doc d_StakingTxHashHex h (w_delegations w) = Some d \<longrightarrow> d_State d \<notin> set qs"
    using store.change_defined [OF assms(2), of h "\<lambda>d. d_State d \<in> set qs" "apply_update s (options_of opts)"] by simp
  moreover have "r = Err (NotFoundError h ''BTC delegation not found or current state is not qualified states'')" "w' = tick w"
    using assms(4) unfolding run_update [OF assms(1,3)] None by auto
  ultimately show ?thesis by (simp split: option.splits)
next
  case (Some ds)
  then obtain d where d: "find_doc d_StakingTxHashHex h (w_delegations w) = Some d" "d_State d \<in> set qs"
    using store.change_Some_iff [OF assms(2), of h "\<lambda>d. d_State d \<in> set qs" "apply_update s (options_of opts)"] by auto
  have after: "r = Ok ()" "w_delegations w' = ds"
    using assms(4) unfolding run_update [OF assms(1,3)] Some by auto
  have "find_doc d_StakingTxHashHex k ds =
      (if k = h then Some (apply_update s (options_of opts) d) else find_doc d_StakingTxHashHex k (w_delegations w))" for k
    using store.lookup_change [OF assms(2) apply_update_key Some, of k] d(1) by simp
  with after d show ?thesis by simp
qed

theorem update_is_guarded_witness:
  "find_doc d_StakingTxHashHex ''h'' (w_delegations (snd (run (UpdateBTCDelegationState sample_env ''h''
     QualifiedStatesForExpired StateUnbonding [WithSubState SubStateTimelock]) active_world)))
   = Some (apply_update StateUnbonding (options_of [WithSubState SubStateTimelock]) active_delegation)"
proof -
  obtain r w' where run: "run (UpdateBTCDelegationState sample_env ''h'' QualifiedStatesForExpired StateUnbonding
      [WithSubState SubStateTimelock]) active_world = (r, w')" by fastforce
  have "find_doc d_StakingTxHashHex ''h'' (w_delegations active_world) = Some active_delegation"
    by (simp add: find_doc_def sample_worlds sample_delegation_defs)
  with update_is_guarded [OF sample_env_ok(2) _ _ run] run show ?thesis
    by (simp add: sample_worlds qualified_defs sample_delegation_defs)
qed

section \<open>Events that are processed again\<close>

lemma save_again:
  assumes "d_StakingTxHashHex d \<in> hashes w"
  shows "w_delegations (snd (run (SaveNewBTCDelegation e d) w)) = w_delegations w"
  using assms
  by (auto simp: SaveNewBTCDelegation_def db_call_def insert_doc_def hashes_def split: option.splits fault.splits)

lemma saved:
  assumes "run (SaveNewBTCDelegation e d) w = (r, w')" "r = Ok () \<or> (\<exists>err. r = Err err \<and> IsDuplicateKeyError err)"
  shows "d_StakingTxHashHex d \<in> hashes w'"
  using assms
  by (auto simp: SaveNewBTCDelegation_def db_call_def insert_doc_def hashes_def split: option.splits fault.splits if_splits)

text \<open>The key of a new document does not depend on the block that the event is processed in.\<close>

lemma FromEvent_key:
  assumes "FromEventBTCDelegationCreated des txHash event height time = Ok d"
  shows "\<exists>d'. FromEventBTCDelegationCreated des txHash event height' time' = Ok d' \<and> d_StakingTxHashHex d' = d_StakingTxHashHex d"
  using assms by (auto simp: FromEventBTCDelegationCreated_def)

lemma delegations_timeless: "timeless (\<lambda>w. w_delegations w = ds)"
  by (simp add: timeless_def)

text \<open>
  C18. Creating a delegation is idempotent: once the event has been processed, processing it again in any later
  state, at any height and whatever calls fail then, leaves the delegations as they are.
\<close>

theorem creation_is_idempotent:
  assumes "run (processNewBTCDelegationEvent e event height) w = (Ok (), w1)" "hashes w1 \<subseteq> hashes w2"
  shows "w_delegations (snd (run (processNewBTCDelegationEvent e event height2) w2)) = w_delegations w2"
proof -
  let ?save = "\<lambda>d. on_error (SaveNewBTCDelegation e d) (\<lambda>err. if IsDuplicateKeyError err then ret ()
    else throw (Wrapped ''failed to save new BTC delegation'' err))"
  from assms(1) obtain m t d v where m: "parseEvent e as_BTCDelegationCreated EventBTCDelegationCreated event = Ok m"
      "validateBTCDelegationCreatedEvent m = Ok ()"
    and d: "FromEventBTCDelegationCreated (lib_Deserialize e) (lib_TxHash e) m height t = Ok d"
    and first: "run (?save d) v = (Ok (), w1)"
    by (auto simp: processNewBTCDelegationEvent_def simp del: andThen.simps on_error.simps)
  from first have "d_StakingTxHashHex d \<in> hashes w1"
    by (auto simp: run_on_error split: prod.splits result.splits if_splits intro: saved)
  then have known: "d_StakingTxHashHex d \<in> hashes w2" using assms(2) by blast
  obtain r v2 where block: "run (GetBlock e height2) w2 = (r, v2)" by fastforce
  have kept: "w_delegations v2 = w_delegations w2"
    using preservesD [OF preserves_clients(2) [OF delegations_timeless [of "w_delegations w2"]], of w2 e height2]
    by (simp add: block)
  show ?thesis
  proof (cases r)
    case (Ok t2)
    obtain d2 where d2: "FromEventBTCDelegationCreated (lib_Deserialize e) (lib_TxHash e) m height2 t2 = Ok d2"
        "d_StakingTxHashHex d2 = d_StakingTxHashHex d"
      using FromEvent_key [OF d] by blast
    have "d_StakingTxHashHex d2 \<in> hashes v2" using known d2(2) kept by (simp add: hashes_def)
    then have "w_delegations (snd (run (?save d2) v2)) = w_delegations v2"
      using save_again [of d2 v2 e] by (auto simp: run_on_error split: prod.splits result.splits)
    then show ?thesis
      by (simp add: processNewBTCDelegationEvent_def m block Ok d2(1) kept del: on_error.simps)
  qed (simp_all add: processNewBTCDelegationEvent_def m block kept)
qed

theorem creation_is_idempotent_witness:
  "w_delegations (snd (run (processNewBTCDelegationEvent sample_env (sample_event EventBTCDelegationCreated) 7) withdrawn_world)) =
   w_delegations withdrawn_world"
proof -
  let ?first = "run (processNewBTCDelegationEvent sample_env (sample_event EventBTCDelegationCreated) 1) initial_world"
  have "?first = (Ok (), snd ?first)" "hashes (snd ?first) = {''h''}"
    by (subst prod_eq_iff, simp add: prog_eval sample_eval del: andThen.simps on_error.simps cong: continue_cong)
       (simp add: hashes_def prog_eval sample_eval del: andThen.simps on_error.simps cong: continue_cong)
  from creation_is_idempotent [OF this(1), of withdrawn_world 7] this(2) show ?thesis
    by (simp add: hashes_def sample_worlds withdrawn_delegation_def sample_delegation_defs)
qed

end
