(* ===== verification/Event_Invariants.thy ===== *)
theory Event_Invariants
  imports Handler_Spec
begin

text \<open>
  What every Babylon event keeps, whichever of its calls fail: one signature for each covenant member, and a
  slashed finality provider.
\<close>

section \<open>Covenant signatures\<close>

definition one_signature_each :: "world \<Rightarrow> bool" where
  "one_signature_each w \<longleftrightarrow> (\<forall>d \<in> set (w_delegations w). distinct (map cs_CovenantBtcPkHex (d_CovenantSignatures d)))"

lemma preserves_andThen_run:
  assumes "\<And>w. P w \<Longrightarrow> P (snd (run p w))" "\<And>w x w'. P w \<Longrightarrow> run p w = (Ok x, w') \<Longrightarrow> P (snd (run (k x) w'))"
  shows "preserves P (andThen p k)"
  unfolding preserves_def
proof (intro allI impI)
  fix w assume "P w"
  obtain r w' where r: "run p w = (r, w')" by fastforce
  then show "P (snd (run (andThen p k) w))" using assms [OF \<open>P w\<close>] by (cases r) auto
qed

lemma run_get_Ok:
  assumes "run (wrap_err msg (GetBTCDelegationByStakingTxHash e h)) w = (Ok d, w')"
  shows "find_doc d_StakingTxHashHex h (w_delegations w) = Some d \<and> w' = tick w"
  using assms
  by (auto simp: GetBTCDelegationByStakingTxHash_def db_call_def split: option.splits fault.splits)

lemma one_signature_timeless: "timeless one_signature_each"
  by (simp add: timeless_def one_signature_each_def)

text \<open>An update of one document, the one that a lookup would return.\<close>

lemma one_signature_each_modify:
  assumes "one_signature_each w" "modify_first Q f (w_delegations w) = Some ds"
    and "\<And>d. find Q (w_delegations w) = Some d \<Longrightarrow> distinct (map cs_CovenantBtcPkHex (d_CovenantSignatures d)) \<Longrightarrow>
      distinct (map cs_CovenantBtcPkHex (d_CovenantSignatures (f d)))"
  shows "one_signature_each (w\<lparr>w_delegations := ds\<rparr>)"
proof -
  obtain xs d ys where x: "w_delegations w = xs @ d # ys" "Q d" "\<forall>x \<in> set xs. \<not> Q x" "ds = xs @ f d # ys"
    using modify_first_SomeE [OF assms(2)] by metis
  have "find Q xs = None" using x(3) by (simp add: find_None_iff)
  then have "find Q (w_delegations w) = Some d" using x(1,2) by (simp add: find_append)
  from assms(3) [OF this] assms(1) x show ?thesis by (auto simp: one_signature_each_def)
qed

lemma save_signature:
  assumes "one_signature_each w"
    and d: "find_doc d_StakingTxHashHex h (w_delegations w) = Some d" "pk \<notin> cs_CovenantBtcPkHex ` set (d_CovenantSignatures d)"
  shows "one_signature_each (snd (run (SaveBTCDelegationCovenantSignature e h pk sig expansion) w))"
proof -
  define new where "new = (let s = \<lparr>cs_CovenantBtcPkHex = pk, cs_SignatureHex = sig, cs_StakeExpansionSignatureHex = ''''\<rparr> in
    if expansion \<noteq> '''' then s\<lparr>cs_StakeExpansionSignatureHex := expansion\<rparr> else s)"
  have key: "cs_CovenantBtcPkHex new = pk" by (simp add: new_def Let_def)
  let ?push = "\<lambda>d. d\<lparr>d_CovenantSignatures := d_CovenantSignatures d @ [new]\<rparr>"
  have w: "one_signature_each (tick w)" using assms(1) by (simp add: one_signature_each_def)
  have act: "one_signature_each (update_delegation h ?push (tick w))"
  proof (cases "modify_first (\<lambda>d. d_StakingTxHashHex d = h) ?push (w_delegations (tick w))")
    case None
    with w show ?thesis by (simp add: update_delegation_def del: modify_first_None_iff)
  next
    case (Some ds)
    have "one_signature_each (tick w\<lparr>w_delegations := ds\<rparr>)"
      by (rule one_signature_each_modify [OF w Some]) (use d key in \<open>auto simp: find_doc_def\<close>)
    with Some show ?thesis by (simp add: update_delegation_def)
  qed
  have "SaveBTCDelegationCovenantSignature e h pk sig expansion = db_call e (\<lambda>w. (Ok (), update_delegation h ?push w))"
    by (simp add: SaveBTCDelegationCovenantSignature_def new_def Let_def)
  with w act show ?thesis by (auto simp: db_call_def split: option.splits fault.splits)
qed

lemma signature_once: "preserves one_signature_each (processCovenantSignatureReceivedEvent e event)"
proof -
  have get: "preserves one_signature_each (wrap_err msg (GetBTCDelegationByStakingTxHash e h))" for msg h
    by (intro preserves_wrap_err preserves_get one_signature_timeless)
  have rest: "one_signature_each (snd (run (if \<exists>signature \<in> set (d_CovenantSignatures d). cs_CovenantBtcPkHex signature = pk
       then ret () else wrap_err msg (SaveBTCDelegationCovenantSignature e h pk sig expansion)) w'))"
    if "one_signature_each w" "find_doc d_StakingTxHashHex h (w_delegations w) = Some d \<and> w' = tick w" for w d w' msg h pk sig expansion
  proof -
    have "one_signature_each w'" "find_doc d_StakingTxHashHex h (w_delegations w') = Some d"
      using that by (simp_all add: one_signature_each_def)
    from save_signature [OF this, of pk e sig expansion] this(1) show ?thesis by (auto simp: image_iff)
  qed
  show ?thesis
    unfolding processCovenantSignatureReceivedEvent_def
    by (intro preserves_andThen preserves_Done preserves_andThen_run preservesD [OF get] rest run_get_Ok)
qed

lemma update_keeps_signatures: "preserves one_signature_each (UpdateBTCDelegationState e h qs s opts)"
proof -
  have "one_signature_each (w\<lparr>w_delegations := ds\<rparr>)"
    if "one_signature_each w" "update_doc d_StakingTxHashHex h (\<lambda>d. d_State d \<in> set qs) (apply_update s (options_of opts)) (w_delegations w) = Some ds"
    for w ds
    by (rule one_signature_each_modify [OF that(1) that(2) [unfolded update_doc_def]]) (simp add: apply_update_def)
  then show ?thesis
    unfolding UpdateBTCDelegationState_def
    by (auto split: option.splits intro!: preserves_Done preserves_db_call one_signature_timeless)
qed

lemma creation_has_no_signatures:
  assumes "FromEventBTCDelegationCreated des txHash m height time = Ok d"
  shows "preserves one_signature_each (SaveNewBTCDelegation e d)"
  using FromEventBTCDelegationCreated_Ok(6) [OF assms] unfolding SaveNewBTCDelegation_def
  by (auto simp: one_signature_each_def insert_doc_def split: option.splits if_splits
      intro!: preserves_db_call one_signature_timeless)

text \<open>The handlers of the finality provider events write the finality providers only.\<close>

lemma fp_handlers_keep_delegations:
  assumes "timeless P" "\<And>w fps. P w \<Longrightarrow> P (w\<lparr>w_fps := fps\<rparr>)"
  shows "preserves P (SaveNewFinalityProvider e fp)" "preserves P (UpdateFinalityProviderDetailsFromEvent e fp)"
    "preserves P (processFinalityProviderStateChangeEvent e event)"
  unfolding SaveNewFinalityProvider_def UpdateFinalityProviderDetailsFromEvent_def
    processFinalityProviderStateChangeEvent_def UpdateFinalityProviderState_def
  using assms
  by (auto simp del: andThen.simps on_error.simps split: option.splits sum.splits
      intro!: preserves_rules preserves_db_call preserves_validate)

interpretation signatures: event_writes one_signature_each e for e
  by unfold_locales
     (auto intro!: one_signature_timeless update_keeps_signatures creation_has_no_signatures signature_once fp_handlers_keep_delegations
       simp: one_signature_each_def)

text \<open>
  C24. No covenant member signs twice: when no delegation holds two signatures of the same covenant key, none
  does after the processing of any event, with its retries and whichever of its calls fail.
\<close>

theorem covenant_members_sign_once:
  assumes "\<forall>d \<in> set (w_delegations w). distinct (map cs_CovenantBtcPkHex (d_CovenantSignatures d))"
    and "d \<in> set (w_delegations (snd (run (processEvent e event height) w)))"
  shows "distinct (map cs_CovenantBtcPkHex (d_CovenantSignatures d))"
  using preservesD [OF signatures.every_event, of w e event height] assms by (simp add: one_signature_each_def)

section \<open>Slashed finality providers\<close>

definition slashed_fp :: "string \<Rightarrow> world \<Rightarrow> bool" where
  "slashed_fp pk w \<longleftrightarrow> distinct (map fp_BtcPk (w_fps w)) \<and>
     (\<exists>fp. find_doc fp_BtcPk pk (w_fps w) = Some fp \<and> fp_State fp = FINALITY_PROVIDER_STATUS_SLASHED)"

lemma slashed_fp_timeless: "timeless (slashed_fp pk)"
  by (simp add: timeless_def slashed_fp_def)

lemma slashed_fp_insert: "preserves (slashed_fp pk) (SaveNewFinalityProvider e fp)"
  unfolding SaveNewFinalityProvider_def
  by (auto simp: slashed_fp_def insert_doc_def find_doc_append split: option.splits if_splits
      intro!: preserves_db_call slashed_fp_timeless)

text \<open>An update of a finality provider that keeps its key, and its state when it is the slashed one.\<close>

lemma slashed_fp_change:
  assumes "slashed_fp pk w" "update_doc fp_BtcPk k (\<lambda>_. True) f (w_fps w) = Some ds"
    and "\<And>fp. fp_BtcPk (f fp) = fp_BtcPk fp" "k = pk \<Longrightarrow> (\<And>fp. fp_State (f fp) = fp_State fp)"
  shows "slashed_fp pk (w\<lparr>w_fps := ds\<rparr>)"
proof -
  have d: "distinct (map fp_BtcPk (w_fps w))" using assms(1) by (simp add: slashed_fp_def)
  note look = store.lookup_change [OF d assms(3,2), of pk] and valid = store.valid_change [OF d assms(3,2)]
  from look valid assms(1,4) show ?thesis by (auto simp: slashed_fp_def split: if_splits)
qed

lemma slashed_fp_details: "preserves (slashed_fp pk) (UpdateFinalityProviderDetailsFromEvent e fp)"
  unfolding UpdateFinalityProviderDetailsFromEvent_def
  by (auto simp: set_details_def split: option.splits
      intro!: preserves_Done preserves_db_call slashed_fp_timeless elim!: slashed_fp_change)

text \<open>The validation refuses a change of the slashed one.\<close>

lemma slashed_fp_validated:
  assumes "slashed_fp pk w" "run (validateFinalityProviderStateChangeEvent e ev) w = (Ok (), w')"
  shows "fps_BtcPk ev \<noteq> pk"
  using assms
  by (auto simp: validateFinalityProviderStateChangeEvent_def GetFinalityProviderByBtcPk_def db_call_def slashed_fp_def
      split: option.splits fault.splits if_splits)

lemma slashed_fp_state:
  assumes "k \<noteq> pk"
  shows "preserves (slashed_fp pk) (UpdateFinalityProviderState e k s)"
  unfolding UpdateFinalityProviderState_def using assms
  by (auto split: option.splits intro!: preserves_db_call slashed_fp_timeless elim!: slashed_fp_change)

lemma slashed_fp_change_event: "preserves (slashed_fp pk) (processFinalityProviderStateChangeEvent e event)"
proof -
  have validate: "preserves (slashed_fp pk) (attempt (validateFinalityProviderStateChangeEvent e ev))" for ev
    by (intro preserves_attempt preserves_validate slashed_fp_timeless)
  have rest: "slashed_fp pk (snd (run (case v of Inl err \<Rightarrow> if IsAlreadySlashedError err then ret () else throw err
      | Inr _ \<Rightarrow> wrap_err msg (UpdateFinalityProviderState e (fps_BtcPk ev) s)) w'))"
    if "slashed_fp pk w" "run (attempt (validateFinalityProviderStateChangeEvent e ev)) w = (Ok v, w')" for w v w' ev msg s
  proof -
    have kept: "slashed_fp pk w'" using preservesD [OF validate that(1), of ev] that(2) by simp
    show ?thesis
    proof (cases v)
      case (Inr u)
      with that(2) have "run (validateFinalityProviderStateChangeEvent e ev) w = (Ok (), w')"
        by (auto split: prod.splits result.splits)
      from slashed_fp_validated [OF that(1) this] kept Inr show ?thesis
        using preservesD [OF preserves_wrap_err [OF slashed_fp_state], of "fps_BtcPk ev" pk w' msg e s] by simp
    qed (use kept in auto)
  qed
  show ?thesis
    unfolding processFinalityProviderStateChangeEvent_def
    by (intro preserves_andThen preserves_Done preserves_andThen_run preservesD [OF validate] rest)
qed

interpretation slashed_field: untouched "slashed_fp pk" for pk
  by unfold_locales (simp_all add: timeless_def slashed_fp_def)

interpretation slashed: event_writes "slashed_fp pk" e for pk e
  by unfold_locales
     (auto intro!: slashed_fp_timeless slashed_field.no_write slashed_fp_insert slashed_fp_details slashed_fp_change_event
       simp: slashed_fp_def)

text \<open>
  C25. A slashed finality provider stays slashed: no event, whichever of its calls fail, brings it back to
  another status.
\<close>

theorem slashed_provider_stays_slashed:
  assumes "distinct (map fp_BtcPk (w_fps w))"
    and "find_doc fp_BtcPk pk (w_fps w) = Some fp" "fp_State fp = FINALITY_PROVIDER_STATUS_SLASHED"
  shows "\<exists>fp'. find_doc fp_BtcPk pk (w_fps (snd (run (processEvent e event height) w))) = Some fp' \<and>
    fp_State fp' = FINALITY_PROVIDER_STATUS_SLASHED"
  using preservesD [OF slashed.every_event, of pk w e event height] assms by (simp add: slashed_fp_def)

definition slashed_provider_world :: world where
  "slashed_provider_world = initial_world\<lparr>w_fps := [\<lparr>fp_BtcPk = ''fp1'', fp_BabylonAddress = ''bbn2'',
     fp_Commission = ''0.05'', fp_State = FINALITY_PROVIDER_STATUS_SLASHED, fp_Description = \<lparr>ds_Moniker = ''m'',
     ds_Identity = '''', ds_Website = '''', ds_SecurityContact = '''', ds_Details = ''''\<rparr>\<rparr>]\<rparr>"

theorem slashed_provider_stays_slashed_witness:
  "\<exists>fp. find_doc fp_BtcPk ''fp1'' (w_fps (snd (run (processEvent sample_env
     (sample_event EventFinalityProviderStatusChange) 4) slashed_provider_world))) = Some fp \<and>
   fp_State fp = FINALITY_PROVIDER_STATUS_SLASHED"
  by (rule slashed_provider_stays_slashed [where fp = "hd (w_fps slashed_provider_world)"])
     (simp_all add: slashed_provider_world_def find_doc_def)

theorem covenant_members_sign_once_witness:
  "\<exists>d \<in> set (w_delegations (snd (run (processEvent sample_env (sample_event EventCovenantSignatureReceived) 4)
     (active_world\<lparr>w_delegations := [active_delegation\<lparr>d_CovenantSignatures :=
        [\<lparr>cs_CovenantBtcPkHex = ''c'', cs_SignatureHex = ''s'', cs_StakeExpansionSignatureHex = ''''\<rparr>]\<rparr>]\<rparr>)))).
     distinct (map cs_CovenantBtcPkHex (d_CovenantSignatures d))"
proof -
  let ?w = "active_world\<lparr>w_delegations := [active_delegation\<lparr>d_CovenantSignatures :=
        [\<lparr>cs_CovenantBtcPkHex = ''c'', cs_SignatureHex = ''s'', cs_StakeExpansionSignatureHex = ''''\<rparr>]\<rparr>]\<rparr>"
  let ?after = "snd (run (processEvent sample_env (sample_event EventCovenantSignatureReceived) 4) ?w)"
  have "w_delegations ?after \<noteq> []"
    by (simp add: active_world_eq created_world_eq prog_eval sample_eval sample_delegation_defs
        del: andThen.simps on_error.simps retry_from.simps cong: continue_cong)
  then obtain d where d: "d \<in> set (w_delegations ?after)" by (cases "w_delegations ?after") auto
  with covenant_members_sign_once [OF _ d] show ?thesis by auto
qed

end
