(* ===== verification/Event_Effects.thy ===== *)
theory Event_Effects
  imports Handler_Spec
begin

text \<open>
  What an event does when it is processed alone and no call fails: the stored delegations as a finite map,
  the message, the time lock and the goroutine that the event leaves behind, and what its replay does.
\<close>

section \<open>The stored delegations as a map\<close>

definition docs :: "world \<Rightarrow> string \<Rightarrow> BTCDelegationDetails option" where
  "docs w k = find_doc d_StakingTxHashHex k (w_delegations w)"

definition keyed :: "world \<Rightarrow> bool" where
  "keyed w \<longleftrightarrow> distinct (map d_StakingTxHashHex (w_delegations w))"

lemma docs_tick [simp]: "docs (tick w) = docs w" "keyed (tick w) = keyed w"
  by (simp_all add: docs_def keyed_def fun_eq_iff)

lemma docs_other [simp]:
  "docs (w\<lparr>w_timelocks := ls\<rparr>) = docs w" "docs (w\<lparr>w_queue := q\<rparr>) = docs w" "docs (w\<lparr>w_jobs := js\<rparr>) = docs w"
  "keyed (w\<lparr>w_timelocks := ls\<rparr>) = keyed w" "keyed (w\<lparr>w_queue := q\<rparr>) = keyed w" "keyed (w\<lparr>w_jobs := js\<rparr>) = keyed w"
  by (simp_all add: docs_def keyed_def fun_eq_iff)

lemma docs_key: "docs w k = Some d \<Longrightarrow> d_StakingTxHashHex d = k"
  unfolding docs_def using find_doc_SomeD by metis

text \<open>The guarded update, as an update of the map.\<close>

definition updated :: "string \<Rightarrow> (BTCDelegationDetails \<Rightarrow> bool) \<Rightarrow> (BTCDelegationDetails \<Rightarrow> BTCDelegationDetails) \<Rightarrow> world \<Rightarrow> world" where
  "updated h cond f w =
     (case update_doc d_StakingTxHashHex h cond f (w_delegations w) of None \<Rightarrow> w | Some ds \<Rightarrow> w\<lparr>w_delegations := ds\<rparr>)"

lemma updated_fields [simp]:
  "w_queue (updated h cond f w) = w_queue w" "w_timelocks (updated h cond f w) = w_timelocks w"
  "w_jobs (updated h cond f w) = w_jobs w" "w_clock (updated h cond f w) = w_clock w"
  by (auto simp: updated_def split: option.splits)

lemma docs_updated:
  assumes "keyed w" "docs w h = Some d" "cond d" "\<And>d. d_StakingTxHashHex (f d) = d_StakingTxHashHex d"
  shows "docs (updated h cond f w) = (docs w)(h \<mapsto> f d)" "keyed (updated h cond f w)"
proof -
  have k: "distinct (map d_StakingTxHashHex (w_delegations w))" using assms(1) by (simp add: keyed_def)
  obtain ds where ds: "update_doc d_StakingTxHashHex h cond f (w_delegations w) = Some ds"
    using store.change_Some_iff [OF k, of h cond f] assms(2,3) by (auto simp: docs_def)
  show "docs (updated h cond f w) = (docs w)(h \<mapsto> f d)"
    using store.lookup_change [OF k assms(4) ds] assms(2) by (auto simp: docs_def updated_def ds fun_eq_iff)
  show "keyed (updated h cond f w)"
    using store.valid_change [OF k assms(4) ds] by (simp add: keyed_def updated_def ds)
qed

lemma run_update_found:
  assumes "no_faults e" "keyed w" "docs w h = Some d" "d_State d \<in> set qs"
  shows "run (UpdateBTCDelegationState e h qs s opts) w =
    (Ok (), updated h (\<lambda>d. d_State d \<in> set qs) (apply_update s (options_of opts)) (tick w))"
proof -
  have k: "distinct (map d_StakingTxHashHex (w_delegations w))" using assms(2) by (simp add: keyed_def)
  obtain ds where ds: "update_doc d_StakingTxHashHex h (\<lambda>d. d_State d \<in> set qs) (apply_update s (options_of opts)) (w_delegations w) = Some ds"
    using store.change_Some_iff [OF k, of h "\<lambda>d. d_State d \<in> set qs" "apply_update s (options_of opts)"] assms(3,4)
    by (auto simp: docs_def)
  moreover have "qs \<noteq> []" using assms(4) by auto
  ultimately show ?thesis using run_update [OF assms(1), of qs h s opts w] by (simp add: updated_def)
qed

lemma run_get_found:
  assumes "no_faults e" "docs w h = Some d"
  shows "run (GetBTCDelegationByStakingTxHash e h) w = (Ok d, tick w)"
  using run_get [OF assms(1), of h w] assms(2) by (simp add: docs_def)

section \<open>The sample delegation\<close>

lemma sample_doc:
  "docs created_world ''h'' = Some sample_delegation" "keyed created_world"
  "docs active_world ''h'' = Some active_delegation" "keyed active_world"
  by (simp_all add: docs_def keyed_def find_doc_def created_world_eq sample_worlds sample_delegation_defs)

section \<open>The expiry of a delegation\<close>

text \<open>
  C19. An expiry event on an active delegation sends one unbonding message, records one time lock that ends
  with the staking period, and moves the delegation to UNBONDING with the sub-state TIMELOCK; the same event
  again changes nothing.
\<close>

theorem expiry_takes_effect_once:
  assumes "no_faults e" "keyed w" "parseEvent e as_DelegationExpired EventBTCDelegationExpired event = Ok ev"
    and "exp_StakingTxHash ev = h" "h \<noteq> ''''" "exp_NewState ev = BTCDelegationStatus_EXPIRED"
    and "docs w h = Some d" "d_State d = StateActive"
  shows "\<exists>w1. run (processBTCDelegationExpiredEvent e event height) w = (Ok (), w1) \<and>
    docs w1 = (docs w)(h \<mapsto> d\<lparr>d_State := StateUnbonding, d_SubState := SubStateTimelock,
      d_StateHistory := d_StateHistory d @ [\<lparr>sr_State = StateUnbonding, sr_SubState = SubStateTimelock,
        sr_BbnHeight = height, sr_BtcHeight = 0, sr_BbnEventType = ''EventBTCDelegationExpired''\<rparr>]\<rparr>) \<and>
    w_queue w1 = w_queue w @ [staking_event UnbondingStakingEventType d] \<and>
    w_timelocks w1 = w_timelocks w @ [NewTimeLockDocument h (d_EndHeight d) SubStateTimelock] \<and>
    w_jobs w1 = w_jobs w \<and>
    (\<exists>w2. run (processBTCDelegationExpiredEvent e event height2) w1 = (Ok (), w2) \<and> docs w2 = docs w1 \<and>
      w_queue w2 = w_queue w1 \<and> w_timelocks w2 = w_timelocks w1 \<and> w_jobs w2 = w_jobs w1)"
proof -
  let ?f = "apply_update StateUnbonding (options_of [WithSubState SubStateTimelock, WithBbnHeight height,
    WithBbnEventType EventBTCDelegationExpired])"
  let ?sent = "(tick (tick (tick w)))\<lparr>w_queue := w_queue w @ [staking_event UnbondingStakingEventType d]\<rparr>"
  let ?locked = "(tick ?sent)\<lparr>w_timelocks := w_timelocks w @ [NewTimeLockDocument h (d_EndHeight d) SubStateTimelock]\<rparr>"
  let ?w1 = "updated h (\<lambda>d. d_State d \<in> set QualifiedStatesForExpired) ?f (tick ?locked)"
  have qual: "d_State d \<in> set QualifiedStatesForExpired" using assms(8) by (simp add: qualified_defs)
  have key: "d_StakingTxHashHex d = h" using docs_key assms(7) by blast
  have "run (processBTCDelegationExpiredEvent e event height) w = (Ok (), ?w1)"
    using assms qual key
    by (simp add: processBTCDelegationExpiredEvent_def validateBTCDelegationExpiredEvent_def Let_def
        run_get_found run_emit run_save_timelock run_update_found del: andThen.simps on_error.simps)
  moreover have "docs ?w1 = (docs w)(h \<mapsto> ?f d)" "keyed ?w1"
    using docs_updated [of "tick ?locked" h d "\<lambda>d. d_State d \<in> set QualifiedStatesForExpired" ?f] assms(2,7) qual
    by (simp_all add: apply_update_key)
  moreover have "?f d = d\<lparr>d_State := StateUnbonding, d_SubState := SubStateTimelock,
      d_StateHistory := d_StateHistory d @ [\<lparr>sr_State = StateUnbonding, sr_SubState = SubStateTimelock,
        sr_BbnHeight = height, sr_BtcHeight = 0, sr_BbnEventType = ''EventBTCDelegationExpired''\<rparr>]\<rparr>"
    by (simp add: apply_update_def options_of_def stateRecord_of_def set_slashing_def empty_options_def db_defs ShortName_def event_type_defs)
  moreover have "run (processBTCDelegationExpiredEvent e event height2) ?w1 = (Ok (), tick ?w1)"
    if "docs ?w1 = (docs w)(h \<mapsto> ?f d)"
    using assms that
    by (simp add: processBTCDelegationExpiredEvent_def validateBTCDelegationExpiredEvent_def Let_def
        run_get_found qualified_defs apply_update_def del: andThen.simps on_error.simps)
  ultimately show ?thesis by simp
qed

theorem expiry_takes_effect_once_witness:
  "docs (snd (run (processBTCDelegationExpiredEvent sample_env (sample_event EventBTCDelegationExpired) 3) active_world)) ''h'' =
   Some expired_delegation"
proof -
  have "parseEvent sample_env as_DelegationExpired EventBTCDelegationExpired (sample_event EventBTCDelegationExpired) =
      Ok \<lparr>exp_StakingTxHash = ''h'', exp_NewState = ''EXPIRED''\<rparr>"
    by (simp add: prog_eval sample_eval)
  from expiry_takes_effect_once [OF sample_env_ok(2) _ this, of active_world _ active_delegation 3 0] sample_doc show ?thesis
    by (auto simp: expired_delegation_def sample_delegation_defs)
qed

section \<open>The covenant quorum\<close>

text \<open>
  C20. A quorum event for ACTIVE on a pending delegation with an inclusion proof sends the activation message,
  starts the watch of the staking output from the start height on and moves the delegation to ACTIVE; on a
  delegation in another state or without its proof it does nothing, so that its replay does nothing.
\<close>

theorem quorum_activates_once:
  assumes "no_faults e" "keyed w" "parseEvent e as_CovenantQuorumReached EventCovenantQuorumReached event = Ok ev"
    and "cqr_StakingTxHash ev = h" "h \<noteq> ''''" "cqr_NewState ev = BTCDelegationStatus_ACTIVE" "docs w h = Some d"
    and "lib_NewHashFromStr e h = Inr hash"
      "DeserializeBtcTransactionFromHex (lib_Deserialize e) (d_StakingTxHex d) = Ok stakingTx"
  shows "\<exists>w1. run (processCovenantQuorumReachedEvent e event height) w = (Ok (), w1) \<and>
    (if d_State d = StatePending \<and> HasInclusionProof d
     then docs w1 = (docs w)(h \<mapsto> d\<lparr>d_State := StateActive, d_StateHistory := d_StateHistory d @
            [\<lparr>sr_State = StateActive, sr_SubState = NoSubState, sr_BbnHeight = height, sr_BtcHeight = 0,
              sr_BbnEventType = ''EventCovenantQuorumReached''\<rparr>]\<rparr>) \<and>
          w_queue w1 = w_queue w @ [staking_event ActiveStakingEventType d] \<and>
          w_jobs w1 = w_jobs w @ [\<lparr>job_OutPoint = \<lparr>op_Hash = hash, op_Index = d_StakingOutputIdx d\<rparr>, job_Tx = stakingTx,
            job_OutputIdx = unat (d_StakingOutputIdx d), job_HeightHint = d_StartHeight d, job_Watch = WatchStaking h\<rparr>]
     else docs w1 = docs w \<and> w_queue w1 = w_queue w \<and> w_jobs w1 = w_jobs w) \<and>
    w_timelocks w1 = w_timelocks w"
proof (cases "d_State d = StatePending \<and> HasInclusionProof d")
  case True
  let ?f = "apply_update StateActive (options_of [WithBbnHeight height, WithBbnEventType EventCovenantQuorumReached])"
  let ?job = "\<lparr>job_OutPoint = \<lparr>op_Hash = hash, op_Index = d_StakingOutputIdx d\<rparr>, job_Tx = stakingTx,
    job_OutputIdx = unat (d_StakingOutputIdx d), job_HeightHint = d_StartHeight d, job_Watch = WatchStaking h\<rparr>"
  let ?sent = "(tick (tick (tick w)))\<lparr>w_queue := w_queue w @ [staking_event ActiveStakingEventType d], w_jobs := w_jobs w @ [?job]\<rparr>"
  let ?qs = "QualifiedStatesForCovenantQuorumReached BTCDelegationStatus_ACTIVE"
  let ?w1 = "updated h (\<lambda>d. d_State d \<in> set ?qs) ?f (tick ?sent)"
  have qual: "d_State d \<in> set ?qs" using True by (simp add: qualified_defs)
  have key: "d_StakingTxHashHex d = h" using docs_key assms(7) by blast
  have "run (processCovenantQuorumReachedEvent e event height) w = (Ok (), ?w1)"
    using assms qual key True
    by (simp add: processCovenantQuorumReachedEvent_def validateCovenantQuorumReachedEvent_def Let_def DelegationState_of_def
        run_get_found run_emit run_register_staking run_update_found del: andThen.simps on_error.simps)
       (auto simp: qualified_defs)
  moreover have "docs ?w1 = (docs w)(h \<mapsto> ?f d)"
    using docs_updated(1) [of "tick ?sent" h d "\<lambda>d. d_State d \<in> set ?qs" ?f] assms(2,7) qual
    by (simp add: apply_update_key)
  moreover have "?f d = d\<lparr>d_State := StateActive, d_StateHistory := d_StateHistory d @
      [\<lparr>sr_State = StateActive, sr_SubState = NoSubState, sr_BbnHeight = height, sr_BtcHeight = 0,
        sr_BbnEventType = ''EventCovenantQuorumReached''\<rparr>]\<rparr>"
    by (simp add: apply_update_def options_of_def stateRecord_of_def set_slashing_def empty_options_def db_defs ShortName_def event_type_defs)
  ultimately show ?thesis using True by simp
next
  case False
  then have "run (processCovenantQuorumReachedEvent e event height) w = (Ok (), tick w)"
    using assms
    by (auto simp: processCovenantQuorumReachedEvent_def validateCovenantQuorumReachedEvent_def Let_def
        run_get_found qualified_defs simp del: andThen.simps on_error.simps)
  with False show ?thesis by simp
qed

theorem quorum_activates_once_witness:
  "docs (snd (run (processCovenantQuorumReachedEvent sample_env (sample_event EventCovenantQuorumReached) 2) created_world)) ''h'' =
   Some active_delegation"
proof -
  have "parseEvent sample_env as_CovenantQuorumReached EventCovenantQuorumReached (sample_event EventCovenantQuorumReached) =
      Ok \<lparr>cqr_StakingTxHash = ''h'', cqr_NewState = ''ACTIVE''\<rparr>"
    by (simp add: prog_eval sample_eval)
  from quorum_activates_once [OF sample_env_ok(2) _ this, of created_world _ sample_delegation "''h''" sample_tx 2] sample_doc show ?thesis
    by (auto simp: sample_delegation_defs HasInclusionProof_def DeserializeBtcTransactionFromHex_def hex_digit_def)
qed

section \<open>Early unbonding\<close>

lemma run_timestamp:
  assumes "\<forall>t. btc_GetBlockHash e t (ucast start) = Inr hash" "\<forall>t. btc_GetBlock e t hash = Inr time"
  shows "run (GetBlockTimestamp e start) w = (Ok time, tick (tick w))"
  unfolding GetBlockTimestamp_def
  by (subst run_wrap_err, subst run_client_call_Ok [where x = time and w' = "tick (tick w)"]) (simp_all add: assms)

lemma unbonded_early_once:
  assumes "no_faults e" "keyed w" "parseEvent e as_UnbondedEarly EventBTCDelegationUnbondedEarly event = Ok ev"
    and "ube_StakingTxHash ev = h" "h \<noteq> ''''" "ube_NewState ev = BTCDelegationStatus_UNBONDED" "ube_StakeExpansionTxHash ev = ''''"
    and "ParseUint32_result (ube_StartHeight ev) = Ok start"
    and "\<forall>t. btc_GetBlockHash e t (ucast start) = Inr hash" "\<forall>t. btc_GetBlock e t hash = Inr time"
    and "docs w h = Some d" "d_State d = StateActive \<or> d_State d = StateUnbonding"
  shows "\<exists>w1. run (processBTCDelegationUnbondedEarlyEvent e event height) w = (Ok (), w1) \<and> keyed w1 \<and>
    docs w1 = (docs w)(h \<mapsto> d\<lparr>d_State := StateUnbonding, d_SubState := SubStateEarlyUnbonding,
      d_UnbondingBTCTimestamp := time, d_UnbondingStartHeight := start,
      d_StateHistory := d_StateHistory d @ [\<lparr>sr_State = StateUnbonding, sr_SubState = SubStateEarlyUnbonding,
        sr_BbnHeight = height, sr_BtcHeight = 0, sr_BbnEventType = ''EventBTCDelgationUnbondedEarly''\<rparr>]\<rparr>) \<and>
    w_queue w1 = w_queue w @ [staking_event UnbondingStakingEventType d] \<and>
    w_timelocks w1 = w_timelocks w @ [NewTimeLockDocument h (start + d_UnbondingTime d) SubStateEarlyUnbonding]"
proof -
  let ?f = "apply_update StateUnbonding (options_of [WithSubState SubStateEarlyUnbonding, WithBbnHeight height,
    WithUnbondingBTCTimestamp time, WithUnbondingStartHeight start, WithBbnEventType EventBTCDelegationUnbondedEarly])"
  let ?sent = "(tick (tick (tick w)))\<lparr>w_queue := w_queue w @ [staking_event UnbondingStakingEventType d]\<rparr>"
  let ?locked = "(tick (tick (tick ?sent)))\<lparr>w_timelocks := w_timelocks w @
    [NewTimeLockDocument h (start + d_UnbondingTime d) SubStateEarlyUnbonding]\<rparr>"
  let ?w1 = "updated h (\<lambda>d. d_State d \<in> set QualifiedStatesForUnbondedEarly) ?f (tick ?locked)"
  have qual: "d_State d \<in> set QualifiedStatesForUnbondedEarly" using assms(12) by (auto simp: qualified_defs)
  have key: "d_StakingTxHashHex d = h" using docs_key assms(11) by blast
  note steps = run_get_found [OF assms(1)] run_emit [OF assms(1)] run_save_timelock [OF assms(1)]
    run_timestamp [OF assms(9,10)] run_update_found [OF assms(1)]
  have "run (processBTCDelegationUnbondedEarlyEvent e event height) w = (Ok (), ?w1)"
    using assms(2-8,11) qual key
    by (simp add: processBTCDelegationUnbondedEarlyEvent_def validateBTCDelegationUnbondedEarlyEvent_def Let_def
        run_on_error steps del: andThen.simps on_error.simps)
  moreover have "docs ?w1 = (docs w)(h \<mapsto> ?f d)" "keyed ?w1"
    using docs_updated [of "tick ?locked" h d "\<lambda>d. d_State d \<in> set QualifiedStatesForUnbondedEarly" ?f] assms(2,11) qual
    by (simp_all add: apply_update_key)
  moreover have "?f d = d\<lparr>d_State := StateUnbonding, d_SubState := SubStateEarlyUnbonding,
      d_UnbondingBTCTimestamp := time, d_UnbondingStartHeight := start,
      d_StateHistory := d_StateHistory d @ [\<lparr>sr_State = StateUnbonding, sr_SubState = SubStateEarlyUnbonding,
        sr_BbnHeight = height, sr_BtcHeight = 0, sr_BbnEventType = ''EventBTCDelgationUnbondedEarly''\<rparr>]\<rparr>"
    by (simp add: apply_update_def options_of_def stateRecord_of_def set_slashing_def empty_options_def db_defs ShortName_def event_type_defs)
  ultimately show ?thesis by simp
qed

text \<open>
  C21. An early unbonding event is recorded each time it is processed: on an active delegation it makes it
  UNBONDING with EARLY_UNBONDING and leaves one message and one time lock, and its replay adds another record
  to the history, another message and another time lock.
\<close>

theorem early_unbonding_replay_is_recorded_again:
  assumes "no_faults e" "keyed w" "parseEvent e as_UnbondedEarly EventBTCDelegationUnbondedEarly event = Ok ev"
    and "ube_StakingTxHash ev = h" "h \<noteq> ''''" "ube_NewState ev = BTCDelegationStatus_UNBONDED" "ube_StakeExpansionTxHash ev = ''''"
    and "ParseUint32_result (ube_StartHeight ev) = Ok start"
    and "\<forall>t. btc_GetBlockHash e t (ucast start) = Inr hash" "\<forall>t. btc_GetBlock e t hash = Inr time"
    and "docs w h = Some d" "d_State d = StateActive"
  shows "\<exists>w1 w2 r. run (processBTCDelegationUnbondedEarlyEvent e event height) w = (Ok (), w1) \<and>
    run (processBTCDelegationUnbondedEarlyEvent e event height) w1 = (Ok (), w2) \<and>
    sr_State r = StateUnbonding \<and> sr_SubState r = SubStateEarlyUnbonding \<and> sr_BbnHeight r = height \<and>
    map_option d_StateHistory (docs w1 h) = Some (d_StateHistory d @ [r]) \<and>
    map_option d_StateHistory (docs w2 h) = Some (d_StateHistory d @ [r, r]) \<and>
    (\<forall>k. k \<noteq> h \<longrightarrow> docs w2 k = docs w k) \<and>
    length (w_queue w1) = length (w_queue w) + 1 \<and> length (w_queue w2) = length (w_queue w) + 2 \<and>
    w_timelocks w2 = w_timelocks w @ replicate 2 (NewTimeLockDocument h (start + d_UnbondingTime d) SubStateEarlyUnbonding)"
proof -
  from unbonded_early_once [OF assms(1-11), of height] assms(12) obtain w1 d1 where
    w1: "run (processBTCDelegationUnbondedEarlyEvent e event height) w = (Ok (), w1)" "keyed w1" "docs w1 = (docs w)(h \<mapsto> d1)"
      "w_queue w1 = w_queue w @ [staking_event UnbondingStakingEventType d]"
      "w_timelocks w1 = w_timelocks w @ [NewTimeLockDocument h (start + d_UnbondingTime d) SubStateEarlyUnbonding]"
    and d1: "d1 = d\<lparr>d_State := StateUnbonding, d_SubState := SubStateEarlyUnbonding,
      d_UnbondingBTCTimestamp := time, d_UnbondingStartHeight := start,
      d_StateHistory := d_StateHistory d @ [\<lparr>sr_State = StateUnbonding, sr_SubState = SubStateEarlyUnbonding,
        sr_BbnHeight = height, sr_BtcHeight = 0, sr_BbnEventType = ''EventBTCDelgationUnbondedEarly''\<rparr>]\<rparr>"
    by auto
  have "docs w1 h = Some d1" "d_State d1 = StateActive \<or> d_State d1 = StateUnbonding" by (simp_all add: w1(3) d1)
  from unbonded_early_once [OF assms(1) w1(2) assms(3-10) this, of height] obtain w2 where
    "run (processBTCDelegationUnbondedEarlyEvent e event height) w1 = (Ok (), w2)"
    "docs w2 = (docs w1)(h \<mapsto> d1\<lparr>d_State := StateUnbonding, d_SubState := SubStateEarlyUnbonding,
      d_UnbondingBTCTimestamp := time, d_UnbondingStartHeight := start,
      d_StateHistory := d_StateHistory d1 @ [\<lparr>sr_State = StateUnbonding, sr_SubState = SubStateEarlyUnbonding,
        sr_BbnHeight = height, sr_BtcHeight = 0, sr_BbnEventType = ''EventBTCDelgationUnbondedEarly''\<rparr>]\<rparr>)"
    "w_queue w2 = w_queue w1 @ [staking_event UnbondingStakingEventType d1]"
    "w_timelocks w2 = w_timelocks w1 @ [NewTimeLockDocument h (start + d_UnbondingTime d1) SubStateEarlyUnbonding]"
    by auto
  with w1 show ?thesis
    by (intro exI [of _ w1] exI [of _ w2] exI [of _ "\<lparr>sr_State = StateUnbonding, sr_SubState = SubStateEarlyUnbonding,
        sr_BbnHeight = height, sr_BtcHeight = 0, sr_BbnEventType = ''EventBTCDelgationUnbondedEarly''\<rparr>"])
       (simp add: d1 numeral_2_eq_2)
qed

theorem early_unbonding_replay_is_recorded_again_witness:
  "\<exists>w1 w2. run (processBTCDelegationUnbondedEarlyEvent sample_env (sample_event EventBTCDelegationUnbondedEarly) 3) active_world = (Ok (), w1) \<and>
     run (processBTCDelegationUnbondedEarlyEvent sample_env (sample_event EventBTCDelegationUnbondedEarly) 3) w1 = (Ok (), w2) \<and>
     w_timelocks w2 = replicate 2 (NewTimeLockDocument ''h'' 57 SubStateEarlyUnbonding)"
proof -
  have "parseEvent sample_env as_UnbondedEarly EventBTCDelegationUnbondedEarly (sample_event EventBTCDelegationUnbondedEarly) =
      Ok \<lparr>ube_StakingTxHash = ''h'', ube_StartHeight = ''50'', ube_NewState = ''UNBONDED'', ube_StakeExpansionTxHash = ''''\<rparr>"
    by (simp add: prog_eval sample_eval)
  moreover have "ParseUint32_result [CHR ''5'', CHR ''0''] = Ok 50"
    by (simp add: ParseUint32_result_def ParseUint32_def ParseUint_def is_digit_def digit_val_def)
  moreover have "w_timelocks active_world = []" "d_State active_delegation = StateActive" "d_UnbondingTime active_delegation = 7"
    by (simp_all add: active_world_eq created_world_eq initial_world_def sample_delegation_defs)
  ultimately show ?thesis
    using early_unbonding_replay_is_recorded_again [OF sample_env_ok(2), of active_world "sample_event EventBTCDelegationUnbondedEarly"
      _ "''h''" 50 "''b''" 1000 active_delegation 3] sample_doc
    by fastforce
qed

end
