(* ===== verification/Block_Spec.thy ===== *)
theory Block_Spec
  imports Event_Effects
begin

text \<open>
  The versions of the staking parameters that one pass of the parameter task asks for.
\<close>

section \<open>The versions of the staking parameters\<close>

text \<open>The chain has the versions below \<open>n\<close> and answers the next one with an error that says so.\<close>

definition serves_versions :: "env \<Rightarrow> nat \<Rightarrow> (nat \<Rightarrow> BbnStakingParams) \<Rightarrow> bool" where
  "serves_versions e n params \<longleftrightarrow> n < 2 ^ 32 \<and>
     (\<forall>t. \<forall>v < n. rpc_BTCStakingParamsByVersion e t (word_of_nat v) = Inr (params v)) \<and>
     (\<forall>t. \<exists>msg. rpc_BTCStakingParamsByVersion e t (word_of_nat n) = Inl msg \<and> isParamsNotFoundError e (OtherError msg))"

lemma upsert_new: "key d \<notin> key ` set ds \<Longrightarrow> upsert_doc key d ds = ds @ [d]"
proof -
  assume "key d \<notin> key ` set ds"
  then have "modify_first (\<lambda>x. key x = key d) (\<lambda>_. d) ds = None" by (auto simp: image_iff)
  then show ?thesis by (simp add: upsert_doc_def del: modify_first_None_iff)
qed

lemma word_of_nat_version: "m < 2 ^ 32 \<Longrightarrow> n < 2 ^ 32 \<Longrightarrow> (word_of_nat m :: u32) = word_of_nat n \<longleftrightarrow> m = n"
  by (simp add: word_of_nat_eq_iff take_bit_nat_eq_self)

definition version_entry :: "(nat \<Rightarrow> BbnStakingParams) \<Rightarrow> nat \<Rightarrow> u32 \<times> StakingParams option" where
  "version_entry params v = (word_of_nat v, Some (FromBbnStakingParams (params v)))"

lemma fetch_from:
  assumes "serves_versions e n params" "m \<le> i" "i \<le> n" "n - i < fuel"
  shows "run (GetStakingParams_from fuel e (word_of_nat i) (map (version_entry params) [m..<i])) w =
    (Ok (map (version_entry params) [m..<n]), (tick ^^ (n - i + 1)) w)"
  using assms(2-)
proof (induction fuel arbitrary: i w)
  case (Suc fuel)
  have n: "n < 2 ^ 32" using assms(1) by (simp add: serves_versions_def)
  show ?case
  proof (cases "i = n")
    case True
    then obtain msg where "rpc_BTCStakingParamsByVersion e (w_clock w) (word_of_nat i) = Inl msg" "isParamsNotFoundError e (OtherError msg)"
      using assms(1) unfolding serves_versions_def by blast
    with True show ?thesis by simp
  next
    case False
    with Suc.prems have i: "i < n" by simp
    have "version_entry params i = (word_of_nat i, Some (FromBbnStakingParams (params i)))" by (simp add: version_entry_def)
    moreover have "word_of_nat i \<notin> fst ` set (map (version_entry params) [m..<i])"
      using i n by (auto simp: version_entry_def word_of_nat_version)
    ultimately have up: "upsert_doc fst (word_of_nat i, Some (FromBbnStakingParams (params i))) (map (version_entry params) [m..<i]) =
        map (version_entry params) [m..<Suc i]"
      using Suc.prems(1) by (subst upsert_new) simp_all
    have next_version: "(word_of_nat i :: u32) + 1 = word_of_nat (Suc i)" by simp
    have "rpc_BTCStakingParamsByVersion e (w_clock w) (word_of_nat i) = Inr (params i)"
      using assms(1) i by (simp add: serves_versions_def)
    then have "run (GetStakingParams_from (Suc fuel) e (word_of_nat i) (map (version_entry params) [m..<i])) w =
        run (GetStakingParams_from fuel e (word_of_nat (Suc i)) (map (version_entry params) [m..<Suc i])) (tick w)"
      by (simp only: GetStakingParams_from.simps run_andThen run_attempt run_ask of_lib.simps prod.case result.case
          continue_with_simps sum.case up next_version)
    also have "\<dots> = (Ok (map (version_entry params) [m..<n]), (tick ^^ (n - Suc i + 1)) (tick w))"
      using Suc.prems i by (intro Suc.IH) simp_all
    also have "(tick ^^ (n - Suc i + 1)) (tick w) = (tick ^^ (n - i + 1)) w"
      using i by (simp add: Suc_diff_Suc funpow_swap1)
    finally show ?thesis .
  qed
qed simp

text \<open>
  C31. The enumeration of the staking parameters ends and is complete: when the chain has the versions below \<open>n\<close>,
  a request for the versions from \<open>m\<close> on makes \<open>n - m + 1\<close> calls and returns exactly those from \<open>m\<close> to \<open>n - 1\<close>,
  converted, in order; any larger bound on the number of calls gives the same.
\<close>

theorem all_versions_are_fetched:
  assumes "serves_versions e n params" "m \<le> n" "n - m < fuel"
  shows "run (GetStakingParams_rpc fuel e (word_of_nat m)) w =
    (Ok (map (\<lambda>v. (word_of_nat v, Some (FromBbnStakingParams (params v)))) [m..<n]), (tick ^^ (n - m + 1)) w)"
  using fetch_from [OF assms(1) order.refl assms(2,3), of w]
  by (simp add: GetStakingParams_rpc_def version_entry_def [abs_def])

theorem all_versions_are_fetched_witness:
  "run (GetStakingParams_rpc 2 sample_env 0) initial_world =
   (Ok [(0, Some (FromBbnStakingParams sample_params))], tick (tick initial_world))"
proof -
  have "serves_versions sample_env 1 (\<lambda>v. sample_params)"
    by (simp add: serves_versions_def isParamsNotFoundError_def prefix_of_def)
  from all_versions_are_fetched [OF this, of 0 2 initial_world] show ?thesis by (simp add: numeral_2_eq_2)
qed

end
