(* ===== verification/Expiry_Spec.thy ===== *)
theory Expiry_Spec
  imports Event_Effects
begin

text \<open>
  One pass of the expiry task, run alone with no failing call: it ends well, takes one time lock document away
  for each that it found, and leaves no delegation behind in the state that its time lock ends.
\<close>

section \<open>Removing a time lock\<close>

lemma remove_at_submset: "mset (remove_at i xs) \<subseteq># mset xs"
  using mset_remove_at [of i xs] by (cases "i < length xs") (simp_all add: remove_at_def)

abbreviation lock_keys :: "world \<Rightarrow> string list" where
  "lock_keys w \<equiv> map tl_StakingTxHashHex (w_timelocks w)"

text \<open>Whatever order the server scans the documents in, one document with the key goes.\<close>

lemma run_delete:
  assumes "no_faults e" "scan_ok e" "h \<in> set (lock_keys w)"
  shows "\<exists>locks. run (DeleteExpiredDelegation e h) w = (Ok (), (tick w)\<lparr>w_timelocks := locks\<rparr>) \<and>
    mset (lock_keys w) = add_mset h (mset (map tl_StakingTxHashHex locks)) \<and> mset locks \<subseteq># mset (w_timelocks w)"
proof -
  let ?ls = "w_timelocks w" and ?P = "\<lambda>i. tl_StakingTxHashHex (w_timelocks w ! i) = h"
  have order: "set (mongo_order e (Suc (w_clock w)) (length ?ls)) = {..<length ?ls}"
    using assms(2) mset_eq_setD [of "mongo_order e (Suc (w_clock w)) (length ?ls)" "[0..<length ?ls]"]
    by (auto simp: scan_ok_def)
  from assms(3) obtain j where "j < length ?ls" "?P j" by (auto simp: in_set_conv_nth)
  then have "find ?P (mongo_order e (Suc (w_clock w)) (length ?ls)) \<noteq> None"
    using order by (auto simp: find_None_iff)
  then obtain i where i: "find ?P (mongo_order e (Suc (w_clock w)) (length ?ls)) = Some i" by blast
  then have "?P i" "i < length ?ls"
    using order by (auto simp: find_Some_iff)
  then have "mset (lock_keys w) = add_mset h (mset (map tl_StakingTxHashHex (remove_at i ?ls)))"
    using mset_remove_at [of i ?ls] by simp
  moreover have "run (DeleteExpiredDelegation e h) w = (Ok (), (tick w)\<lparr>w_timelocks := remove_at i ?ls\<rparr>)"
    using assms(1) i by (simp add: DeleteExpiredDelegation_def)
  ultimately show ?thesis by (intro exI [of _ "remove_at i ?ls"]) (simp add: remove_at_submset)
qed

section \<open>One time lock\<close>

definition expirable :: "world \<Rightarrow> TimeLockDocument \<Rightarrow> bool" where
  "expirable w lock \<longleftrightarrow> docs w (tl_StakingTxHashHex lock) \<noteq> None \<and>
     (\<exists>qs. QualifiedStatesForWithdrawable (tl_DelegationSubState lock) = Ok qs)"

lemma expirable_dom: "dom (docs w') = dom (docs w) \<Longrightarrow> expirable w' lock = expirable w lock"
  by (auto simp: expirable_def dom_def set_eq_iff)

text \<open>The delegation of a lock has left the states that the lock ends.\<close>

definition left_states :: "world \<Rightarrow> TimeLockDocument \<Rightarrow> bool" where
  "left_states w lock \<longleftrightarrow> (\<forall>d qs. docs w (tl_StakingTxHashHex lock) = Some d \<longrightarrow>
     QualifiedStatesForWithdrawable (tl_DelegationSubState lock) = Ok qs \<longrightarrow> d_State d \<notin> set qs)"

lemma withdrawable_not_qualified: "QualifiedStatesForWithdrawable sub = Ok qs \<Longrightarrow> StateWithdrawable \<notin> set qs"
  by (cases sub) auto

lemma run_expire_one:
  assumes ok: "no_faults e" "scan_ok e" and "keyed w" "expirable w lock" "tl_StakingTxHashHex lock \<in> set (lock_keys w)"
  shows "\<exists>w'. run (expire_one e lock) w = (Ok (), w') \<and> keyed w' \<and>
    mset (lock_keys w) = add_mset (tl_StakingTxHashHex lock) (mset (lock_keys w')) \<and> dom (docs w') = dom (docs w) \<and>
    left_states w' lock \<and> (\<forall>lock'. left_states w lock' \<longrightarrow> left_states w' lock') \<and>
    mset (w_timelocks w') \<subseteq># mset (w_timelocks w)"
proof -
  let ?h = "tl_StakingTxHashHex lock"
  obtain d qs where d: "docs w ?h = Some d" and qs: "QualifiedStatesForWithdrawable (tl_DelegationSubState lock) = Ok qs"
    using assms(4) by (auto simp: expirable_def)
  have key: "d_StakingTxHashHex d = ?h" using docs_key d by blast
  have ne: "qs \<noteq> []" using qs by (cases "tl_DelegationSubState lock") auto
  let ?opts = "[WithSubState (tl_DelegationSubState lock), WithBtcHeight (tl_ExpireHeight lock)]"
  let ?u = "updated ?h (\<lambda>d. d_State d \<in> set qs) (apply_update StateWithdrawable (options_of ?opts)) (tick (tick w))"
  have state: "d_State (apply_update StateWithdrawable (options_of ?opts) d) = StateWithdrawable" by (simp add: apply_update_def)
  have upd: "\<exists>r. run (UpdateBTCDelegationState e ?h qs StateWithdrawable ?opts) (tick w) = (r, ?u) \<and>
      (r = Ok () \<or> (\<exists>err. r = Err err \<and> IsNotFoundError err))"
    using run_update [OF ok(1) ne, of ?h StateWithdrawable ?opts "tick w"] by (auto simp: updated_def split: option.splits)
  have u: "keyed ?u \<and> dom (docs ?u) = dom (docs w) \<and> left_states ?u lock \<and> (\<forall>lock'. left_states w lock' \<longrightarrow> left_states ?u lock')"
  proof (cases "d_State d \<in> set qs")
    case True
    then have "docs ?u = (docs w)(?h \<mapsto> apply_update StateWithdrawable (options_of ?opts) d)" "keyed ?u"
      using docs_updated [of "tick (tick w)" ?h d "\<lambda>d. d_State d \<in> set qs" "apply_update StateWithdrawable (options_of ?opts)"]
        assms(3) d by (simp_all add: apply_update_key)
    then show ?thesis
      using d state withdrawable_not_qualified by (auto simp: left_states_def)
  next
    case False
    have "distinct (map d_StakingTxHashHex (w_delegations w))" using assms(3) by (simp add: keyed_def)
    then have "update_doc d_StakingTxHashHex ?h (\<lambda>d. d_State d \<in> set qs) (apply_update StateWithdrawable (options_of ?opts)) (w_delegations w) = None"
      using False d store.change_defined [of d_StakingTxHashHex "w_delegations w" ?h "\<lambda>d. d_State d \<in> set qs"
          "apply_update StateWithdrawable (options_of ?opts)"] by (simp add: docs_def)
    then have "?u = tick (tick w)" by (simp add: updated_def)
    with assms(3) d qs False show ?thesis by (simp add: left_states_def)
  qed
  obtain r u where r: "run (UpdateBTCDelegationState e ?h qs StateWithdrawable ?opts) (tick w) = (r, u)"
      "r = Ok () \<or> (\<exists>err. r = Err err \<and> IsNotFoundError err)"
    and u: "keyed u" "dom (docs u) = dom (docs w)" "left_states u lock" "\<forall>lock'. left_states w lock' \<longrightarrow> left_states u lock'"
      "w_timelocks u = w_timelocks w"
    using upd u by (auto simp del: dom_fun_upd)
  have "?h \<in> set (lock_keys u)" using assms(5) by (simp add: u(5))
  from run_delete [OF ok this] obtain locks where
    locks: "run (DeleteExpiredDelegation e ?h) u = (Ok (), (tick u)\<lparr>w_timelocks := locks\<rparr>)"
      "mset (lock_keys u) = add_mset ?h (mset (map tl_StakingTxHashHex locks))" "mset locks \<subseteq># mset (w_timelocks u)" by blast
  have "run (expire_one e lock) w = (Ok (), (tick u)\<lparr>w_timelocks := locks\<rparr>)"
    unfolding expire_one_def using r(2)
    by (elim disjE exE conjE) (simp_all add: run_get_found [OF ok(1) d] key qs run_on_error r(1) locks(1) del: andThen.simps on_error.simps)
  moreover have "docs ((tick u)\<lparr>w_timelocks := locks\<rparr>) = docs u" "keyed ((tick u)\<lparr>w_timelocks := locks\<rparr>)" using u(1) by simp_all
  ultimately show ?thesis
    using u locks(2,3) by (intro exI [of _ "(tick u)\<lparr>w_timelocks := locks\<rparr>"]) (simp add: left_states_def)
qed

section \<open>The pass\<close>

lemma run_expire_all:
  assumes "no_faults e" "scan_ok e"
  shows "keyed w \<Longrightarrow> \<forall>lock \<in> set found. expirable w lock \<Longrightarrow>
    mset (map tl_StakingTxHashHex found) \<subseteq># mset (lock_keys w) \<Longrightarrow>
    \<exists>w'. run (for_each found (expire_one e)) w = (Ok (), w') \<and>
      mset (lock_keys w) = mset (map tl_StakingTxHashHex found) + mset (lock_keys w') \<and>
      (\<forall>lock \<in> set found. left_states w' lock) \<and> (\<forall>lock. left_states w lock \<longrightarrow> left_states w' lock) \<and>
      keyed w' \<and> dom (docs w') = dom (docs w) \<and> mset (w_timelocks w') \<subseteq># mset (w_timelocks w)"
proof (induction found arbitrary: w)
  case Nil
  then show ?case by simp
next
  case (Cons lock found)
  have "tl_StakingTxHashHex lock \<in> set (lock_keys w)"
    using Cons.prems(3) by (metis in_multiset_in_set list.set_intros(1) list.simps(9) mset_subset_eqD)
  from run_expire_one [OF assms Cons.prems(1) _ this] Cons.prems(2) obtain w1 where
    w1: "run (expire_one e lock) w = (Ok (), w1)" "keyed w1"
      "mset (lock_keys w) = add_mset (tl_StakingTxHashHex lock) (mset (lock_keys w1))" "dom (docs w1) = dom (docs w)"
      "left_states w1 lock" "\<forall>lock'. left_states w lock' \<longrightarrow> left_states w1 lock'" "mset (w_timelocks w1) \<subseteq># mset (w_timelocks w)"
    by (meson list.set_intros(1))
  have "expirable w1 l" if "l \<in> set found" for l
    using Cons.prems(2) that expirable_dom [OF w1(4)] by simp
  moreover have "mset (map tl_StakingTxHashHex found) \<subseteq># mset (lock_keys w1)"
    using Cons.prems(3) unfolding w1(3) by simp
  ultimately obtain w2 where
    w2: "run (for_each found (expire_one e)) w1 = (Ok (), w2)"
      "mset (lock_keys w1) = mset (map tl_StakingTxHashHex found) + mset (lock_keys w2)"
      "\<forall>l \<in> set found. left_states w2 l" "\<forall>l. left_states w1 l \<longrightarrow> left_states w2 l"
      "keyed w2" "dom (docs w2) = dom (docs w1)" "mset (w_timelocks w2) \<subseteq># mset (w_timelocks w1)"
    using Cons.IH [OF w1(2)] by blast
  have "run (for_each (lock # found) (expire_one e)) w = (Ok (), w2)" using w1(1) w2(1) by simp
  moreover have "mset (lock_keys w) = mset (map tl_StakingTxHashHex (lock # found)) + mset (lock_keys w2)"
    using w1(3) w2(2) by simp
  moreover have "\<forall>l \<in> set (lock # found). left_states w2 l" using w2(3,4) w1(5) by simp
  moreover have "\<forall>l. left_states w l \<longrightarrow> left_states w2 l" using w2(4) w1(6) by simp
  moreover have "dom (docs w2) = dom (docs w)" by (rule trans [OF w2(6) w1(4)])
  moreover have "mset (w_timelocks w2) \<subseteq># mset (w_timelocks w)" by (rule subset_mset.order_trans [OF w2(7) w1(7)])
  ultimately show ?case using w2(5) by blast
qed

lemma take_limit_subset: "mset (take_limit limit xs) \<subseteq># mset xs"
proof -
  have "mset (take n xs) \<subseteq># mset xs" for n
    by (metis append_take_drop_id mset_append mset_subset_eq_add_left)
  then show ?thesis by (simp add: take_limit_def)
qed

lemma length_take_limit:
  "length (take_limit limit xs) = (if limit = 0 then length xs else min (nat \<bar>sint limit\<bar>) (length xs))"
  by (simp add: take_limit_def min.commute)

lemma mset_find_all: "scan_ok e \<Longrightarrow> mset (find_all e P ds t) = filter_mset P (mset ds)"
  using mset_scan [of "mongo_order e t (length ds)" ds] by (simp add: find_all_def scan_ok_def)

text \<open>
  One pass from any state whose documents are unique and whose time locks can be processed, with the tip at
  \<open>tip\<close>. The locks that it takes up are due, and as many as the limit allows.
\<close>

definition due :: "u64 \<Rightarrow> TimeLockDocument \<Rightarrow> bool" where
  "due tip lock \<longleftrightarrow> unat (tl_ExpireHeight lock) \<le> unat tip"

definition expirable_world :: "world \<Rightarrow> bool" where
  "expirable_world w \<longleftrightarrow> keyed w \<and> (\<forall>lock \<in> set (w_timelocks w). expirable w lock)"

lemma good_expirable_world: "good e w \<Longrightarrow> expirable_world w"
  by (auto simp: expirable_world_def good_def keyed_def expirable_def timelock_ok_def docs_def hashes_def find_doc_None_iff)

lemma run_check_expiry:
  assumes "no_faults e" "scan_ok e" "expirable_world w"
    and "btc_GetBlockCount e (w_clock w) = Inr tip" "0 \<le> sint tip"
  shows "\<exists>found w'. run (checkExpiry e) w = (Ok (), w') \<and> mset found \<subseteq># filter_mset (due tip) (mset (w_timelocks w)) \<and>
    length found = (let n = length (filter (due tip) (w_timelocks w)) in
      if cfg_ExpiredDelegationsLimit e = 0 then n else min (nat \<bar>sint (cfg_ExpiredDelegationsLimit e)\<bar>) n) \<and>
    mset (lock_keys w) = mset (map tl_StakingTxHashHex found) + mset (lock_keys w') \<and>
    (\<forall>lock \<in> set found. left_states w' lock) \<and> (\<forall>lock. left_states w lock \<longrightarrow> left_states w' lock) \<and>
    expirable_world w' \<and> mset (w_timelocks w') \<subseteq># mset (w_timelocks w)"
proof -
  let ?all = "find_all e (due tip) (w_timelocks w) (Suc (w_clock (tick w)))"
  let ?found = "take_limit (cfg_ExpiredDelegationsLimit e) ?all"
  have m: "mset ?found \<subseteq># filter_mset (due tip) (mset (w_timelocks w))"
    using take_limit_subset mset_find_all [OF assms(2)] by metis
  then have found: "lock \<in> set (w_timelocks w)" if "lock \<in> set ?found" for lock
    using that by (metis in_multiset_in_set mset_subset_eqD multiset_filter_subset)
  have expirable: "\<forall>lock \<in> set ?found. expirable (tick (tick w)) lock"
    using assms(3) found by (simp add: expirable_world_def expirable_def)
  have "mset ?found \<subseteq># mset (w_timelocks w)" using m by (meson multiset_filter_subset subset_mset.order_trans)
  then have sub: "mset (map tl_StakingTxHashHex ?found) \<subseteq># mset (lock_keys (tick (tick w)))"
    by (simp add: image_mset_subseteq_mono)
  have "keyed (tick (tick w))" using assms(3) by (simp add: expirable_world_def keyed_def)
  from run_expire_all [OF assms(1,2) this expirable sub] obtain w' where
    w': "run (for_each ?found (expire_one e)) (tick (tick w)) = (Ok (), w')"
      "mset (lock_keys (tick (tick w))) = mset (map tl_StakingTxHashHex ?found) + mset (lock_keys w')"
      "\<forall>lock \<in> set ?found. left_states w' lock" "\<forall>lock. left_states (tick (tick w)) lock \<longrightarrow> left_states w' lock"
      "keyed w'" "dom (docs w') = dom (docs (tick (tick w)))" "mset (w_timelocks w') \<subseteq># mset (w_timelocks (tick (tick w)))" by blast
  have tip: "run (GetTipHeight e) w = (Ok tip, tick w)"
    unfolding GetTipHeight_def by (subst run_wrap_err, subst run_client_call_Ok [where x = tip and w' = "tick w"]) (simp_all add: assms(4))
  have "run (checkExpiry e) w = (Ok (), w')"
    using w'(1) assms(1,5)
    by (simp add: checkExpiry_def tip FindExpiredDelegations_def due_def [abs_def] not_less del: andThen.simps on_error.simps)
  moreover have "length ?all = length (filter (due tip) (w_timelocks w))"
    using mset_find_all [OF assms(2), of "due tip" "w_timelocks w"] by (metis mset_filter size_mset)
  moreover have "expirable_world w'"
    using assms(3) w'(5) set_mset_mono [OF w'(7)] expirable_dom [OF w'(6)] by (auto simp: expirable_world_def expirable_def)
  ultimately show ?thesis
    using m w'(2,3,4,7) by (intro exI [of _ ?found] exI [of _ w']) (simp add: length_take_limit Let_def left_states_def)
qed




section \<open>The backlog\<close>

lemma run_poll_once: "run m w = (Ok u, w') \<Longrightarrow> run (poll_once m) w = (Ok (), w')"
  by (simp add: poll_once_def run_on_error)

lemma distinct_removed:
  assumes "distinct (map f xs)" "mset (map f xs) = mset (map f found) + mset (map f ys)"
    and "mset found \<subseteq># mset xs" "mset ys \<subseteq># mset xs"
  shows "distinct (map f ys) \<and> mset xs = mset found + mset ys"
proof -
  have inj: "inj_on f (set xs)" "distinct xs" using assms(1) by (simp_all add: distinct_map)
  have "distinct (map f (found @ ys))"
    using assms(1,2) by (metis map_append mset_append mset_eq_imp_distinct_iff)
  then have d: "distinct (found @ ys)" "distinct (map f ys)" by (auto simp: distinct_map)
  have image: "f ` set xs = f ` set (found @ ys)"
    using arg_cong [OF assms(2), of set_mset] by (simp add: image_Un)
  have "set found \<subseteq> set xs" using set_mset_mono [OF assms(3)] by simp
  then have "set (found @ ys) \<subseteq> set xs" using set_mset_mono [OF assms(4)] by simp
  then have "set xs = set (found @ ys)" using inj_on_image_eq_iff [OF inj(1) order_refl] image by blast
  then have "mset xs = mset (found @ ys)" using set_eq_iff_mset_eq_distinct [OF inj(2) d(1)] by blast
  then show ?thesis using d(2) by simp
qed

text \<open>
  What one pass does: it takes up some due locks, as many as the limit allows, and takes away as many locks with the same
  keys. When a delegation has several locks, these need not be the same ones.
\<close>

definition limit_of :: "env \<Rightarrow> nat" where
  "limit_of e = nat \<bar>sint (cfg_ExpiredDelegationsLimit e)\<bar>"

lemma limit_positive: "cfg_ExpiredDelegationsLimit e \<noteq> 0 \<Longrightarrow> 0 < limit_of e"
  by (simp add: limit_of_def signed_eq_0_iff)

definition passed :: "env \<Rightarrow> u64 \<Rightarrow> TimeLockDocument list \<Rightarrow> TimeLockDocument list \<Rightarrow> world \<Rightarrow> world \<Rightarrow> bool" where
  "passed e tip found removed w w' \<longleftrightarrow>
     mset (w_timelocks w) = mset removed + mset (w_timelocks w') \<and>
     mset (map tl_StakingTxHashHex removed) = mset (map tl_StakingTxHashHex found) \<and>
     mset found \<subseteq># mset (filter (due tip) (w_timelocks w)) \<and>
     length found = min (limit_of e) (length (filter (due tip) (w_timelocks w))) \<and>
     (\<forall>lock \<in> set found. left_states w' lock) \<and> (\<forall>lock. left_states w lock \<longrightarrow> left_states w' lock)"

lemma one_pass:
  assumes "no_faults e" "scan_ok e" "\<forall>t. btc_GetBlockCount e t = Inr tip" "0 \<le> sint tip" "cfg_ExpiredDelegationsLimit e \<noteq> 0"
    and "expirable_world w"
  obtains found removed w' where "run (poll_once (checkExpiry e)) w = (Ok (), w')" "expirable_world w'" "passed e tip found removed w w'"
proof -
  have "btc_GetBlockCount e (w_clock w) = Inr tip" using assms(3) by blast
  from run_check_expiry [OF assms(1,2,6) this assms(4)] obtain found w' where
    pass: "run (checkExpiry e) w = (Ok (), w')" "mset found \<subseteq># filter_mset (due tip) (mset (w_timelocks w))"
      "length found = (let n = length (filter (due tip) (w_timelocks w)) in
        if cfg_ExpiredDelegationsLimit e = 0 then n else min (nat \<bar>sint (cfg_ExpiredDelegationsLimit e)\<bar>) n)"
      "mset (lock_keys w) = mset (map tl_StakingTxHashHex found) + mset (lock_keys w')" "\<forall>lock \<in> set found. left_states w' lock"
      "\<forall>lock. left_states w lock \<longrightarrow> left_states w' lock" "expirable_world w'" "mset (w_timelocks w') \<subseteq># mset (w_timelocks w)"
    by blast
  obtain removed where removed: "mset removed = mset (w_timelocks w) - mset (w_timelocks w')" using ex_mset by blast
  then have split: "mset (w_timelocks w) = mset removed + mset (w_timelocks w')" using pass(8) by simp
  then have "mset (lock_keys w) = mset (map tl_StakingTxHashHex removed) + mset (lock_keys w')" by simp
  with pass(4) have "mset (map tl_StakingTxHashHex removed) = mset (map tl_StakingTxHashHex found)" by simp
  then show ?thesis
    using that [of w' found removed] run_poll_once [OF pass(1)] pass(2,3,5-7) split assms(5)
    by (simp add: passed_def limit_of_def Let_def)
qed


lemma due_in_found:
  assumes p: "passed e tip found removed w w'" and l: "lock \<in> set found"
  shows "lock \<in> set (w_timelocks w) \<and> due tip lock"
proof -
  have "mset found \<subseteq># mset (filter (due tip) (w_timelocks w))" using p unfolding passed_def by (elim conjE)
  from set_mset_mono [OF this] l show ?thesis by (simp only: set_mset_mset set_filter) blast
qed

lemma removed_keys: "passed e tip found removed w w' \<Longrightarrow> tl_StakingTxHashHex ` set removed = tl_StakingTxHashHex ` set found"
  unfolding passed_def by (metis mset_eq_setD list.set_map)

lemma passed_locks:
  assumes "passed e tip found removed w w'"
  shows "mset (w_timelocks w') \<subseteq># mset (w_timelocks w)" "set (w_timelocks w) = set removed \<union> set (w_timelocks w')"
    "length (filter P (w_timelocks w)) = length (filter P removed) + length (filter P (w_timelocks w'))"
    "length removed = length found"
proof -
  have m: "mset (w_timelocks w) = mset (removed @ w_timelocks w')" using assms by (simp add: passed_def)
  then show "mset (w_timelocks w') \<subseteq># mset (w_timelocks w)" by simp
  show "set (w_timelocks w) = set removed \<union> set (w_timelocks w')" using mset_eq_setD [OF m] by simp
  have "mset (filter P (w_timelocks w)) = mset (filter P (removed @ w_timelocks w'))" using m by simp
  from mset_eq_length [OF this]
  show "length (filter P (w_timelocks w)) = length (filter P removed) + length (filter P (w_timelocks w'))" by simp
  have "mset (map tl_StakingTxHashHex removed) = mset (map tl_StakingTxHashHex found)" using assms by (simp add: passed_def)
  from mset_eq_length [OF this] show "length removed = length found" by simp
qed

text \<open>
  Enough passes: as many as there are locks of the delegations \<open>K\<close> that have a due one, or as many as the limit needs
  for the due locks when no two locks belong to the same delegation.
\<close>

definition enough :: "env \<Rightarrow> u64 \<Rightarrow> string set \<Rightarrow> nat \<Rightarrow> world \<Rightarrow> bool" where
  "enough e tip K n w \<longleftrightarrow> filter (due tip) (w_timelocks w) = [] \<or>
     length (filter (\<lambda>lock. tl_StakingTxHashHex lock \<in> K) (w_timelocks w)) \<le> n \<or>
     distinct (lock_keys w) \<and> length (filter (due tip) (w_timelocks w)) \<le> n * limit_of e"

definition due_within :: "u64 \<Rightarrow> string set \<Rightarrow> world \<Rightarrow> bool" where
  "due_within tip K w \<longleftrightarrow> (\<forall>lock \<in> set (w_timelocks w). due tip lock \<longrightarrow> tl_StakingTxHashHex lock \<in> K)"

lemma due_within_later: "due_within tip K w \<Longrightarrow> passed e tip found removed w w' \<Longrightarrow> due_within tip K w'"
  using passed_locks(2) [of e tip found removed w w'] by (auto simp: due_within_def)

lemma enough_none: "enough e tip K 0 w \<Longrightarrow> due_within tip K w \<Longrightarrow> filter (due tip) (w_timelocks w) = []"
  by (auto simp: enough_def due_within_def filter_empty_conv)

lemma fewer_left: "D \<le> Suc m * L \<Longrightarrow> min L D + D' = D \<Longrightarrow> D' \<le> m * L" for D :: nat
  by (cases "L \<le> D") (simp_all add: min_def)

lemma enough_later:
  assumes "passed e tip found removed w w'" "due_within tip K w" "enough e tip K (Suc n) w" "0 < limit_of e"
  shows "enough e tip K n w'"
proof -
  let ?D = "length (filter (due tip) (w_timelocks w))" and ?D' = "length (filter (due tip) (w_timelocks w'))"
  note locks = passed_locks [OF assms(1)]
  have found: "length found = min (limit_of e) ?D" using assms(1) by (simp add: passed_def)
  from assms(3) consider (none) "?D = 0" | (some) "0 < ?D" "length (filter (\<lambda>lock. tl_StakingTxHashHex lock \<in> K) (w_timelocks w)) \<le> Suc n"
    | (one) "distinct (lock_keys w)" "?D \<le> Suc n * limit_of e" unfolding enough_def by fastforce
  then show ?thesis
  proof cases
    case none
    then show ?thesis using locks(2) by (auto simp: enough_def filter_empty_conv)
  next
    case some
    have "tl_StakingTxHashHex lock \<in> K" if "lock \<in> set removed" for lock
    proof -
      from that removed_keys [OF assms(1)] obtain lock' where "lock' \<in> set found" "tl_StakingTxHashHex lock = tl_StakingTxHashHex lock'"
        by (metis imageE image_eqI)
      then show ?thesis using due_in_found [OF assms(1)] assms(2) by (auto simp: due_within_def)
    qed
    then have "length (filter (\<lambda>lock. tl_StakingTxHashHex lock \<in> K) removed) = length removed" by (simp add: filter_True)
    moreover have "0 < length removed" using found some(1) assms(4) locks(4) by simp
    ultimately have "length (filter (\<lambda>lock. tl_StakingTxHashHex lock \<in> K) (w_timelocks w')) \<le> n"
      using some(2) locks(3) [of "\<lambda>lock. tl_StakingTxHashHex lock \<in> K"] by linarith
    then show ?thesis by (simp add: enough_def)
  next
    case one
    have keys: "mset (lock_keys w) = mset (map tl_StakingTxHashHex found) + mset (lock_keys w')"
      using assms(1) unfolding passed_def by (metis image_mset_union mset_map)
    have sub: "mset found \<subseteq># mset (w_timelocks w)"
      using assms(1) unfolding passed_def by (metis mset_filter multiset_filter_subset subset_mset.order_trans)
    from distinct_removed [OF one(1) keys sub locks(1)] have
      distinct: "distinct (lock_keys w')" "mset (w_timelocks w) = mset found + mset (w_timelocks w')" by simp_all
    have "filter (due tip) found = found" using due_in_found [OF assms(1)] by (simp add: filter_id_conv)
    moreover have "mset (filter (due tip) (w_timelocks w)) = mset (filter (due tip) (found @ w_timelocks w'))"
      using distinct(2) by simp
    ultimately have "length found + ?D' = ?D" using mset_eq_length by fastforce
    then have "?D' \<le> n * limit_of e" using fewer_left [OF one(2)] found by simp
    then show ?thesis using distinct(1) by (simp add: enough_def)
  qed
qed


text \<open>The due locks of \<open>w\<close> have been worked off in \<open>w'\<close>; \<open>K\<close> are the delegations that had one.\<close>

definition worked_off :: "u64 \<Rightarrow> string set \<Rightarrow> world \<Rightarrow> world \<Rightarrow> bool" where
  "worked_off tip K w w' \<longleftrightarrow> filter (due tip) (w_timelocks w') = [] \<and> mset (w_timelocks w') \<subseteq># mset (w_timelocks w) \<and>
     (\<forall>lock. tl_StakingTxHashHex lock \<notin> K \<longrightarrow> count (mset (w_timelocks w')) lock = count (mset (w_timelocks w)) lock) \<and>
     (\<forall>lock \<in> set (w_timelocks w). due tip lock \<longrightarrow> (\<exists>lock' \<in> set (w_timelocks w). due tip lock' \<and>
        tl_StakingTxHashHex lock' = tl_StakingTxHashHex lock \<and> left_states w' lock')) \<and>
     (\<forall>lock. left_states w lock \<longrightarrow> left_states w' lock)"

lemma worked_off_none: "filter (due tip) (w_timelocks w) = [] \<Longrightarrow> worked_off tip K w w"
  by (auto simp: worked_off_def filter_empty_conv)

lemma worked_off_later:
  assumes "passed e tip found removed w w1" "due_within tip K w" "worked_off tip K w1 w'"
  shows "worked_off tip K w w' \<and>
    (length (filter (due tip) (w_timelocks w)) \<le> limit_of e \<longrightarrow> (\<forall>lock \<in> set (w_timelocks w). due tip lock \<longrightarrow> left_states w' lock))"
proof -
  note locks = passed_locks [OF assms(1)]
  have left: "left_states w' lock" if "left_states w1 lock" for lock using assms(3) that by (simp add: worked_off_def)
  have taken: "left_states w' lock" if "lock \<in> set found" for lock using assms(1) left that by (simp add: passed_def)
  have outside: "count (mset (w_timelocks w')) lock = count (mset (w_timelocks w)) lock" if "tl_StakingTxHashHex lock \<notin> K" for lock
  proof -
    have "tl_StakingTxHashHex lock \<notin> tl_StakingTxHashHex ` set found"
      using that assms(2) due_in_found [OF assms(1)] by (auto simp: due_within_def)
    then have "lock \<notin> set removed" using removed_keys [OF assms(1)] by blast
    then have "count (mset removed) lock = 0" by (simp add: count_eq_zero_iff)
    then have "count (mset (w_timelocks w)) lock = count (mset (w_timelocks w1)) lock" using assms(1) by (simp add: passed_def)
    then show ?thesis using assms(3) that by (simp add: worked_off_def)
  qed
  have each: "\<exists>lock' \<in> set (w_timelocks w). due tip lock' \<and> tl_StakingTxHashHex lock' = tl_StakingTxHashHex lock \<and> left_states w' lock'"
    if "lock \<in> set (w_timelocks w)" "due tip lock" for lock
  proof (cases "lock \<in> set removed")
    case True
    then obtain lock' where "lock' \<in> set found" "tl_StakingTxHashHex lock' = tl_StakingTxHashHex lock"
      using removed_keys [OF assms(1)] by (metis imageE image_eqI)
    then show ?thesis using due_in_found [OF assms(1)] taken by blast
  next
    case False
    then have "lock \<in> set (w_timelocks w1)" using that locks(2) by blast
    then show ?thesis using assms(3) that(2) locks(2) unfolding worked_off_def by blast
  qed
  have all: "left_states w' lock"
    if "length (filter (due tip) (w_timelocks w)) \<le> limit_of e" "lock \<in> set (w_timelocks w)" "due tip lock" for lock
  proof -
    have "mset found = mset (filter (due tip) (w_timelocks w))"
    proof (rule ccontr)
      assume "mset found \<noteq> mset (filter (due tip) (w_timelocks w))"
      moreover have "mset found \<subseteq># mset (filter (due tip) (w_timelocks w))" using assms(1) unfolding passed_def by (elim conjE)
      ultimately have "mset found \<subset># mset (filter (due tip) (w_timelocks w))" by (simp only: subset_mset.less_le not_False_eq_True simp_thms)
      from mset_subset_size [OF this] have "length found < length (filter (due tip) (w_timelocks w))" by (simp only: size_mset)
      then show False using assms(1) that(1) by (simp add: passed_def)
    qed
    from mset_eq_setD [OF this] have "lock \<in> set found" using that(2,3) by simp
    then show ?thesis by (rule taken)
  qed
  have "mset (w_timelocks w') \<subseteq># mset (w_timelocks w)"
    using assms(3) locks(1) by (auto simp: worked_off_def intro: subset_mset.order_trans)
  moreover have "\<forall>lock. left_states w lock \<longrightarrow> left_states w' lock" using assms(1) left by (simp add: passed_def)
  moreover have "filter (due tip) (w_timelocks w') = []" using assms(3) by (simp add: worked_off_def)
  ultimately have "worked_off tip K w w'" unfolding worked_off_def using outside each by blast
  then show ?thesis using all by blast
qed

lemma run_expiry_rounds:
  assumes "no_faults e" "scan_ok e" "\<forall>t. btc_GetBlockCount e t = Inr tip" "0 \<le> sint tip" "cfg_ExpiredDelegationsLimit e \<noteq> 0"
  shows "expirable_world w \<Longrightarrow> due_within tip K w \<Longrightarrow> enough e tip K (Suc n) w \<Longrightarrow>
    \<exists>w'. run (poller_rounds (checkExpiry e) n) w = (Ok (), w') \<and> worked_off tip K w w' \<and>
      (length (filter (due tip) (w_timelocks w)) \<le> limit_of e \<longrightarrow> (\<forall>lock \<in> set (w_timelocks w). due tip lock \<longrightarrow> left_states w' lock))"
proof (induction n arbitrary: w)
  case (0 w)
  obtain found removed w' where pass: "run (poll_once (checkExpiry e)) w = (Ok (), w')" "expirable_world w'" "passed e tip found removed w w'"
    by (rule one_pass [OF assms 0(1)])
  have "0 < limit_of e" by (rule limit_positive [OF assms(5)])
  then have "filter (due tip) (w_timelocks w') = []"
    using enough_none [OF enough_later [OF pass(3) 0(2,3)] due_within_later [OF 0(2) pass(3)]] by blast
  from worked_off_later [OF pass(3) 0(2) worked_off_none [OF this]] show ?case using pass(1) by auto
next
  case (Suc n w)
  obtain found removed w1 where pass: "run (poll_once (checkExpiry e)) w = (Ok (), w1)" "expirable_world w1" "passed e tip found removed w w1"
    by (rule one_pass [OF assms Suc.prems(1)])
  have "0 < limit_of e" by (rule limit_positive [OF assms(5)])
  from Suc.IH [OF pass(2) due_within_later [OF Suc.prems(2) pass(3)] enough_later [OF pass(3) Suc.prems(2,3) this]] obtain w2 where
    rest: "run (poller_rounds (checkExpiry e) n) w1 = (Ok (), w2)" "worked_off tip K w1 w2" by blast
  have "run (poller_rounds (checkExpiry e) (Suc n)) w = (Ok (), w2)" using pass(1) rest(1) by simp
  with worked_off_later [OF pass(3) Suc.prems(2) rest(2)] show ?case by blast
qed


lemma worked_off_distinct:
  assumes "worked_off tip (tl_StakingTxHashHex ` {lock \<in> set (w_timelocks w). due tip lock}) w w'" "distinct (lock_keys w)"
  shows "mset (w_timelocks w') = filter_mset (\<lambda>lock. \<not> due tip lock) (mset (w_timelocks w)) \<and>
    (\<forall>lock \<in> set (w_timelocks w). due tip lock \<longrightarrow> left_states w' lock)"
proof
  let ?K = "tl_StakingTxHashHex ` {lock \<in> set (w_timelocks w). due tip lock}"
  have same: "lock = lock'"
    if "lock \<in> set (w_timelocks w)" "lock' \<in> set (w_timelocks w)" "tl_StakingTxHashHex lock = tl_StakingTxHashHex lock'" for lock lock'
    using assms(2) that by (simp add: distinct_map inj_on_def)
  have later: "filter (due tip) (w_timelocks w') = []" "mset (w_timelocks w') \<subseteq># mset (w_timelocks w)"
    using assms(1) by (simp_all add: worked_off_def)
  show "mset (w_timelocks w') = filter_mset (\<lambda>lock. \<not> due tip lock) (mset (w_timelocks w))"
  proof (rule multiset_eqI)
    fix lock
    consider (gone) "due tip lock" | (kept) "\<not> due tip lock" "lock \<in> set (w_timelocks w)" | (none) "lock \<notin> set (w_timelocks w)" by blast
    then show "count (mset (w_timelocks w')) lock = count (filter_mset (\<lambda>lock. \<not> due tip lock) (mset (w_timelocks w))) lock"
    proof cases
      case gone
      then have "lock \<notin> set (w_timelocks w')" using later(1) by (auto simp: filter_empty_conv)
      with gone show ?thesis by (simp add: count_eq_zero_iff)
    next
      case kept
      then have "tl_StakingTxHashHex lock \<notin> ?K" using same by blast
      with kept(1) assms(1) show ?thesis by (simp add: worked_off_def)
    next
      case none
      then have "lock \<notin> set (w_timelocks w')" using set_mset_mono [OF later(2)] by auto
      then have zero: "count (mset (w_timelocks w')) lock = 0" "count (mset (w_timelocks w)) lock = 0"
        using none by (simp_all add: count_eq_zero_iff)
      show ?thesis by (simp only: count_filter_mset zero if_cancel)
    qed
  qed
  show "\<forall>lock \<in> set (w_timelocks w). due tip lock \<longrightarrow> left_states w' lock"
    using assms(1) same unfolding worked_off_def by metis
qed

text \<open>
  C23. The backlog of due time locks is worked off. Let \<open>K\<close> be the delegations that have a due lock in some reachable state.
  The poller of the expiry task, run alone with no failing call and with the tip standing still, has after as many
  passes as there are locks of the delegations in \<open>K\<close> left no due lock behind. It adds no lock and takes none of another
  delegation away, and it has taken up at least one due lock of each delegation in \<open>K\<close>, so that the delegation is no longer in the
  states that this lock ends; every due lock, if the limit is not smaller than their number. When no delegation has two
  locks, as many passes as the limit needs are enough, exactly the due locks are gone, and each of them has been taken up. With two locks of
  one delegation that is not so: a lock is deleted by the hash only, which may take away another one that is not yet due.
\<close>

theorem expiry_backlog_drains:
  assumes "no_faults e" "scan_ok e" "reachable e (w, ps)"
    and "\<forall>t. btc_GetBlockCount e t = Inr tip" "0 \<le> sint tip" "0 < sint interval" "cfg_ExpiredDelegationsLimit e \<noteq> 0"
    and "K = tl_StakingTxHashHex ` {lock \<in> set (w_timelocks w). due tip lock}"
    and "length (filter (\<lambda>lock. tl_StakingTxHashHex lock \<in> K) (w_timelocks w)) \<le> Suc ticks \<or>
      distinct (map tl_StakingTxHashHex (w_timelocks w)) \<and>
      length (filter (due tip) (w_timelocks w)) \<le> Suc ticks * nat \<bar>sint (cfg_ExpiredDelegationsLimit e)\<bar>"
  shows "\<exists>w'. run (Poller_Start (NewPoller interval (checkExpiry e)) ticks) w = (Ok (), w') \<and>
    filter (due tip) (w_timelocks w') = [] \<and> mset (w_timelocks w') \<subseteq># mset (w_timelocks w) \<and>
    (\<forall>lock. tl_StakingTxHashHex lock \<notin> K \<longrightarrow> count (mset (w_timelocks w')) lock = count (mset (w_timelocks w)) lock) \<and>
    (\<forall>lock \<in> set (w_timelocks w). due tip lock \<longrightarrow> (\<exists>lock' \<in> set (w_timelocks w). due tip lock' \<and>
       tl_StakingTxHashHex lock' = tl_StakingTxHashHex lock \<and> left_states w' lock')) \<and>
    (length (filter (due tip) (w_timelocks w)) \<le> nat \<bar>sint (cfg_ExpiredDelegationsLimit e)\<bar> \<longrightarrow>
       (\<forall>lock \<in> set (w_timelocks w). due tip lock \<longrightarrow> left_states w' lock)) \<and>
    (distinct (map tl_StakingTxHashHex (w_timelocks w)) \<longrightarrow>
       mset (w_timelocks w') = filter_mset (\<lambda>lock. \<not> due tip lock) (mset (w_timelocks w)) \<and>
       (\<forall>lock \<in> set (w_timelocks w). due tip lock \<longrightarrow> left_states w' lock))"
proof -
  have poll: "run (Poller_Start (NewPoller interval (checkExpiry e)) ticks) w = run (poller_rounds (checkExpiry e) ticks) w"
    using assms(6) by (simp add: Poller_Start_def NewPoller_def)
  have "due_within tip K w" using assms(8) by (auto simp: due_within_def)
  moreover have "enough e tip K (Suc ticks) w" using assms(9) by (auto simp: enough_def limit_of_def)
  ultimately obtain w' where w': "run (poller_rounds (checkExpiry e) ticks) w = (Ok (), w')" "worked_off tip K w w'"
    "length (filter (due tip) (w_timelocks w)) \<le> limit_of e \<longrightarrow> (\<forall>lock \<in> set (w_timelocks w). due tip lock \<longrightarrow> left_states w' lock)"
    using run_expiry_rounds [OF assms(1,2,4,5,7) good_expirable_world [OF reachable_good [OF assms(2,3)]]] by blast
  note distinct = worked_off_distinct [OF w'(2) [unfolded assms(8)]]
  show ?thesis
    using w'(1,3) w'(2) [unfolded worked_off_def] distinct unfolding poll limit_of_def by (intro exI [of _ w']) blast
qed

text \<open>Two locks of one delegation, as a replayed event leaves them.\<close>

definition replayed_lock_world :: world where
  "replayed_lock_world = snd (run (process_item sample_env (sample_item 3 [EventBTCDelegationUnbondedEarly])) unbonding_world)"

lemma replayed_lock_world:
  "w_timelocks replayed_lock_world = [NewTimeLockDocument ''h'' 57 SubStateEarlyUnbonding, NewTimeLockDocument ''h'' 57 SubStateEarlyUnbonding]"
  by (simp add: replayed_lock_world_def unbonding_world_eq active_world_eq created_world_eq sample_delegation_defs sample_job_def
      prog_eval sample_eval del: andThen.simps on_error.simps retry_from.simps cong: continue_cong)

lemma replayed_lock_reachable: "\<exists>ps. reachable sample_env (replayed_lock_world, ps)"
proof -
  have "sample_path unbonding_world replayed_lock_world"
    unfolding replayed_lock_world_def by (intro sample_path_run start_rules)
  then show ?thesis using reachable_path sample_paths sample_path_trans by blast
qed

theorem expiry_backlog_drains_witness:
  "\<exists>w'. run (Poller_Start (NewPoller 10 (checkExpiry sample_env)) 1) replayed_lock_world = (Ok (), w') \<and>
    w_timelocks w' = [] \<and> left_states w' (NewTimeLockDocument ''h'' 57 SubStateEarlyUnbonding)"
proof -
  obtain ps where ps: "reachable sample_env (replayed_lock_world, ps)" using replayed_lock_reachable by blast
  let ?lock = "NewTimeLockDocument ''h'' 57 SubStateEarlyUnbonding"
  have due: "due 200 ?lock" "tl_StakingTxHashHex ?lock = ''h''" by (simp_all add: due_def NewTimeLockDocument_def)
  then have K: "{''h''} = tl_StakingTxHashHex ` {lock \<in> set (w_timelocks replayed_lock_world). due 200 lock}"
    and few: "length (filter (\<lambda>lock. tl_StakingTxHashHex lock \<in> {''h''}) (w_timelocks replayed_lock_world)) \<le> Suc 1"
    unfolding replayed_lock_world by auto
  have tip: "\<forall>t. btc_GetBlockCount sample_env t = Inr 200" "0 \<le> sint (200 :: u64)" "0 < sint (10 :: i64)"
    "cfg_ExpiredDelegationsLimit sample_env \<noteq> 0" by simp_all
  from expiry_backlog_drains [OF sample_env_ok(2,1) ps tip K disjI1 [OF few]] obtain w' where
    w': "run (Poller_Start (NewPoller 10 (checkExpiry sample_env)) 1) replayed_lock_world = (Ok (), w')"
      "filter (due 200) (w_timelocks w') = []" "mset (w_timelocks w') \<subseteq># mset (w_timelocks replayed_lock_world)"
      "\<exists>lock' \<in> set (w_timelocks replayed_lock_world). left_states w' lock'"
    using due(1) unfolding replayed_lock_world by fastforce
  have "set (w_timelocks w') \<subseteq> {?lock}" using set_mset_mono [OF w'(3)] by (simp add: replayed_lock_world)
  then have "w_timelocks w' = []" using w'(2) due(1) by (cases "w_timelocks w'") auto
  moreover have "left_states w' ?lock" using w'(4) by (simp add: replayed_lock_world)
  ultimately show ?thesis using w'(1) by blast
qed

text \<open>
  A lock that is not due may be lost: the delegation is SLASHED, the lock of its early unbonding is due, and the server
  finds the lock of its slashing first when it deletes by the hash. The second pass deletes the other one; no lock is left, and nothing
  will make the delegation WITHDRAWABLE.
\<close>

definition crossed_env :: env where
  "crossed_env = sample_env\<lparr>mongo_order := (\<lambda>t n. rev [0..<n]), btc_GetBlockCount := (\<lambda>t. Inr 58)\<rparr>"

definition crossed_world :: world where
  "crossed_world = unbonding_world\<lparr>
     w_delegations := [unbonding_delegation\<lparr>d_State := StateSlashed, d_SubState := SubStateEarlyUnbondingSlashing\<rparr>],
     w_timelocks := [NewTimeLockDocument ''h'' 57 SubStateEarlyUnbonding, NewTimeLockDocument ''h'' 72 SubStateEarlyUnbondingSlashing]\<rparr>"

lemma lock_not_due_is_lost:
  "scan_ok crossed_env \<and>
   w_timelocks (snd (run (poller_rounds (checkExpiry crossed_env) 0) crossed_world)) = [NewTimeLockDocument ''h'' 57 SubStateEarlyUnbonding] \<and>
   w_timelocks (snd (run (poller_rounds (checkExpiry crossed_env) 1) crossed_world)) = [] \<and>
   map d_State (w_delegations (snd (run (poller_rounds (checkExpiry crossed_env) 1) crossed_world))) = [StateSlashed]"
proof -
  have env: "mongo_fault crossed_env = (\<lambda>t. None)" "mongo_order crossed_env = (\<lambda>t n. rev [0..<n])"
    "btc_GetBlockCount crossed_env = (\<lambda>t. Inr 58)" "cfg_BTC_MaxRetryTimes crossed_env = 1" "cfg_ExpiredDelegationsLimit crossed_env = 10"
    by (simp_all add: crossed_env_def)
  have pass: "run (poll_once (checkExpiry crossed_env)) crossed_world =
      (Ok (), crossed_world\<lparr>w_timelocks := [NewTimeLockDocument ''h'' 57 SubStateEarlyUnbonding], w_clock := 26\<rparr>)"
    "run (poll_once (checkExpiry crossed_env)) (crossed_world\<lparr>w_timelocks := [NewTimeLockDocument ''h'' 57 SubStateEarlyUnbonding], w_clock := 26\<rparr>) =
      (Ok (), crossed_world\<lparr>w_timelocks := [], w_clock := 31\<rparr>)"
    by (simp_all add: crossed_world_def unbonding_world_eq active_world_eq created_world_eq sample_delegation_defs sample_job_def env
      prog_eval sample_eval poll_once_def checkExpiry_def expire_one_def GetTipHeight_def find_all_def scan_def take_limit_def
      remove_at_def del: andThen.simps on_error.simps retry_from.simps cong: continue_cong)
  have "scan_ok crossed_env" by (simp add: scan_ok_def env)
  then show ?thesis using pass by (simp add: crossed_world_def One_nat_def del: andThen.simps)
qed


end
