(* ===== verification/Stats_Spec.thy ===== *)
theory Stats_Spec
  imports Expiry_Spec
begin

text \<open>
  The statistics task: the two aggregation pipelines and the upserts compute the active value and the number of
  active delegations, overall and for each finality provider.
\<close>

section \<open>Grouping\<close>

lemma find_doc_perm:
  assumes "mset xs = mset ys" "distinct (map key ys)"
  shows "find_doc key k xs = find_doc key k ys" "distinct (map key xs)"
proof -
  have s: "set xs = set ys" using assms(1) by (rule mset_eq_setD)
  have "mset (map key xs) = mset (map key ys)" using assms(1) by simp
  then show d: "distinct (map key xs)" using assms(2) mset_eq_imp_distinct_iff by blast
  show "find_doc key k xs = find_doc key k ys"
  proof (cases "find_doc key k ys")
    case None
    then have "k \<notin> key ` set xs" using s by (simp add: find_doc_None_iff)
    then have "find_doc key k xs = None" by (simp only: find_doc_None_iff not_False_eq_True)
    with None show ?thesis by simp
  next
    case (Some x)
    then have "x \<in> set xs" "key x = k" using find_doc_SomeD [OF Some] s by simp_all
    then show ?thesis using Some find_doc_distinct [OF d] by auto
  qed
qed

lemma group_fps_keys: "map fs_FpBtcPkHex (group_fps rows) = remdups (map fst rows)"
  by (simp add: group_fps_def Let_def comp_def)

lemma lookup_group:
  "find_doc fs_FpBtcPkHex k (group_fps rows) =
     (let amounts = map snd (filter (\<lambda>r. fst r = k) rows) in
      if amounts = [] then None
      else Some \<lparr>fs_FpBtcPkHex = k, fs_ActiveTvl = sum_list amounts, fs_ActiveDelegations = word_of_nat (length amounts)\<rparr>)"
proof (cases "k \<in> fst ` set rows")
  case True
  let ?doc = "let amounts = map snd (filter (\<lambda>r. fst r = k) rows) in
    \<lparr>fs_FpBtcPkHex = k, fs_ActiveTvl = sum_list amounts, fs_ActiveDelegations = word_of_nat (length amounts)\<rparr>"
  have "?doc \<in> set (group_fps rows)" using True by (auto simp: group_fps_def)
  moreover have "distinct (map fs_FpBtcPkHex (group_fps rows))" by (simp add: group_fps_keys)
  ultimately have "find_doc fs_FpBtcPkHex (fs_FpBtcPkHex ?doc) (group_fps rows) = Some ?doc" by (intro find_doc_distinct)
  moreover have "filter (\<lambda>r. fst r = k) rows \<noteq> []" using True by (auto simp: filter_empty_conv)
  ultimately show ?thesis by (simp add: Let_def)
next
  case False
  then have "k \<notin> fs_FpBtcPkHex ` set (group_fps rows)"
    using arg_cong [OF group_fps_keys [of rows], of set] by simp
  moreover have "filter (\<lambda>r. fst r = k) rows = []" using False by (auto simp: filter_empty_conv)
  ultimately show ?thesis by (simp add: find_doc_None_iff)
qed

text \<open>The delegations to a finality provider, its key compared without regard to case.\<close>

definition delegated_to :: "string \<Rightarrow> BTCDelegationDetails list \<Rightarrow> BTCDelegationDetails list" where
  "delegated_to k ds = filter (\<lambda>d. k \<in> toLower ` set (d_FinalityProviderBtcPksHex d)) ds"

lemma filter_one:
  assumes "distinct (map f xs)"
  shows "filter (\<lambda>r. fst r = k) (map (\<lambda>x. (f x, a)) xs) = (if k \<in> f ` set xs then [(k, a)] else [])"
  using assms
proof (induction xs)
  case (Cons x xs)
  then show ?case by (auto simp: image_iff)
qed simp

lemma rows_of_fp:
  assumes "\<forall>d \<in> set ds. distinct (map toLower (d_FinalityProviderBtcPksHex d))"
  shows "filter (\<lambda>r. fst r = k) (unwind_fps ds) = map (\<lambda>d. (k, d_StakingAmount d)) (delegated_to k ds)"
  using assms
proof (induction ds)
  case (Cons d ds)
  then show ?case by (simp add: unwind_fps_def delegated_to_def filter_one)
qed (simp add: unwind_fps_def delegated_to_def)

section \<open>The upserts\<close>

lemma run_upserts:
  assumes "no_faults e" "distinct (map fs_FpBtcPkHex stats)"
  shows "distinct (map fs_FpBtcPkHex (w_fp_stats w)) \<Longrightarrow>
    \<exists>w'. run (for_each stats (\<lambda>fpStat. wrap_err msg (UpsertFinalityProviderStats e (fs_FpBtcPkHex fpStat) (fs_ActiveTvl fpStat)
        (fs_ActiveDelegations fpStat)))) w = (Ok (), w') \<and>
      w_overall_stats w' = w_overall_stats w \<and> w_delegations w' = w_delegations w \<and>
      (\<forall>k. find_doc fs_FpBtcPkHex k (w_fp_stats w') =
        (case find_doc fs_FpBtcPkHex k stats of Some s \<Rightarrow> Some s | None \<Rightarrow> find_doc fs_FpBtcPkHex k (w_fp_stats w)))"
  using assms(2)
proof (induction stats arbitrary: w)
  case Nil
  then show ?case by (simp add: find_doc_def)
next
  case (Cons s stats)
  have s: "\<lparr>fs_FpBtcPkHex = fs_FpBtcPkHex s, fs_ActiveTvl = fs_ActiveTvl s, fs_ActiveDelegations = fs_ActiveDelegations s\<rparr> = s" by simp
  let ?w1 = "(tick w)\<lparr>w_fp_stats := upsert_doc fs_FpBtcPkHex s (w_fp_stats w)\<rparr>"
  note up = lookup_upsert [OF Cons.prems(1), where d = s]
  have step: "run (wrap_err msg (UpsertFinalityProviderStats e (fs_FpBtcPkHex s) (fs_ActiveTvl s) (fs_ActiveDelegations s))) w = (Ok (), ?w1)"
    using assms(1) by (simp add: UpsertFinalityProviderStats_def s)
  have "distinct (map fs_FpBtcPkHex (w_fp_stats ?w1))" using up(2) by simp
  from Cons.IH [OF this] Cons.prems(2) obtain w' where w':
    "run (for_each stats (\<lambda>fpStat. wrap_err msg (UpsertFinalityProviderStats e (fs_FpBtcPkHex fpStat) (fs_ActiveTvl fpStat)
        (fs_ActiveDelegations fpStat)))) ?w1 = (Ok (), w')"
    "w_overall_stats w' = w_overall_stats w" "w_delegations w' = w_delegations w"
    "\<forall>k. find_doc fs_FpBtcPkHex k (w_fp_stats w') =
        (case find_doc fs_FpBtcPkHex k stats of Some s \<Rightarrow> Some s | None \<Rightarrow> find_doc fs_FpBtcPkHex k (w_fp_stats ?w1))" by auto
  have "find_doc fs_FpBtcPkHex (fs_FpBtcPkHex s) stats = None" using Cons.prems(2) by (simp add: find_doc_None_iff)
  then have "(case find_doc fs_FpBtcPkHex k stats of Some s \<Rightarrow> Some s | None \<Rightarrow> find_doc fs_FpBtcPkHex k (w_fp_stats ?w1)) =
      (case find_doc fs_FpBtcPkHex k (s # stats) of Some s \<Rightarrow> Some s | None \<Rightarrow> find_doc fs_FpBtcPkHex k (w_fp_stats w))" for k
    using up(1) by (auto simp: find_doc_def split: option.splits)
  with step w' show ?case by simp
qed

text \<open>
  C32. The statistics are right when no call fails: the overall document holds the sum of the amounts and the
  number of the active delegations; the document of a finality provider that has active delegations holds those
  of the delegations that name it, whatever the case of the key; a provider without active delegations keeps
  the document it had, and without any active delegation nothing is written.
\<close>

theorem stats_are_aggregated:
  assumes "no_faults e" "scan_ok e" "distinct (map fs_FpBtcPkHex (w_fp_stats w))"
    and "active = match_active (w_delegations w)" "length active < 2 ^ 64"
    and "\<forall>d \<in> set active. distinct (map toLower (d_FinalityProviderBtcPksHex d))"
  shows "\<exists>w'. run (calculateAndUpdateStats e) w = (Ok (), w') \<and> w_delegations w' = w_delegations w \<and>
    w_overall_stats w' = (if active = [] then w_overall_stats w
      else Some \<lparr>os_ActiveTvl = sum_list (map d_StakingAmount active), os_ActiveDelegations = word_of_nat (length active)\<rparr>) \<and>
    (\<forall>k. find_doc fs_FpBtcPkHex k (w_fp_stats w') =
      (if delegated_to k active = [] then find_doc fs_FpBtcPkHex k (w_fp_stats w)
       else Some \<lparr>fs_FpBtcPkHex = k, fs_ActiveTvl = sum_list (map d_StakingAmount (delegated_to k active)),
              fs_ActiveDelegations = word_of_nat (length (delegated_to k active))\<rparr>))"
proof (cases "active = []")
  case True
  then have "run (calculateAndUpdateStats e) w = (Ok (), tick w)"
    using assms(1,4) by (simp add: calculateAndUpdateStats_def CalculateActiveStatsAggregated_def Let_def)
  with True show ?thesis by (simp add: delegated_to_def)
next
  case False
  have nonzero: "(word_of_nat (length active) :: u64) \<noteq> 0"
    using False assms(5) word_of_nat_eq_iff [of "length active" 0, where 'a = 64] by (simp add: take_bit_nat_eq_self)
  let ?all = "find_all e (\<lambda>_. True) (group_fps (unwind_fps active)) (w_clock (tick (tick w)))"
  let ?overall = "\<lparr>os_ActiveTvl = sum_list (map d_StakingAmount active), os_ActiveDelegations = word_of_nat (length active)\<rparr>"
  let ?w1 = "(tick (tick (tick w)))\<lparr>w_overall_stats := Some ?overall\<rparr>"
  have perm: "mset ?all = mset (group_fps (unwind_fps active))" using mset_find_all [OF assms(2), of "\<lambda>_. True"] by simp
  have "distinct (map fs_FpBtcPkHex (group_fps (unwind_fps active)))" by (simp add: group_fps_keys)
  note look = find_doc_perm [OF perm this]
  have "distinct (map fs_FpBtcPkHex (w_fp_stats ?w1))" using assms(3) by simp
  from run_upserts [OF assms(1) look(2) this] obtain w' where raw:
    "run (for_each ?all (\<lambda>fpStat. wrap_err ''failed to upsert finality provider stats''
      (UpsertFinalityProviderStats e (fs_FpBtcPkHex fpStat) (fs_ActiveTvl fpStat) (fs_ActiveDelegations fpStat)))) ?w1 = (Ok (), w')"
    "w_overall_stats w' = w_overall_stats ?w1" "w_delegations w' = w_delegations ?w1"
    "\<forall>k. find_doc fs_FpBtcPkHex k (w_fp_stats w') =
        (case find_doc fs_FpBtcPkHex k ?all of Some s \<Rightarrow> Some s | None \<Rightarrow> find_doc fs_FpBtcPkHex k (w_fp_stats ?w1))"
    by blast
  have same: "w_fp_stats ?w1 = w_fp_stats w" "w_overall_stats ?w1 = Some ?overall" "w_delegations ?w1 = w_delegations w" by simp_all
  from raw have w': "w_overall_stats w' = Some ?overall" "w_delegations w' = w_delegations w"
    "\<And>k. find_doc fs_FpBtcPkHex k (w_fp_stats w') =
        (case find_doc fs_FpBtcPkHex k ?all of Some s \<Rightarrow> Some s | None \<Rightarrow> find_doc fs_FpBtcPkHex k (w_fp_stats w))"
    unfolding same by blast+
  have "run (calculateAndUpdateStats e) w = (Ok (), w')"
    using assms(1) nonzero raw(1) unfolding calculateAndUpdateStats_def CalculateActiveStatsAggregated_def
    by (simp add: Let_def UpsertOverallStats_def flip: assms(4) del: for_each.simps)
  moreover have "find_doc fs_FpBtcPkHex k ?all = (if delegated_to k active = [] then None
      else Some \<lparr>fs_FpBtcPkHex = k, fs_ActiveTvl = sum_list (map d_StakingAmount (delegated_to k active)),
              fs_ActiveDelegations = word_of_nat (length (delegated_to k active))\<rparr>)" for k
    unfolding look(1) by (simp add: lookup_group rows_of_fp [OF assms(6)] Let_def comp_def)
  ultimately show ?thesis using False w' by (intro exI [of _ w']) simp
qed

theorem stats_are_aggregated_witness:
  "\<exists>w'. run (calculateAndUpdateStats sample_env) active_world = (Ok (), w') \<and>
     w_overall_stats w' = Some \<lparr>os_ActiveTvl = 50000, os_ActiveDelegations = 1\<rparr> \<and>
     find_doc fs_FpBtcPkHex ''fp1'' (w_fp_stats w') =
       Some \<lparr>fs_FpBtcPkHex = ''fp1'', fs_ActiveTvl = 50000, fs_ActiveDelegations = 1\<rparr>"
proof -
  have none: "distinct (map fs_FpBtcPkHex (w_fp_stats active_world))" by (simp add: active_world_eq created_world_eq initial_world_def)
  have active: "[active_delegation] = match_active (w_delegations active_world)"
    by (simp add: match_active_def sample_worlds sample_delegation_defs)
  have own: "delegated_to ''fp1'' [active_delegation] = [active_delegation]"
    by (simp add: delegated_to_def sample_delegation_defs toLower_def ascii_lower_def)
  have d: "d_StakingAmount active_delegation = 50000" "d_FinalityProviderBtcPksHex active_delegation = [''fp1'']"
    by (simp_all add: sample_delegation_defs)
  from stats_are_aggregated [OF sample_env_ok(2,1) none active] d obtain w' where
    w': "run (calculateAndUpdateStats sample_env) active_world = (Ok (), w')"
      "w_overall_stats w' = Some \<lparr>os_ActiveTvl = 50000, os_ActiveDelegations = 1\<rparr>"
      "\<forall>k. find_doc fs_FpBtcPkHex k (w_fp_stats w') =
        (if delegated_to k [active_delegation] = [] then find_doc fs_FpBtcPkHex k (w_fp_stats active_world)
         else Some \<lparr>fs_FpBtcPkHex = k, fs_ActiveTvl = sum_list (map d_StakingAmount (delegated_to k [active_delegation])),
              fs_ActiveDelegations = word_of_nat (length (delegated_to k [active_delegation]))\<rparr>)" by auto
  then show ?thesis using spec [OF w'(3), of "''fp1''"] by (simp add: own d)
qed

end
