(* ===== verification/Script_Spec.thy ===== *)
theory Script_Spec
  imports Event_Effects
begin

text \<open>
  How a spending transaction is classified, and what the watcher of a staking output does when the delegation
  has been slashed before.
\<close>

section \<open>The registered unbonding transaction\<close>

text \<open>The point of the curve that a key in hexadecimal stands for.\<close>

definition point_of :: "env \<Rightarrow> string \<Rightarrow> bytes option" where
  "point_of e hex = (case lib_NewBIP340PubKeyFromHex e hex of Inl msg \<Rightarrow> None | Inr pk \<Rightarrow> lib_MustToBTCPK e pk)"

lemma key_point:
  "bind_result (wrap_result msg (of_lib (lib_NewBIP340PubKeyFromHex e hex))) (MustToBTCPK e) = Ok pk \<Longrightarrow> point_of e hex = Some pk"
  by (cases "lib_NewBIP340PubKeyFromHex e hex") (auto simp: point_of_def MustToBTCPK_def split: option.splits)

lemma staker_point:
  "parse_staker_pk e d = Ok pk \<Longrightarrow> MustToBTCPK e pk = Ok staker \<Longrightarrow> point_of e (d_StakerBtcPkHex d) = Some staker"
  by (rule key_point) (simp add: parse_staker_pk_def)

lemma parse_pks_points: "parse_pks e msg hexes = Ok pks \<Longrightarrow> map (point_of e) hexes = map Some pks"
  unfolding parse_pks_def map_result_eq_Ok by (induction rule: list_all2_induct) (simp_all only: list.map key_point)

text \<open>
  C26. An unbonding output is accepted only for the registered unbonding transaction: its hash is that of the
  transaction that Babylon registered, its first input is final and it has no lock time, and its first output
  is the output that the staking library builds from the key of the staker, the keys of the finality providers and the
  unbonding time of the delegation, from the covenant keys and the quorum of the parameters, for the network of the
  configuration and for the staking value less the unbonding fee, which is positive.
\<close>

theorem accepted_unbonding_is_registered:
  assumes "validateUnbondingTxOutput e tx delegation params = Ok True"
  shows "\<exists>stakingTx value info args registered bytes.
    DeserializeBtcTransactionFromHex (lib_Deserialize e) (d_StakingTxHex delegation) = Ok stakingTx \<and>
    value = to_Value (tx_TxOut stakingTx ! unat (d_StakingOutputIdx delegation)) - sp_UnbondingFeeSat params \<and> 0 < sint value \<and>
    point_of e (d_StakerBtcPkHex delegation) = Some (sa_StakerPk args) \<and>
    map (point_of e) (d_FinalityProviderBtcPksHex delegation) = map Some (sa_FinalityProviderPks args) \<and>
    map (point_of e) (sp_CovenantPks params) = map Some (sa_CovenantPks args) \<and>
    sa_CovenantQuorum args = sp_CovenantQuorum params \<and> sa_LockTime args = to_uint16 (d_UnbondingTime delegation) \<and>
    sa_Value args = value \<and> GetBTCParams (cfg_NetParams e) = Ok (sa_Net args) \<and> lib_BuildUnbondingInfo e args = Inr info \<and>
    ti_Sequence (hd (tx_TxIn tx)) = 0xFFFFFFFF \<and> tx_LockTime tx = 0 \<and>
    hd (tx_TxOut tx) = ui_UnbondingOutput info \<and>
    hex_DecodeString (d_UnbondingTx delegation) = Ok bytes \<and> lib_NewBTCTxFromBytes e bytes = Inr registered \<and>
    lib_TxHash e tx = lib_TxHash e registered"
proof -
  have out: "to_PkScript o1 = to_PkScript o2 \<Longrightarrow> to_Value o1 = to_Value o2 \<Longrightarrow> o1 = o2" for o1 o2 :: TxOut by simp
  from assms obtain stakingTx sk fps covs net staker info bytes registered where *:
    "DeserializeBtcTransactionFromHex (lib_Deserialize e) (d_StakingTxHex delegation) = Ok stakingTx"
    "ti_Sequence (tx_TxIn tx ! 0) = 0xFFFFFFFF" "tx_LockTime tx = 0" "tx_TxIn tx \<noteq> []" "tx_TxOut tx \<noteq> []"
    "0 < sint (to_Value (tx_TxOut stakingTx ! unat (d_StakingOutputIdx delegation)) - sp_UnbondingFeeSat params)"
    "lib_BuildUnbondingInfo e \<lparr>sa_StakerPk = staker, sa_FinalityProviderPks = fps, sa_CovenantPks = covs,
       sa_CovenantQuorum = sp_CovenantQuorum params, sa_LockTime = to_uint16 (d_UnbondingTime delegation),
       sa_Value = to_Value (tx_TxOut stakingTx ! unat (d_StakingOutputIdx delegation)) - sp_UnbondingFeeSat params, sa_Net = net\<rparr> = Inr info"
    "to_PkScript (tx_TxOut tx ! 0) = to_PkScript (ui_UnbondingOutput info)" "to_Value (tx_TxOut tx ! 0) = to_Value (ui_UnbondingOutput info)"
    "hex_DecodeString (d_UnbondingTx delegation) = Ok bytes" "lib_NewBTCTxFromBytes e bytes = Inr registered"
    "lib_TxHash e registered = lib_TxHash e tx"
    and keys: "parse_staker_pk e delegation = Ok sk" "MustToBTCPK e sk = Ok staker" "GetBTCParams (cfg_NetParams e) = Ok net"
      "parse_pks e fp_pk_msg (d_FinalityProviderBtcPksHex delegation) = Ok fps" "parse_pks e fp_pk_msg (sp_CovenantPks params) = Ok covs"
    by (auto simp: validateUnbondingTxOutput_def staking_value_def Let_def split: if_splits)
  from *(4,5) out [OF *(8,9)] have "hd (tx_TxIn tx) = tx_TxIn tx ! 0" "hd (tx_TxOut tx) = ui_UnbondingOutput info"
    by (simp_all add: hd_conv_nth)
  with * keys(3) staker_point [OF keys(1,2)] keys(4,5) [THEN parse_pks_points] show ?thesis
    by (intro exI [of _ stakingTx] exI [of _ info] exI [of _ registered] exI [of _ bytes]
      exI [of _ "to_Value (tx_TxOut stakingTx ! unat (d_StakingOutputIdx delegation)) - sp_UnbondingFeeSat params"]
      exI [of _ "\<lparr>sa_StakerPk = staker, sa_FinalityProviderPks = fps, sa_CovenantPks = covs,
       sa_CovenantQuorum = sp_CovenantQuorum params, sa_LockTime = to_uint16 (d_UnbondingTime delegation),
       sa_Value = to_Value (tx_TxOut stakingTx ! unat (d_StakingOutputIdx delegation)) - sp_UnbondingFeeSat params, sa_Net = net\<rparr>"])
      simp
qed

definition unbonding_tx :: MsgTx where
  "unbonding_tx = \<lparr>tx_TxIn = [\<lparr>ti_PreviousOutPoint = \<lparr>op_Hash = ''h'', op_Index = 0\<rparr>, ti_Witness = [[11], [0]], ti_Sequence = 0xFFFFFFFF\<rparr>],
     tx_TxOut = [\<lparr>to_Value = 49900, to_PkScript = [20]\<rparr>], tx_LockTime = 0\<rparr>"

lemma unbonding_tx_accepted:
  "validateUnbondingTxOutput sample_env unbonding_tx active_delegation (FromBbnStakingParams sample_params) = Ok True"
  by (simp add: validateUnbondingTxOutput_def unbonding_tx_def sample_delegation_defs watch_eval prog_eval params_eval sample_tx_def
      to_uint16_def)

theorem accepted_unbonding_is_registered_witness:
  "hex_DecodeString (d_UnbondingTx active_delegation) = Ok [0x0b] \<and> hd (tx_TxOut unbonding_tx) = \<lparr>to_Value = 49900, to_PkScript = [20]\<rparr>"
  using accepted_unbonding_is_registered [OF unbonding_tx_accepted]
  by (auto simp: unbonding_tx_def sample_delegation_defs hex_digit_def)

section \<open>The paths exclude each other\<close>

lemma parse_pks_eq_Ok: "parse_pks e msg hexes = Ok ys \<longleftrightarrow> parse_pks e covenant_pk_msg hexes = Ok ys"
  by (simp add: parse_pks_def map_result_eq_Ok)

text \<open>The staking information that all checks of a staking output are made from.\<close>

definition staking_info_of :: "env \<Rightarrow> BTCDelegationDetails \<Rightarrow> StakingParams \<Rightarrow> StakingInfo \<Rightarrow> bool" where
  "staking_info_of e d params info \<longleftrightarrow> (\<exists>sk fps covs net stakingTx value staker.
     parse_staker_pk e d = Ok sk \<and> parse_pks e covenant_pk_msg (d_FinalityProviderBtcPksHex d) = Ok fps \<and>
     parse_pks e covenant_pk_msg (sp_CovenantPks params) = Ok covs \<and> GetBTCParams (cfg_NetParams e) = Ok net \<and>
     DeserializeBtcTransactionFromHex (lib_Deserialize e) (d_StakingTxHex d) = Ok stakingTx \<and>
     staking_value d stakingTx = Ok value \<and> MustToBTCPK e sk = Ok staker \<and>
     lib_BuildStakingInfo e \<lparr>sa_StakerPk = staker, sa_FinalityProviderPks = fps, sa_CovenantPks = covs,
       sa_CovenantQuorum = sp_CovenantQuorum params, sa_LockTime = to_uint16 (d_StakingTime d),
       sa_Value = value, sa_Net = net\<rparr> = Inr info)"

lemma staking_info_unique: "staking_info_of e d params info \<Longrightarrow> staking_info_of e d params info' \<Longrightarrow> info = info'"
  unfolding staking_info_of_def by auto

lemma staking_path_Ok:
  "staking_path e d params path msg = Ok script \<Longrightarrow> \<exists>info. staking_info_of e d params info \<and> path info = Inr script"
  unfolding staking_path_def staking_info_of_def using parse_pks_eq_Ok by fastforce

lemma unbonding_check_Ok:
  assumes "isSpendingStakingTxUnbondingPath e tx d params = Ok True"
  shows "\<exists>info script. staking_info_of e d params info \<and> si_UnbondingPath info = Inr script \<and> unlocks tx 0 script = Ok True"
proof -
  from assms obtain stakingTx sk fps covs net amount staker info script where
    "DeserializeBtcTransactionFromHex (lib_Deserialize e) (d_StakingTxHex d) = Ok stakingTx" "parse_staker_pk e d = Ok sk"
    "parse_pks e fp_pk_msg (d_FinalityProviderBtcPksHex d) = Ok fps" "parse_pks e fp_pk_msg (sp_CovenantPks params) = Ok covs"
    "GetBTCParams (cfg_NetParams e) = Ok net" "staking_value d stakingTx = Ok amount" "MustToBTCPK e sk = Ok staker"
    "lib_BuildStakingInfo e \<lparr>sa_StakerPk = staker, sa_FinalityProviderPks = fps, sa_CovenantPks = covs,
       sa_CovenantQuorum = sp_CovenantQuorum params, sa_LockTime = to_uint16 (d_StakingTime d),
       sa_Value = amount, sa_Net = net\<rparr> = Inr info" "si_UnbondingPath info = Inr script" "unlocks tx 0 script = Ok True"
    by (auto simp: isSpendingStakingTxUnbondingPath_def Let_def split: if_splits)
  then show ?thesis unfolding staking_info_of_def using parse_pks_eq_Ok by blast
qed

lemma staking_check_Ok:
  "isSpendingStakingTxTimeLockPath e tx i d params = Ok True \<Longrightarrow>
     \<exists>info script. staking_info_of e d params info \<and> si_TimeLockPath info = Inr script \<and> unlocks tx (unat i) script = Ok True"
  "isSpendingStakingTxSlashingPath e tx i d params = Ok True \<Longrightarrow>
     \<exists>info script. staking_info_of e d params info \<and> si_SlashingPath info = Inr script \<and> unlocks tx (unat i) script = Ok True"
  unfolding isSpendingStakingTxTimeLockPath_def isSpendingStakingTxSlashingPath_def
  using staking_path_Ok by fastforce+

lemma unlocks_unique: "unlocks tx i s = Ok True \<Longrightarrow> unlocks tx i s' = Ok True \<Longrightarrow> s = s'"
  by (simp add: unlocks_eq_Ok)

lemma unbonding_output_exclusive:
  assumes "\<And>args info. lib_BuildUnbondingInfo e args = Inr info \<Longrightarrow> ui_TimeLockPath info \<noteq> ui_SlashingPath info"
  shows "\<not> (isSpendingUnbondingTxTimeLockPath e tx d i params = Ok True \<and> isSpendingUnbondingTxSlashingPath e tx d i params = Ok True)"
  unfolding isSpendingUnbondingTxTimeLockPath_def isSpendingUnbondingTxSlashingPath_def unbonding_path_def
  using assms by auto (metis unlocks_unique)

text \<open>
  C27. A spend is classified in one way only: when the staking library gives the paths of an output different
  scripts, at most one of the checks for unbonding, withdrawal and slashing of a staking output accepts an
  input, so their order does not matter; and the same holds for the two checks of an unbonding output.
\<close>

theorem paths_exclude_each_other:
  assumes "\<And>args info. lib_BuildStakingInfo e args = Inr info \<Longrightarrow>
      distinct [si_TimeLockPath info, si_UnbondingPath info, si_SlashingPath info]"
    and "\<And>args info. lib_BuildUnbondingInfo e args = Inr info \<Longrightarrow> ui_TimeLockPath info \<noteq> ui_SlashingPath info"
  shows "\<not> (isSpendingStakingTxUnbondingPath e tx d params = Ok True \<and> isSpendingStakingTxTimeLockPath e tx 0 d params = Ok True) \<and>
    \<not> (isSpendingStakingTxUnbondingPath e tx d params = Ok True \<and> isSpendingStakingTxSlashingPath e tx 0 d params = Ok True) \<and>
    \<not> (isSpendingStakingTxTimeLockPath e tx i d params = Ok True \<and> isSpendingStakingTxSlashingPath e tx i d params = Ok True) \<and>
    \<not> (isSpendingUnbondingTxTimeLockPath e tx d i params = Ok True \<and> isSpendingUnbondingTxSlashingPath e tx d i params = Ok True)"
proof -
  have apart: "distinct [si_TimeLockPath info, si_UnbondingPath info, si_SlashingPath info]" if "staking_info_of e d params info" for info
    using that assms(1) unfolding staking_info_of_def by blast
  have no: False
    if "staking_info_of e d params x \<and> p x = Inr s \<and> unlocks tx k s = Ok True" "staking_info_of e d params y \<and> q y = Inr s' \<and> unlocks tx k s' = Ok True"
      "\<And>info. distinct [si_TimeLockPath info, si_UnbondingPath info, si_SlashingPath info] \<Longrightarrow> p info \<noteq> q info" for x y s s' k p q
    using that(1,2) that(3) [of x] staking_info_unique [of e d params x y] unlocks_unique [of tx k s s'] apart [of x] by auto
  have "\<not> (isSpendingStakingTxUnbondingPath e tx d params = Ok True \<and> isSpendingStakingTxTimeLockPath e tx 0 d params = Ok True)"
    using unbonding_check_Ok [of e tx d params] staking_check_Ok(1) [of e tx 0 d params] no [of _ si_UnbondingPath _ 0 _ si_TimeLockPath]
    by fastforce
  moreover have "\<not> (isSpendingStakingTxUnbondingPath e tx d params = Ok True \<and> isSpendingStakingTxSlashingPath e tx 0 d params = Ok True)"
    using unbonding_check_Ok [of e tx d params] staking_check_Ok(2) [of e tx 0 d params] no [of _ si_UnbondingPath _ 0 _ si_SlashingPath]
    by fastforce
  moreover have "\<not> (isSpendingStakingTxTimeLockPath e tx i d params = Ok True \<and> isSpendingStakingTxSlashingPath e tx i d params = Ok True)"
    using staking_check_Ok [of e tx i d params] no [of _ si_TimeLockPath _ "unat i" _ si_SlashingPath] by fastforce
  moreover have "\<not> (isSpendingUnbondingTxTimeLockPath e tx d i params = Ok True \<and> isSpendingUnbondingTxSlashingPath e tx d i params = Ok True)"
    by (rule unbonding_output_exclusive) (erule assms(2))
  ultimately show ?thesis by blast
qed

theorem paths_exclude_each_other_witness:
  "isSpendingStakingTxTimeLockPath sample_env withdraw_tx 0 active_delegation (FromBbnStakingParams sample_params) = Ok True \<and>
   isSpendingStakingTxSlashingPath sample_env withdraw_tx 0 active_delegation (FromBbnStakingParams sample_params) \<noteq> Ok True"
proof -
  have "isSpendingStakingTxTimeLockPath sample_env withdraw_tx 0 active_delegation (FromBbnStakingParams sample_params) = Ok True"
    by (simp add: withdraw_tx_def sample_delegation_defs watch_eval prog_eval params_eval sample_tx_def to_uint16_def)
  moreover have "\<not> (isSpendingStakingTxTimeLockPath sample_env withdraw_tx 0 active_delegation (FromBbnStakingParams sample_params) = Ok True \<and>
      isSpendingStakingTxSlashingPath sample_env withdraw_tx 0 active_delegation (FromBbnStakingParams sample_params) = Ok True)"
    using paths_exclude_each_other [of sample_env withdraw_tx active_delegation "FromBbnStakingParams sample_params" 0] by auto
  ultimately show ?thesis by blast
qed

section \<open>The watch after a restart\<close>

text \<open>
  C28. A restart does not renew the watch of a slashing change: when the spend of the staking output is delivered
  again for a delegation that is SLASHED already, as it is after the subscriptions of a restart, the handler
  sends the unbonding message a second time and then fails, because SLASHED is no state that SLASHED may follow;
  no goroutine to watch the slashing change is started, no time lock is saved and the delegation stays.
\<close>

theorem slashed_watch_is_not_renewed:
  assumes "no_faults e" "keyed w" "docs w h = Some d" "d_State d = StateSlashed"
    and "find_doc fst (d_ParamsVersion d) (w_staking_params w) = Some (v, params)"
    and "isSpendingStakingTxUnbondingPath e tx d params = Ok False" "isSpendingStakingTxTimeLockPath e tx i d params = Ok False"
      "isSpendingStakingTxSlashingPath e tx i d params = Ok True" "lib_SlashingTxToHex e tx = Inr txHex"
    and "\<forall>t. btc_GetBlockHash e t (ucast height) = Inr hash" "\<forall>t. btc_GetBlock e t hash = Inr time"
  shows "\<exists>err w'. run (handleSpendingStakingTransaction e tx i height h) w = (Err err, w') \<and> IsNotFoundError err \<and>
    w_jobs w' = w_jobs w \<and> w_timelocks w' = w_timelocks w \<and> docs w' = docs w \<and>
    w_queue w' = w_queue w @ [staking_event UnbondingStakingEventType d]"
proof -
  have key: "d_StakingTxHashHex d = h" using docs_key assms(3) by blast
  have k: "distinct (map d_StakingTxHashHex (w_delegations w))" using assms(2) by (simp add: keyed_def)
  let ?f = "apply_update StateSlashed (options_of [WithSubState SubStateTimelockSlashing, WithStakingSlashingTx txHex height time, WithBtcHeight height])"
  have none: "update_doc d_StakingTxHashHex h (\<lambda>d. d_State d \<in> set QualifiedStatesForSlashed) ?f (w_delegations w) = None"
    using store.change_defined [OF k, of h "\<lambda>d. d_State d \<in> set QualifiedStatesForSlashed" ?f] assms(3,4)
    by (auto simp: docs_def qualified_defs)
  have qs: "QualifiedStatesForSlashed \<noteq> []" by (simp add: qualified_defs)
  show ?thesis
    using assms(5-9) none
    by (simp add: handleSpendingStakingTransaction_def staking_slashed_def run_get_found [OF assms(1,3)] GetStakingParams_def no_faultsD [OF assms(1)]
        run_emit [OF assms(1)] run_timestamp [OF assms(10,11)] run_update [OF assms(1) qs] key
        del: andThen.simps on_error.simps)
qed

definition slash_tx :: MsgTx where
  "slash_tx = withdraw_tx\<lparr>tx_TxIn := [\<lparr>ti_PreviousOutPoint = \<lparr>op_Hash = ''h'', op_Index = 0\<rparr>, ti_Witness = [[12], [0]], ti_Sequence = 0\<rparr>]\<rparr>"

definition slashed_world :: world where
  "slashed_world = params_world\<lparr>w_delegations := [active_delegation\<lparr>d_State := StateSlashed, d_SubState := SubStateTimelockSlashing\<rparr>]\<rparr>"

theorem slashed_watch_is_not_renewed_witness:
  "\<exists>err w'. run (handleSpendingStakingTransaction sample_env slash_tx 0 60 ''h'') slashed_world = (Err err, w') \<and>
     w_jobs w' = w_jobs slashed_world"
proof -
  let ?d = "active_delegation\<lparr>d_State := StateSlashed, d_SubState := SubStateTimelockSlashing\<rparr>"
  have doc: "docs slashed_world ''h'' = Some ?d" "keyed slashed_world"
    "find_doc fst (d_ParamsVersion ?d) (w_staking_params slashed_world) = Some (0, FromBbnStakingParams sample_params)"
    by (simp_all add: docs_def keyed_def find_doc_def slashed_world_def sample_worlds sample_delegation_defs)
  have paths: "isSpendingStakingTxUnbondingPath sample_env slash_tx ?d (FromBbnStakingParams sample_params) = Ok False"
    "isSpendingStakingTxTimeLockPath sample_env slash_tx 0 ?d (FromBbnStakingParams sample_params) = Ok False"
    "isSpendingStakingTxSlashingPath sample_env slash_tx 0 ?d (FromBbnStakingParams sample_params) = Ok True"
    by (simp_all add: slash_tx_def withdraw_tx_def sample_delegation_defs watch_eval prog_eval params_eval sample_tx_def to_uint16_def)
  from slashed_watch_is_not_renewed [OF sample_env_ok(2) doc(2,1) _ doc(3) paths, of "''0c''" 60 "''b''" 1000] show ?thesis by auto
qed

end
