(* ===== verification/Service_Spec.thy ===== *)
theory Service_Spec
  imports Event_Effects
begin

text \<open>
  Properties of the smaller parts: numbers, event attributes, networks and parameters that are parsed, the
  heights that the block loop goes through, and the network that a database belongs to.
\<close>

section \<open>Parsing\<close>

text \<open>
  C40. A height, a version or an index in an event is accepted exactly when it is a nonempty string of decimal
  digits whose value fits into 32 bits, and then it is parsed to that value, without wrapping; printing and
  parsing a 32-bit number is the identity.
\<close>

theorem numbers_are_parsed_exactly:
  "(ParseUint32_result s = Ok v \<longleftrightarrow>
      s \<noteq> [] \<and> list_all is_digit s \<and> decimal_value 0 s < 2 ^ 32 \<and> unat v = decimal_value 0 s) \<and>
   ParseUint32_result (decimal (unat v)) = Ok v"
proof -
  have eq: "ParseUint32_result s = Ok v \<longleftrightarrow>
      s \<noteq> [] \<and> list_all is_digit s \<and> decimal_value 0 s < 2 ^ 32 \<and> unat v = decimal_value 0 s" for s
  proof -
    have "v = word_of_nat (decimal_value 0 s) \<longleftrightarrow> unat v = decimal_value 0 s" if "decimal_value 0 s < 2 ^ 32"
      using that by (simp add: word_unat_eq_iff unat_of_nat take_bit_nat_eq_self)
    then show ?thesis unfolding ParseUint32_result_eq_Ok ParseUint32_None_iff by blast
  qed
  have "unat v < 2 ^ 32" using unsigned_less [of v, where 'a = nat] by simp
  then have "ParseUint32_result (decimal (unat v)) = Ok v"
    unfolding eq using decimal_digits [of "unat v"] decimal_nonempty by simp
  with eq [of s] show ?thesis by blast
qed

text \<open>
  Sanitizing an event is idempotent and keeps the type, the keys and the number of its attributes.
\<close>

lemma sanitizing_is_idempotent:
  "sanitizeEvent (sanitizeEvent event) = sanitizeEvent event \<and> ae_Type (sanitizeEvent event) = ae_Type event \<and>
   map at_Key (ae_Attributes (sanitizeEvent event)) = map at_Key (ae_Attributes event)"
  by (simp add: sanitizeEvent_def sanitize_value_idem)

text \<open>
  The configuration check and the watchers agree on the networks: the parameters of a Bitcoin network
  exist exactly for the names that the configuration accepts, and different names have different parameters.
\<close>

lemma networks_agree:
  "{net. GetValidNetParams net = Some True} = {net. \<exists>params. GetBTCParams net = Ok params} \<and>
   inj_on GetBTCParams {net. GetValidNetParams net = Some True}"
  by (auto simp: GetValidNetParams_def GetBTCParams_def inj_on_def split: if_splits)

text \<open>
  The slashing script of the parameters survives its storage as text: decoding the stored string gives the
  bytes that Babylon sent.
\<close>

lemma slashing_script_roundtrip: "hex_DecodeString (sp_SlashingPkScript (FromBbnStakingParams params)) = Ok (bsp_SlashingPkScript params)"
  by (simp add: FromBbnStakingParams_def hex_Decode_Encode)

section \<open>The block loop\<close>

text \<open>
  From the last processed height to the latest one the loop goes through every height between them
  exactly once, in increasing order, and through no other; it does nothing when the latest is not above the
  last.
\<close>

lemma heights_are_consecutive:
  "sorted_wrt (<) (heights_after lastHeight latestHeight) \<and>
   set (heights_after lastHeight latestHeight) = {h. lastHeight < h \<and> h \<le> latestHeight} \<and>
   length (heights_after lastHeight latestHeight) = unat latestHeight - unat lastHeight"
proof -
  have small: "n < 2 ^ 64" if "n < Suc (unat latestHeight)" for n
    using that unsigned_less [of latestHeight, where 'a = nat] by simp
  have u: "unat (word_of_nat n :: u64) = n" if "n < Suc (unat latestHeight)" for n
    using small [OF that] by (simp add: unat_of_nat take_bit_nat_eq_self)
  have "sorted_wrt (<) (heights_after lastHeight latestHeight)"
    unfolding heights_after_def sorted_wrt_map
    by (rule sorted_wrt_mono_rel [OF _ sorted_wrt_upt]) (auto simp: word_less_nat_alt u)
  moreover have "set (heights_after lastHeight latestHeight) = {h. lastHeight < h \<and> h \<le> latestHeight}"
  proof (intro set_eqI iffI)
    fix h assume "h \<in> {h. lastHeight < h \<and> h \<le> latestHeight}"
    then have "unat h \<in> {Suc (unat lastHeight)..<Suc (unat latestHeight)}" "h = word_of_nat (unat h)"
      by (auto simp: word_less_nat_alt word_le_nat_alt)
    then show "h \<in> set (heights_after lastHeight latestHeight)" unfolding heights_after_def by (metis image_eqI list.set_map set_upt)
  qed (auto simp: heights_after_def word_less_nat_alt word_le_nat_alt u)
  moreover have "length (heights_after lastHeight latestHeight) = unat latestHeight - unat lastHeight"
    by (simp add: heights_after_def del: upt_Suc)
  ultimately show ?thesis by blast
qed

section \<open>The network of the database\<close>

lemma run_client_call_ask:
  assumes "run (clientCallWithRetry n (ask f)) w = (r, w')"
  shows "w_network w' = w_network w \<and> (\<forall>x. r = Ok x \<longrightarrow> (\<exists>t. f t = Inr x)) \<and> (\<forall>msg. r \<noteq> Panic msg)"
proof -
  have key: "run (retry_last k (ask f)) w = (r, w') \<Longrightarrow>
      w_network w' = w_network w \<and> (\<forall>x. r = Ok x \<longrightarrow> (\<exists>t. f t = Inr x)) \<and> (\<forall>msg. r \<noteq> Panic msg)" for k w
  proof (induction k arbitrary: w)
    case 0
    then show ?case by auto
  next
    case (Suc k)
    show ?case
    proof (cases "f (w_clock w)")
      case (Inl msg)
      then have "run (retry_last k (ask f)) (tick w) = (r, w')" using Suc.prems by (simp add: run_on_error)
      from Suc.IH [OF this] show ?thesis by simp
    qed (use Suc.prems in \<open>auto simp: run_on_error\<close>)
  qed
  show ?thesis by (rule key [of "n - 1" w]) (use assms in \<open>simp add: clientCallWithRetry_def\<close>)
qed

lemma run_chain_id:
  assumes "run (attempt (GetChainID e)) w = (r, w')"
  shows "w_network w' = w_network w \<and> (\<exists>res. r = Ok res \<and> (\<forall>c. res = Inr c \<longrightarrow> (\<exists>t h. rpc_Status e t = Inr (c, h))))"
proof -
  obtain q v where q: "run (clientCallWithRetry (cfg_BBN_MaxRetryTimes e) (ask (\<lambda>t. rpc_Status e t))) w = (q, v)" by fastforce
  from run_client_call_ask [OF q] show ?thesis
    using assms q by (cases q) (auto simp: GetChainID_def getStatus_def, blast)
qed

lemma network_is_kept:
  "w_network w = Some info \<Longrightarrow> w_network (snd (run (try_network_info n e) w)) = Some info \<and>
     (fst (run (try_network_info n e) w) = Ok () \<longrightarrow> (\<exists>t h. rpc_Status e t = Inr (ni_ChainID info, h)))"
proof (induction n arbitrary: w)
  case (Suc n)
  obtain r v where r: "run (attempt (GetChainID e)) w = (r, v)" by fastforce
  from run_chain_id [OF r] Suc.prems obtain res where res: "r = Ok res" "w_network v = Some info"
    "\<And>c. res = Inr c \<Longrightarrow> \<exists>t h. rpc_Status e t = Inr (c, h)" by auto
  show ?case
  proof (cases res)
    case (Inl err)
    with r res(1) Suc.IH [OF res(2)] show ?thesis by (simp del: run_attempt)
  next
    case (Inr c)
    obtain s u where s: "run (attempt (GetNetworkInfo e)) v = (s, u)" by fastforce
    then have u: "w_network u = Some info" "s = Ok (Inr info) \<or> (\<exists>msg. s = Ok (Inl (OtherError msg)))"
      using res(2) by (auto simp: GetNetworkInfo_def db_call_def split: option.splits fault.splits)
    obtain q x where q: "run (attempt (UpsertNetworkInfo e \<lparr>ni_ChainID = c\<rparr>)) u = (q, x)" by fastforce
    then have x: "w_network x = Some info \<or> w_network x = Some \<lparr>ni_ChainID = c\<rparr>" "q = Ok (Inr ()) \<or> (\<exists>err. q = Ok (Inl err))"
      using u(1) by (auto simp: UpsertNetworkInfo_def db_call_def split: option.splits fault.splits)
    have same: "ni_ChainID info = c \<Longrightarrow> \<lparr>ni_ChainID = c\<rparr> = info" by auto
    from u(2) show ?thesis
    proof (elim disjE exE)
      assume [simp]: "s = Ok (Inr info)"
      show ?thesis
      proof (cases "ni_ChainID info = c")
        case True
        with x(1) same have x1: "w_network x = Some info" by auto
        have found: "\<exists>t h. rpc_Status e t = Inr (ni_ChainID info, h)" using res(3) [OF Inr] True by simp
        from x(2) show ?thesis
          using r s q res(1) Inr True x1 Suc.IH [OF x1] found by (auto simp del: run_attempt)
      next
        case False
        with r s res(1) Inr u(1) show ?thesis by (simp del: run_attempt)
      qed
    next
      fix msg assume "s = Ok (Inl (OtherError msg))"
      with r s res(1) Inr Suc.IH [OF u(1)] show ?thesis by (simp del: run_attempt)
    qed
  qed
qed simp

end
