(* ===== verification/Frame_Rules.thy ===== *)
theory Frame_Rules
  imports Handler_Rules
begin

text \<open>
  What no action of a program writes, whatever the other goroutines do between its actions: the frame of
  every operation of the indexer but one is the last processed height.
\<close>

section \<open>Programs that leave a part of the state alone\<close>

primrec leaves :: "('w \<Rightarrow> 'x) \<Rightarrow> ('w, 'a) prog \<Rightarrow> bool" where
  "leaves f (Done r) \<longleftrightarrow> True"
| "leaves f (Act g) \<longleftrightarrow> (\<forall>w. f (snd (g w)) = f w \<and> fst (map_prod (leaves f) id (g w)))"

lemma leaves_Act: "leaves f (Act g) \<longleftrightarrow> (\<forall>w. f (snd (g w)) = f w \<and> leaves f (fst (g w)))"
  by simp

declare leaves.simps(2) [simp del]

lemma leaves_andThen: "leaves f p \<Longrightarrow> (\<And>x. leaves f (k x)) \<Longrightarrow> leaves f (andThen p k)"
  by (induction p rule: prog_actions_induct) (auto simp: leaves_Act split: result.splits)

lemma leaves_on_error: "leaves f p \<Longrightarrow> (\<And>err. leaves f (h err)) \<Longrightarrow> leaves f (on_error p h)"
  by (induction p rule: prog_actions_induct) (auto simp: leaves_Act split: result.splits)

lemma leaves_Done: "leaves f (Done r)"
  by simp

lemma leaves_wrap_err: "leaves f p \<Longrightarrow> leaves f (wrap_err msg p)"
  unfolding wrap_err_def by (rule leaves_on_error) simp_all

lemma leaves_attempt: "leaves f p \<Longrightarrow> leaves f (attempt p)"
  unfolding attempt_def by (intro leaves_on_error leaves_andThen leaves_Done)

lemma leaves_atomically: "(\<And>w. f (snd (g w)) = f w) \<Longrightarrow> leaves f (atomically g)"
  by (simp add: atomically_def leaves_Act)

lemma leaves_for_each: "(\<And>x. x \<in> set xs \<Longrightarrow> leaves f (body x)) \<Longrightarrow> leaves f (for_each xs body)"
  by (induction xs) (auto intro: leaves_andThen)

lemma leaves_retry: "leaves f p \<Longrightarrow> leaves f (retry_from n errs p)"
  by (induction n arbitrary: errs) (auto intro: leaves_on_error)

lemma leaves_client_call: "leaves f p \<Longrightarrow> leaves f (clientCallWithRetry n p)"
proof -
  assume "leaves f p"
  then have "leaves f (retry_last m p)" for m by (induction m) (auto intro: leaves_on_error)
  then show ?thesis by (simp add: clientCallWithRetry_def)
qed

lemma leaves_if: "(b \<Longrightarrow> leaves f p) \<Longrightarrow> (\<not> b \<Longrightarrow> leaves f q) \<Longrightarrow> leaves f (if b then p else q)"
  by simp

lemmas leaves_rules = leaves_Done leaves_andThen leaves_on_error leaves_wrap_err leaves_attempt leaves_for_each
  leaves_retry leaves_client_call leaves_if

section \<open>The last processed height\<close>

abbreviation quiet :: "(world, 'a) prog \<Rightarrow> bool" where
  "quiet p \<equiv> leaves w_last_height p"

lemma quiet_db_call: "(\<And>w. w_last_height (snd (act w)) = w_last_height w) \<Longrightarrow> quiet (db_call e act)"
  unfolding db_call_def by (rule leaves_atomically) (simp split: option.splits fault.splits)

lemma quiet_actions:
  "quiet (ask q)" "quiet (push_event e ev)" "quiet (go_job job)" "quiet (peek g)"
  "(\<And>w. w_last_height (g2 w) = w_last_height w) \<Longrightarrow> quiet (poke g2)"
  unfolding ask_def push_event_def go_job_def peek_def poke_def
  by (auto intro!: leaves_atomically split: option.splits fault.splits)

lemma height_of_update_delegation [simp]: "w_last_height (update_delegation h f w) = w_last_height w"
  by (simp add: update_delegation_def split: option.splits)

lemma quiet_update: "quiet (UpdateBTCDelegationState e h qs s opts)"
  by (auto simp: UpdateBTCDelegationState_def intro!: quiet_db_call split: option.splits)

lemma quiet_delegation_ops:
  "quiet (SaveNewBTCDelegation e d)" "quiet (GetBTCDelegationByStakingTxHash e h)"
  "quiet (GetBTCDelegationState e h)" "quiet (SaveBTCDelegationCovenantSignature e h pk sig x)"
  "quiet (GetBTCDelegationsByStates e ss)" "quiet (GetDelegationsWithEmptyStakerAddress e)"
  "quiet (UpdateDelegationStakerBabylonAddress e h addr)" "quiet (SaveNewTimeLockExpire e h height sub)"
  "quiet (FindExpiredDelegations e tip limit)" "quiet (DeleteExpiredDelegation e h)"
  by (auto simp: db_defs Let_def simp del: andThen.simps on_error.simps split: option.splits
      intro!: leaves_rules quiet_db_call)

lemma quiet_other_ops:
  "quiet (SaveNewFinalityProvider e fp)" "quiet (UpdateFinalityProviderDetailsFromEvent e fp)"
  "quiet (UpdateFinalityProviderState e pk st)" "quiet (GetFinalityProviderByBtcPk e pk)"
  "quiet (SaveStakingParams e v ps)" "quiet (GetStakingParams e v)" "quiet (SaveCheckpointParams e cps)"
  "quiet (GetLastProcessedBbnHeight e)" "quiet (GetNetworkInfo e)" "quiet (UpsertNetworkInfo e info)"
  "quiet (UpsertOverallStats e tvl n)" "quiet (UpsertFinalityProviderStats e pk tvl n)"
  "quiet (CalculateActiveStatsAggregated e)"
  by (auto simp: db_defs Let_def simp del: andThen.simps on_error.simps split: option.splits
      intro!: leaves_rules quiet_db_call)

lemma quiet_params_from: "quiet (GetStakingParams_from n e version acc)"
  by (induction n arbitrary: version acc)
     (auto simp del: andThen.simps on_error.simps intro!: leaves_rules quiet_actions split: sum.splits)

lemma quiet_clients:
  "quiet (GetTipHeight e)" "quiet (GetBlockTimestamp e h)" "quiet (GetChainID e)" "quiet (GetCheckpointParams_rpc e)"
  "quiet (GetStakingParams_rpc n e v)" "quiet (GetBlockResults e height)" "quiet (BabylonStakerAddress e tx)"
  "quiet (GetBlock e height)"
  unfolding GetTipHeight_def GetBlockTimestamp_def GetChainID_def getStatus_def GetCheckpointParams_rpc_def
    GetStakingParams_rpc_def GetBlockResults_def BabylonStakerAddress_def GetBlock_def
  by (auto simp del: andThen.simps on_error.simps intro!: leaves_rules quiet_actions quiet_params_from split: option.splits)

lemma quiet_messages:
  "quiet (emitActiveDelegationEvent e d)" "quiet (emitUnbondingDelegationEvent e d)"
  "quiet (registerStakingSpendNotification e h tx i start)" "quiet (registerUnbondingSpendNotification e d)"
  "quiet (spend_job e job)"
  unfolding emitActiveDelegationEvent_def emitUnbondingDelegationEvent_def registerStakingSpendNotification_def
    registerUnbondingSpendNotification_def spend_job_def RegisterSpendNtfn_def
  by (auto simp del: andThen.simps on_error.simps retry_from.simps intro!: leaves_rules quiet_actions split: sum.splits)

lemmas quiet_ops = quiet_update quiet_delegation_ops quiet_other_ops quiet_clients quiet_messages quiet_actions

lemma quiet_validate:
  "quiet (validateCovenantQuorumReachedEvent e ev1)" "quiet (validateBTCDelegationInclusionProofReceivedEvent e ev2)"
  "quiet (validateBTCDelegationUnbondedEarlyEvent e ev3)" "quiet (validateBTCDelegationExpiredEvent e ev4)"
  "quiet (validateFinalityProviderStateChangeEvent e ev5)"
  unfolding validateCovenantQuorumReachedEvent_def validateBTCDelegationInclusionProofReceivedEvent_def
    validateBTCDelegationUnbondedEarlyEvent_def validateBTCDelegationExpiredEvent_def
    validateFinalityProviderStateChangeEvent_def Let_def
  by (intro leaves_rules quiet_ops | simp only: option.case_eq_if)+

lemma quiet_event: "quiet (processEvent e event height)"
  unfolding processEvent_def doProcessEvent_def handler_defs Let_def
  by (intro leaves_rules quiet_validate quiet_ops | simp only: sum.case_eq_if)+

lemma quiet_watch: "quiet (watch_spend e watch detail)"
  by (cases watch; simp only: watch_spend.simps watchForSpendStakingTx_def watchForSpendUnbondingTx_def
      watchForSpendSlashingChange_def handler_defs Let_def)
     (intro leaves_rules quiet_ops | simp only: sum.case_eq_if)+

lemma quiet_network: "quiet (try_network_info n e)"
  by (induction n)
     (auto simp: Let_def simp del: andThen.simps on_error.simps intro!: leaves_rules quiet_ops split: sum.splits)

lemma quiet_tasks:
  "quiet (poll_once (checkExpiry e))" "quiet (poll_once (calculateAndUpdateStats e))"
  "quiet (poll_once (fetchAndSaveParams fuel e))" "quiet (fetchAndSaveNetworkInfo e)"
  "quiet (ResubscribeToMissedBtcNotifications e)" "quiet (fill_one e dryRun h)"
  "quiet (andThen (GetDelegationsWithEmptyStakerAddress e) (\<lambda>_. ret ()))"
  unfolding poll_once_def checkExpiry_def expire_one_def calculateAndUpdateStats_def fetchAndSaveParams_def
    save_params_version_def fetchAndSaveNetworkInfo_def ResubscribeToMissedBtcNotifications_def resubscribe_one_def
    fill_one_def Let_def
  by (auto simp del: andThen.simps on_error.simps intro!: leaves_rules quiet_ops quiet_network split: option.splits)

lemma quiet_events: "quiet (for_each events (\<lambda>event. processEvent e (be_Event event) height))"
  by (intro leaves_for_each quiet_event)

lemma quiet_fetch: "quiet (getEventsFromBlock e height)"
  unfolding getEventsFromBlock_def
  by (auto simp del: andThen.simps on_error.simps intro!: leaves_rules quiet_clients)

end
