(* ===== verification/Block_Pipeline.thy ===== *)
theory Block_Pipeline
  imports System Frame_Rules
begin

text \<open>
  \<^verbatim>\<open>processBlocksSequentially\<close> of \<^verbatim>\<open>internal/services/bootstrap.go\<close>: the goroutine that fetches blocks, the
  bounded channel and the goroutine that processes them, step by step, with cancellation, errors, panics and
  restarts, among all the other goroutines of the process.
\<close>

section \<open>The two goroutines and the channel\<close>

definition eventProcessorSize :: nat where "eventProcessorSize = 100"

text \<open>
  Where the fetching goroutine is: reading the height to go on from, waiting for a new height, at the head of
  the loop over the heights, fetching a block, writing to the channel, or out of the function. On its way out
  it closes the channel.
\<close>

datatype producer =
    Booting "(world, u64) prog"
  | Waiting
  | Looping i64 u64
  | Fetching i64 u64 "(world, BbnEvent list) prog"
  | Sending i64 u64 blockEvents
  | Returned "unit result"

text \<open>
  Where the processing goroutine is. A panic is caught by \<^verbatim>\<open>conc.WaitGroup\<close>, which raises it again when the
  other goroutine waits for this one.
\<close>

datatype consumer =
    NotStarted
  | Receiving
  | Processing blockEvents "(world, unit) prog"
  | Committing blockEvents "(world, unit) prog"
  | Exited
  | Panicked string

text \<open>
  The variables of one run of the function; \<open>pl_cause\<close> is the cause of the cancelled context. \<open>pl_target\<close> and
  \<open>pl_log\<close> are not in the code: the last height that the loop was started for, and the heights whose
  events have all been processed, over all runs.
\<close>

record pipeline =
  pl_producer :: producer
  pl_last :: u64
  pl_channel :: "blockEvents list"
  pl_consumer :: consumer
  pl_cause :: "error option"
  pl_target :: u64
  pl_log :: "i64 list"

definition boot_pipeline :: "env \<Rightarrow> i64 list \<Rightarrow> pipeline" where
  "boot_pipeline e log = \<lparr>pl_producer = Booting (GetLastProcessedBbnHeight e), pl_last = 0, pl_channel = [],
     pl_consumer = NotStarted, pl_cause = None, pl_target = 0, pl_log = log\<rparr>"

text \<open>\<^verbatim>\<open>cancel(err)\<close>: the first cause stays.\<close>

definition cancel_with :: "error \<Rightarrow> pipeline \<Rightarrow> pipeline" where
  "cancel_with err pl = pl\<lparr>pl_cause := (case pl_cause pl of None \<Rightarrow> Some err | Some cause \<Rightarrow> Some cause)\<rparr>"

text \<open>The two halves of the work on one block.\<close>

definition process_events :: "env \<Rightarrow> blockEvents \<Rightarrow> (world, unit) prog" where
  "process_events e item = for_each (blk_events item) (\<lambda>event. processEvent e (be_Event event) (blk_blockHeight item))"

definition commit_height :: "env \<Rightarrow> blockEvents \<Rightarrow> (world, unit) prog" where
  "commit_height e item = wrap_err ''failed to update last processed height in database''
     (UpdateLastProcessedBbnHeight e (blk_blockHeight item))"

lemma process_item_halves: "process_item e item = andThen (process_events e item) (\<lambda>_. commit_height e item)"
  by (simp add: process_item_def process_events_def commit_height_def)

section \<open>Steps\<close>

abbreviation returns :: "pipeline \<Rightarrow> string \<Rightarrow> error \<Rightarrow> pipeline" where
  "returns pl msg err \<equiv> pl\<lparr>pl_producer := Returned (Err (Wrapped msg err))\<rparr>"

inductive producer_step :: "env \<Rightarrow> world \<times> pipeline \<Rightarrow> world \<times> pipeline \<Rightarrow> bool" for e where
  boot_act: "pl_producer pl = Booting (Act f) \<Longrightarrow>
    producer_step e (w, pl) (snd (f w), pl\<lparr>pl_producer := Booting (fst (f w))\<rparr>)"
| boot_ok: "pl_producer pl = Booting (Done (Ok height)) \<Longrightarrow>
    producer_step e (w, pl) (w, pl\<lparr>pl_producer := Waiting, pl_last := height, pl_target := height, pl_consumer := Receiving\<rparr>)"
| boot_err: "pl_producer pl = Booting (Done (Err err)) \<Longrightarrow>
    producer_step e (w, pl) (w, returns pl ''failed to get last processed height'' err)"
| boot_panic: "pl_producer pl = Booting (Done (Panic msg)) \<Longrightarrow>
    producer_step e (w, pl) (w, pl\<lparr>pl_producer := Returned (Panic msg)\<rparr>)"
| wait_cancelled: "pl_producer pl = Waiting \<Longrightarrow> pl_cause pl = Some cause \<Longrightarrow>
    producer_step e (w, pl) (w, returns pl ''context cancelled during BBN block processor'' cause)"
| loop_end: "pl_producer pl = Looping latest i \<Longrightarrow> \<not> i \<le> latest \<Longrightarrow>
    producer_step e (w, pl) (w, pl\<lparr>pl_producer := Waiting\<rparr>)"
| loop_cancelled: "pl_producer pl = Looping latest i \<Longrightarrow> i \<le> latest \<Longrightarrow> pl_cause pl = Some cause \<Longrightarrow>
    producer_step e (w, pl) (w, returns pl ''context cancelled during block processing'' cause)"
| loop_fetch: "pl_producer pl = Looping latest i \<Longrightarrow> i \<le> latest \<Longrightarrow> pl_cause pl = None \<Longrightarrow>
    producer_step e (w, pl) (w, pl\<lparr>pl_producer := Fetching latest i (getEventsFromBlock e i)\<rparr>)"
| fetch_act: "pl_producer pl = Fetching latest i (Act g) \<Longrightarrow>
    producer_step e (w, pl) (snd (g w), pl\<lparr>pl_producer := Fetching latest i (fst (g w))\<rparr>)"
| fetch_ok: "pl_producer pl = Fetching latest i (Done (Ok events)) \<Longrightarrow>
    producer_step e (w, pl) (w, pl\<lparr>pl_producer := Sending latest i \<lparr>blk_blockHeight = i, blk_events = events\<rparr>\<rparr>)"
| fetch_err: "pl_producer pl = Fetching latest i (Done (Err err)) \<Longrightarrow>
    producer_step e (w, pl) (w, pl\<lparr>pl_producer := Returned (Err err)\<rparr>)"
| fetch_panic: "pl_producer pl = Fetching latest i (Done (Panic msg)) \<Longrightarrow>
    producer_step e (w, pl) (w, pl\<lparr>pl_producer := Returned (Panic msg)\<rparr>)"
| send: "pl_producer pl = Sending latest i item \<Longrightarrow> length (pl_channel pl) < eventProcessorSize \<Longrightarrow>
    producer_step e (w, pl) (w, pl\<lparr>pl_producer := Looping latest (i + 1), pl_last := i, pl_channel := pl_channel pl @ [item]\<rparr>)"
| send_cancelled: "pl_producer pl = Sending latest i item \<Longrightarrow> pl_cause pl = Some cause \<Longrightarrow>
    producer_step e (w, pl) (w, returns pl ''context cancelled while writing to block events channel'' cause)"

inductive consumer_step :: "env \<Rightarrow> world \<times> pipeline \<Rightarrow> world \<times> pipeline \<Rightarrow> bool" for e where
  receive: "pl_consumer pl = Receiving \<Longrightarrow> pl_channel pl = item # items \<Longrightarrow>
    consumer_step e (w, pl) (w, pl\<lparr>pl_consumer := Processing item (process_events e item), pl_channel := items\<rparr>)"
| closed: "pl_consumer pl = Receiving \<Longrightarrow> pl_channel pl = [] \<Longrightarrow> pl_producer pl = Returned r \<Longrightarrow>
    consumer_step e (w, pl) (w, pl\<lparr>pl_consumer := Exited\<rparr>)"
| work_act: "pl_consumer pl = Processing item (Act f) \<Longrightarrow>
    consumer_step e (w, pl) (snd (f w), pl\<lparr>pl_consumer := Processing item (fst (f w))\<rparr>)"
| work_ok: "pl_consumer pl = Processing item (Done (Ok u)) \<Longrightarrow>
    consumer_step e (w, pl) (w, pl\<lparr>pl_consumer := Committing item (commit_height e item), pl_log := pl_log pl @ [blk_blockHeight item]\<rparr>)"
| work_err: "pl_consumer pl = Processing item (Done (Err err)) \<Longrightarrow>
    consumer_step e (w, pl) (w, cancel_with err (pl\<lparr>pl_consumer := Exited\<rparr>))"
| work_panic: "pl_consumer pl = Processing item (Done (Panic msg)) \<Longrightarrow>
    consumer_step e (w, pl) (w, pl\<lparr>pl_consumer := Panicked msg\<rparr>)"
| commit_act: "pl_consumer pl = Committing item (Act f) \<Longrightarrow>
    consumer_step e (w, pl) (snd (f w), pl\<lparr>pl_consumer := Committing item (fst (f w))\<rparr>)"
| commit_ok: "pl_consumer pl = Committing item (Done (Ok u)) \<Longrightarrow>
    consumer_step e (w, pl) (w, pl\<lparr>pl_consumer := Receiving\<rparr>)"
| commit_err: "pl_consumer pl = Committing item (Done (Err err)) \<Longrightarrow>
    consumer_step e (w, pl) (w, cancel_with err (pl\<lparr>pl_consumer := Exited\<rparr>))"
| commit_panic: "pl_consumer pl = Committing item (Done (Panic msg)) \<Longrightarrow>
    consumer_step e (w, pl) (w, pl\<lparr>pl_consumer := Panicked msg\<rparr>)"

text \<open>What \<^verbatim>\<open>StartBbnBlockProcessor\<close> returns, and with it \<^verbatim>\<open>StartIndexerSync\<close>, when the function has returned.\<close>

definition StartBbnBlockProcessor :: "unit result \<Rightarrow> unit result" where
  "StartBbnBlockProcessor r = wrap_result ''BBN block processor exited with error'' r"

text \<open>It never ends without an error: the process that stops the service as it should ends with one too.\<close>

lemma processor_never_succeeds:
  assumes "producer_step e (w, pl) (w', pl')" "pl_producer pl' = Returned r" "\<And>q. pl_producer pl = Returned q \<Longrightarrow> StartBbnBlockProcessor q \<noteq> Ok ()"
  shows "StartBbnBlockProcessor r \<noteq> Ok ()"
  using assms by (cases rule: producer_step.cases) (auto simp: StartBbnBlockProcessor_def)

text \<open>
  A new height: the channel of heights is drained and the latest one taken. \<open>heights\<close> are the heights that the
  subscription may deliver.
\<close>

inductive announce :: "i64 set \<Rightarrow> pipeline \<Rightarrow> pipeline \<Rightarrow> bool" for heights where
  known: "pl_producer pl = Waiting \<Longrightarrow> set (height # pending) \<subseteq> heights \<Longrightarrow>
    getLatestHeight height pending \<le> pl_last pl \<Longrightarrow> announce heights pl pl"
| ahead: "pl_producer pl = Waiting \<Longrightarrow> set (height # pending) \<subseteq> heights \<Longrightarrow>
    latest = getLatestHeight height pending \<Longrightarrow> \<not> latest \<le> pl_last pl \<Longrightarrow>
    announce heights pl (pl\<lparr>pl_producer := Looping latest (pl_last pl + 1), pl_target := latest\<rparr>)"

section \<open>The process\<close>

type_synonym node = "world \<times> pipeline \<times> (world, unit) prog list"

text \<open>A step of the other goroutines; the shutdown of the process cancels the context.\<close>

inductive other_step :: "env \<Rightarrow> node \<Rightarrow> node \<Rightarrow> bool" for e where
  start: "background e w p w' \<Longrightarrow> other_step e (w, pl, ps) (w', pl, ps @ [p])"
| act: "i < length ps \<Longrightarrow> ps ! i = Act f \<Longrightarrow> other_step e (w, pl, ps) (snd (f w), pl, ps[i := fst (f w)])"
| shutdown: "other_step e (w, pl, ps) (w, cancel_with (OtherError ''context canceled'') pl, ps)"

inductive own_step :: "env \<Rightarrow> node \<Rightarrow> node \<Rightarrow> bool" for e where
  producer: "producer_step e (w, pl) (w', pl') \<Longrightarrow> own_step e (w, pl, ps) (w', pl', ps)"
| consumer: "consumer_step e (w, pl) (w', pl') \<Longrightarrow> own_step e (w, pl, ps) (w', pl', ps)"

inductive node_step :: "env \<Rightarrow> i64 set \<Rightarrow> node \<Rightarrow> node \<Rightarrow> bool" for e heights where
  own: "own_step e s s' \<Longrightarrow> node_step e heights s s'"
| other: "other_step e s s' \<Longrightarrow> node_step e heights s s'"
| announce: "announce heights pl pl' \<Longrightarrow> node_step e heights (w, pl, ps) (w, pl', ps)"
| restart: "node_step e heights (w, pl, ps)
    (w\<lparr>w_jobs := [], w_watches := [], w_params_version := 0\<rparr>, boot_pipeline e (pl_log pl), [])"

inductive node_reachable :: "env \<Rightarrow> i64 set \<Rightarrow> node \<Rightarrow> bool" for e heights where
  init: "node_reachable e heights (initial_world, boot_pipeline e [], [])"
| step: "node_reachable e heights s \<Longrightarrow> node_step e heights s s' \<Longrightarrow> node_reachable e heights s'"

inductive_cases own_stepE: "own_step e (w, pl, ps) s'"
inductive_cases other_stepE: "other_step e (w, pl, ps) s'"
inductive_cases node_stepE: "node_step e heights (w, pl, ps) s'"

lemma quiet_background:
  assumes "background e w p w'"
  shows "quiet p \<and> w_last_height w' = w_last_height w"
  using assms by cases (auto intro: quiet_tasks quiet_messages quiet_watch)

end
