(* ===== verification/Pipeline_Rules.thy ===== *)
theory Pipeline_Rules
  imports Block_Pipeline
begin

text \<open>
  The block processor step by step: the invariant of its two goroutines and the channel, the measure that each of its
  steps decreases, and the programs it has to run as goroutines of the abstract system.
\<close>

section \<open>The invariant\<close>

definition recorded :: "world \<Rightarrow> nat" where
  "recorded w = (case w_last_height w of None \<Rightarrow> 0 | Some height \<Rightarrow> unat height)"

abbreviation item_height :: "blockEvents \<Rightarrow> nat" where
  "item_height item \<equiv> unat (blk_blockHeight item)"

definition logged :: "i64 list \<Rightarrow> nat \<Rightarrow> bool" where
  "logged log n \<longleftrightarrow> {1..n} \<subseteq> unat ` set log"

text \<open>Every height in the log comes after all the heights below it.\<close>

definition in_order :: "i64 list \<Rightarrow> bool" where
  "in_order log \<longleftrightarrow> (\<forall>k < length log. 0 < unat (log ! k) \<and> logged (take k log) (unat (log ! k) - 1))"

lemma in_order_Nil [simp]: "in_order []"
  by (simp add: in_order_def)

lemma in_order_snoc [simp]:
  "in_order (log @ [h]) \<longleftrightarrow> in_order log \<and> 0 < unat h \<and> logged log (unat h - 1)"
  by (auto simp: in_order_def nth_append less_Suc_eq)

lemma logged_0 [simp]: "logged log 0"
  by (simp add: logged_def)

lemma logged_Suc: "logged log n \<Longrightarrow> unat h = Suc n \<Longrightarrow> logged (log @ [h]) (Suc n)"
  by (auto simp: logged_def atLeastAtMostSuc_conv)

lemma logged_snoc: "logged log n \<Longrightarrow> logged (log @ [h]) n"
  by (auto simp: logged_def)

text \<open>The channel holds exactly the blocks after the height \<open>k\<close> up to the last one that was fetched.\<close>

definition channel_from :: "nat \<Rightarrow> u64 \<Rightarrow> blockEvents list \<Rightarrow> bool" where
  "channel_from k fetched items \<longleftrightarrow> k \<le> unat fetched \<and> map item_height items = [Suc k..<Suc (unat fetched)]"

lemma channel_from_Nil: "channel_from k fetched [] \<longleftrightarrow> k = unat fetched"
  by (auto simp: channel_from_def)

lemma channel_from_Cons:
  "channel_from k fetched (item # items) \<longleftrightarrow> item_height item = Suc k \<and> channel_from (Suc k) fetched items"
proof (cases "k < unat fetched")
  case True
  then have "[Suc k..<Suc (unat fetched)] = Suc k # [Suc (Suc k)..<Suc (unat fetched)]" by (simp add: upt_conv_Cons del: upt_Suc)
  with True show ?thesis by (auto simp: channel_from_def simp del: upt_Suc)
qed (auto simp: channel_from_def)

lemma channel_from_snoc:
  "channel_from k fetched items \<Longrightarrow> item_height item = Suc (unat fetched) \<Longrightarrow> unat fetched' = Suc (unat fetched) \<Longrightarrow>
     channel_from k fetched' (items @ [item])"
  by (auto simp: channel_from_def)

fun consumer_ok :: "env \<Rightarrow> world \<Rightarrow> pipeline \<Rightarrow> consumer \<Rightarrow> bool" where
  "consumer_ok e w pl NotStarted \<longleftrightarrow> pl_channel pl = [] \<and> (case pl_producer pl of Booting p \<Rightarrow> True | Returned r \<Rightarrow> True | _ \<Rightarrow> False)"
| "consumer_ok e w pl Receiving \<longleftrightarrow> channel_from (recorded w) (pl_last pl) (pl_channel pl)"
| "consumer_ok e w pl (Processing item p) \<longleftrightarrow> quiet p \<and> item_height item = Suc (recorded w) \<and> channel_from (item_height item) (pl_last pl) (pl_channel pl)"
| "consumer_ok e w pl (Committing item p) \<longleftrightarrow> logged (pl_log pl) (item_height item) \<and> channel_from (item_height item) (pl_last pl) (pl_channel pl) \<and>
     (p = commit_height e item \<or> (\<exists>err. p = throw err) \<or> (p = ret () \<and> recorded w = item_height item))"
| "consumer_ok e w pl Exited \<longleftrightarrow> pl_cause pl \<noteq> None \<or> (\<exists>r. pl_producer pl = Returned r)"
| "consumer_ok e w pl (Panicked msg) \<longleftrightarrow> True"

definition next_fetch :: "i64 set \<Rightarrow> u64 \<Rightarrow> u64 \<Rightarrow> i64 \<Rightarrow> u64 \<Rightarrow> bool" where
  "next_fetch heights fetched target latest i \<longleftrightarrow> latest \<in> heights \<and> fetched \<le> latest \<and> i = fetched + 1 \<and> target = latest"

text \<open>The next height to fetch is above the last one, because the largest number is no height.\<close>

lemma next_fetch_unat:
  assumes "next_fetch heights fetched target latest i" "- 1 \<notin> heights"
  shows "unat i = Suc (unat fetched)"
proof -
  have "fetched \<noteq> - 1" using assms by (auto simp: next_fetch_def dest: word_order.extremum_uniqueI)
  then have "fetched + 1 \<noteq> 0" by (simp add: eq_neg_iff_add_eq_0)
  then show ?thesis using assms(1) unatSuc [of fetched] by (simp add: next_fetch_def add.commute)
qed

lemma next_fetch_step: "next_fetch heights fetched target latest i \<Longrightarrow> i \<le> latest \<Longrightarrow> next_fetch heights i target latest (i + 1)"
  by (simp add: next_fetch_def)

fun producer_ok :: "env \<Rightarrow> i64 set \<Rightarrow> world \<Rightarrow> pipeline \<Rightarrow> producer \<Rightarrow> bool" where
  "producer_ok e heights w pl (Booting p) \<longleftrightarrow> pl_consumer pl = NotStarted \<and> pl_channel pl = [] \<and>
     (p = GetLastProcessedBbnHeight e \<or> (\<exists>err. p = throw err) \<or> (\<exists>height. p = ret height \<and> recorded w = unat height))"
| "producer_ok e heights w pl Waiting \<longleftrightarrow> pl_target pl = pl_last pl"
| "producer_ok e heights w pl (Looping latest i) \<longleftrightarrow> next_fetch heights (pl_last pl) (pl_target pl) latest i"
| "producer_ok e heights w pl (Fetching latest i p) \<longleftrightarrow> next_fetch heights (pl_last pl) (pl_target pl) latest i \<and> i \<le> latest \<and> quiet p"
| "producer_ok e heights w pl (Sending latest i item) \<longleftrightarrow> next_fetch heights (pl_last pl) (pl_target pl) latest i \<and> i \<le> latest \<and> blk_blockHeight item = i"
| "producer_ok e heights w pl (Returned r) \<longleftrightarrow> True"

definition pipeline_ok :: "env \<Rightarrow> i64 set \<Rightarrow> world \<Rightarrow> pipeline \<Rightarrow> bool" where
  "pipeline_ok e heights w pl \<longleftrightarrow> logged (pl_log pl) (recorded w) \<and> in_order (pl_log pl) \<and>
     producer_ok e heights w pl (pl_producer pl) \<and> consumer_ok e w pl (pl_consumer pl)"

lemma pipeline_ok_same_height:
  assumes "w_last_height w' = w_last_height w"
  shows "pipeline_ok e heights w' pl = pipeline_ok e heights w pl"
proof -
  have r: "recorded w' = recorded w" using assms by (simp add: recorded_def)
  have "producer_ok e heights w' pl p = producer_ok e heights w pl p" for p by (cases p) (simp_all add: r)
  moreover have "consumer_ok e w' pl c = consumer_ok e w pl c" for c by (cases c) (simp_all add: r)
  ultimately show ?thesis using r by (simp add: pipeline_ok_def)
qed

lemma getLatestHeight_in: "getLatestHeight height pending \<in> set (height # pending)"
  by (induction pending arbitrary: height) auto

lemma quietD: "quiet (Act f) \<Longrightarrow> w_last_height (snd (f w)) = w_last_height w \<and> quiet (fst (f w))"
  by (simp add: leaves_Act)

section \<open>Every step keeps the invariant\<close>

lemma boot_height_not_Done [simp]: "GetLastProcessedBbnHeight e \<noteq> Done r" "Done r \<noteq> GetLastProcessedBbnHeight e"
  by (simp_all add: GetLastProcessedBbnHeight_def db_call_def atomically_def)

lemma commit_height_not_Done [simp]: "commit_height e item \<noteq> Done r" "Done r \<noteq> commit_height e item"
  by (simp_all add: commit_height_def UpdateLastProcessedBbnHeight_def db_call_def atomically_def wrap_err_def)

lemma boot_height_step:
  assumes "GetLastProcessedBbnHeight e = Act f"
  shows "w_last_height (snd (f w)) = w_last_height w \<and>
    ((\<exists>err. fst (f w) = throw err) \<or> (\<exists>height. fst (f w) = ret height \<and> recorded (snd (f w)) = unat height))"
proof -
  have "run (GetLastProcessedBbnHeight e) w = run (fst (f w)) (snd (f w))" by (simp add: assms)
  then show ?thesis
    using assms
    by (auto simp: GetLastProcessedBbnHeight_def db_call_def atomically_def recorded_def split: option.splits fault.splits)
qed

lemma commit_step:
  assumes "commit_height e item = Act f"
  shows "((\<exists>err. fst (f w) = throw err) \<and> w_last_height (snd (f w)) \<in> {w_last_height w, Some (blk_blockHeight item)}) \<or>
    (fst (f w) = ret () \<and> w_last_height (snd (f w)) = Some (blk_blockHeight item))"
  using assms
  by (auto simp: commit_height_def UpdateLastProcessedBbnHeight_def wrap_err_def db_call_def atomically_def
      split: option.splits fault.splits)

text \<open>What the two halves of the invariant do not look at.\<close>

definition out :: "pipeline \<Rightarrow> bool" where
  "out pl \<longleftrightarrow> (\<exists>r. pl_producer pl = Returned r)"

lemma producer_ok_frame:
  assumes "producer_ok e heights w pl p" "pl_last pl' = pl_last pl" "pl_target pl' = pl_target pl"
    and "\<And>q. p = Booting q \<Longrightarrow> pl_consumer pl' = pl_consumer pl \<and> pl_channel pl' = pl_channel pl \<and> recorded w' = recorded w"
  shows "producer_ok e heights w' pl' p"
  using assms by (cases p) simp_all

lemma consumer_ok_frame:
  assumes "consumer_ok e w pl c" "pl_last pl' = pl_last pl" "pl_channel pl' = pl_channel pl" "pl_log pl' = pl_log pl"
    and "pl_cause pl = None \<or> pl_cause pl' \<noteq> None" "c = NotStarted \<Longrightarrow> out pl'" "out pl \<Longrightarrow> out pl'"
  shows "consumer_ok e w pl' c"
  using assms by (cases c) (auto simp: out_def)

text \<open>A step that moves only the fetching goroutine.\<close>

lemma moves_producer:
  assumes "pipeline_ok e heights w pl" "\<not> out pl" "producer_ok e heights w pl p"
    and "\<And>q. p \<noteq> Booting q" "pl_consumer pl = NotStarted \<Longrightarrow> \<exists>r. p = Returned r"
  shows "pipeline_ok e heights w (pl\<lparr>pl_producer := p\<rparr>)"
proof -
  have "producer_ok e heights w (pl\<lparr>pl_producer := p\<rparr>) p" using assms(3,4) by (auto intro: producer_ok_frame)
  moreover have "consumer_ok e w (pl\<lparr>pl_producer := p\<rparr>) (pl_consumer pl)"
    using assms(1,2,5) by (auto simp: pipeline_ok_def out_def intro!: consumer_ok_frame [of e w pl])
  ultimately show ?thesis using assms(1) by (simp add: pipeline_ok_def)
qed

lemma not_started_boots:
  "pipeline_ok e heights w pl \<Longrightarrow> pl_consumer pl = NotStarted \<Longrightarrow> out pl \<or> (\<exists>p. pl_producer pl = Booting p)"
  by (cases "pl_producer pl") (auto simp: pipeline_ok_def out_def)

lemma producer_step_ok:
  assumes "producer_step e (w, pl) (w', pl')" "pipeline_ok e heights w pl" "- 1 \<notin> heights"
  shows "pipeline_ok e heights w' pl'"
proof -
  note boots = not_started_boots [OF assms(2)] and moves = moves_producer [OF assms(2)]
  note parts = assms(2) [unfolded pipeline_ok_def]
  from assms(1) show ?thesis
  proof cases
    case (boot_act f)
    then have f: "GetLastProcessedBbnHeight e = Act f" and pl: "pl_consumer pl = NotStarted" "pl_channel pl = []"
      using parts by auto
    have "recorded w' = recorded w" using boot_height_step [OF f, of w] boot_act by (simp add: recorded_def)
    with boot_height_step [OF f, of w] boot_act pl parts show ?thesis by (auto simp: pipeline_ok_def)
  next
    case (boot_ok height)
    then show ?thesis using parts by (auto simp: pipeline_ok_def channel_from_Nil)
  next
    case (fetch_act latest i g)
    then have q: "quiet (Act g)" and nf: "next_fetch heights (pl_last pl) (pl_target pl) latest i" "i \<le> latest"
      using parts by simp_all
    note g = quietD [OF q, of w]
    have "pipeline_ok e heights w pl'"
      unfolding fetch_act using g nf fetch_act(3) boots by (intro moves) (auto simp: out_def)
    then show ?thesis using pipeline_ok_same_height [of w' w e heights pl'] g fetch_act by simp
  next
    case (send latest i item)
    then have nf: "next_fetch heights (pl_last pl) (pl_target pl) latest i" "i \<le> latest" "blk_blockHeight item = i"
      using parts by simp_all
    have "pl_consumer pl \<noteq> NotStarted" using boots send by (auto simp: out_def)
    then have "consumer_ok e w pl' (pl_consumer pl)"
      using parts send next_fetch_unat [OF nf(1) assms(3)] nf(3)
      by (cases "pl_consumer pl") (auto intro: channel_from_snoc)
    then show ?thesis using send next_fetch_step [OF nf(1,2)] parts by (simp add: pipeline_ok_def)
  next
    case (loop_end latest i)
    then have nf: "next_fetch heights (pl_last pl) (pl_target pl) latest i" using parts by simp
    then have "pl_target pl = pl_last pl"
      using loop_end next_fetch_unat [OF nf assms(3)]
      by (auto simp: next_fetch_def word_le_nat_alt intro: word_unat_eq_iff [THEN iffD2])
    then show ?thesis
      unfolding loop_end using loop_end boots by (intro moves) (auto simp: out_def)
  next
    case (loop_fetch latest i)
    then show ?thesis
      unfolding loop_fetch using loop_fetch(3-) parts boots quiet_fetch [of e i] by (intro moves) (auto simp: out_def)
  next
    case (fetch_ok latest i events)
    then show ?thesis
      unfolding fetch_ok using fetch_ok(3-) parts boots by (intro moves) (auto simp: out_def)
  qed (auto simp: out_def intro!: moves)
qed

lemma consumer_step_ok:
  assumes "consumer_step e (w, pl) (w', pl')" "pipeline_ok e heights w pl"
  shows "pipeline_ok e heights w' pl'"
proof -
  note parts = assms(2) [unfolded pipeline_ok_def]
  have same: "pl_last pl' = pl_last pl" "pl_target pl' = pl_target pl" "pl_producer pl' = pl_producer pl" "pl_consumer pl \<noteq> NotStarted"
    using assms(1) by (cases; simp add: cancel_with_def)+
  have "\<And>q. pl_producer pl \<noteq> Booting q" using parts same(4) by auto
  then have producer: "producer_ok e heights w' pl' (pl_producer pl)"
    using parts same by (auto intro: producer_ok_frame)
  from assms(1) show ?thesis
  proof cases
    case (work_act item f)
    then have "quiet (Act f)" using parts by simp
    note f = quietD [OF this, of w]
    then have "recorded w' = recorded w" using work_act by (simp add: recorded_def)
    then show ?thesis using f work_act producer parts by (auto simp: pipeline_ok_def)
  next
    case (work_ok item u)
    then have item: "item_height item = Suc (recorded w)" "channel_from (item_height item) (pl_last pl) (pl_channel pl)"
      using parts by auto
    then have "logged (pl_log pl') (item_height item)" "logged (pl_log pl') (recorded w)"
      using parts work_ok by (simp_all add: logged_Suc logged_snoc)
    then show ?thesis using parts producer work_ok item by (auto simp: pipeline_ok_def)
  next
    case (commit_act item f)
    then have c: "logged (pl_log pl) (item_height item)" "channel_from (item_height item) (pl_last pl) (pl_channel pl)"
        "commit_height e item = Act f"
      using parts by auto
    note f = commit_step [OF c(3), of w]
    then have "recorded w' = recorded w \<or> recorded w' = item_height item" using commit_act by (auto simp: recorded_def)
    then have l: "logged (pl_log pl) (recorded w')" using c parts by auto
    have "consumer_ok e w' pl' (pl_consumer pl')"
      using f commit_act c by (auto simp: recorded_def)
    then show ?thesis using l c commit_act producer parts by (simp add: pipeline_ok_def)
  next
    case (commit_ok item u)
    then have "channel_from (recorded w) (pl_last pl) (pl_channel pl)" using parts by auto
    then show ?thesis using commit_ok producer parts by (simp add: pipeline_ok_def)
  next
    case (receive item items)
    then have "item_height item = Suc (recorded w)" "channel_from (item_height item) (pl_last pl) items"
      using parts by (simp_all add: channel_from_Cons)
    then show ?thesis
      using receive parts producer by (simp add: pipeline_ok_def process_events_def quiet_events)
  qed (use parts producer in \<open>simp_all add: pipeline_ok_def cancel_with_def split: option.splits\<close>)
qed

lemma announce_ok:
  assumes "announce heights pl pl'" "pipeline_ok e heights w pl"
  shows "pipeline_ok e heights w pl'"
  using assms(1)
proof cases
  case (ahead height pending latest)
  then have "latest \<in> heights" using getLatestHeight_in by blast
  then have "next_fetch heights (pl_last pl) latest latest (pl_last pl + 1)" using ahead by (simp add: next_fetch_def)
  moreover have "pl_consumer pl \<noteq> NotStarted" using not_started_boots [OF assms(2)] ahead(2) by (auto simp: out_def)
  then have "consumer_ok e w pl' (pl_consumer pl)"
    using assms(2) ahead(1,2) by (auto simp: pipeline_ok_def out_def intro: consumer_ok_frame [of e w pl, rotated])
  ultimately show ?thesis using ahead assms(2) by (simp add: pipeline_ok_def)
qed (use assms in simp)

lemma boot_ok: "logged log (recorded w) \<Longrightarrow> in_order log \<Longrightarrow> pipeline_ok e heights w (boot_pipeline e log)"
  by (simp add: pipeline_ok_def boot_pipeline_def)

lemma cancel_ok:
  assumes "pipeline_ok e heights w pl"
  shows "pipeline_ok e heights w (cancel_with err pl)"
proof -
  have "producer_ok e heights w (cancel_with err pl) (pl_producer pl)"
    using assms by (auto simp: pipeline_ok_def cancel_with_def intro!: producer_ok_frame [of e heights w pl])
  then show ?thesis
    using assms by (cases "pl_consumer pl") (simp_all add: pipeline_ok_def cancel_with_def split: option.splits)
qed

definition node_ok :: "env \<Rightarrow> i64 set \<Rightarrow> node \<Rightarrow> bool" where
  "node_ok e heights s = (case s of (w, pl, ps) \<Rightarrow> pipeline_ok e heights w pl \<and> (\<forall>p \<in> set ps. quiet p))"

lemma other_step_ok:
  assumes "other_step e s s'" "node_ok e heights s"
  shows "node_ok e heights s'"
  using assms(1)
proof cases
  case (start w p w' pl ps)
  with quiet_background [OF start(3)] pipeline_ok_same_height [of w' w e heights pl] assms(2)
  show ?thesis by (auto simp: node_ok_def)
next
  case (act i ps f w pl)
  then have "Act f \<in> set ps" by (metis nth_mem)
  then have "quiet (Act f)" using assms(2) act by (simp add: node_ok_def)
  note f = quietD [OF this, of w]
  with act pipeline_ok_same_height [of "snd (f w)" w e heights pl] assms(2) show ?thesis
    by (auto simp: node_ok_def dest!: set_update_subset_insert [THEN subsetD])
next
  case (shutdown w pl ps)
  with assms(2) show ?thesis by (simp add: node_ok_def cancel_ok)
qed

lemma own_step_ok:
  assumes "own_step e s s'" "node_ok e heights s" "- 1 \<notin> heights"
  shows "node_ok e heights s'"
  using assms(1)
proof cases
  case (producer w pl w' pl' ps)
  then show ?thesis using producer_step_ok [OF producer(3)] assms(2,3) by (simp add: node_ok_def)
next
  case (consumer w pl w' pl' ps)
  then show ?thesis using consumer_step_ok [OF consumer(3)] assms(2) by (simp add: node_ok_def)
qed

lemma node_step_ok:
  assumes "node_step e heights s s'" "node_ok e heights s" "- 1 \<notin> heights"
  shows "node_ok e heights s'"
  using assms(1)
proof cases
  case own
  then show ?thesis using own_step_ok assms(2,3) by blast
next
  case other
  then show ?thesis using other_step_ok assms(2) by blast
next
  case (announce pl pl' w ps)
  then show ?thesis using assms(2) announce_ok [OF announce(3)] by (simp add: node_ok_def)
next
  case (restart w pl ps)
  then have "logged (pl_log pl) (recorded w)" "in_order (pl_log pl)" using assms(2) by (simp_all add: node_ok_def pipeline_ok_def)
  moreover have "recorded (w\<lparr>w_jobs := [], w_watches := [], w_params_version := 0\<rparr>) = recorded w" by (simp add: recorded_def)
  ultimately show ?thesis using restart boot_ok by (simp add: node_ok_def)
qed

lemma node_reachable_ok:
  assumes "node_reachable e heights s" "- 1 \<notin> heights"
  shows "node_ok e heights s"
  using assms(1)
proof induction
  case init
  show ?case by (simp add: node_ok_def boot_ok recorded_def initial_world_def)
qed (use node_step_ok assms(2) in blast)

section \<open>Liveness\<close>

text \<open>One action shortens a program.\<close>

definition prog_order :: "(('w, 'a) prog \<times> ('w, 'a) prog) set" where
  "prog_order = {(q, p). \<exists>f w. p = Act f \<and> q = fst (f w)}"

lemma wf_prog_order: "wf (prog_order :: (('w, 'a) prog \<times> ('w, 'a) prog) set)"
proof (rule wfUNIVI)
  fix P :: "('w, 'a) prog \<Rightarrow> bool" and p
  assume "\<forall>p. (\<forall>q. (q, p) \<in> prog_order \<longrightarrow> P q) \<longrightarrow> P p"
  then have step: "(\<And>q. (q, p) \<in> prog_order \<Longrightarrow> P q) \<Longrightarrow> P p" for p by blast
  show "P p"
  proof (induction p rule: prog_actions_induct)
    case (Done r)
    show ?case by (rule step) (simp add: prog_order_def)
  next
    case (Act f)
    show ?case by (rule step) (use Act in \<open>auto simp: prog_order_def\<close>)
  qed
qed

lemma prog_order_step: "(fst (f w), Act f) \<in> prog_order"
  by (auto simp: prog_order_def)

lemma prog_order_andThen: "(andThen (fst (f w)) k, andThen (Act f) k) \<in> prog_order"
  by (auto simp: prog_order_def intro: exI [of _ w])

text \<open>How far the fetching goroutine is from waiting, and the processing goroutine from an empty channel.\<close>

definition remaining :: "('w, 'a) prog \<Rightarrow> ('w, unit) prog" where
  "remaining p = andThen p (\<lambda>_. ret ())"

fun producer_rank :: "producer \<Rightarrow> nat \<times> nat \<times> (world, unit) prog" where
  "producer_rank (Booting p) = (1, 0, remaining p)"
| "producer_rank Waiting = (0, 1, ret ())"
| "producer_rank (Looping latest i) = (Suc (unat latest) - unat i, 4, ret ())"
| "producer_rank (Fetching latest i p) = (Suc (unat latest) - unat i, 3, remaining p)"
| "producer_rank (Sending latest i item) = (Suc (unat latest) - unat i, 2, ret ())"
| "producer_rank (Returned r) = (0, 0, ret ())"

fun consumer_rank :: "nat \<Rightarrow> consumer \<Rightarrow> nat \<times> (world, unit) prog" where
  "consumer_rank n Receiving = (3 * n + 1, ret ())"
| "consumer_rank n (Processing item p) = (3 * n + 3, p)"
| "consumer_rank n (Committing item p) = (3 * n + 2, p)"
| "consumer_rank n _ = (0, ret ())"

definition rank :: "node \<Rightarrow> (nat \<times> nat \<times> (world, unit) prog) \<times> nat \<times> (world, unit) prog" where
  "rank s = (case s of (w, pl, ps) \<Rightarrow>
     (producer_rank (pl_producer pl), consumer_rank (length (pl_channel pl)) (pl_consumer pl)))"

definition rank_order where
  "rank_order = (less_than <*lex*> less_than <*lex*> prog_order) <*lex*> less_than <*lex*> prog_order"

lemma wf_rank_order: "wf rank_order"
  by (auto simp: rank_order_def wf_prog_order)

lemma producer_step_rank:
  assumes "producer_step e (w, pl) (w', pl')" "pipeline_ok e heights w pl" "- 1 \<notin> heights"
  shows "(rank (w', pl', ps), rank (w, pl, ps)) \<in> rank_order"
  using assms(1)
proof cases
  case (send latest i item)
  then have nf: "next_fetch heights (pl_last pl) (pl_target pl) latest i" "i \<le> latest"
    using assms(2) by (simp_all add: pipeline_ok_def)
  have "next_fetch heights i (pl_target pl) latest (i + 1)" using nf by (rule next_fetch_step)
  then have "unat (i + 1) = Suc (unat i)" using assms(3) by (rule next_fetch_unat)
  then show ?thesis using send nf(2) by (simp add: rank_def rank_order_def word_le_nat_alt)
qed (auto simp: rank_def rank_order_def remaining_def word_le_nat_alt Suc_le_eq prog_order_andThen simp del: andThen.simps)

lemma consumer_step_rank:
  assumes "consumer_step e (w, pl) (w', pl')"
  shows "(rank (w', pl', ps), rank (w, pl, ps)) \<in> rank_order"
  using assms by cases (auto simp: rank_def rank_order_def prog_order_step cancel_with_def)

lemma own_step_rank:
  assumes "own_step e s s'" "node_ok e heights s" "- 1 \<notin> heights"
  shows "(rank s', rank s) \<in> rank_order"
  using assms(1)
proof cases
  case (producer w pl w' pl' ps)
  then have "pipeline_ok e heights w pl" using assms(2) by (simp add: node_ok_def)
  then show ?thesis unfolding producer using producer_step_rank [OF producer(3)] assms(3) by blast
next
  case (consumer w pl w' pl' ps)
  then show ?thesis using consumer_step_rank [OF consumer(3)] by simp
qed

lemma other_step_rank: "other_step e s s' \<Longrightarrow> rank s' = rank s"
  by (cases rule: other_step.cases) (auto simp: rank_def cancel_with_def)

lemma other_steps:
  assumes "(other_step e)\<^sup>*\<^sup>* s s'" "node_ok e heights s"
  shows "rank s' = rank s \<and> node_ok e heights s'"
  using assms by (induction rule: rtranclp_induct) (auto simp: other_step_rank dest: other_step_ok)

text \<open>A processor that can do nothing by itself.\<close>

definition caught_up :: "world \<Rightarrow> pipeline \<Rightarrow> bool" where
  "caught_up w pl \<longleftrightarrow> pl_producer pl = Waiting \<and> pl_consumer pl = Receiving \<and> pl_channel pl = [] \<and>
     pl_cause pl = None \<and> recorded w = unat (pl_target pl)"

definition ended :: "pipeline \<Rightarrow> bool" where
  "ended pl \<longleftrightarrow> (\<exists>r. pl_producer pl = Returned r) \<and> (pl_consumer pl = NotStarted \<or> pl_consumer pl = Exited)"

definition consumer_panicked :: "pipeline \<Rightarrow> bool" where
  "consumer_panicked pl \<longleftrightarrow> (\<exists>msg. pl_consumer pl = Panicked msg)"

lemma producer_idle:
  assumes "\<nexists>t. producer_step e (w, pl) t"
  shows "(pl_producer pl = Waiting \<and> pl_cause pl = None) \<or> (\<exists>r. pl_producer pl = Returned r) \<or>
    ((\<exists>latest i item. pl_producer pl = Sending latest i item) \<and> eventProcessorSize \<le> length (pl_channel pl) \<and> pl_cause pl = None)"
proof (cases "pl_producer pl")
  case (Booting p)
  show ?thesis
  proof (cases p)
    case (Done r)
    then show ?thesis using assms Booting by (cases r) (blast intro: producer_step.intros)+
  next
    case (Act f)
    then show ?thesis using assms Booting by (blast intro: producer_step.intros)
  qed
next
  case (Fetching latest i p)
  show ?thesis
  proof (cases p)
    case (Done r)
    then show ?thesis using assms Fetching by (cases r) (blast intro: producer_step.intros)+
  next
    case (Act f)
    then show ?thesis using assms Fetching by (blast intro: producer_step.intros)
  qed
next
  case (Looping latest i)
  then show ?thesis using assms by (cases "i \<le> latest"; cases "pl_cause pl") (blast intro: producer_step.intros)+
next
  case (Sending latest i item)
  then show ?thesis
    using assms by (cases "length (pl_channel pl) < eventProcessorSize"; cases "pl_cause pl")
      (auto intro: producer_step.intros simp: not_less)
next
  case Waiting
  then show ?thesis using assms by (cases "pl_cause pl") (blast intro: producer_step.intros)+
qed simp

lemma consumer_idle:
  assumes "\<nexists>t. consumer_step e (w, pl) t"
  shows "pl_consumer pl = NotStarted \<or> pl_consumer pl = Exited \<or> consumer_panicked pl \<or>
    (pl_consumer pl = Receiving \<and> pl_channel pl = [] \<and> \<not> out pl)"
proof (cases "pl_consumer pl")
  case Receiving
  then show ?thesis
    using assms by (cases "pl_channel pl") (auto simp: out_def intro: consumer_step.intros)
next
  case (Processing item p)
  show ?thesis
  proof (cases p)
    case (Done r)
    then show ?thesis using assms Processing by (cases r) (blast intro: consumer_step.intros)+
  next
    case (Act f)
    then show ?thesis using assms Processing by (blast intro: consumer_step.intros)
  qed
next
  case (Committing item p)
  show ?thesis
  proof (cases p)
    case (Done r)
    then show ?thesis using assms Committing by (cases r) (blast intro: consumer_step.intros)+
  next
    case (Act f)
    then show ?thesis using assms Committing by (blast intro: consumer_step.intros)
  qed
qed (simp_all add: consumer_panicked_def)

lemma idle_cases:
  assumes "\<nexists>s'. own_step e (w, pl, ps) s'" "pipeline_ok e heights w pl"
  shows "caught_up w pl \<or> ended pl \<or> consumer_panicked pl"
proof -
  have "\<nexists>t. producer_step e (w, pl) t" "\<nexists>t. consumer_step e (w, pl) t"
    using assms(1) own_step.intros by (metis prod.exhaust)+
  note producer = producer_idle [OF this(1)] and consumer = consumer_idle [OF this(2)]
  from consumer consider (outside) "pl_consumer pl = NotStarted \<or> pl_consumer pl = Exited"
    | (panicked) "consumer_panicked pl" | (receiving) "pl_consumer pl = Receiving" "pl_channel pl = []" "\<not> out pl" by blast
  then show ?thesis
  proof cases
    case outside
    then have "(\<exists>r. pl_producer pl = Returned r) \<or> (\<exists>p. pl_producer pl = Booting p) \<or> pl_cause pl \<noteq> None"
      using assms(2) not_started_boots [OF assms(2)] by (auto simp: pipeline_ok_def out_def)
    with producer outside show ?thesis by (auto simp: ended_def)
  next
    case receiving
    then have "pl_producer pl = Waiting" "pl_cause pl = None"
      using producer by (auto simp: out_def eventProcessorSize_def)
    with receiving assms(2) show ?thesis by (auto simp: caught_up_def pipeline_ok_def channel_from_Nil)
  qed simp
qed

text \<open>
  A panic of a handler is not noticed: \<^verbatim>\<open>conc.WaitGroup\<close> keeps it until the fetching goroutine returns, and nothing
  makes that one return. No later step of the processor reports it or moves the height.
\<close>

lemma panic_is_not_noticed:
  assumes "own_step e (w, pl, ps) (w', pl', ps')" "consumer_panicked pl" "pipeline_ok e heights w pl"
  shows "consumer_panicked pl' \<and> pl_cause pl' = pl_cause pl \<and> w_last_height w' = w_last_height w"
  using assms(1)
proof cases
  case producer
  from \<open>producer_step e (w, pl) (w', pl')\<close> show ?thesis
  proof cases
    case (fetch_act latest i g)
    then have "quiet (Act g)" using assms(3) by (simp add: pipeline_ok_def)
    then show ?thesis using quietD fetch_act assms(2) by (auto simp: consumer_panicked_def)
  qed (use assms(2,3) in \<open>auto simp: consumer_panicked_def pipeline_ok_def\<close>)
next
  case consumer
  from \<open>consumer_step e (w, pl) (w', pl')\<close> show ?thesis by cases (use assms(2) in \<open>auto simp: consumer_panicked_def\<close>)
qed

section \<open>The process as a system of goroutines\<close>

text \<open>The programs that the two goroutines of the block processor still have to run.\<close>

fun producer_threads :: "producer \<Rightarrow> (world, unit) prog multiset" where
  "producer_threads (Booting p) = {#remaining p#}"
| "producer_threads (Fetching latest i p) = {#remaining p#}"
| "producer_threads _ = {#}"

fun consumer_threads :: "env \<Rightarrow> consumer \<Rightarrow> (world, unit) prog multiset" where
  "consumer_threads e (Processing item p) = {#andThen p (\<lambda>_. commit_height e item)#}"
| "consumer_threads e (Committing item p) = {#p#}"
| "consumer_threads e _ = {#}"

definition node_threads :: "env \<Rightarrow> pipeline \<Rightarrow> (world, unit) prog list \<Rightarrow> (world, unit) prog multiset" where
  "node_threads e pl ps = producer_threads (pl_producer pl) + consumer_threads e (pl_consumer pl) + mset ps"

definition runs_in_system :: "env \<Rightarrow> world \<Rightarrow> (world, unit) prog multiset \<Rightarrow> bool" where
  "runs_in_system e w ms \<longleftrightarrow> (\<exists>qs. reachable e (w, qs) \<and> ms \<subseteq># mset qs)"

lemma system_drop: "runs_in_system e w ms \<Longrightarrow> ms' \<subseteq># ms \<Longrightarrow> runs_in_system e w ms'"
  unfolding runs_in_system_def using subset_mset.order_trans by blast

lemma system_start:
  assumes "runs_in_system e w ms" "starts e w p w'"
  shows "runs_in_system e w' (add_mset p ms)"
proof -
  obtain qs where qs: "reachable e (w, qs)" "ms \<subseteq># mset qs" using assms(1) by (auto simp: runs_in_system_def)
  have "reachable e (w', qs @ [p])" using qs(1) sys_step.start [OF assms(2)] by (rule reachable.step)
  moreover have "add_mset p ms \<subseteq># mset (qs @ [p])" using qs(2) by simp
  ultimately show ?thesis unfolding runs_in_system_def by blast
qed

lemma system_act:
  assumes "runs_in_system e w (add_mset (Act f) ms)"
  shows "runs_in_system e (snd (f w)) (add_mset (fst (f w)) ms)"
proof -
  obtain qs where qs: "reachable e (w, qs)" "add_mset (Act f) ms \<subseteq># mset qs" using assms by (auto simp: runs_in_system_def)
  then have "Act f \<in> set qs" by (metis mset_subset_eq_insertD set_mset_mset)
  then obtain i where i: "i < length qs" "qs ! i = Act f" by (auto simp: in_set_conv_nth)
  have "reachable e (snd (f w), qs[i := fst (f w)])" using qs(1) sys_step.act [OF i] by (rule reachable.step)
  moreover have "add_mset (fst (f w)) ms \<subseteq># mset (qs[i := fst (f w)])"
    using qs(2) i by (simp add: mset_update subset_eq_diff_conv insert_subset_eq_iff)
  ultimately show ?thesis unfolding runs_in_system_def by blast
qed

lemma system_andThen:
  assumes "runs_in_system e w (add_mset (andThen (Act f) k) ms)"
  shows "runs_in_system e (snd (f w)) (add_mset (andThen (fst (f w)) k) ms)"
  using system_act [of e w "\<lambda>w. map_prod (\<lambda>p. andThen p k) id (f w)"] assms by simp

lemma producer_step_system:
  assumes "producer_step e (w, pl) (w', pl')" "pipeline_ok e heights w pl" "runs_in_system e w (node_threads e pl ps)"
  shows "runs_in_system e w' (node_threads e pl' ps)"
  using assms(1)
proof cases
  case (boot_act f)
  then show ?thesis
    using assms(3) system_andThen [of e w f] by (simp add: node_threads_def remaining_def del: andThen.simps)
next
  case (fetch_act latest i g)
  then show ?thesis
    using assms(3) system_andThen [of e w g] by (simp add: node_threads_def remaining_def del: andThen.simps)
next
  case (loop_fetch latest i)
  then show ?thesis
    using system_start [OF assms(3) starts.fetch [of e w i]] by (simp add: node_threads_def remaining_def)
qed (use assms(2,3) in \<open>auto simp: node_threads_def pipeline_ok_def elim!: system_drop\<close>)

lemma consumer_step_system:
  assumes "consumer_step e (w, pl) (w', pl')" "runs_in_system e w (node_threads e pl ps)"
  shows "runs_in_system e w' (node_threads e pl' ps)"
  using assms(1)
proof cases
  case (receive item items)
  then show ?thesis
    using system_start [OF assms(2) starts.block [of e w item]] by (simp add: node_threads_def process_item_halves)
next
  case (work_act item f)
  then show ?thesis
    using assms(2) system_andThen [of e w f] by (simp add: node_threads_def del: andThen.simps)
next
  case (commit_act item f)
  then show ?thesis using assms(2) system_act [of e w f] by (simp add: node_threads_def)
qed (use assms(2) in \<open>auto simp: node_threads_def cancel_with_def elim!: system_drop\<close>)

lemma other_step_system:
  assumes "other_step e (w, pl, ps) (w', pl', ps')" "runs_in_system e w (node_threads e pl ps)"
  shows "runs_in_system e w' (node_threads e pl' ps')"
  using assms(1)
proof cases
  case (start p)
  then show ?thesis
    using system_start [OF assms(2) starts.other [OF start(3)]] by (simp add: node_threads_def)
next
  case (act i f)
  then have "Act f \<in># mset ps" by (metis nth_mem_mset)
  then obtain M where M: "mset ps = add_mset (Act f) M" by (rule mset_add)
  let ?rest = "producer_threads (pl_producer pl) + consumer_threads e (pl_consumer pl) + M"
  have "runs_in_system e w (add_mset (Act f) ?rest)" using assms(2) M by (simp add: node_threads_def)
  then have "runs_in_system e (snd (f w)) (add_mset (fst (f w)) ?rest)" by (rule system_act)
  moreover have "mset (ps[i := fst (f w)]) = add_mset (fst (f w)) M" using act M by (simp add: mset_update)
  ultimately show ?thesis using act by (simp add: node_threads_def)
next
  case shutdown
  then show ?thesis using assms(2) by (simp add: node_threads_def cancel_with_def)
qed

lemma node_reachable_system:
  assumes "node_reachable e heights s" "- 1 \<notin> heights"
  shows "case s of (w, pl, ps) \<Rightarrow> runs_in_system e w (node_threads e pl ps)"
  using assms(1)
proof induction
  case init
  have "runs_in_system e initial_world {#}" unfolding runs_in_system_def using reachable.init by fastforce
  from system_start [OF this starts.boot] show ?case
    by (simp add: node_threads_def boot_pipeline_def remaining_def)
next
  case (step s s')
  obtain w pl ps w' pl' ps' where s: "s = (w, pl, ps)" "s' = (w', pl', ps')" by (metis prod.exhaust)
  have ok: "pipeline_ok e heights w pl" using node_reachable_ok [OF step.hyps(1) assms(2)] by (simp add: node_ok_def s)
  have ih: "runs_in_system e w (node_threads e pl ps)" using step.IH by (simp add: s)
  from step.hyps(2) show ?case
  proof cases
    case own
    then have "runs_in_system e w' (node_threads e pl' ps')"
      unfolding s by (rule own_stepE) (use ok ih producer_step_system consumer_step_system in blast)+
    then show ?thesis by (simp add: s)
  next
    case other
    then show ?thesis using other_step_system [OF _ ih] by (simp add: s)
  next
    case announce
    then have "runs_in_system e w (node_threads e pl' ps)" using ih by (auto simp: s node_threads_def elim!: announce.cases)
    then show ?thesis using announce by (simp add: s)
  next
    case restart
    from ih obtain qs where "reachable e (w, qs)" by (auto simp: runs_in_system_def)
    from reachable.step [OF this sys_step.crash [of "[]"]]
    have "runs_in_system e (w\<lparr>w_jobs := [], w_watches := [], w_params_version := 0\<rparr>) {#}"
      unfolding runs_in_system_def by fastforce
    from system_start [OF this starts.boot] restart show ?thesis
      by (simp add: s node_threads_def boot_pipeline_def remaining_def)
  qed
qed

section \<open>A run of the process\<close>

lemma run_in_node:
  assumes "\<And>f w. step (w, C (Act f), ps) (snd (f w), C (fst (f w)), ps)"
  shows "step\<^sup>*\<^sup>* (w, C p, ps) (snd (run p w), C (Done (fst (run p w))), ps)"
proof (induction p arbitrary: w rule: prog_actions_induct)
  case (Act f)
  have "step (w, C (Act f), ps) (snd (f w), C (fst (f w)), ps)" by (rule assms)
  also have "step\<^sup>*\<^sup>* (snd (f w), C (fst (f w)), ps)
      (snd (run (fst (f w)) (snd (f w))), C (Done (fst (run (fst (f w)) (snd (f w))))), ps)" by (rule Act)
  finally show ?case by simp
qed simp

end
