(* ===== verification/Subscription.thy ===== *)
theory Subscription
  imports Bootstrap
begin

text \<open>
  The subscription to new Babylon blocks: \<^verbatim>\<open>Subscribe\<close> of \<^verbatim>\<open>internal/clients/bbnclient/bbnclient.go\<close> with its goroutine
  that forwards the events and renews a silent subscription, and \<^verbatim>\<open>SubscribeToBbnEvents\<close> of
  \<^verbatim>\<open>internal/services/subscription.go\<close> that turns the events into heights.
\<close>

section \<open>The websocket client\<close>

text \<open>
  What the CometBFT client answers at each moment: a new subscription is a channel, named by a number.
\<close>

record websocket =
  ws_IsRunning :: "nat \<Rightarrow> bool"
  ws_Start :: "nat \<Rightarrow> string option"
  ws_Subscribe :: "nat \<Rightarrow> string \<Rightarrow> string \<Rightarrow> string + nat"
  ws_Unsubscribe :: "nat \<Rightarrow> string \<Rightarrow> string \<Rightarrow> string option"
  ws_UnsubscribeAll :: "nat \<Rightarrow> string \<Rightarrow> string option"

fun answer :: "string option \<Rightarrow> string + unit" where
  "answer None = Inr ()"
| "answer (Some msg) = Inl msg"

definition IsRunning :: "websocket \<Rightarrow> (world, bool) prog" where
  "IsRunning ws = ask (\<lambda>t. Inr (ws_IsRunning ws t))"

definition Start :: "websocket \<Rightarrow> (world, unit) prog" where
  "Start ws = ask (\<lambda>t. answer (ws_Start ws t))"

definition UnsubscribeAll :: "websocket \<Rightarrow> string \<Rightarrow> (world, unit) prog" where
  "UnsubscribeAll ws subscriber = ask (\<lambda>t. answer (ws_UnsubscribeAll ws t subscriber))"

section \<open>The forwarding goroutine\<close>

text \<open>Durations and times are in nanoseconds.\<close>

definition Minute :: int where "Minute = 60 * 1000000000"

definition subscriberName :: string where "subscriberName = ''babylon-staking-indexer''"
definition newBlockQuery :: string where "newBlockQuery = ''tm.event='' @ [CHR 0x27] @ ''NewBlock'' @ [CHR 0x27]"
definition outCapacity :: nat where "outCapacity = 100"
definition subscriptionHealthCheckInterval :: int where "subscriptionHealthCheckInterval = 1 * Minute"
definition maxEventWaitInterval :: int where "maxEventWaitInterval = 1 * Minute"

text \<open>The requests that the goroutine makes of the client after the first subscription.\<close>

datatype ws_request =
    UnsubscribeRequest nat string string
  | SubscribeRequest nat string string

record subscription =
  sub_rawEventChan :: nat
  sub_lastEventTime :: int
  sub_forwarded :: "SubscriptionEvent list"
  sub_requests :: "ws_request list"

text \<open>
  What the \<^verbatim>\<open>select\<close> of the loop receives, with the time: an event of the current channel (none when it is closed), or
  a tick, with the moment of the call to the client and the time at which it has answered.
\<close>

datatype select_input =
    RawEvent int "SubscriptionEvent option"
  | TimeoutTick int nat int

definition subscribe :: "websocket \<Rightarrow> string \<Rightarrow> string \<Rightarrow> nat \<Rightarrow> nat result" where
  "subscribe ws subscriber query t =
     wrap_result ''failed to subscribe babylon events for query'' (of_lib (ws_Subscribe ws t subscriber query))"

text \<open>
  One round of the loop. An error of \<^verbatim>\<open>Unsubscribe\<close> is only logged, so its answer does not matter; one of
  \<^verbatim>\<open>subscribe\<close> leads to the next round.
\<close>

fun subscription_step :: "websocket \<Rightarrow> string \<Rightarrow> string \<Rightarrow> int \<Rightarrow> select_input \<Rightarrow> subscription \<Rightarrow> subscription result" where
  "subscription_step ws subscriber query maxWait (RawEvent now ev) s =
     (case ev of
        None \<Rightarrow> Panic ''Subscription channel closed, this shall not happen''
      | Some event \<Rightarrow> Ok (s\<lparr>sub_lastEventTime := now, sub_forwarded := sub_forwarded s @ [event]\<rparr>))"
| "subscription_step ws subscriber query maxWait (TimeoutTick now t later) s =
     (if now - sub_lastEventTime s > maxWait
      then let s' = s\<lparr>sub_requests := sub_requests s @ [UnsubscribeRequest t subscriber query, SubscribeRequest t subscriber query]\<rparr> in
        (case subscribe ws subscriber query t of
           Ok newEventChan \<Rightarrow> Ok (s'\<lparr>sub_rawEventChan := newEventChan, sub_lastEventTime := later\<rparr>)
         | Err err \<Rightarrow> Ok s'
         | Panic msg \<Rightarrow> Panic msg)
      else Ok s)"

fun subscription_run :: "websocket \<Rightarrow> string \<Rightarrow> string \<Rightarrow> int \<Rightarrow> select_input list \<Rightarrow> subscription \<Rightarrow> subscription result" where
  "subscription_run ws subscriber query maxWait [] s = Ok s"
| "subscription_run ws subscriber query maxWait (i # ins) s =
     bind_result (subscription_step ws subscriber query maxWait i s) (subscription_run ws subscriber query maxWait ins)"

text \<open>\<^verbatim>\<open>Subscribe\<close>: the first subscription; the goroutine starts at the time \<open>now\<close>.\<close>

definition Subscribe :: "websocket \<Rightarrow> string \<Rightarrow> string \<Rightarrow> int \<Rightarrow> (world, subscription) prog" where
  "Subscribe ws subscriber query now =
     andThen (wrap_err ''failed to subscribe babylon events for query'' (ask (\<lambda>t. ws_Subscribe ws t subscriber query))) (\<lambda>rawEventChan.
     ret \<lparr>sub_rawEventChan = rawEventChan, sub_lastEventTime = now, sub_forwarded = [], sub_requests = []\<rparr>)"

section \<open>New heights\<close>

definition SubscribeToBbnEvents :: "websocket \<Rightarrow> int \<Rightarrow> (world, subscription) prog" where
  "SubscribeToBbnEvents ws now =
     andThen (IsRunning ws) (\<lambda>running.
     if \<not> running then throw (OtherError ''BBN client is not running'')
     else wrap_err ''failed to subscribe to events'' (Subscribe ws subscriberName newBlockQuery now))"

text \<open>The heights that the goroutine behind it sends to the block processor, in the order of the events.\<close>

definition announced_heights :: "SubscriptionEvent list \<Rightarrow> i64 list result" where
  "announced_heights events = map_result new_block_height events"

section \<open>What the goroutine guarantees\<close>

text \<open>The events that were received.\<close>

fun received :: "select_input list \<Rightarrow> SubscriptionEvent list" where
  "received [] = []"
| "received (RawEvent now (Some event) # ins) = event # received ins"
| "received (_ # ins) = received ins"

lemma forwarded_in_order:
  "subscription_run ws subscriber query maxWait ins s = Ok s' \<Longrightarrow> sub_forwarded s' = sub_forwarded s @ received ins"
  by (induction ins arbitrary: s rule: received.induct)
     (auto simp: Let_def split: if_splits result.splits)

text \<open>\<open>alive\<close>: at every tick the last event is recent enough. Then the subscription is not touched.\<close>

fun alive :: "int \<Rightarrow> int \<Rightarrow> select_input list \<Rightarrow> bool" where
  "alive maxWait seen [] \<longleftrightarrow> True"
| "alive maxWait seen (RawEvent now ev # ins) \<longleftrightarrow> alive maxWait now ins"
| "alive maxWait seen (TimeoutTick now t later # ins) \<longleftrightarrow> now - seen \<le> maxWait \<and> alive maxWait seen ins"

lemma alive_keeps_channel:
  assumes "alive maxWait (sub_lastEventTime s) ins" "subscription_run ws subscriber query maxWait ins s = Ok s'"
  shows "sub_rawEventChan s' = sub_rawEventChan s"
  using assms
proof (induction ins arbitrary: s)
  case (Cons i ins)
  show ?case
  proof (cases i)
    case (RawEvent now ev)
    then obtain event where "ev = Some event" using Cons.prems by (auto split: option.splits)
    then show ?thesis
      using Cons.IH [of "s\<lparr>sub_lastEventTime := now, sub_forwarded := sub_forwarded s @ [event]\<rparr>"] Cons.prems RawEvent by simp
  next
    case (TimeoutTick now t later)
    then show ?thesis using Cons.IH [of s] Cons.prems by (simp add: not_less)
  qed
qed simp

text \<open>Only ticks: the channel is silent.\<close>

type_synonym tick_input = "int \<times> nat \<times> int"

definition tick_inputs :: "tick_input list \<Rightarrow> select_input list" where
  "tick_inputs ticks = map (\<lambda>(now, t, later). TimeoutTick now t later) ticks"

text \<open>A tick at which nothing happens: it is too early, or the client refuses the new subscription.\<close>

definition in_vain :: "websocket \<Rightarrow> string \<Rightarrow> string \<Rightarrow> int \<Rightarrow> int \<Rightarrow> tick_input \<Rightarrow> bool" where
  "in_vain ws subscriber query maxWait seen tk \<longleftrightarrow> (case tk of (now, t, later) \<Rightarrow>
     now - seen \<le> maxWait \<or> (\<exists>msg. ws_Subscribe ws t subscriber query = Inl msg))"

lemma in_vain_step:
  assumes "in_vain ws subscriber query maxWait (sub_lastEventTime s) (now, t, later)"
  shows "\<exists>reqs. subscription_step ws subscriber query maxWait (TimeoutTick now t later) s = Ok (s\<lparr>sub_requests := reqs\<rparr>)"
proof (cases "now - sub_lastEventTime s > maxWait")
  case True
  then obtain msg where "ws_Subscribe ws t subscriber query = Inl msg" using assms by (auto simp: in_vain_def)
  then show ?thesis using True by (auto simp: subscribe_def Let_def)
next
  case False
  then show ?thesis by (intro exI [of _ "sub_requests s"]) simp
qed

lemma in_vain_run:
  assumes "list_all (in_vain ws subscriber query maxWait (sub_lastEventTime s)) ticks"
  shows "\<exists>reqs. subscription_run ws subscriber query maxWait (tick_inputs ticks @ ins) s =
    subscription_run ws subscriber query maxWait ins (s\<lparr>sub_requests := reqs\<rparr>)"
  using assms
proof (induction ticks arbitrary: s)
  case Nil
  show ?case by (intro exI [of _ "sub_requests s"]) (simp add: tick_inputs_def)
next
  case (Cons tk ticks)
  obtain now t later where tk: "tk = (now, t, later)" by (metis prod.exhaust)
  from in_vain_step [of ws subscriber query maxWait s now t later] Cons.prems tk obtain reqs where
    step: "subscription_step ws subscriber query maxWait (TimeoutTick now t later) s = Ok (s\<lparr>sub_requests := reqs\<rparr>)" by auto
  then have "subscription_run ws subscriber query maxWait (tick_inputs (tk # ticks) @ ins) s =
      subscription_run ws subscriber query maxWait (tick_inputs ticks @ ins) (s\<lparr>sub_requests := reqs\<rparr>)"
    by (simp add: tick_inputs_def tk)
  then show ?case using Cons.IH [of "s\<lparr>sub_requests := reqs\<rparr>"] Cons.prems by auto
qed

text \<open>The first tick that is late enough and finds the client willing renews the subscription.\<close>

lemma renewal:
  assumes "list_all (in_vain ws subscriber query maxWait (sub_lastEventTime s)) pre"
    and "sub_lastEventTime s + maxWait < now" "ws_Subscribe ws t subscriber query = Inr c"
  shows "\<exists>reqs. subscription_run ws subscriber query maxWait (tick_inputs (pre @ [(now, t, later)])) s =
    Ok (s\<lparr>sub_rawEventChan := c, sub_lastEventTime := later,
           sub_requests := reqs @ [UnsubscribeRequest t subscriber query, SubscribeRequest t subscriber query]\<rparr>)"
proof -
  have "tick_inputs (pre @ [(now, t, later)]) = tick_inputs pre @ [TimeoutTick now t later]" by (simp add: tick_inputs_def)
  with in_vain_run [OF assms(1), of "[TimeoutTick now t later]"] obtain reqs where
    "subscription_run ws subscriber query maxWait (tick_inputs (pre @ [(now, t, later)])) s =
      subscription_run ws subscriber query maxWait [TimeoutTick now t later] (s\<lparr>sub_requests := reqs\<rparr>)" by auto
  then show ?thesis using assms(2,3) by (intro exI [of _ reqs]) (simp add: subscribe_def Let_def)
qed

text \<open>\<open>spaced h t ts\<close>: from the time \<open>t\<close> on a time of \<open>ts\<close> comes at least every \<open>h\<close>.\<close>

fun spaced :: "int \<Rightarrow> int \<Rightarrow> int list \<Rightarrow> bool" where
  "spaced h t [] \<longleftrightarrow> True"
| "spaced h t (u # us) \<longleftrightarrow> t \<le> u \<and> u \<le> t + h \<and> spaced h u us"

lemma first_late_tick:
  assumes "spaced h t (map fst ticks)" "t \<le> bound" "ticks \<noteq> []" "bound < fst (last ticks)"
  obtains pre now m later post where "ticks = pre @ (now, m, later) # post" "bound < now" "now \<le> bound + h"
    "\<forall>tk \<in> set pre. fst tk \<le> bound"
  using assms
proof (induction ticks arbitrary: t thesis)
  case (Cons tk ticks)
  obtain now m later where tk: "tk = (now, m, later)" by (metis prod.exhaust)
  show ?case
  proof (cases "bound < now")
    case True
    show ?thesis by (rule Cons.prems(1) [of "[]" now m later ticks]) (use Cons.prems tk True in auto)
  next
    case False
    then have "ticks \<noteq> []" "bound < fst (last ticks)" "spaced h now (map fst ticks)" "now \<le> bound"
      using Cons.prems tk by (auto split: if_splits)
    then obtain pre now' m' later' post where "ticks = pre @ (now', m', later') # post" "bound < now'" "now' \<le> bound + h"
        "\<forall>tk \<in> set pre. fst tk \<le> bound"
      using Cons.IH by blast
    then show ?thesis using False tk by (intro Cons.prems(1) [of "tk # pre"]) auto
  qed
qed simp

end
