(* ===== verification/Chain_Follower.thy ===== *)
theory Chain_Follower
  imports Pipeline_Rules Subscription
begin

text \<open>
  From the node's events to the recorded height: the goroutine of \<^verbatim>\<open>Subscribe\<close> that forwards the events of the
  websocket, the goroutine of \<^verbatim>\<open>SubscribeToBbnEvents\<close> that turns them into heights, the unbuffered channel of heights
  with its draining by \<^verbatim>\<open>getLatestHeight\<close>, and the block processor behind it, step by step and together.
\<close>

section \<open>The goroutines before the block processor\<close>

text \<open>The forwarding goroutine is in its \<^verbatim>\<open>select\<close>, or waits until the event that it has taken is received.\<close>

datatype forwarder = Listening | Handing SubscriptionEvent

text \<open>The announcing goroutine is in its \<^verbatim>\<open>select\<close>, waits until its height is received, or has ended.\<close>

datatype announcer = Awaiting | Offering i64 | Stopped

text \<open>
  \<open>fd_buffer\<close> holds the events in the current channel of the websocket client, \<open>fd_drain\<close> what \<^verbatim>\<open>getLatestHeight\<close> has
  received so far while the block processor is inside it, \<open>fd_fatal\<close> the message with which the process has ended.
  \<open>fd_latest\<close> and \<open>fd_lost\<close> are not in the code: the height of the last new block that the node has
  delivered, and whether a renewal of the subscription has thrown away events since then.
\<close>

record feed =
  fd_subscription :: subscription
  fd_buffer :: "SubscriptionEvent list"
  fd_forwarder :: forwarder
  fd_announcer :: announcer
  fd_drain :: "(i64 \<times> i64 list) option"
  fd_cancelled :: bool
  fd_fatal :: "string option"
  fd_latest :: i64
  fd_lost :: bool

definition boot_feed :: "nat \<Rightarrow> int \<Rightarrow> feed" where
  "boot_feed chan now = \<lparr>fd_subscription = \<lparr>sub_rawEventChan = chan, sub_lastEventTime = now, sub_forwarded = [], sub_requests = []\<rparr>,
     fd_buffer = [], fd_forwarder = Listening, fd_announcer = Awaiting, fd_drain = None, fd_cancelled = False,
     fd_fatal = None, fd_latest = 0, fd_lost = False\<rparr>"

text \<open>What \<^verbatim>\<open>SubscribeToBbnEvents\<close> leaves behind when it succeeds.\<close>

lemma boot_feed_subscribes:
  assumes "run (SubscribeToBbnEvents ws now) w = (Ok s, w')"
  shows "\<exists>chan. fd_subscription (boot_feed chan now) = s"
proof (cases "ws_Subscribe ws (w_clock (tick w)) subscriberName newBlockQuery")
  case (Inl msg)
  then show ?thesis using assms by (simp add: SubscribeToBbnEvents_def Subscribe_def IsRunning_def split: if_splits)
next
  case (Inr chan)
  then have "fd_subscription (boot_feed chan now) = s"
    using assms by (simp add: SubscribeToBbnEvents_def Subscribe_def IsRunning_def boot_feed_def split: if_splits)
  then show ?thesis ..
qed

abbreviation forward_step :: "websocket \<Rightarrow> select_input \<Rightarrow> subscription \<Rightarrow> subscription result" where
  "forward_step ws \<equiv> subscription_step ws subscriberName newBlockQuery maxEventWaitInterval"

text \<open>
  What the two goroutines do by themselves. Of several cases of a \<^verbatim>\<open>select\<close> that are ready Go takes any: a cancelled
  context does not stop the announcer before it has taken more events.
\<close>

inductive feed_step :: "websocket \<Rightarrow> feed \<Rightarrow> feed \<Rightarrow> bool" for ws where
  forward: "fd_forwarder fd = Listening \<Longrightarrow> fd_buffer fd = event # events \<Longrightarrow>
    forward_step ws (RawEvent now (Some event)) (fd_subscription fd) = Ok s \<Longrightarrow>
    feed_step ws fd (fd\<lparr>fd_subscription := s, fd_buffer := events, fd_forwarder := Handing event\<rparr>)"
| announce: "fd_forwarder fd = Handing event \<Longrightarrow> fd_announcer fd = Awaiting \<Longrightarrow> new_block_height event = Ok height \<Longrightarrow>
    feed_step ws fd (fd\<lparr>fd_forwarder := Listening, fd_announcer := Offering height\<rparr>)"
| fatal: "fd_forwarder fd = Handing event \<Longrightarrow> fd_announcer fd = Awaiting \<Longrightarrow> new_block_height event = Panic msg \<Longrightarrow>
    feed_step ws fd (fd\<lparr>fd_forwarder := Listening, fd_fatal := Some msg\<rparr>)"
| stop: "fd_announcer fd = Awaiting \<Longrightarrow> fd_cancelled fd \<Longrightarrow> feed_step ws fd (fd\<lparr>fd_announcer := Stopped\<rparr>)"

text \<open>A renewed subscription has a channel of its own, and the events in the old one are gone.\<close>

definition renewed :: "subscription \<Rightarrow> feed \<Rightarrow> feed" where
  "renewed s fd = (if sub_rawEventChan s = sub_rawEventChan (fd_subscription fd) then fd\<lparr>fd_subscription := s\<rparr>
     else fd\<lparr>fd_subscription := s, fd_buffer := [], fd_lost := fd_lost fd \<or> fd_buffer fd \<noteq> []\<rparr>)"

inductive feed_tick :: "websocket \<Rightarrow> feed \<Rightarrow> feed \<Rightarrow> bool" for ws where
  "fd_forwarder fd = Listening \<Longrightarrow> forward_step ws (TimeoutTick now t later) (fd_subscription fd) = Ok s \<Longrightarrow>
    feed_tick ws fd (renewed s fd)"

text \<open>The heights of the new blocks among events; \<open>0\<close> is none, and ends the process.\<close>

fun event_heights :: "SubscriptionEvent \<Rightarrow> i64 list" where
  "event_heights (EventDataNewBlock height) = [height]"
| "event_heights EventDataOther = []"

text \<open>
  What the websocket does: it delivers an event, as long as the channel has room, or closes the channel. \<open>heights\<close> are
  the heights that the chain may reach.
\<close>

inductive feed_input :: "websocket \<Rightarrow> i64 set \<Rightarrow> feed \<Rightarrow> feed \<Rightarrow> bool" for ws heights where
  deliver: "length (fd_buffer fd) < outCapacity \<Longrightarrow> height \<in> heights \<or> height = 0 \<Longrightarrow>
    feed_input ws heights fd (fd\<lparr>fd_buffer := fd_buffer fd @ [EventDataNewBlock height], fd_latest := height, fd_lost := False\<rparr>)"
| deliver_other: "length (fd_buffer fd) < outCapacity \<Longrightarrow>
    feed_input ws heights fd (fd\<lparr>fd_buffer := fd_buffer fd @ [EventDataOther]\<rparr>)"
| close: "fd_buffer fd = [] \<Longrightarrow> fd_forwarder fd = Listening \<Longrightarrow>
    forward_step ws (RawEvent now None) (fd_subscription fd) = Panic msg \<Longrightarrow> feed_input ws heights fd (fd\<lparr>fd_fatal := Some msg\<rparr>)"

text \<open>
  A renewal throws away what is still in the channel. It comes when the last event was taken long ago, which is also so
  when the goroutine has waited for the block processor all the time.
\<close>

lemma renewal_loses_events:
  assumes "fd_forwarder fd = Listening" "now - sub_lastEventTime (fd_subscription fd) > maxEventWaitInterval"
    and "ws_Subscribe ws t subscriberName newBlockQuery = Inr chan" "chan \<noteq> sub_rawEventChan (fd_subscription fd)" "fd_buffer fd \<noteq> []"
  shows "\<exists>fd'. feed_tick ws fd fd' \<and> fd_buffer fd' = [] \<and> fd_lost fd'"
proof -
  let ?s = "(fd_subscription fd)\<lparr>sub_requests := sub_requests (fd_subscription fd) @
    [UnsubscribeRequest t subscriberName newBlockQuery, SubscribeRequest t subscriberName newBlockQuery],
    sub_rawEventChan := chan, sub_lastEventTime := now\<rparr>"
  have "feed_tick ws fd (renewed ?s fd)"
    using assms(2,3) by (intro feed_tick.intros [OF assms(1), where now = now and t = t and later = now]) (simp add: subscribe_def Let_def)
  then show ?thesis using assms(4,5) by (auto simp: renewed_def)
qed

text \<open>Once the announcing goroutine has stopped, the other one waits for ever with the next event that it takes.\<close>

lemma forwarder_is_left_behind:
  assumes "fd_announcer fd = Stopped" "fd_forwarder fd = Handing event"
  shows "\<not> feed_step ws fd fd' \<and> \<not> feed_tick ws fd fd'"
  using assms by (auto elim!: feed_step.cases feed_tick.cases)

section \<open>All goroutines together\<close>

type_synonym follower = "node \<times> feed"

text \<open>After the draining: nothing new, or the loop over the heights up to the latest one.\<close>

definition new_height :: "i64 \<Rightarrow> i64 list \<Rightarrow> pipeline \<Rightarrow> pipeline" where
  "new_height height pending pl = (let latestHeight = getLatestHeight height pending in
     if latestHeight \<le> pl_last pl then pl
     else pl\<lparr>pl_producer := Looping latestHeight (pl_last pl + 1), pl_target := latestHeight\<rparr>)"

lemma new_height_announce:
  "pl_producer pl = Waiting \<Longrightarrow> set (height # pending) \<subseteq> heights \<Longrightarrow> announce heights pl (new_height height pending pl)"
  using announce.known [of pl height pending heights] announce.ahead [of pl height pending heights]
  by (simp add: new_height_def Let_def)

text \<open>
  The steps of the four goroutines. While the block processor drains the channel it does nothing else, and it leaves
  \<^verbatim>\<open>getLatestHeight\<close> when no height is offered.
\<close>

inductive run_step :: "env \<Rightarrow> websocket \<Rightarrow> follower \<Rightarrow> follower \<Rightarrow> bool" for e ws where
  feed: "fd_fatal fd = None \<Longrightarrow> feed_step ws fd fd' \<Longrightarrow> run_step e ws (s, fd) (s, fd')"
| receive: "fd_fatal fd = None \<Longrightarrow> pl_producer pl = Waiting \<Longrightarrow> fd_drain fd = None \<Longrightarrow> fd_announcer fd = Offering height \<Longrightarrow>
    run_step e ws ((w, pl, ps), fd) ((w, pl, ps), fd\<lparr>fd_announcer := Awaiting, fd_drain := Some (height, [])\<rparr>)"
| drain: "fd_fatal fd = None \<Longrightarrow> fd_drain fd = Some (height, pending) \<Longrightarrow> fd_announcer fd = Offering newHeight \<Longrightarrow>
    run_step e ws (s, fd) (s, fd\<lparr>fd_announcer := Awaiting, fd_drain := Some (height, pending @ [newHeight])\<rparr>)"
| drained: "fd_fatal fd = None \<Longrightarrow> fd_drain fd = Some (height, pending) \<Longrightarrow> (\<And>newHeight. fd_announcer fd \<noteq> Offering newHeight) \<Longrightarrow>
    run_step e ws ((w, pl, ps), fd) ((w, new_height height pending pl, ps), fd\<lparr>fd_drain := None\<rparr>)"
| producer: "fd_fatal fd = None \<Longrightarrow> fd_drain fd = None \<Longrightarrow> producer_step e (w, pl) (w', pl') \<Longrightarrow>
    run_step e ws ((w, pl, ps), fd) ((w', pl', ps), fd)"
| consumer: "fd_fatal fd = None \<Longrightarrow> consumer_step e (w, pl) (w', pl') \<Longrightarrow>
    run_step e ws ((w, pl, ps), fd) ((w', pl', ps), fd)"

text \<open>What happens beside them: the other goroutines, the shutdown, which cancels the contexts of both, and the ticker.\<close>

inductive beside :: "env \<Rightarrow> websocket \<Rightarrow> follower \<Rightarrow> follower \<Rightarrow> bool" for e ws where
  other: "fd_fatal fd = None \<Longrightarrow> other_step e (w, pl, ps) (w', pl, ps') \<Longrightarrow> beside e ws ((w, pl, ps), fd) ((w', pl, ps'), fd)"
| shutdown: "fd_fatal fd = None \<Longrightarrow>
    beside e ws ((w, pl, ps), fd) ((w, cancel_with (OtherError ''context canceled'') pl, ps), fd\<lparr>fd_cancelled := True\<rparr>)"
| ticker: "fd_fatal fd = None \<Longrightarrow> feed_tick ws fd fd' \<Longrightarrow> beside e ws (s, fd) (s, fd')"

inductive follower_step :: "env \<Rightarrow> websocket \<Rightarrow> i64 set \<Rightarrow> follower \<Rightarrow> follower \<Rightarrow> bool" for e ws heights where
  run: "run_step e ws s s' \<Longrightarrow> follower_step e ws heights s s'"
| beside: "beside e ws s s' \<Longrightarrow> follower_step e ws heights s s'"
| input: "fd_fatal fd = None \<Longrightarrow> feed_input ws heights fd fd' \<Longrightarrow> follower_step e ws heights (s, fd) (s, fd')"
| restart: "follower_step e ws heights ((w, pl, ps), fd)
    ((w\<lparr>w_jobs := [], w_watches := [], w_params_version := 0\<rparr>, boot_pipeline e (pl_log pl), []), boot_feed chan now)"

inductive follower_reachable :: "env \<Rightarrow> websocket \<Rightarrow> i64 set \<Rightarrow> follower \<Rightarrow> bool" for e ws heights where
  init: "follower_reachable e ws heights ((initial_world, boot_pipeline e [], []), boot_feed chan now)"
| step: "follower_reachable e ws heights s \<Longrightarrow> follower_step e ws heights s s' \<Longrightarrow> follower_reachable e ws heights s'"

end
