(* ===== verification/Chain_Rules.thy ===== *)
theory Chain_Rules
  imports Chain_Follower
begin

text \<open>
  The goroutines from the websocket to the database: the invariant of the heights on their way, the measure that their
  steps decrease, what a state looks like in which none of them can move, and the process as the one of \<open>Block_Pipeline\<close>.
\<close>

section \<open>The heights on their way\<close>

fun drained_heights :: "(i64 \<times> i64 list) option \<Rightarrow> i64 list" where
  "drained_heights None = []"
| "drained_heights (Some (height, pending)) = height # pending"

fun offered_heights :: "announcer \<Rightarrow> i64 list" where
  "offered_heights (Offering height) = [height]"
| "offered_heights _ = []"

fun handed_events :: "forwarder \<Rightarrow> SubscriptionEvent list" where
  "handed_events (Handing event) = [event]"
| "handed_events Listening = []"

definition taken :: "feed \<Rightarrow> i64 list" where
  "taken fd = drained_heights (fd_drain fd) @ offered_heights (fd_announcer fd)"

definition coming :: "feed \<Rightarrow> i64 list" where
  "coming fd = concat (map event_heights (handed_events (fd_forwarder fd) @ fd_buffer fd))"

lemma getLatestHeight_last: "getLatestHeight height pending = last (height # pending)"
  by (induction pending arbitrary: height) auto

lemma new_block_height_Ok: "new_block_height event = Ok height \<longleftrightarrow> event = EventDataNewBlock height \<and> height \<noteq> 0"
  by (cases event) auto

definition on_the_way :: "feed \<Rightarrow> i64 list" where
  "on_the_way fd = taken fd @ coming fd"

text \<open>
  The last height on its way is the last one that the node has delivered, and when none is on its way the block processor
  knows it, unless events have been thrown away.
\<close>

fun latest_known :: "u64 \<Rightarrow> i64 \<Rightarrow> i64 list \<Rightarrow> bool" where
  "latest_known target latest [] \<longleftrightarrow> latest \<le> target"
| "latest_known target latest (height # hs) \<longleftrightarrow> last (height # hs) = latest"

lemma latest_known_snoc [simp]: "latest_known target latest (hs @ [h]) \<longleftrightarrow> h = latest"
  by (cases hs) auto

lemma latest_known_append: "hs \<noteq> [] \<Longrightarrow> latest_known target latest (hs' @ hs) = latest_known target latest hs"
  by (cases hs rule: rev_cases) (simp_all flip: append_assoc)

lemma latest_known_mono: "latest_known target latest hs \<Longrightarrow> target \<le> target' \<Longrightarrow> latest_known target' latest hs"
  by (cases hs) auto

definition boots :: "pipeline \<Rightarrow> bool" where
  "boots pl \<longleftrightarrow> (\<exists>p. pl_producer pl = Booting p)"

definition feed_ok :: "i64 set \<Rightarrow> pipeline \<Rightarrow> feed \<Rightarrow> bool" where
  "feed_ok heights pl fd \<longleftrightarrow> set (taken fd) \<subseteq> heights \<and> set (coming fd) \<subseteq> insert 0 heights \<and>
     (fd_drain fd \<noteq> None \<longrightarrow> pl_producer pl = Waiting) \<and>
     (fd_fatal fd = None \<longrightarrow> \<not> fd_lost fd \<longrightarrow> latest_known (pl_target pl) (fd_latest fd) (on_the_way fd)) \<and>
     (fd_cancelled fd \<longrightarrow> pl_cause pl \<noteq> None) \<and> (fd_announcer fd = Stopped \<longrightarrow> fd_cancelled fd) \<and>
     (boots pl \<longrightarrow> pl_target pl = 0)"

lemma feed_step_ok:
  assumes "feed_step ws fd fd'" "feed_ok heights pl fd"
  shows "feed_ok heights pl fd'"
  using assms(1)
proof cases
  case (announce event height)
  then have "taken fd' = taken fd @ [height]" "coming fd = height # coming fd'" "height \<noteq> 0"
    by (simp_all add: taken_def coming_def new_block_height_Ok)
  with announce assms(2) show ?thesis by (auto simp: feed_ok_def on_the_way_def)
next
  case (fatal event msg)
  then have "taken fd' = taken fd" "coming fd = event_heights event @ coming fd'" by (simp_all add: taken_def coming_def)
  with fatal assms(2) show ?thesis by (auto simp: feed_ok_def)
next
  case (stop)
  then have "taken fd' = taken fd" "coming fd' = coming fd" by (simp_all add: taken_def coming_def)
  with stop assms(2) show ?thesis by (simp add: feed_ok_def on_the_way_def)
next
  case (forward event events now s)
  then have "taken fd' = taken fd" "coming fd' = coming fd" by (simp_all add: taken_def coming_def)
  with forward assms(2) show ?thesis by (simp add: feed_ok_def on_the_way_def)
qed

lemma feed_tick_ok:
  assumes "feed_tick ws fd fd'" "feed_ok heights pl fd"
  shows "feed_ok heights pl fd'"
  using assms(1)
proof cases
  case (1 now t later s)
  then have "taken fd' = taken fd" by (simp add: renewed_def taken_def)
  moreover have "coming fd' = coming fd \<or> coming fd' = [] \<and> fd_lost fd'"
    using 1 by (cases "fd_buffer fd = []") (simp_all add: renewed_def coming_def)
  moreover have "fd_lost fd \<longrightarrow> fd_lost fd'" using 1 by (simp add: renewed_def)
  ultimately show ?thesis using 1 assms(2) by (auto simp: feed_ok_def on_the_way_def renewed_def split: if_splits)
qed

lemma feed_input_ok:
  assumes "feed_input ws heights fd fd'" "feed_ok heights pl fd"
  shows "feed_ok heights pl fd'"
  using assms(1)
proof cases
  case (deliver height)
  then have "taken fd' = taken fd" "coming fd' = coming fd @ [height]" by (simp_all add: taken_def coming_def)
  with deliver assms(2) show ?thesis by (auto simp: feed_ok_def on_the_way_def simp flip: append_assoc)
next
  case deliver_other
  then have "taken fd' = taken fd" "coming fd' = coming fd" by (simp_all add: taken_def coming_def)
  with deliver_other assms(2) show ?thesis by (simp add: feed_ok_def on_the_way_def)
next
  case (close now msg)
  then have "taken fd' = taken fd" "coming fd' = coming fd" by (simp_all add: taken_def coming_def)
  with close assms(2) show ?thesis by (simp add: feed_ok_def)
qed

text \<open>What the invariant needs of a step of the block processor.\<close>

definition moves_on :: "pipeline \<Rightarrow> pipeline \<Rightarrow> bool" where
  "moves_on pl pl' \<longleftrightarrow> pl_target pl \<le> pl_target pl' \<and> (boots pl' \<longrightarrow> boots pl \<and> pl_target pl' = pl_target pl) \<and>
     (pl_cause pl \<noteq> None \<longrightarrow> pl_cause pl' \<noteq> None)"

lemma moves_on_feed:
  assumes "moves_on pl pl'" "fd_drain fd \<noteq> None \<Longrightarrow> pl_producer pl' = pl_producer pl" "feed_ok heights pl fd"
  shows "feed_ok heights pl' fd"
  using assms unfolding feed_ok_def moves_on_def by (auto intro: latest_known_mono)

lemma producer_moves_on: "producer_step e (w, pl) (w', pl') \<Longrightarrow> (boots pl \<Longrightarrow> pl_target pl = 0) \<Longrightarrow> moves_on pl pl'"
  by (cases rule: producer_step.cases) (auto simp: moves_on_def boots_def)

lemma consumer_moves_on: "consumer_step e (w, pl) (w', pl') \<Longrightarrow> moves_on pl pl' \<and> pl_producer pl' = pl_producer pl"
  by (cases rule: consumer_step.cases) (auto simp: moves_on_def boots_def cancel_with_def split: option.splits)

text \<open>The end of the draining: the latest height is known to the block processor.\<close>

lemma drained_ok:
  assumes "feed_ok heights pl fd" "fd_drain fd = Some (height, pending)" "\<And>h. fd_announcer fd \<noteq> Offering h"
    and "pl_target pl = pl_last pl"
  shows "feed_ok heights (new_height height pending pl) (fd\<lparr>fd_drain := None\<rparr>)"
proof -
  let ?fd = "fd\<lparr>fd_drain := None\<rparr>" and ?pl = "new_height height pending pl"
  have "offered_heights (fd_announcer fd) = []" using assms(3) by (cases "fd_announcer fd") auto
  then have taken: "taken fd = height # pending" "taken ?fd = []" "coming ?fd = coming fd"
    using assms(2) by (simp_all add: taken_def coming_def)
  have waiting: "\<not> boots pl" "\<not> boots ?pl"
    using assms(1,2) by (auto simp: feed_ok_def boots_def new_height_def Let_def)
  have target: "getLatestHeight height pending \<le> pl_target ?pl"
    using assms(4) by (simp add: new_height_def Let_def)
  have "latest_known (pl_target ?pl) (fd_latest fd) (coming fd)"
    if "latest_known (pl_target pl) (fd_latest fd) ((height # pending) @ coming fd)"
  proof (cases "coming fd = []")
    case True
    then show ?thesis using that target by (simp add: getLatestHeight_last)
  next
    case False
    from that [unfolded latest_known_append [OF False]] show ?thesis using False by (cases "coming fd") simp_all
  qed
  with assms(1,2) waiting taken show ?thesis by (auto simp: feed_ok_def on_the_way_def new_height_def Let_def)
qed

section \<open>Every step keeps the invariant\<close>

definition follower_ok :: "env \<Rightarrow> i64 set \<Rightarrow> follower \<Rightarrow> bool" where
  "follower_ok e heights s \<longleftrightarrow> node_ok e heights (fst s) \<and> feed_ok heights (fst (snd (fst s))) (snd s)"

lemma feed_ok_cancel: "feed_ok heights pl fd \<Longrightarrow> feed_ok heights (cancel_with err pl) (fd\<lparr>fd_cancelled := True\<rparr>)"
  by (auto simp: feed_ok_def cancel_with_def boots_def on_the_way_def taken_def coming_def split: option.splits)

lemma feed_ok_boot: "feed_ok heights (boot_pipeline e lg) (boot_feed chan now)"
  by (simp add: feed_ok_def boot_feed_def boot_pipeline_def on_the_way_def taken_def coming_def)

lemma run_step_ok:
  assumes "run_step e ws s s'" "follower_ok e heights s" "- 1 \<notin> heights"
  shows "follower_ok e heights s' \<and> (node_step e heights)\<^sup>*\<^sup>* (fst s) (fst s')"
  using assms(1)
proof cases
  case (feed fd fd' t)
  then show ?thesis using assms(2) feed_step_ok by (auto simp: follower_ok_def)
next
  case (receive fd pl height w ps)
  then have "taken (fd\<lparr>fd_announcer := Awaiting, fd_drain := Some (height, [])\<rparr>) = taken fd" by (simp add: taken_def)
  then show ?thesis using receive assms(2) by (auto simp: follower_ok_def feed_ok_def on_the_way_def coming_def)
next
  case (drain fd height pending newHeight t)
  then have "taken (fd\<lparr>fd_announcer := Awaiting, fd_drain := Some (height, pending @ [newHeight])\<rparr>) = taken fd" by (simp add: taken_def)
  then show ?thesis using drain assms(2) by (auto simp: follower_ok_def feed_ok_def on_the_way_def coming_def)
next
  case (drained fd height pending w pl ps)
  then have ok: "node_ok e heights (w, pl, ps)" "feed_ok heights pl fd" and waiting: "pl_producer pl = Waiting"
    using assms(2) by (auto simp: follower_ok_def feed_ok_def)
  then have "pl_target pl = pl_last pl" by (simp add: node_ok_def pipeline_ok_def)
  note fd = drained_ok [OF ok(2) drained(4,5) this]
  have "set (height # pending) \<subseteq> heights" using ok(2) drained(4) by (auto simp: feed_ok_def taken_def)
  then have node: "node_step e heights (w, pl, ps) (w, new_height height pending pl, ps)"
    by (intro node_step.announce new_height_announce waiting)
  show ?thesis using drained fd node node_step_ok [OF node ok(1) assms(3)] by (auto simp: follower_ok_def)
next
  case (producer fd w pl w' pl' ps)
  then have node: "node_step e heights (w, pl, ps) (w', pl', ps)" by (intro node_step.own own_step.producer)
  have "feed_ok heights pl fd" using assms(2) producer by (simp add: follower_ok_def)
  then have "feed_ok heights pl' fd"
    using producer moves_on_feed [OF producer_moves_on [OF producer(5)], of fd heights] by (simp add: feed_ok_def)
  then show ?thesis using producer node node_step_ok [OF node _ assms(3)] assms(2) by (auto simp: follower_ok_def)
next
  case (consumer fd w pl w' pl' ps)
  then have node: "node_step e heights (w, pl, ps) (w', pl', ps)" by (intro node_step.own own_step.consumer)
  have "feed_ok heights pl fd" using assms(2) consumer by (simp add: follower_ok_def)
  then have "feed_ok heights pl' fd"
    using consumer_moves_on [OF consumer(4)] moves_on_feed by blast
  then show ?thesis using consumer node node_step_ok [OF node _ assms(3)] assms(2) by (auto simp: follower_ok_def)
qed

lemma beside_ok:
  assumes "beside e ws s s'" "follower_ok e heights s"
  shows "follower_ok e heights s' \<and> (node_step e heights)\<^sup>*\<^sup>* (fst s) (fst s')"
  using assms(1)
proof cases
  case (other fd w pl ps w' ps')
  then show ?thesis using assms(2) other_step_ok node_step.other by (fastforce simp: follower_ok_def)
next
  case (shutdown fd w pl ps)
  have "other_step e (w, pl, ps) (w, cancel_with (OtherError ''context canceled'') pl, ps)" by (rule other_step.shutdown)
  then show ?thesis using shutdown assms(2) other_step_ok node_step.other feed_ok_cancel by (fastforce simp: follower_ok_def)
next
  case (ticker fd fd' t)
  then show ?thesis using assms(2) feed_tick_ok by (auto simp: follower_ok_def)
qed

lemma follower_step_ok:
  assumes "follower_step e ws heights s s'" "follower_ok e heights s" "- 1 \<notin> heights"
  shows "follower_ok e heights s' \<and> (node_step e heights)\<^sup>*\<^sup>* (fst s) (fst s')"
  using assms(1)
proof cases
  case run
  then show ?thesis using run_step_ok assms(2,3) by blast
next
  case beside
  then show ?thesis using beside_ok assms(2) by blast
next
  case (input fd fd' t)
  then show ?thesis using assms(2) feed_input_ok by (auto simp: follower_ok_def)
next
  case (restart w pl ps fd chan now)
  have node: "node_step e heights (w, pl, ps) (w\<lparr>w_jobs := [], w_watches := [], w_params_version := 0\<rparr>, boot_pipeline e (pl_log pl), [])"
    by (rule node_step.restart)
  show ?thesis using restart node node_step_ok [OF node _ assms(3)] assms(2) feed_ok_boot by (auto simp: follower_ok_def)
qed

text \<open>The whole process is the one of the block processor to which any heights are announced.\<close>

lemma follower_reachable_ok:
  assumes "follower_reachable e ws heights s" "- 1 \<notin> heights"
  shows "follower_ok e heights s \<and> node_reachable e heights (fst s)"
  using assms(1)
proof induction
  case (init chan now)
  show ?case
    using node_reachable_ok [OF node_reachable.init assms(2)] by (simp add: follower_ok_def feed_ok_boot node_reachable.init)
next
  case (step s s')
  have "(node_step e heights)\<^sup>*\<^sup>* t t' \<Longrightarrow> node_reachable e heights t \<Longrightarrow> node_reachable e heights t'" for t t'
    by (induction rule: rtranclp_induct) (auto intro: node_reachable.step)
  with step follower_step_ok [OF step.hyps(2) _ assms(2)] show ?case by blast
qed

section \<open>Liveness\<close>

text \<open>How much the goroutines before the block processor still have to do with what has been delivered.\<close>

fun announcer_size :: "announcer \<Rightarrow> nat" where
  "announcer_size (Offering height) = 3"
| "announcer_size Awaiting = 1"
| "announcer_size Stopped = 0"

definition feed_size :: "feed \<Rightarrow> nat" where
  "feed_size fd = 4 * length (fd_buffer fd) + 3 * length (handed_events (fd_forwarder fd)) +
     announcer_size (fd_announcer fd) + (if fd_drain fd = None then 0 else 1)"

lemma feed_step_size: "feed_step ws fd fd' \<Longrightarrow> feed_size fd' < feed_size fd"
  by (erule feed_step.cases) (simp_all add: feed_size_def)

lemma feed_tick_size: "feed_tick ws fd fd' \<Longrightarrow> feed_size fd' \<le> feed_size fd"
  by (erule feed_tick.cases) (auto simp: feed_size_def renewed_def)

definition follower_order where
  "follower_order = less_than <*lex*> rank_order"

definition follower_rank where
  "follower_rank s = (feed_size (snd s), rank (fst s))"

lemma wf_follower_order: "wf follower_order"
  by (simp add: follower_order_def wf_rank_order wf_lex_prod)

lemma run_step_rank:
  assumes "run_step e ws s s'" "follower_ok e heights s" "- 1 \<notin> heights"
  shows "(follower_rank s', follower_rank s) \<in> follower_order"
  using assms(1)
proof cases
  case (producer fd w pl w' pl' ps)
  then have "pipeline_ok e heights w pl" using assms(2) by (simp add: follower_ok_def node_ok_def)
  then show ?thesis
    unfolding producer using producer_step_rank [OF producer(5)] assms(3) by (simp add: follower_order_def follower_rank_def)
next
  case (consumer fd w pl w' pl' ps)
  then show ?thesis using consumer_step_rank [OF consumer(4)] by (simp add: follower_order_def follower_rank_def)
next
  case (drained fd height pending w pl ps)
  then show ?thesis by (simp add: follower_order_def follower_rank_def feed_size_def)
qed (auto simp: follower_order_def follower_rank_def feed_size_def dest: feed_step_size)

text \<open>What happens beside the goroutines gives them nothing to do, but a renewal may take something away.\<close>

lemma beside_rank: "beside e ws s s' \<Longrightarrow> follower_rank s' = follower_rank s \<or> (follower_rank s', follower_rank s) \<in> follower_order"
proof (induction rule: beside.induct)
  case (other fd w pl ps w' ps')
  then show ?case using other_step_rank by (auto simp: follower_rank_def)
next
  case (shutdown fd w pl ps)
  then show ?case by (simp add: follower_rank_def rank_def cancel_with_def feed_size_def)
next
  case (ticker fd fd' s)
  then show ?case using feed_tick_size by (auto simp: follower_rank_def follower_order_def le_less)
qed

lemma run_besides:
  assumes "(beside e ws)\<^sup>*\<^sup>* s s'" "follower_ok e heights s"
  shows "follower_ok e heights s' \<and> (follower_rank s', follower_rank s) \<in> follower_order\<^sup>*"
  using assms
proof (induction rule: rtranclp_induct)
  case (step u v)
  then have "follower_ok e heights u" "(follower_rank u, follower_rank s) \<in> follower_order\<^sup>*" by simp_all
  with beside_ok [OF step.hyps(2)] beside_rank [OF step.hyps(2)] show ?case by (auto intro: converse_rtrancl_into_rtrancl)
qed simp

lemma run_steps_end:
  assumes "- 1 \<notin> heights"
  shows "wf {(s', s). follower_reachable e ws heights s \<and> (\<exists>u. (beside e ws)\<^sup>*\<^sup>* s u \<and> run_step e ws u s')}"
proof (rule wf_subset [OF wf_inv_image [OF wf_trancl [OF wf_follower_order]]], clarify)
  fix s' s u
  assume "follower_reachable e ws heights s" "(beside e ws)\<^sup>*\<^sup>* s u" "run_step e ws u s'"
  from run_besides [OF this(2)] follower_reachable_ok [OF this(1) assms] run_step_rank [OF this(3) _ assms]
  show "(s', s) \<in> inv_image (follower_order\<^sup>+) follower_rank" by (auto intro: rtrancl_into_trancl2)
qed

section \<open>A process that waits\<close>

definition up_to_date :: "world \<Rightarrow> pipeline \<Rightarrow> feed \<Rightarrow> bool" where
  "up_to_date w pl fd \<longleftrightarrow> caught_up w pl \<and> fd_forwarder fd = Listening \<and> fd_buffer fd = [] \<and> fd_announcer fd = Awaiting \<and>
     fd_drain fd = None \<and> \<not> fd_cancelled fd \<and> (\<not> fd_lost fd \<longrightarrow> unat (fd_latest fd) \<le> recorded w)"

lemma feed_idle:
  assumes "\<nexists>fd'. feed_step ws fd fd'" "fd_announcer fd = Awaiting"
  shows "fd_forwarder fd = Listening \<and> fd_buffer fd = [] \<and> \<not> fd_cancelled fd"
proof (cases "fd_forwarder fd")
  case (Handing event)
  then show ?thesis
    using assms feed_step.announce [OF Handing assms(2)] feed_step.fatal [OF Handing assms(2)]
    by (cases "new_block_height event"; cases event) (auto split: if_splits)
next
  case Listening
  have "fd_buffer fd = []"
  proof (rule ccontr)
    assume "fd_buffer fd \<noteq> []"
    then obtain event events where "fd_buffer fd = event # events" by (cases "fd_buffer fd") auto
    with Listening have "feed_step ws fd (fd\<lparr>fd_subscription := (fd_subscription fd)\<lparr>sub_lastEventTime := 0,
          sub_forwarded := sub_forwarded (fd_subscription fd) @ [event]\<rparr>, fd_buffer := events, fd_forwarder := Handing event\<rparr>)"
      by (intro feed_step.forward) simp_all
    with assms(1) show False by blast
  qed
  with Listening assms show ?thesis by (blast intro: feed_step.stop)
qed

lemma follower_idle:
  assumes "\<nexists>s'. run_step e ws ((w, pl, ps), fd) s'" "follower_ok e heights ((w, pl, ps), fd)" "fd_fatal fd = None"
  shows "up_to_date w pl fd \<or> ended pl \<or> consumer_panicked pl"
proof -
  have drain: "fd_drain fd = None"
  proof (cases "fd_drain fd")
    case (Some q)
    then show ?thesis using assms(1,3) by (cases q) (metis run_step.drain run_step.drained)
  qed simp
  have "\<nexists>s'. own_step e (w, pl, ps) s'"
    using assms(1) run_step.producer [OF assms(3) drain] run_step.consumer [OF assms(3)] by (blast elim!: own_stepE)
  moreover have ok: "pipeline_ok e heights w pl" "feed_ok heights pl fd" using assms(2) by (simp_all add: follower_ok_def node_ok_def)
  ultimately consider "ended pl \<or> consumer_panicked pl" | (up) "caught_up w pl" using idle_cases by blast
  then show ?thesis
  proof cases
    case up
    then have waiting: "pl_producer pl = Waiting" "pl_cause pl = None" "recorded w = unat (pl_target pl)" by (simp_all add: caught_up_def)
    have awaiting: "fd_announcer fd = Awaiting"
    proof (cases "fd_announcer fd")
      case (Offering height)
      then show ?thesis using assms(1) run_step.receive [OF assms(3) waiting(1) drain] by blast
    next
      case Stopped
      then show ?thesis using ok(2) waiting(2) by (auto simp: feed_ok_def)
    qed
    have "\<nexists>fd'. feed_step ws fd fd'" using assms(1,3) by (blast intro: run_step.feed)
    from feed_idle [OF this awaiting] have feed: "fd_forwarder fd = Listening" "fd_buffer fd = []" "\<not> fd_cancelled fd" by simp_all
    then have "on_the_way fd = []" using awaiting drain by (simp add: on_the_way_def taken_def coming_def)
    then have "fd_latest fd \<le> pl_target pl" if "\<not> fd_lost fd" using that ok(2) assms(3) by (simp add: feed_ok_def)
    then show ?thesis using up waiting awaiting drain feed by (auto simp: up_to_date_def word_le_nat_alt)
  qed simp
qed

end
