(* ===== verification/Pipeline_Sample.thy ===== *)
theory Pipeline_Sample
  imports Chain_Rules Sample
begin

text \<open>
  A concrete run of the whole process: block 1 is delivered by the node, forwarded, announced, fetched, put into the
  channel, processed and recorded.
\<close>

section \<open>A run of the process\<close>

text \<open>Block 1 of the sample is announced, fetched and processed.\<close>

definition sample_pipeline :: "producer \<Rightarrow> u64 \<Rightarrow> blockEvents list \<Rightarrow> consumer \<Rightarrow> u64 \<Rightarrow> i64 list \<Rightarrow> pipeline" where
  "sample_pipeline p fetched items c target log = \<lparr>pl_producer = p, pl_last = fetched, pl_channel = items, pl_consumer = c,
     pl_cause = None, pl_target = target, pl_log = log\<rparr>"

definition sample_block :: blockEvents where
  "sample_block = sample_item 1 [EventBTCDelegationCreated, EventBTCDelegationInclusionProofReceived]"

definition fetched_world :: world where
  "fetched_world = tick (tick initial_world)"

definition worked_world :: world where
  "worked_world = snd (run (process_events sample_env sample_block) fetched_world)"

definition processed_world :: world where
  "processed_world = (tick worked_world)\<lparr>w_last_height := Some 1\<rparr>"

lemma worked_world_eq:
  "run (process_events sample_env sample_block) fetched_world =
     (Ok (), initial_world\<lparr>w_delegations := [sample_delegation], w_clock := 9\<rparr>)"
  by (simp add: fetched_world_def process_events_def sample_block_def sample_delegation_def prog_eval sample_eval
      del: andThen.simps on_error.simps retry_from.simps cong: continue_cong)

definition sample_steps :: "node \<Rightarrow> node \<Rightarrow> bool" where
  "sample_steps = (own_step sample_env)\<^sup>*\<^sup>*"

lemma sample_steps_trans [trans]: "sample_steps s t \<Longrightarrow> sample_steps t u \<Longrightarrow> sample_steps s u"
  unfolding sample_steps_def by (rule rtranclp_trans)

lemma sample_own:
  "producer_step sample_env (w, pl) (w', pl') \<Longrightarrow> sample_steps (w, pl, ps) (w', pl', ps)"
  "consumer_step sample_env (w, pl) (w', pl') \<Longrightarrow> sample_steps (w, pl, ps) (w', pl', ps)"
  unfolding sample_steps_def by (blast intro: own_step.intros)+

lemma sample_pipeline_simps [simp]:
  "pl_producer (sample_pipeline p l items c t lg) = p" "pl_last (sample_pipeline p l items c t lg) = l"
  "pl_channel (sample_pipeline p l items c t lg) = items" "pl_consumer (sample_pipeline p l items c t lg) = c"
  "pl_cause (sample_pipeline p l items c t lg) = None" "pl_target (sample_pipeline p l items c t lg) = t"
  "pl_log (sample_pipeline p l items c t lg) = lg"
  "sample_pipeline p l items c t lg\<lparr>pl_producer := p'\<rparr> = sample_pipeline p' l items c t lg"
  "sample_pipeline p l items c t lg\<lparr>pl_last := l'\<rparr> = sample_pipeline p l' items c t lg"
  "sample_pipeline p l items c t lg\<lparr>pl_channel := items'\<rparr> = sample_pipeline p l items' c t lg"
  "sample_pipeline p l items c t lg\<lparr>pl_consumer := c'\<rparr> = sample_pipeline p l items c' t lg"
  "sample_pipeline p l items c t lg\<lparr>pl_target := t'\<rparr> = sample_pipeline p l items c t' lg"
  "sample_pipeline p l items c t lg\<lparr>pl_log := lg'\<rparr> = sample_pipeline p l items c t lg'"
  by (simp_all add: sample_pipeline_def)

lemma sample_node_steps:
  "own_step e (w, sample_pipeline (Booting (Act f1)) l items c t lg, ps)
     (snd (f1 w), sample_pipeline (Booting (fst (f1 w))) l items c t lg, ps)"
  "own_step e (w, sample_pipeline (Fetching h i (Act f2)) l items c t lg, ps)
     (snd (f2 w), sample_pipeline (Fetching h i (fst (f2 w))) l items c t lg, ps)"
  "own_step e (w, sample_pipeline p l items (Processing item (Act f)) t lg, ps)
     (snd (f w), sample_pipeline p l items (Processing item (fst (f w))) t lg, ps)"
  "own_step e (w, sample_pipeline p l items (Committing item (Act f)) t lg, ps)
     (snd (f w), sample_pipeline p l items (Committing item (fst (f w))) t lg, ps)"
  using producer_step.boot_act [of "sample_pipeline (Booting (Act f1)) l items c t lg" f1 e w]
    producer_step.fetch_act [of "sample_pipeline (Fetching h i (Act f2)) l items c t lg" h i f2 e w]
    consumer_step.work_act [of "sample_pipeline p l items (Processing item (Act f)) t lg" item f e w]
    consumer_step.commit_act [of "sample_pipeline p l items (Committing item (Act f)) t lg" item f e w]
  by (simp_all add: own_step.intros)

lemmas sample_runs =
  run_in_node [where step = "own_step e" and C = "\<lambda>p. sample_pipeline (Booting p) l items c t lg" for e l items c t lg, OF sample_node_steps(1)]
  run_in_node [where step = "own_step e" and C = "\<lambda>p. sample_pipeline (Fetching h i p) l items c t lg" for e h i l items c t lg, OF sample_node_steps(2)]
  run_in_node [where step = "own_step e" and C = "\<lambda>p. sample_pipeline q l items (Processing item p) t lg" for e q l items item t lg, OF sample_node_steps(3)]
  run_in_node [where step = "own_step e" and C = "\<lambda>p. sample_pipeline q l items (Committing item p) t lg" for e q l items item t lg, OF sample_node_steps(4)]

lemmas sample_programs = sample_runs [where e = sample_env, folded sample_steps_def]

lemma sample_booted:
  "sample_steps (initial_world, boot_pipeline sample_env [], []) (tick initial_world, sample_pipeline Waiting 0 [] Receiving 0 [], [])"
proof -
  let ?S = sample_pipeline
  have "sample_steps (initial_world, boot_pipeline sample_env [], [])
      (tick initial_world, ?S (Booting (ret 0)) 0 [] NotStarted 0 [], [])"
    using sample_programs(1) [where w = initial_world and l = 0 and items = "[]" and c = NotStarted and t = 0 and lg = "[]" and ps = "[]" and p = "GetLastProcessedBbnHeight sample_env"]
    by (simp add: boot_pipeline_def sample_pipeline_def GetLastProcessedBbnHeight_def initial_world_def)
  also have "sample_steps \<dots> (tick initial_world, ?S Waiting 0 [] Receiving 0 [], [])"
    using sample_own(1) [OF producer_step.boot_ok [of "?S (Booting (ret 0)) 0 [] NotStarted 0 []" 0]] by simp
  finally show ?thesis .
qed

lemma sample_announced:
  "new_height 1 [] (sample_pipeline Waiting 0 [] Receiving 0 []) = sample_pipeline (Looping 1 1) 0 [] Receiving 1 []"
  by (simp add: new_height_def)

lemma sample_processed:
  "sample_steps (tick initial_world, sample_pipeline (Looping 1 1) 0 [] Receiving 1 [], [])
     (processed_world, sample_pipeline Waiting 1 [] Receiving 1 [1], [])"
proof -
  let ?S = sample_pipeline
  have "sample_steps (tick initial_world, ?S (Looping 1 1) 0 [] Receiving 1 [], []) (tick initial_world, ?S (Fetching 1 1 (getEventsFromBlock sample_env 1)) 0 [] Receiving 1 [], [])"
    using sample_own(1) [OF producer_step.loop_fetch [of "?S (Looping 1 1) 0 [] Receiving 1 []" 1 1]] by simp
  also have "sample_steps \<dots> (fetched_world, ?S (Fetching 1 1 (ret (blk_events sample_block))) 0 [] Receiving 1 [], [])"
    using sample_programs(2) [where w = "tick initial_world" and h = 1 and i = 1 and l = 0 and items = "[]" and c = Receiving and t = 1 and lg = "[]" and ps = "[]" and p = "getEventsFromBlock sample_env 1"]
    by (simp add: getEventsFromBlock_def GetBlockResults_def clientCallWithRetry_def sample_block_def sample_item_def fetched_world_def)
  also have "sample_steps \<dots> (fetched_world, ?S (Sending 1 1 sample_block) 0 [] Receiving 1 [], [])"
    using sample_own(1) [OF producer_step.fetch_ok [of "?S (Fetching 1 1 (ret (blk_events sample_block))) 0 [] Receiving 1 []" 1 1]]
    by (simp add: sample_block_def sample_item_def)
  also have "sample_steps \<dots> (fetched_world, ?S (Looping 1 2) 1 [sample_block] Receiving 1 [], [])"
    using sample_own(1) [OF producer_step.send [of "?S (Sending 1 1 sample_block) 0 [] Receiving 1 []" 1 1 sample_block]]
    by (simp add: eventProcessorSize_def)
  also have "sample_steps \<dots> (fetched_world, ?S Waiting 1 [sample_block] Receiving 1 [], [])"
    using sample_own(1) [OF producer_step.loop_end [of "?S (Looping 1 2) 1 [sample_block] Receiving 1 []" 1 2]] by (simp add: word_le_nat_alt)
  also have "sample_steps \<dots> (fetched_world, ?S Waiting 1 [] (Processing sample_block (process_events sample_env sample_block)) 1 [], [])"
    using sample_own(2) [OF consumer_step.receive [of "?S Waiting 1 [sample_block] Receiving 1 []" sample_block "[]"]] by simp
  also have "sample_steps \<dots> (worked_world, ?S Waiting 1 [] (Processing sample_block (ret ())) 1 [], [])"
    using sample_programs(3) [where w = fetched_world and q = Waiting and l = 1 and items = "[]" and item = sample_block and t = 1 and lg = "[]" and ps = "[]" and p = "process_events sample_env sample_block"]
    by (simp add: worked_world_def worked_world_eq)
  also have "sample_steps \<dots> (worked_world, ?S Waiting 1 [] (Committing sample_block (commit_height sample_env sample_block)) 1 [1], [])"
    using sample_own(2) [OF consumer_step.work_ok [of "?S Waiting 1 [] (Processing sample_block (ret ())) 1 []" sample_block "()"]]
    by (simp add: sample_block_def sample_item_def)
  also have "sample_steps \<dots> (processed_world, ?S Waiting 1 [] (Committing sample_block (ret ())) 1 [1], [])"
    using sample_programs(4) [where w = worked_world and q = Waiting and l = 1 and items = "[]" and item = sample_block and t = 1 and lg = "[1]" and ps = "[]" and p = "commit_height sample_env sample_block"]
    by (simp add: commit_height_def UpdateLastProcessedBbnHeight_def processed_world_def sample_block_def sample_item_def)
  also have "sample_steps \<dots> (processed_world, ?S Waiting 1 [] Receiving 1 [1], [])"
    using sample_own(2) [OF consumer_step.commit_ok [of "?S Waiting 1 [] (Committing sample_block (ret ())) 1 [1]" sample_block "()"]] by simp
  finally show ?thesis .
qed

section \<open>The run from the websocket on\<close>

text \<open>The steps of the block processor alone are steps of the whole process while no height is taken.\<close>

lemma own_steps_follower:
  assumes "(own_step e)\<^sup>*\<^sup>* s s'" "fd_fatal fd = None" "fd_drain fd = None"
  shows "(run_step e ws)\<^sup>*\<^sup>* (s, fd) (s', fd)"
  using assms(1)
proof (induction rule: rtranclp_induct)
  case (step t u)
  from step.hyps(2) have "run_step e ws (t, fd) (u, fd)"
    by cases (use assms(2,3) in \<open>auto intro: run_step.producer run_step.consumer\<close>)
  with step.IH show ?case by (rule rtranclp.rtrancl_into_rtrancl)
qed simp

lemma follower_steps_reachable:
  "(run_step e ws)\<^sup>*\<^sup>* s s' \<Longrightarrow> follower_reachable e ws heights s \<Longrightarrow> follower_reachable e ws heights s'"
  by (induction rule: rtranclp_induct) (auto intro: follower_reachable.step follower_step.run)

text \<open>The feed after block 1 has been delivered and has gone all the way.\<close>

definition sample_subscription :: "SubscriptionEvent list \<Rightarrow> subscription" where
  "sample_subscription events = \<lparr>sub_rawEventChan = 7, sub_lastEventTime = 0, sub_forwarded = events, sub_requests = []\<rparr>"

definition sample_feed :: "SubscriptionEvent list \<Rightarrow> SubscriptionEvent list \<Rightarrow> forwarder \<Rightarrow> announcer \<Rightarrow> (i64 \<times> i64 list) option \<Rightarrow> feed" where
  "sample_feed events buffer f a d = \<lparr>fd_subscription = sample_subscription events, fd_buffer = buffer, fd_forwarder = f,
     fd_announcer = a, fd_drain = d, fd_cancelled = False, fd_fatal = None, fd_latest = 1, fd_lost = False\<rparr>"

lemma sample_follower_reachable:
  "follower_reachable sample_env ws {1} ((processed_world, sample_pipeline Waiting 1 [] Receiving 1 [1], []),
     sample_feed [EventDataNewBlock 1] [] Listening Awaiting None)"
proof -
  let ?b = "EventDataNewBlock 1" and ?boot = "boot_feed 7 0"
  let ?t = "(tick initial_world, sample_pipeline Waiting 0 [] Receiving 0 [], [])"
  let ?u = "(tick initial_world, sample_pipeline (Looping 1 1) 0 [] Receiving 1 [], [])"
  let ?v = "(processed_world, sample_pipeline Waiting 1 [] Receiving 1 [1], [])"
  have "(run_step sample_env ws)\<^sup>*\<^sup>* ((initial_world, boot_pipeline sample_env [], []), ?boot) (?t, ?boot)"
    using own_steps_follower [OF sample_booted [unfolded sample_steps_def]] by (simp add: boot_feed_def)
  then have booted: "follower_reachable sample_env ws {1} (?t, ?boot)"
    by (rule follower_steps_reachable [OF _ follower_reachable.init])
  have "feed_input ws {1} ?boot (sample_feed [] [?b] Listening Awaiting None)"
    using feed_input.deliver [of ?boot 1 "{1}" ws] by (simp add: boot_feed_def sample_feed_def sample_subscription_def outCapacity_def)
  then have delivered: "follower_reachable sample_env ws {1} (?t, sample_feed [] [?b] Listening Awaiting None)"
    by (intro follower_reachable.step [OF booted] follower_step.input) (simp_all add: boot_feed_def)
  have s1: "run_step sample_env ws (?t, sample_feed [] [?b] Listening Awaiting None) (?t, sample_feed [?b] [] (Handing ?b) Awaiting None)"
    using feed_step.forward [of "sample_feed [] [?b] Listening Awaiting None" ?b "[]" ws 0]
    by (intro run_step.feed) (simp_all add: sample_feed_def sample_subscription_def)
  have s2: "run_step sample_env ws (?t, sample_feed [?b] [] (Handing ?b) Awaiting None) (?t, sample_feed [?b] [] Listening (Offering 1) None)"
    using feed_step.announce [of "sample_feed [?b] [] (Handing ?b) Awaiting None" ?b 1 ws]
    by (intro run_step.feed) (simp_all add: sample_feed_def)
  have s3: "run_step sample_env ws (?t, sample_feed [?b] [] Listening (Offering 1) None)
      (?t, sample_feed [?b] [] Listening Awaiting (Some (1, [])))"
    using run_step.receive [of "sample_feed [?b] [] Listening (Offering 1) None" "sample_pipeline Waiting 0 [] Receiving 0 []" 1]
    by (simp add: sample_feed_def)
  have s4: "run_step sample_env ws (?t, sample_feed [?b] [] Listening Awaiting (Some (1, []))) (?u, sample_feed [?b] [] Listening Awaiting None)"
    using run_step.drained [of "sample_feed [?b] [] Listening Awaiting (Some (1, []))" 1 "[]" sample_env ws "tick initial_world"
        "sample_pipeline Waiting 0 [] Receiving 0 []" "[]"]
    by (simp add: sample_feed_def sample_announced)
  have s5: "(run_step sample_env ws)\<^sup>*\<^sup>* (?u, sample_feed [?b] [] Listening Awaiting None) (?v, sample_feed [?b] [] Listening Awaiting None)"
    using own_steps_follower [OF sample_processed [unfolded sample_steps_def]] by (simp add: sample_feed_def)
  have "(run_step sample_env ws)\<^sup>*\<^sup>* (?t, sample_feed [] [?b] Listening Awaiting None) (?v, sample_feed [?b] [] Listening Awaiting None)"
    using s1 s2 s3 s4 s5 by (meson converse_rtranclp_into_rtranclp)
  then show ?thesis by (rule follower_steps_reachable [OF _ delivered])
qed

lemma sample_node_reachable: "node_reachable sample_env {1} (processed_world, sample_pipeline Waiting 1 [] Receiving 1 [1], [])"
  using follower_reachable_ok [OF sample_follower_reachable] by simp

end
