(* ===== verification/Pipeline_Spec.thy ===== *)
theory Pipeline_Spec
  imports Pipeline_Sample
begin

text \<open>
  The way of the blocks among the other goroutines: no block is skipped, every block that the node announces is processed or
  the process ends with an error, and the process is an instance of the abstract system of goroutines.
\<close>

section \<open>Safety\<close>

text \<open>
  C12. No block is skipped and none is processed out of order. Whatever the schedule of the goroutines, the faults
  of the services, cancellations, errors and restarts: when the database says that the height \<open>h\<close> was the last
  one processed, all events of every block from 1 to \<open>h\<close> have been processed without an error; and the events
  of a block are complete only after those of all the blocks before it.
\<close>

theorem no_block_is_skipped:
  assumes "- 1 \<notin> heights" "node_reachable e heights (w, pl, ps)"
  shows "{1..case w_last_height w of None \<Rightarrow> 0 | Some height \<Rightarrow> unat height} \<subseteq> unat ` set (pl_log pl) \<and>
    (\<forall>k < length (pl_log pl). 0 < unat (pl_log pl ! k) \<and> {1..<unat (pl_log pl ! k)} \<subseteq> unat ` set (take k (pl_log pl)))"
  using node_reachable_ok [OF assms(2,1)]
  by (auto simp: node_ok_def pipeline_ok_def logged_def recorded_def in_order_def Suc_le_eq subset_iff dest!: spec)

theorem no_block_is_skipped_witness:
  "w_last_height processed_world = Some 1 \<and> {1..1} \<subseteq> unat ` {1 :: i64}"
  using no_block_is_skipped [OF _ sample_node_reachable] by (simp add: processed_world_def)

section \<open>Liveness\<close>

text \<open>
  C13. The indexer follows the chain, from the websocket to the database. The four goroutines on the way (the one that
  forwards the events of the subscription, the one that announces the heights, the one that fetches the blocks and the one
  that processes them) can perform only finitely many steps between two inputs of the node, however the other goroutines,
  the ticker and a shutdown interleave with them. When none of them can go on, everything that the node has delivered has
  been taken and every block up to the last height delivered is processed and recorded (unless a renewal of the subscription
  has thrown events away since), or the processor has ended with an error, the handler of an event has panicked,
  or a malformed event or a closed channel has ended the process. And the block processor goes through no states
  but those of the properties before this one.
\<close>

theorem indexer_follows_chain:
  assumes "- 1 \<notin> heights"
  shows "wf {(s', s). follower_reachable e ws heights s \<and> (\<exists>u. (beside e ws)\<^sup>*\<^sup>* s u \<and> run_step e ws u s')} \<and>
    (\<forall>w pl ps fd. follower_reachable e ws heights ((w, pl, ps), fd) \<longrightarrow> node_reachable e heights (w, pl, ps) \<and>
      ((\<nexists>s'. run_step e ws ((w, pl, ps), fd) s') \<longrightarrow>
        up_to_date w pl fd \<or> ended pl \<or> consumer_panicked pl \<or> fd_fatal fd \<noteq> None))"
  using run_steps_end [OF assms, of e ws] follower_reachable_ok [OF _ assms, of e ws] follower_idle [of e ws] by auto blast+

theorem indexer_follows_chain_witness:
  "up_to_date processed_world (sample_pipeline Waiting 1 [] Receiving 1 [1]) (sample_feed [EventDataNewBlock 1] [] Listening Awaiting None)"
proof -
  let ?pl = "sample_pipeline Waiting 1 [] Receiving 1 [1]" and ?fd = "sample_feed [EventDataNewBlock 1] [] Listening Awaiting None"
  have up: "- 1 \<notin> {1 :: i64}" by simp
  have "\<nexists>s'. run_step sample_env ws ((processed_world, ?pl, []), ?fd) s'" for ws
    by (auto simp: sample_feed_def elim!: run_step.cases feed_step.cases producer_step.cases consumer_step.cases)
  with indexer_follows_chain [OF up, of sample_env] sample_follower_reachable show ?thesis
    by (fastforce simp: ended_def consumer_panicked_def sample_feed_def)
qed

section \<open>Refinement\<close>

text \<open>
  C14. The block processor with its channel, among the other goroutines, refines the abstract system in which any
  block may be processed at any moment: whatever the process does, its shared state is one that the abstract system
  reaches, and every program that still runs in the process is one that runs there. So everything that holds of the
  reachable states of the system holds of the process.
\<close>

theorem pipeline_refines_system:
  assumes "- 1 \<notin> heights" "node_reachable e heights (w, pl, ps)"
  shows "\<exists>qs. reachable e (w, qs) \<and> node_threads e pl ps \<subseteq># mset qs"
  using node_reachable_system [OF assms(2,1)] by (simp add: runs_in_system_def)

theorem pipeline_refines_system_witness: "\<exists>qs. reachable sample_env (processed_world, qs)"
  using pipeline_refines_system [OF _ sample_node_reachable] by auto

end
