(* ===== verification/Subscription_Spec.thy ===== *)
theory Subscription_Spec
  imports Subscription
begin

text \<open>
  The workaround for dead websocket connections: a subscription that has become silent is replaced in bounded time,
  one that delivers is left alone, and no event is lost, repeated or reordered on the way.
\<close>

section \<open>Recovery\<close>

text \<open>
  C30. With the constants of the service: when no event comes, the ticker fires every
  \<^verbatim>\<open>subscriptionHealthCheckInterval\<close> and the client accepts new subscriptions, then at a tick that comes at most two
  minutes after the last event (not five, as the comment in the code says) the goroutine gives the old
  subscription up, makes a new one and listens to its channel. Nothing is renewed before a minute has passed,
  and a subscription that delivers often enough is kept. In each case exactly the events that were received are
  forwarded, in their order.
\<close>

theorem subscription_recovers:
  assumes "spaced subscriptionHealthCheckInterval (sub_lastEventTime s) (map fst ticks)"
    and "ticks \<noteq> []" "sub_lastEventTime s + maxEventWaitInterval < fst (last ticks)"
    and "\<forall>(now, t, later) \<in> set ticks. \<exists>c. ws_Subscribe ws t subscriberName newBlockQuery = Inr c"
  shows "(\<exists>pre now t later post c reqs. ticks = pre @ (now, t, later) # post \<and>
      sub_lastEventTime s + Minute < now \<and> now \<le> sub_lastEventTime s + 2 * Minute \<and>
      ws_Subscribe ws t subscriberName newBlockQuery = Inr c \<and>
      subscription_run ws subscriberName newBlockQuery maxEventWaitInterval (tick_inputs (pre @ [(now, t, later)])) s =
        Ok (s\<lparr>sub_rawEventChan := c, sub_lastEventTime := later,
          sub_requests := reqs @ [UnsubscribeRequest t subscriberName newBlockQuery, SubscribeRequest t subscriberName newBlockQuery]\<rparr>)) \<and>
    (\<forall>ins s'. subscription_run ws subscriberName newBlockQuery maxEventWaitInterval ins s = Ok s' \<longrightarrow>
      sub_forwarded s' = sub_forwarded s @ received ins \<and>
      (alive maxEventWaitInterval (sub_lastEventTime s) ins \<longrightarrow> sub_rawEventChan s' = sub_rawEventChan s))"
proof -
  have pos: "0 \<le> maxEventWaitInterval" by (simp add: maxEventWaitInterval_def Minute_def)
  then obtain pre now t later post where at: "ticks = pre @ (now, t, later) # post"
      "sub_lastEventTime s + maxEventWaitInterval < now"
      "now \<le> sub_lastEventTime s + maxEventWaitInterval + subscriptionHealthCheckInterval"
      "\<forall>tk \<in> set pre. fst tk \<le> sub_lastEventTime s + maxEventWaitInterval"
    using first_late_tick [OF assms(1), of "sub_lastEventTime s + maxEventWaitInterval"] assms(2,3)
    by (metis le_add_same_cancel1)
  then obtain c where c: "ws_Subscribe ws t subscriberName newBlockQuery = Inr c" using assms(4) by auto
  have "list_all (in_vain ws subscriberName newBlockQuery maxEventWaitInterval (sub_lastEventTime s)) pre"
    using at(4) by (auto simp: list_all_iff in_vain_def)
  from renewal [OF this at(2) c, of later] at(1-3) c
  have "\<exists>pre now t later post c reqs. ticks = pre @ (now, t, later) # post \<and>
      sub_lastEventTime s + Minute < now \<and> now \<le> sub_lastEventTime s + 2 * Minute \<and>
      ws_Subscribe ws t subscriberName newBlockQuery = Inr c \<and>
      subscription_run ws subscriberName newBlockQuery maxEventWaitInterval (tick_inputs (pre @ [(now, t, later)])) s =
        Ok (s\<lparr>sub_rawEventChan := c, sub_lastEventTime := later,
          sub_requests := reqs @ [UnsubscribeRequest t subscriberName newBlockQuery, SubscribeRequest t subscriberName newBlockQuery]\<rparr>)"
    by (fastforce simp: maxEventWaitInterval_def subscriptionHealthCheckInterval_def)
  then show ?thesis using forwarded_in_order alive_keeps_channel by blast
qed

definition sample_websocket :: websocket where
  "sample_websocket = \<lparr>ws_IsRunning = (\<lambda>t. True), ws_Start = (\<lambda>t. None), ws_Subscribe = (\<lambda>t subscriber query. Inr t),
     ws_Unsubscribe = (\<lambda>t subscriber query. Some ''subscription not found''), ws_UnsubscribeAll = (\<lambda>t subscriber. None)\<rparr>"

definition silent_subscription :: subscription where
  "silent_subscription = \<lparr>sub_rawEventChan = 0, sub_lastEventTime = 0, sub_forwarded = [], sub_requests = []\<rparr>"

theorem subscription_recovers_witness:
  "\<exists>pre now t later post s'. [(Minute, 5, Minute), (2 * Minute, 9, 2 * Minute)] = pre @ (now, t, later) # post \<and> now \<le> 2 * Minute \<and>
    subscription_run sample_websocket subscriberName newBlockQuery maxEventWaitInterval (tick_inputs (pre @ [(now, t, later)]))
      silent_subscription = Ok s'"
  using subscription_recovers [of silent_subscription "[(Minute, 5, Minute), (2 * Minute, 9, 2 * Minute)]" sample_websocket]
  by (fastforce simp: sample_websocket_def silent_subscription_def subscriptionHealthCheckInterval_def maxEventWaitInterval_def Minute_def)

end
