(* ===== verification/Utf8.thy ===== *)
theory Utf8
  imports Go_Utils
begin

text \<open>
  The part of \<^verbatim>\<open>unicode/utf8\<close> that the program rests on. A Go string is a sequence of bytes, as is a \<^typ>\<open>string\<close> here.
\<close>

section \<open>Runes\<close>

abbreviation code :: "char \<Rightarrow> nat" where "code c \<equiv> of_char c"

definition RuneError :: nat where "RuneError = 0xFFFD"

definition ValidRune :: "nat \<Rightarrow> bool" where
  "ValidRune r \<longleftrightarrow> r < 0xD800 \<or> (0xDFFF < r \<and> r \<le> 0x10FFFF)"

definition within :: "nat \<Rightarrow> nat \<Rightarrow> char \<Rightarrow> bool" where
  "within lo hi c \<longleftrightarrow> lo \<le> code c \<and> code c \<le> hi"

text \<open>The first rune and its number of bytes; a byte that starts no encoding stands for \<open>RuneError\<close> and is skipped alone.\<close>

fun DecodeRune :: "string \<Rightarrow> nat \<times> nat" where
  "DecodeRune (a # b # c # d # _) =
     (if code a < 0x80 then (code a, 1)
      else if within 0xC2 0xDF a \<and> within 0x80 0xBF b then ((code a - 0xC0) * 64 + (code b - 0x80), 2)
      else if within 0xE0 0xEF a \<and> within (if code a = 0xE0 then 0xA0 else 0x80) (if code a = 0xED then 0x9F else 0xBF) b \<and>
        within 0x80 0xBF c then ((code a - 0xE0) * 4096 + (code b - 0x80) * 64 + (code c - 0x80), 3)
      else if within 0xF0 0xF4 a \<and> within (if code a = 0xF0 then 0x90 else 0x80) (if code a = 0xF4 then 0x8F else 0xBF) b \<and>
        within 0x80 0xBF c \<and> within 0x80 0xBF d
        then ((code a - 0xF0) * 262144 + (code b - 0x80) * 4096 + (code c - 0x80) * 64 + (code d - 0x80), 4)
      else (RuneError, 1))"
| "DecodeRune [a, b, c] =
     (if code a < 0x80 then (code a, 1)
      else if within 0xC2 0xDF a \<and> within 0x80 0xBF b then ((code a - 0xC0) * 64 + (code b - 0x80), 2)
      else if within 0xE0 0xEF a \<and> within (if code a = 0xE0 then 0xA0 else 0x80) (if code a = 0xED then 0x9F else 0xBF) b \<and>
        within 0x80 0xBF c then ((code a - 0xE0) * 4096 + (code b - 0x80) * 64 + (code c - 0x80), 3)
      else (RuneError, 1))"
| "DecodeRune [a, b] =
     (if code a < 0x80 then (code a, 1)
      else if within 0xC2 0xDF a \<and> within 0x80 0xBF b then ((code a - 0xC0) * 64 + (code b - 0x80), 2)
      else (RuneError, 1))"
| "DecodeRune [a] = (if code a < 0x80 then (code a, 1) else (RuneError, 1))"
| "DecodeRune [] = (RuneError, 0)"

definition AppendRune :: "nat \<Rightarrow> string" where
  "AppendRune r =
     (if r < 0x80 then [char_of r]
      else if r < 0x800 then [char_of (0xC0 + r div 64), char_of (0x80 + r mod 64)]
      else let r = (if ValidRune r then r else RuneError) in
        if r < 0x10000 then [char_of (0xE0 + r div 4096), char_of (0x80 + r div 64 mod 64), char_of (0x80 + r mod 64)]
        else [char_of (0xF0 + r div 262144), char_of (0x80 + r div 4096 mod 64), char_of (0x80 + r div 64 mod 64),
              char_of (0x80 + r mod 64)])"

lemma DecodeRune_size: "s \<noteq> [] \<Longrightarrow> 0 < snd (DecodeRune s)"
  by (induction s rule: DecodeRune.induct) auto

section \<open>Valid strings\<close>

text \<open>\<^verbatim>\<open>utf8.ValidString\<close>: no byte stands for \<open>RuneError\<close> alone; the encoded \<open>RuneError\<close> has three bytes.\<close>

function ValidString :: "string \<Rightarrow> bool" where
  "ValidString s =
     (if s = [] then True else if DecodeRune s = (RuneError, 1) then False else ValidString (drop (snd (DecodeRune s)) s))"
  by pat_completeness auto

termination
  by (relation "measure length") (auto simp: DecodeRune_size)

declare ValidString.simps [simp del]

lemma ValidString_simps:
  "ValidString []"
  "ValidString (c # s) \<longleftrightarrow> DecodeRune (c # s) \<noteq> (RuneError, 1) \<and> ValidString (drop (snd (DecodeRune (c # s))) (c # s))"
  by (subst ValidString.simps, simp)+

abbreviation ascii :: "string \<Rightarrow> bool" where
  "ascii s \<equiv> list_all (\<lambda>c. code c < 0x80) s"

lemma DecodeRune_ascii: "code c < 0x80 \<Longrightarrow> DecodeRune (c # s) = (code c, 1)"
  by (cases "(c # s)" rule: DecodeRune.cases) auto

lemma ValidString_ascii [simp]: "ascii s \<Longrightarrow> ValidString s"
proof (induction s)
  case (Cons c s)
  then show ?case by (simp add: ValidString_simps DecodeRune_ascii RuneError_def)
qed (simp add: ValidString_simps)

lemma ascii_decimal [simp]: "ascii (decimal n)"
  by (induction n rule: decimal.induct) (subst decimal.simps, auto)

text \<open>A two byte encoding, and a byte that no encoding begins with.\<close>

lemma ValidString_examples: "ValidString [CHR 0xC3, CHR 0xA9]" "\<not> ValidString [CHR 0x61, CHR 0xFF]"
  by (simp_all add: ValidString_simps within_def RuneError_def)

end
