(* ===== verification/Metrics.thy ===== *)
theory Metrics
  imports Utf8
begin

text \<open>
  \<^verbatim>\<open>internal/observability/metrics\<close>: the metrics that are registered, the functions that record into them, and the
  measuring of a call. What Prometheus does with a value is the list of the updates; a vector that is used with a
  wrong number of label values or with one that is not valid UTF-8 panics, and so does a second registration of a name (its
  documented behaviour).
\<close>

section \<open>The metrics\<close>

datatype Outcome = Success | Error

fun Outcome_String :: "Outcome \<Rightarrow> string" where
  "Outcome_String Success = ''success''"
| "Outcome_String Error = ''error''"

datatype Metric =
    BtcClientLatency
  | BbnClientLatency
  | QueueSendErrorCounter
  | ClientRequestDurationHistogram
  | PollerDurationHistogram
  | ExpiredDelegationsGauge
  | BbnEventProcessingDuration
  | BtcNotifierRegisterSpendCounter
  | BtcTipHeightGauge
  | DbLatency
  | ActiveTvlGauge
  | ActiveDelegationsGauge

text \<open>The kinds of collectors; the buckets of a histogram are in milliseconds, and none are the default ones.\<close>

datatype Collector = Histogram "nat list" | Counter | Gauge

record MetricOpts =
  mo_Name :: string
  mo_Collector :: Collector
  mo_Labels :: "string list"

definition defaultHistogramBuckets :: "nat list" where
  "defaultHistogramBuckets = [100, 500, 1000, 2500, 5000, 10000, 30000]"

fun metric_opts :: "Metric \<Rightarrow> MetricOpts" where
  "metric_opts ClientRequestDurationHistogram = \<lparr>mo_Name = ''client_request_duration_seconds'',
     mo_Collector = Histogram defaultHistogramBuckets, mo_Labels = [''baseurl'', ''method'', ''path'', ''status'']\<rparr>"
| "metric_opts BtcClientLatency = \<lparr>mo_Name = ''btc_client_latency_seconds'',
     mo_Collector = Histogram defaultHistogramBuckets, mo_Labels = [''method'', ''status'']\<rparr>"
| "metric_opts BbnClientLatency = \<lparr>mo_Name = ''bbn_client_latency_seconds'',
     mo_Collector = Histogram defaultHistogramBuckets, mo_Labels = [''method'', ''status'']\<rparr>"
| "metric_opts QueueSendErrorCounter = \<lparr>mo_Name = ''queue_send_error_count'', mo_Collector = Counter, mo_Labels = []\<rparr>"
| "metric_opts PollerDurationHistogram = \<lparr>mo_Name = ''poller_duration_seconds'',
     mo_Collector = Histogram defaultHistogramBuckets, mo_Labels = [''type'', ''status'']\<rparr>"
| "metric_opts ExpiredDelegationsGauge = \<lparr>mo_Name = ''expired_delegations_count'', mo_Collector = Gauge, mo_Labels = []\<rparr>"
| "metric_opts BbnEventProcessingDuration = \<lparr>mo_Name = ''bbn_event_processing_duration_seconds'',
     mo_Collector = Histogram defaultHistogramBuckets, mo_Labels = [''event_type'', ''status'', ''retry'']\<rparr>"
| "metric_opts BtcNotifierRegisterSpendCounter = \<lparr>mo_Name = ''btc_notifier_register_spend_count'',
     mo_Collector = Counter, mo_Labels = [''status'']\<rparr>"
| "metric_opts BtcTipHeightGauge = \<lparr>mo_Name = ''btc_tip_height'', mo_Collector = Gauge, mo_Labels = []\<rparr>"
| "metric_opts DbLatency = \<lparr>mo_Name = ''db_latency_seconds'', mo_Collector = Histogram [], mo_Labels = [''method'', ''status'']\<rparr>"
| "metric_opts ActiveTvlGauge = \<lparr>mo_Name = ''active_tvl_satoshis'', mo_Collector = Gauge, mo_Labels = []\<rparr>"
| "metric_opts ActiveDelegationsGauge = \<lparr>mo_Name = ''active_delegations_count'', mo_Collector = Gauge, mo_Labels = []\<rparr>"

definition registered_metrics :: "Metric list" where
  "registered_metrics =
     [BtcClientLatency, BbnClientLatency, QueueSendErrorCounter, ClientRequestDurationHistogram, PollerDurationHistogram,
      ExpiredDelegationsGauge, BbnEventProcessingDuration, BtcNotifierRegisterSpendCounter, BtcTipHeightGauge, DbLatency,
      ActiveTvlGauge, ActiveDelegationsGauge]"

section \<open>The registry\<close>

datatype Update = Observe int | Inc | SetTo int

text \<open>The server that exposes the metrics; times in nanoseconds. It listens on the port of every address of the machine.\<close>

record http_server =
  srv_Addr :: string
  srv_Routes :: "string list"
  srv_ReadTimeout :: int
  srv_WriteTimeout :: int
  srv_IdleTimeout :: int

definition MetricRequestTimeout :: int where "MetricRequestTimeout = 5 * 1000000000"
definition MetricRequestIdleTimeout :: int where "MetricRequestIdleTimeout = 10 * 1000000000"

text \<open>\<^verbatim>\<open>%d\<close>.\<close>

definition int_decimal :: "int \<Rightarrow> string" where
  "int_decimal n = (if n < 0 then ''-'' @ decimal (nat (- n)) else decimal (nat n))"

text \<open>The variables of the package are nil until \<^verbatim>\<open>Init\<close> has run; \<open>ms_updates\<close> is what has been recorded.\<close>

record metrics_state =
  ms_initialised :: bool
  ms_server :: "http_server option"
  ms_updates :: "(Metric \<times> string list \<times> Update) list"

definition no_metrics :: metrics_state where
  "no_metrics = \<lparr>ms_initialised = False, ms_server = None, ms_updates = []\<rparr>"

fun valid_collector :: "Collector \<Rightarrow> bool" where
  "valid_collector (Histogram buckets) \<longleftrightarrow> sorted_wrt (<) buckets"
| "valid_collector Counter \<longleftrightarrow> True"
| "valid_collector Gauge \<longleftrightarrow> True"

text \<open>
  The variables are assigned before the collectors are registered, so that they are not nil even if the registration panics.
\<close>

definition registerMetrics :: "metrics_state \<Rightarrow> unit result \<times> metrics_state" where
  "registerMetrics st =
     (if distinct (map (\<lambda>m. mo_Name (metric_opts m)) registered_metrics) then Ok ()
      else Panic ''duplicate metrics collector registration attempted'',
      st\<lparr>ms_initialised := True\<rparr>)"

text \<open>The goroutine of the server is started before anything is registered.\<close>

definition initMetricsRouter :: "int \<Rightarrow> metrics_state \<Rightarrow> metrics_state" where
  "initMetricsRouter metricsPort st = st\<lparr>ms_server := Some \<lparr>srv_Addr = '':'' @ int_decimal metricsPort, srv_Routes = [''/metrics''],
     srv_ReadTimeout = MetricRequestTimeout, srv_WriteTimeout = MetricRequestTimeout, srv_IdleTimeout = MetricRequestIdleTimeout\<rparr>\<rparr>"

text \<open>
  \<^verbatim>\<open>sync.Once\<close> counts a function that has panicked as done. Since \<open>registerMetrics\<close> assigns the variables in either case,
  \<open>ms_initialised\<close> holds exactly when the function has been run.
\<close>

definition Init :: "int \<Rightarrow> metrics_state \<Rightarrow> unit result \<times> metrics_state" where
  "Init metricsPort st = (if ms_initialised st then (Ok (), st) else registerMetrics (initMetricsRouter metricsPort st))"

text \<open>
  A method on a metric variable: nil before the initialisation. The label values are looked at in their order and must be
  valid UTF-8; the buckets of a histogram are checked when it is first used with some label values.
\<close>

definition update_metric :: "Metric \<Rightarrow> string list \<Rightarrow> Update \<Rightarrow> metrics_state \<Rightarrow> unit result \<times> metrics_state" where
  "update_metric metric labels upd st =
     (if \<not> ms_initialised st then (Panic ''invalid memory address or nil pointer dereference'', st)
      else if length labels \<noteq> length (mo_Labels (metric_opts metric)) then (Panic ''inconsistent label cardinality'', st)
      else if \<not> list_all ValidString labels then (Panic ''label value is not valid UTF-8'', st)
      else if \<not> valid_collector (mo_Collector (metric_opts metric)) then (Panic ''histogram buckets must be in increasing order'', st)
      else (Ok (), st\<lparr>ms_updates := ms_updates st @ [(metric, labels, upd)]\<rparr>))"

lemma sorted_buckets [simp]: "sorted_wrt (<) defaultHistogramBuckets"
  by (simp add: defaultHistogramBuckets_def)

lemma valid_collectors [simp]: "valid_collector (mo_Collector (metric_opts metric))"
  by (cases metric) simp_all

lemma ascii_outcome [simp]: "ascii (Outcome_String o')"
  by (cases o') simp_all

section \<open>The recording functions\<close>

definition status_of :: "bool \<Rightarrow> Outcome" where
  "status_of failure = (if failure then Error else Success)"

definition RecordBTCClientLatency :: "int \<Rightarrow> string \<Rightarrow> bool \<Rightarrow> metrics_state \<Rightarrow> unit result \<times> metrics_state" where
  "RecordBTCClientLatency d method failure = update_metric BtcClientLatency [method, Outcome_String (status_of failure)] (Observe d)"

definition RecordBBNClientLatency :: "int \<Rightarrow> string \<Rightarrow> bool \<Rightarrow> metrics_state \<Rightarrow> unit result \<times> metrics_state" where
  "RecordBBNClientLatency d method failure = update_metric BbnClientLatency [method, Outcome_String (status_of failure)] (Observe d)"

definition RecordDbLatency :: "int \<Rightarrow> string \<Rightarrow> bool \<Rightarrow> metrics_state \<Rightarrow> unit result \<times> metrics_state" where
  "RecordDbLatency d method failure = update_metric DbLatency [method, Outcome_String (status_of failure)] (Observe d)"

definition RecordBtcTipHeight :: "u64 \<Rightarrow> metrics_state \<Rightarrow> unit result \<times> metrics_state" where
  "RecordBtcTipHeight height = update_metric BtcTipHeightGauge [] (SetTo (uint height))"

definition IncBtcNotifierRegisterSpend :: "bool \<Rightarrow> metrics_state \<Rightarrow> unit result \<times> metrics_state" where
  "IncBtcNotifierRegisterSpend failure =
     update_metric BtcNotifierRegisterSpendCounter [Outcome_String (status_of failure)] Inc"

definition RecordExpiredDelegationsCount :: "int \<Rightarrow> metrics_state \<Rightarrow> unit result \<times> metrics_state" where
  "RecordExpiredDelegationsCount n = update_metric ExpiredDelegationsGauge [] (SetTo n)"

text \<open>The only function that looks whether the metrics are initialised.\<close>

definition RecordBbnEventProcessingDuration ::
  "int \<Rightarrow> string \<Rightarrow> nat \<Rightarrow> bool \<Rightarrow> metrics_state \<Rightarrow> unit result \<times> metrics_state" where
  "RecordBbnEventProcessingDuration d eventType retry failure st =
     (if \<not> ms_initialised st then (Ok (), st)
      else update_metric BbnEventProcessingDuration [eventType, Outcome_String (status_of failure), decimal retry] (Observe d) st)"

text \<open>The timer of an outgoing request: the start is read at once, the function that stops it is returned.\<close>

definition StartClientRequestDurationTimer ::
  "int \<Rightarrow> string \<Rightarrow> string \<Rightarrow> string \<Rightarrow> (int \<Rightarrow> nat \<Rightarrow> metrics_state \<Rightarrow> unit result \<times> metrics_state)" where
  "StartClientRequestDurationTimer startTime baseUrl method path = (\<lambda>endTime statusCode.
     update_metric ClientRequestDurationHistogram [baseUrl, method, path, decimal statusCode] (Observe (endTime - startTime)))"

definition RecordQueueSendError :: "metrics_state \<Rightarrow> unit result \<times> metrics_state" where
  "RecordQueueSendError = update_metric QueueSendErrorCounter [] Inc"

definition RecordActiveTvl :: "u64 \<Rightarrow> metrics_state \<Rightarrow> unit result \<times> metrics_state" where
  "RecordActiveTvl tvl = update_metric ActiveTvlGauge [] (SetTo (uint tvl))"

definition RecordActiveDelegations :: "int \<Rightarrow> metrics_state \<Rightarrow> unit result \<times> metrics_state" where
  "RecordActiveDelegations n = update_metric ActiveDelegationsGauge [] (SetTo n)"

text \<open>The duration of one run of a poller's task, that \<^verbatim>\<open>RecordPollerDuration\<close> observes.\<close>

definition observe_poller :: "int \<Rightarrow> string \<Rightarrow> bool \<Rightarrow> metrics_state \<Rightarrow> unit result \<times> metrics_state" where
  "observe_poller duration ty failure =
     update_metric PollerDurationHistogram [ty, Outcome_String (status_of failure)] (Observe duration)"

section \<open>Measured calls\<close>

text \<open>
  What the measuring reads and writes beside the state of the program: the clock and the metrics. \<open>mn_now\<close> are the
  readings of the clock, one after the other.
\<close>

record monitor =
  mn_metrics :: metrics_state
  mn_now :: "nat \<Rightarrow> int"
  mn_reads :: nat

definition Now :: "('w \<times> monitor, int) prog" where
  "Now = atomically (\<lambda>(w, m). (Ok (mn_now m (mn_reads m)), (w, m\<lparr>mn_reads := Suc (mn_reads m)\<rparr>)))"

definition record_metric :: "(metrics_state \<Rightarrow> unit result \<times> metrics_state) \<Rightarrow> ('w \<times> monitor, unit) prog" where
  "record_metric f = atomically (\<lambda>(w, m). let (r, st) = f (mn_metrics m) in (r, (w, m\<lparr>mn_metrics := st\<rparr>)))"

text \<open>A program on one part of a larger state.\<close>

primrec lift_prog :: "('w, 'a) prog \<Rightarrow> ('w \<times> 'm, 'a) prog" where
  "lift_prog (Done r) = Done r"
| "lift_prog (Act f) = Act (\<lambda>(w, m). map_prod id (\<lambda>w'. (w', m)) (map_prod lift_prog id (f w)))"

lemma run_lift: "run (lift_prog f) (w, m) = (fst (run f w), (snd (run f w), m))"
  by (induction f arbitrary: w rule: prog_actions_induct) simp_all

lemma run_Now: "run Now (w, m) = (Ok (mn_now m (mn_reads m)), (w, m\<lparr>mn_reads := Suc (mn_reads m)\<rparr>))"
  by (simp add: Now_def)

text \<open>The pattern of all the wrappers: the error of the call is looked at and returned; a panic passes through.\<close>

definition measured ::
  "(int \<Rightarrow> string \<Rightarrow> bool \<Rightarrow> metrics_state \<Rightarrow> unit result \<times> metrics_state) \<Rightarrow> string \<Rightarrow> ('w, 'a) prog \<Rightarrow> ('w \<times> monitor, 'a) prog" where
  "measured rec method f =
     andThen Now (\<lambda>startTime.
     andThen (attempt (lift_prog f)) (\<lambda>r.
     andThen Now (\<lambda>endTime.
     andThen (record_metric (rec (endTime - startTime) method (case r of Inl err \<Rightarrow> True | Inr v \<Rightarrow> False))) (\<lambda>_.
     case r of Inl err \<Rightarrow> throw err | Inr v \<Rightarrow> ret v))))"

definition RecordPollerDuration :: "string \<Rightarrow> ('w, unit) prog \<Rightarrow> ('w \<times> monitor, unit) prog" where
  "RecordPollerDuration ty f = measured observe_poller ty f"

end
