(* ===== verification/Interfaces.thy ===== *)
theory Interfaces
  imports Subscription Metrics
begin

text \<open>
  The interfaces of \<^verbatim>\<open>internal/db/interface.go\<close> and of the two clients, with their implementations, and the wrappers
  that measure every call: \<^verbatim>\<open>internal/db/metrics.go\<close> and the \<^verbatim>\<open>metrics.go\<close> of the clients.
\<close>

section \<open>The database\<close>

text \<open>
  The interface has two parts here: the finality providers, the parameters and the delegations, and what stands beside them,
  the time locks, the progress, the network and the statistics.
\<close>

record 'w DbEntities =
  db_Ping :: "('w, unit) prog"
  db_SaveNewFinalityProvider :: "FinalityProviderDetails \<Rightarrow> ('w, unit) prog"
  db_UpdateFinalityProviderState :: "string \<Rightarrow> string \<Rightarrow> ('w, unit) prog"
  db_UpdateFinalityProviderDetailsFromEvent :: "FinalityProviderDetails \<Rightarrow> ('w, unit) prog"
  db_GetFinalityProviderByBtcPk :: "string \<Rightarrow> ('w, FinalityProviderDetails) prog"
  db_SaveStakingParams :: "u32 \<Rightarrow> StakingParams \<Rightarrow> ('w, unit) prog"
  db_GetStakingParams :: "u32 \<Rightarrow> ('w, StakingParams) prog"
  db_SaveCheckpointParams :: "CheckpointParams \<Rightarrow> ('w, unit) prog"
  db_SaveNewBTCDelegation :: "BTCDelegationDetails \<Rightarrow> ('w, unit) prog"
  db_UpdateBTCDelegationState :: "string \<Rightarrow> DelegationState list \<Rightarrow> DelegationState \<Rightarrow> UpdateOption list \<Rightarrow> ('w, unit) prog"
  db_GetAllFinalityProviders :: "('w, FinalityProviderDetails list) prog"
  db_SaveBTCDelegationCovenantSignature :: "string \<Rightarrow> string \<Rightarrow> string \<Rightarrow> string \<Rightarrow> ('w, unit) prog"
  db_GetBTCDelegationState :: "string \<Rightarrow> ('w, DelegationState) prog"
  db_GetBTCDelegationByStakingTxHash :: "string \<Rightarrow> ('w, BTCDelegationDetails) prog"
  db_GetDelegationsByFinalityProvider :: "string \<Rightarrow> ('w, BTCDelegationDetails list) prog"

record 'w DbInterface = "'w DbEntities" +
  db_SaveNewTimeLockExpire :: "string \<Rightarrow> u32 \<Rightarrow> DelegationSubState \<Rightarrow> ('w, unit) prog"
  db_FindExpiredDelegations :: "u64 \<Rightarrow> u64 \<Rightarrow> ('w, TimeLockDocument list) prog"
  db_DeleteExpiredDelegation :: "string \<Rightarrow> ('w, unit) prog"
  db_GetLastProcessedBbnHeight :: "('w, u64) prog"
  db_UpdateLastProcessedBbnHeight :: "u64 \<Rightarrow> ('w, unit) prog"
  db_GetBTCDelegationsByStates :: "DelegationState list \<Rightarrow> ('w, BTCDelegationDetails list) prog"
  db_GetDelegationsWithEmptyStakerAddress :: "('w, BTCDelegationDetails list) prog"
  db_UpdateDelegationStakerBabylonAddress :: "string \<Rightarrow> string \<Rightarrow> ('w, unit) prog"
  db_GetNetworkInfo :: "('w, NetworkInfo) prog"
  db_UpsertNetworkInfo :: "NetworkInfo \<Rightarrow> ('w, unit) prog"
  db_UpsertOverallStats :: "u64 \<Rightarrow> u64 \<Rightarrow> ('w, unit) prog"
  db_UpsertFinalityProviderStats :: "string \<Rightarrow> u64 \<Rightarrow> u64 \<Rightarrow> ('w, unit) prog"
  db_CalculateActiveStatsAggregated :: "('w, u64 \<times> u64 \<times> FinalityProviderStatsDocument list) prog"

text \<open>\<^verbatim>\<open>Database\<close> of \<^verbatim>\<open>dbclient.go\<close> with its methods; \<^verbatim>\<open>Ping\<close> is a call that changes nothing.\<close>

definition Ping :: "env \<Rightarrow> (world, unit) prog" where
  "Ping e = db_call e (\<lambda>w. (Ok (), w))"

definition mongo_database :: "env \<Rightarrow> world DbInterface" where
  "mongo_database e = \<lparr>
     db_Ping = Ping e,
     db_SaveNewFinalityProvider = SaveNewFinalityProvider e,
     db_UpdateFinalityProviderState = UpdateFinalityProviderState e,
     db_UpdateFinalityProviderDetailsFromEvent = UpdateFinalityProviderDetailsFromEvent e,
     db_GetFinalityProviderByBtcPk = GetFinalityProviderByBtcPk e,
     db_SaveStakingParams = SaveStakingParams e,
     db_GetStakingParams = GetStakingParams e,
     db_SaveCheckpointParams = SaveCheckpointParams e,
     db_SaveNewBTCDelegation = SaveNewBTCDelegation e,
     db_UpdateBTCDelegationState = UpdateBTCDelegationState e,
     db_GetAllFinalityProviders = GetAllFinalityProviders e,
     db_SaveBTCDelegationCovenantSignature = SaveBTCDelegationCovenantSignature e,
     db_GetBTCDelegationState = GetBTCDelegationState e,
     db_GetBTCDelegationByStakingTxHash = GetBTCDelegationByStakingTxHash e,
     db_GetDelegationsByFinalityProvider = GetDelegationsByFinalityProvider e,
     db_SaveNewTimeLockExpire = SaveNewTimeLockExpire e,
     db_FindExpiredDelegations = FindExpiredDelegations e,
     db_DeleteExpiredDelegation = DeleteExpiredDelegation e,
     db_GetLastProcessedBbnHeight = GetLastProcessedBbnHeight e,
     db_UpdateLastProcessedBbnHeight = UpdateLastProcessedBbnHeight e,
     db_GetBTCDelegationsByStates = GetBTCDelegationsByStates e,
     db_GetDelegationsWithEmptyStakerAddress = GetDelegationsWithEmptyStakerAddress e,
     db_UpdateDelegationStakerBabylonAddress = UpdateDelegationStakerBabylonAddress e,
     db_GetNetworkInfo = GetNetworkInfo e,
     db_UpsertNetworkInfo = UpsertNetworkInfo e,
     db_UpsertOverallStats = UpsertOverallStats e,
     db_UpsertFinalityProviderStats = UpsertFinalityProviderStats e,
     db_CalculateActiveStatsAggregated = CalculateActiveStatsAggregated e\<rparr>"

text \<open>The private method \<^verbatim>\<open>run\<close> of the wrapper, and the wrapper. Two methods are not measured.\<close>

definition DbWithMetrics_run :: "string \<Rightarrow> ('w, 'a) prog \<Rightarrow> ('w \<times> monitor, 'a) prog" where
  "DbWithMetrics_run method f = measured RecordDbLatency method f"

definition DbWithMetrics_entities :: "'w DbInterface \<Rightarrow> ('w \<times> monitor) DbEntities" where
  "DbWithMetrics_entities d = \<lparr>
     db_Ping = lift_prog (db_Ping d),
     db_SaveNewFinalityProvider = (\<lambda>fpDoc. DbWithMetrics_run ''SaveNewFinalityProvider'' (db_SaveNewFinalityProvider d fpDoc)),
     db_UpdateFinalityProviderState = (\<lambda>btcPk newState.
       DbWithMetrics_run ''UpdateFinalityProviderState'' (db_UpdateFinalityProviderState d btcPk newState)),
     db_UpdateFinalityProviderDetailsFromEvent = (\<lambda>detailsToUpdate.
       DbWithMetrics_run ''UpdateFinalityProviderDetailsFromEvent'' (db_UpdateFinalityProviderDetailsFromEvent d detailsToUpdate)),
     db_GetFinalityProviderByBtcPk = (\<lambda>btcPk.
       DbWithMetrics_run ''GetFinalityProviderByBtcPk'' (db_GetFinalityProviderByBtcPk d btcPk)),
     db_SaveStakingParams = (\<lambda>version params. DbWithMetrics_run ''SaveStakingParams'' (db_SaveStakingParams d version params)),
     db_GetStakingParams = (\<lambda>version. DbWithMetrics_run ''GetStakingParams'' (db_GetStakingParams d version)),
     db_SaveCheckpointParams = (\<lambda>params. DbWithMetrics_run ''SaveCheckpointParams'' (db_SaveCheckpointParams d params)),
     db_SaveNewBTCDelegation = (\<lambda>delegationDoc.
       DbWithMetrics_run ''SaveNewBTCDelegation'' (db_SaveNewBTCDelegation d delegationDoc)),
     db_UpdateBTCDelegationState = (\<lambda>stakingTxHash qualifiedPreviousStates newState opts.
       DbWithMetrics_run ''UpdateBTCDelegationState''
         (db_UpdateBTCDelegationState d stakingTxHash qualifiedPreviousStates newState opts)),
     db_GetAllFinalityProviders = DbWithMetrics_run ''GetAllFinalityProviders'' (db_GetAllFinalityProviders d),
     db_SaveBTCDelegationCovenantSignature = (\<lambda>stakingTxHash covenantBtcPkHex signatureHex stakeExpansionSignatureHex.
       DbWithMetrics_run ''SaveBTCDelegationCovenantSignature''
         (db_SaveBTCDelegationCovenantSignature d stakingTxHash covenantBtcPkHex signatureHex stakeExpansionSignatureHex)),
     db_GetBTCDelegationState = (\<lambda>stakingTxHash.
       DbWithMetrics_run ''GetBTCDelegationState'' (db_GetBTCDelegationState d stakingTxHash)),
     db_GetBTCDelegationByStakingTxHash = (\<lambda>stakingTxHash.
       DbWithMetrics_run ''GetBTCDelegationByStakingTxHash'' (db_GetBTCDelegationByStakingTxHash d stakingTxHash)),
     db_GetDelegationsByFinalityProvider = (\<lambda>fpBtcPkHex.
       DbWithMetrics_run ''GetDelegationsByFinalityProvider'' (db_GetDelegationsByFinalityProvider d fpBtcPkHex))\<rparr>"

definition DbWithMetrics :: "'w DbInterface \<Rightarrow> ('w \<times> monitor) DbInterface" where
  "DbWithMetrics d = DbEntities.extend (DbWithMetrics_entities d) (DbInterface.fields
     (\<lambda>stakingTxHashHex expireHeight subState.
       DbWithMetrics_run ''SaveNewTimeLockExpire'' (db_SaveNewTimeLockExpire d stakingTxHashHex expireHeight subState))
     (\<lambda>btcTipHeight limit.
       DbWithMetrics_run ''FindExpiredDelegations'' (db_FindExpiredDelegations d btcTipHeight limit))
     (\<lambda>stakingTxHashHex.
       DbWithMetrics_run ''DeleteExpiredDelegation'' (db_DeleteExpiredDelegation d stakingTxHashHex))
     (DbWithMetrics_run ''GetLastProcessedBbnHeight'' (db_GetLastProcessedBbnHeight d))
     (\<lambda>height.
       DbWithMetrics_run ''UpdateLastProcessedBbnHeight'' (db_UpdateLastProcessedBbnHeight d height))
     (\<lambda>states.
       DbWithMetrics_run ''GetBTCDelegationsByStates'' (db_GetBTCDelegationsByStates d states))
     (lift_prog (db_GetDelegationsWithEmptyStakerAddress d))
     (\<lambda>stakingTxHash stakerBabylonAddress.
       DbWithMetrics_run ''UpdateDelegationStakerBabylonAddress''
         (db_UpdateDelegationStakerBabylonAddress d stakingTxHash stakerBabylonAddress))
     (DbWithMetrics_run ''GetNetworkInfo'' (db_GetNetworkInfo d))
     (\<lambda>networkInfo. DbWithMetrics_run ''UpsertNetworkInfo'' (db_UpsertNetworkInfo d networkInfo))
     (\<lambda>activeTvl activeDelegations.
       DbWithMetrics_run ''UpsertOverallStats'' (db_UpsertOverallStats d activeTvl activeDelegations))
     (\<lambda>fpBtcPkHex activeTvl activeDelegations.
       DbWithMetrics_run ''UpsertFinalityProviderStats'' (db_UpsertFinalityProviderStats d fpBtcPkHex activeTvl activeDelegations))
     (DbWithMetrics_run ''CalculateActiveStatsAggregated'' (db_CalculateActiveStatsAggregated d)))"

section \<open>The Babylon client\<close>

text \<open>
  The parameters of \<^verbatim>\<open>Subscribe\<close> that the model does not need are left out: the capacity of the channel belongs to the
  client library, and the two intervals are those of the goroutine's rounds.
\<close>

record 'w BbnInterface =
  bbn_GetCheckpointParams :: "('w, CheckpointParams) prog"
  bbn_GetStakingParams :: "u32 \<Rightarrow> ('w, (u32 \<times> StakingParams option) list) prog"
  bbn_GetAllStakingParams :: "('w, (u32 \<times> StakingParams option) list) prog"
  bbn_GetLatestBlockNumber :: "('w, i64) prog"
  bbn_GetChainID :: "('w, string) prog"
  bbn_GetBlock :: "i64 \<Rightarrow> ('w, i64) prog"
  bbn_GetBlockResults :: "i64 \<Rightarrow> ('w, AbciEvent list list \<times> AbciEvent list) prog"
  bbn_BabylonStakerAddress :: "string \<Rightarrow> ('w, string) prog"
  bbn_Subscribe :: "string \<Rightarrow> string \<Rightarrow> int \<Rightarrow> ('w, subscription) prog"
  bbn_UnsubscribeAll :: "string \<Rightarrow> ('w, unit) prog"
  bbn_IsRunning :: "('w, bool) prog"
  bbn_Start :: "('w, unit) prog"

text \<open>\<^verbatim>\<open>BBNClient\<close> with its methods; \<open>fuel\<close> bounds the enumeration of the versions.\<close>

definition BBNClient :: "env \<Rightarrow> websocket \<Rightarrow> nat \<Rightarrow> world BbnInterface" where
  "BBNClient e ws fuel = \<lparr>
     bbn_GetCheckpointParams = GetCheckpointParams_rpc e,
     bbn_GetStakingParams = GetStakingParams_rpc fuel e,
     bbn_GetAllStakingParams = GetAllStakingParams fuel e,
     bbn_GetLatestBlockNumber = GetLatestBlockNumber e,
     bbn_GetChainID = GetChainID e,
     bbn_GetBlock = GetBlock e,
     bbn_GetBlockResults = GetBlockResults e,
     bbn_BabylonStakerAddress = BabylonStakerAddress e,
     bbn_Subscribe = Subscribe ws,
     bbn_UnsubscribeAll = UnsubscribeAll ws,
     bbn_IsRunning = IsRunning ws,
     bbn_Start = Start ws\<rparr>"

definition runBbnClientMethodWithMetrics :: "string \<Rightarrow> ('w, 'a) prog \<Rightarrow> ('w \<times> monitor, 'a) prog" where
  "runBbnClientMethodWithMetrics method f = measured RecordBBNClientLatency method f"

definition bbnClientWithMetrics :: "'w BbnInterface \<Rightarrow> ('w \<times> monitor) BbnInterface" where
  "bbnClientWithMetrics b = \<lparr>
     bbn_GetCheckpointParams = runBbnClientMethodWithMetrics ''GetCheckpointParams'' (bbn_GetCheckpointParams b),
     bbn_GetStakingParams = (\<lambda>minVersion.
       runBbnClientMethodWithMetrics ''GetStakingParams'' (bbn_GetStakingParams b minVersion)),
     bbn_GetAllStakingParams = runBbnClientMethodWithMetrics ''GetAllStakingParams'' (bbn_GetAllStakingParams b),
     bbn_GetLatestBlockNumber = runBbnClientMethodWithMetrics ''GetLatestBlockNumber'' (bbn_GetLatestBlockNumber b),
     bbn_GetChainID = runBbnClientMethodWithMetrics ''GetChainID'' (bbn_GetChainID b),
     bbn_GetBlock = (\<lambda>blockHeight. runBbnClientMethodWithMetrics ''GetBlock'' (bbn_GetBlock b blockHeight)),
     bbn_GetBlockResults = (\<lambda>blockHeight.
       runBbnClientMethodWithMetrics ''GetBlockResults'' (bbn_GetBlockResults b blockHeight)),
     bbn_BabylonStakerAddress = (\<lambda>stakingTxHashHex. lift_prog (bbn_BabylonStakerAddress b stakingTxHashHex)),
     bbn_Subscribe = (\<lambda>subscriber query now.
       runBbnClientMethodWithMetrics ''Subscribe'' (bbn_Subscribe b subscriber query now)),
     bbn_UnsubscribeAll = (\<lambda>subscriber. runBbnClientMethodWithMetrics ''UnsubscribeAll'' (bbn_UnsubscribeAll b subscriber)),
     bbn_IsRunning = lift_prog (bbn_IsRunning b),
     bbn_Start = lift_prog (bbn_Start b)\<rparr>"

section \<open>The Bitcoin client\<close>

record 'w BtcInterface =
  btc_GetTipHeight :: "('w, u64) prog"
  btc_GetBlockTimestamp :: "u32 \<Rightarrow> ('w, i64) prog"

definition BTCClient :: "env \<Rightarrow> world BtcInterface" where
  "BTCClient e = \<lparr>btc_GetTipHeight = GetTipHeight e, btc_GetBlockTimestamp = GetBlockTimestamp e\<rparr>"

definition runBtcClientMethodWithMetrics :: "string \<Rightarrow> ('w, 'a) prog \<Rightarrow> ('w \<times> monitor, 'a) prog" where
  "runBtcClientMethodWithMetrics method f = measured RecordBTCClientLatency method f"

definition btcClientWithMetrics :: "'w BtcInterface \<Rightarrow> ('w \<times> monitor) BtcInterface" where
  "btcClientWithMetrics b = \<lparr>
     btc_GetTipHeight = runBtcClientMethodWithMetrics ''GetTipHeight'' (btc_GetTipHeight b),
     btc_GetBlockTimestamp = (\<lambda>height.
       runBtcClientMethodWithMetrics ''GetBlockTimestamp'' (btc_GetBlockTimestamp b height))\<rparr>"

end
