(* ===== verification/Metrics_Spec.thy ===== *)
theory Metrics_Spec
  imports Interfaces Sample
begin

text \<open>
  The metrics change nothing: a measured call acts on the state as the call itself, whatever runs between its actions, and
  the recording functions do not panic once the metrics are initialised, unless a label value is not valid UTF-8.
\<close>

section \<open>A program that is measured\<close>

abbreviation ready :: "monitor \<Rightarrow> bool" where
  "ready m \<equiv> ms_initialised (mn_metrics m)"

text \<open>
  \<open>shadows p q\<close>: on the state, \<open>p\<close> performs the actions of \<open>q\<close>, one for one and with the same answers; between them it
  performs actions that touch the monitor only.
\<close>

inductive shadows :: "('w \<times> monitor, 'a) prog \<Rightarrow> ('w, 'a) prog \<Rightarrow> bool" where
  finished: "shadows (Done r) (Done r)"
| silent: "(\<And>w m. ready m \<Longrightarrow> fst (snd (f (w, m))) = w \<and> ready (snd (snd (f (w, m))))) \<Longrightarrow>
    (\<And>w m. ready m \<Longrightarrow> shadows (fst (f (w, m))) q) \<Longrightarrow> shadows (Act f) q"
| common: "(\<And>w m. ready m \<Longrightarrow> fst (snd (f (w, m))) = snd (g w) \<and> ready (snd (snd (f (w, m))))) \<Longrightarrow>
    (\<And>w m. ready m \<Longrightarrow> shadows (fst (f (w, m))) (fst (g w))) \<Longrightarrow> shadows (Act f) (Act g)"

lemma shadows_run:
  assumes "shadows p q" "ready m"
  shows "fst (run p (w, m)) = fst (run q w) \<and> fst (snd (run p (w, m))) = snd (run q w) \<and> ready (snd (snd (run p (w, m))))"
  using assms
proof (induction arbitrary: w m)
  case (silent f q)
  obtain v n where f: "snd (f (w, m)) = (v, n)" by fastforce
  with silent.hyps(1) [OF silent.prems, of w] have "v = w" "ready n" by simp_all
  with silent.IH [OF silent.prems \<open>ready n\<close>, of w w] f show ?case by simp
next
  case (common f g)
  obtain v n where f: "snd (f (w, m)) = (v, n)" by fastforce
  with common.hyps(1) [OF common.prems, of w] have "v = snd (g w)" "ready n" by simp_all
  with common.IH [OF common.prems \<open>ready n\<close>, of w "snd (g w)"] f show ?case by simp
qed simp

lemma shadows_lift: "shadows (lift_prog f) f"
proof (induction f rule: prog_actions_induct)
  case (Act f)
  then show ?case unfolding lift_prog.simps by (intro shadows.common) simp_all
qed (simp add: shadows.finished)

text \<open>A recording that succeeds on initialised metrics and leaves them initialised.\<close>

definition sound_record :: "(metrics_state \<Rightarrow> unit result \<times> metrics_state) \<Rightarrow> bool" where
  "sound_record f \<longleftrightarrow> (\<forall>st. ms_initialised st \<longrightarrow> fst (f st) = Ok () \<and> ms_initialised (snd (f st)))"

lemma shadows_now: "(\<And>t. shadows (k t) q) \<Longrightarrow> shadows (andThen Now k) q"
  unfolding Now_def atomically_def by (auto intro!: shadows.silent)

lemma shadows_record: "sound_record f \<Longrightarrow> shadows (k ()) q \<Longrightarrow> shadows (andThen (record_metric f) k) q"
  unfolding record_metric_def atomically_def
  by (auto simp: sound_record_def Let_def case_prod_beta intro!: shadows.silent)

lemma shadows_measured:
  assumes "\<And>d failure. sound_record (rec d method failure)"
  shows "shadows (measured rec method f) f"
proof -
  have tail: "shadows (andThen Now (\<lambda>endTime. andThen (record_metric (rec (endTime - t) method (case r of Inl err \<Rightarrow> True | Inr v \<Rightarrow> False)))
      (\<lambda>_. case r of Inl err \<Rightarrow> throw err | Inr v \<Rightarrow> ret v))) (case r of Inl err \<Rightarrow> throw err | Inr v \<Rightarrow> ret v)" for t r
    by (intro shadows_now shadows_record assms) (cases r; simp add: shadows.finished)
  have "shadows (andThen (attempt (lift_prog f)) (\<lambda>r. andThen Now (\<lambda>endTime. andThen (record_metric (rec (endTime - t) method
      (case r of Inl err \<Rightarrow> True | Inr v \<Rightarrow> False))) (\<lambda>_. case r of Inl err \<Rightarrow> throw err | Inr v \<Rightarrow> ret v)))) f" for t
  proof (induction f rule: prog_actions_induct)
    case (Done r)
    then show ?case
      using tail [of t "Inl (case r of Err err \<Rightarrow> err)"] tail [of t "Inr (case r of Ok x \<Rightarrow> x)"]
      by (cases r) (simp_all add: attempt_def shadows.finished)
  next
    case (Act f)
    then show ?case by (auto simp: attempt_def intro!: shadows.common)
  qed
  then show ?thesis unfolding measured_def by (rule shadows_now)
qed

lemma sound_update:
  "length labels = length (mo_Labels (metric_opts metric)) \<Longrightarrow> list_all ValidString labels \<Longrightarrow>
    sound_record (update_metric metric labels upd)"
  by (simp add: sound_record_def update_metric_def)

lemmas sound_records = shadows_measured [where rec = RecordDbLatency] shadows_measured [where rec = RecordBBNClientLatency]
  shadows_measured [where rec = RecordBTCClientLatency] shadows_measured [where rec = observe_poller]

lemma shadows_wrappers:
  assumes "ValidString method"
  shows "shadows (DbWithMetrics_run method f) f" "shadows (runBbnClientMethodWithMetrics method f) f"
    "shadows (runBtcClientMethodWithMetrics method f) f" "shadows (RecordPollerDuration method g) g"
  unfolding DbWithMetrics_run_def runBbnClientMethodWithMetrics_def runBtcClientMethodWithMetrics_def RecordPollerDuration_def
  by (rule sound_records, simp add: RecordDbLatency_def RecordBBNClientLatency_def RecordBTCClientLatency_def
      observe_poller_def sound_update assms)+

text \<open>A name that is not valid UTF-8: the call is made, and the recording panics.\<close>

abbreviation call_then_panic :: "('w, 'a) prog \<Rightarrow> ('w, 'b) prog" where
  "call_then_panic f \<equiv> andThen (attempt f) (\<lambda>_. panic ''label value is not valid UTF-8'')"

lemma shadows_invalid_name:
  assumes "\<not> ValidString ty"
  shows "shadows (RecordPollerDuration ty f) (call_then_panic f)"
proof -
  have panics: "observe_poller d ty failure st = (Panic ''label value is not valid UTF-8'', st)" if "ms_initialised st" for d failure st
    using that assms by (simp add: observe_poller_def update_metric_def)
  have tail: "shadows (andThen Now (\<lambda>endTime. andThen (record_metric (observe_poller (endTime - t) ty
      (case r of Inl err \<Rightarrow> True | Inr v \<Rightarrow> False))) (\<lambda>_. case r of Inl err \<Rightarrow> throw err | Inr v \<Rightarrow> ret v)))
      (panic ''label value is not valid UTF-8'')" for t r
    by (intro shadows_now) (auto simp: record_metric_def atomically_def panics split: prod.splits intro!: shadows.silent shadows.finished)
  have "shadows (andThen (attempt (lift_prog f)) (\<lambda>r. andThen Now (\<lambda>endTime. andThen (record_metric (observe_poller (endTime - t) ty
      (case r of Inl err \<Rightarrow> True | Inr v \<Rightarrow> False))) (\<lambda>_. case r of Inl err \<Rightarrow> throw err | Inr v \<Rightarrow> ret v)))) (call_then_panic f)" for t
  proof (induction f rule: prog_actions_induct)
    case (Done r)
    then show ?case
      using tail [of t "Inl (case r of Err err \<Rightarrow> err)"] tail [of t "Inr (case r of Ok x \<Rightarrow> x)"]
      by (cases r) (simp_all add: attempt_def shadows.finished)
  next
    case (Act f)
    then show ?case by (auto simp: attempt_def intro!: shadows.common)
  qed
  then show ?thesis unfolding RecordPollerDuration_def measured_def by (rule shadows_now)
qed

section \<open>Transparency\<close>

text \<open>Every method of the wrapper shadows the method of the same name below it.\<close>

definition transparent_db :: "('w \<times> monitor) DbInterface \<Rightarrow> 'w DbInterface \<Rightarrow> bool" where
  "transparent_db m d \<longleftrightarrow>
     (shadows (db_Ping m) (db_Ping d)) \<and>
     (\<forall>x. shadows (db_SaveNewFinalityProvider m x) (db_SaveNewFinalityProvider d x)) \<and>
     (\<forall>x y. shadows (db_UpdateFinalityProviderState m x y) (db_UpdateFinalityProviderState d x y)) \<and>
     (\<forall>x. shadows (db_UpdateFinalityProviderDetailsFromEvent m x) (db_UpdateFinalityProviderDetailsFromEvent d x)) \<and>
     (\<forall>x. shadows (db_GetFinalityProviderByBtcPk m x) (db_GetFinalityProviderByBtcPk d x)) \<and>
     (\<forall>x y. shadows (db_SaveStakingParams m x y) (db_SaveStakingParams d x y)) \<and>
     (\<forall>x. shadows (db_GetStakingParams m x) (db_GetStakingParams d x)) \<and>
     (\<forall>x. shadows (db_SaveCheckpointParams m x) (db_SaveCheckpointParams d x)) \<and>
     (\<forall>x. shadows (db_SaveNewBTCDelegation m x) (db_SaveNewBTCDelegation d x)) \<and>
     (\<forall>x y z u. shadows (db_UpdateBTCDelegationState m x y z u) (db_UpdateBTCDelegationState d x y z u)) \<and>
     (shadows (db_GetAllFinalityProviders m) (db_GetAllFinalityProviders d)) \<and>
     (\<forall>x y z u. shadows (db_SaveBTCDelegationCovenantSignature m x y z u) (db_SaveBTCDelegationCovenantSignature d x y z u)) \<and>
     (\<forall>x. shadows (db_GetBTCDelegationState m x) (db_GetBTCDelegationState d x)) \<and>
     (\<forall>x. shadows (db_GetBTCDelegationByStakingTxHash m x) (db_GetBTCDelegationByStakingTxHash d x)) \<and>
     (\<forall>x. shadows (db_GetDelegationsByFinalityProvider m x) (db_GetDelegationsByFinalityProvider d x)) \<and>
     (\<forall>x y z. shadows (db_SaveNewTimeLockExpire m x y z) (db_SaveNewTimeLockExpire d x y z)) \<and>
     (\<forall>x y. shadows (db_FindExpiredDelegations m x y) (db_FindExpiredDelegations d x y)) \<and>
     (\<forall>x. shadows (db_DeleteExpiredDelegation m x) (db_DeleteExpiredDelegation d x)) \<and>
     (shadows (db_GetLastProcessedBbnHeight m) (db_GetLastProcessedBbnHeight d)) \<and>
     (\<forall>x. shadows (db_UpdateLastProcessedBbnHeight m x) (db_UpdateLastProcessedBbnHeight d x)) \<and>
     (\<forall>x. shadows (db_GetBTCDelegationsByStates m x) (db_GetBTCDelegationsByStates d x)) \<and>
     (shadows (db_GetDelegationsWithEmptyStakerAddress m) (db_GetDelegationsWithEmptyStakerAddress d)) \<and>
     (\<forall>x y. shadows (db_UpdateDelegationStakerBabylonAddress m x y) (db_UpdateDelegationStakerBabylonAddress d x y)) \<and>
     (shadows (db_GetNetworkInfo m) (db_GetNetworkInfo d)) \<and>
     (\<forall>x. shadows (db_UpsertNetworkInfo m x) (db_UpsertNetworkInfo d x)) \<and>
     (\<forall>x y. shadows (db_UpsertOverallStats m x y) (db_UpsertOverallStats d x y)) \<and>
     (\<forall>x y z. shadows (db_UpsertFinalityProviderStats m x y z) (db_UpsertFinalityProviderStats d x y z)) \<and>
     (shadows (db_CalculateActiveStatsAggregated m) (db_CalculateActiveStatsAggregated d))"

definition transparent_bbn :: "('w \<times> monitor) BbnInterface \<Rightarrow> 'w BbnInterface \<Rightarrow> bool" where
  "transparent_bbn m d \<longleftrightarrow>
     (shadows (bbn_GetCheckpointParams m) (bbn_GetCheckpointParams d)) \<and>
     (\<forall>x. shadows (bbn_GetStakingParams m x) (bbn_GetStakingParams d x)) \<and>
     (shadows (bbn_GetAllStakingParams m) (bbn_GetAllStakingParams d)) \<and>
     (shadows (bbn_GetLatestBlockNumber m) (bbn_GetLatestBlockNumber d)) \<and>
     (shadows (bbn_GetChainID m) (bbn_GetChainID d)) \<and>
     (\<forall>x. shadows (bbn_GetBlock m x) (bbn_GetBlock d x)) \<and>
     (\<forall>x. shadows (bbn_GetBlockResults m x) (bbn_GetBlockResults d x)) \<and>
     (\<forall>x. shadows (bbn_BabylonStakerAddress m x) (bbn_BabylonStakerAddress d x)) \<and>
     (\<forall>x y z. shadows (bbn_Subscribe m x y z) (bbn_Subscribe d x y z)) \<and>
     (\<forall>x. shadows (bbn_UnsubscribeAll m x) (bbn_UnsubscribeAll d x)) \<and>
     (shadows (bbn_IsRunning m) (bbn_IsRunning d)) \<and>
     (shadows (bbn_Start m) (bbn_Start d))"

definition transparent_btc :: "('w \<times> monitor) BtcInterface \<Rightarrow> 'w BtcInterface \<Rightarrow> bool" where
  "transparent_btc m d \<longleftrightarrow>
     (shadows (btc_GetTipHeight m) (btc_GetTipHeight d)) \<and>
     (\<forall>x. shadows (btc_GetBlockTimestamp m x) (btc_GetBlockTimestamp d x))"

text \<open>
  C33. The metrics are transparent. Every method of the three wrappers acts on the state as the method that it wraps, action
  by action and whatever the other goroutines do in between, and returns its result, errors and panics included; what it
  adds touches the metrics and the clock only. The same holds of the wrapper around the task of a poller, whose
  recording panics after the task when the name of the poller is not valid UTF-8.
\<close>

theorem metrics_are_transparent:
  "transparent_db (DbWithMetrics d) d \<and> transparent_bbn (bbnClientWithMetrics b) b \<and>
   transparent_btc (btcClientWithMetrics c) c \<and>
   shadows (RecordPollerDuration ty f)
     (if ValidString ty then f else andThen (attempt f) (\<lambda>_. panic ''label value is not valid UTF-8''))"
  unfolding transparent_db_def transparent_bbn_def transparent_btc_def DbWithMetrics_def DbWithMetrics_entities_def
    DbEntities.defs DbInterface.defs bbnClientWithMetrics_def
    btcClientWithMetrics_def
  by (simp add: shadows_wrappers shadows_lift shadows_invalid_name)

section \<open>What is recorded\<close>

definition is_failure :: "'a result \<Rightarrow> bool" where
  "is_failure r \<longleftrightarrow> (\<exists>err. r = Err err)"

text \<open>One more update and two readings of the clock.\<close>

definition recorded_once :: "Metric \<Rightarrow> string \<Rightarrow> 'a result \<Rightarrow> monitor \<Rightarrow> monitor" where
  "recorded_once metric method r m = m\<lparr>mn_reads := mn_reads m + 2,
     mn_metrics := (mn_metrics m)\<lparr>ms_updates := ms_updates (mn_metrics m) @
       [(metric, [method, if is_failure r then ''error'' else ''success''],
         Observe (mn_now m (mn_reads m + 1) - mn_now m (mn_reads m)))]\<rparr>\<rparr>"

lemma run_measured:
  assumes rec: "\<And>d failure st. ms_initialised st \<Longrightarrow> rec d method failure st =
      (Ok (), st\<lparr>ms_updates := ms_updates st @ [(metric, [method, if failure then ''error'' else ''success''], Observe d)]\<rparr>)"
    and "ready m" "no_panic (fst (run f w))"
  shows "run (measured rec method f) (w, m) =
    (fst (run f w), (snd (run f w), recorded_once metric method (fst (run f w)) m))"
proof -
  obtain r w' where r: "run f w = (r, w')" by fastforce
  show ?thesis
    using assms(2,3)
    by (cases r) (simp_all add: r measured_def run_lift run_Now record_metric_def rec recorded_once_def is_failure_def
        no_panic_def numeral_2_eq_2)
qed

lemma record_functions:
  assumes "ms_initialised st" "ValidString method"
  shows "RecordDbLatency d method failure st =
      (Ok (), st\<lparr>ms_updates := ms_updates st @ [(DbLatency, [method, if failure then ''error'' else ''success''], Observe d)]\<rparr>)"
    and "RecordBBNClientLatency d method failure st =
      (Ok (), st\<lparr>ms_updates := ms_updates st @ [(BbnClientLatency, [method, if failure then ''error'' else ''success''], Observe d)]\<rparr>)"
    and "RecordBTCClientLatency d method failure st =
      (Ok (), st\<lparr>ms_updates := ms_updates st @ [(BtcClientLatency, [method, if failure then ''error'' else ''success''], Observe d)]\<rparr>)"
    and "observe_poller d method failure st =
      (Ok (), st\<lparr>ms_updates := ms_updates st @ [(PollerDurationHistogram, [method, if failure then ''error'' else ''success''], Observe d)]\<rparr>)"
  using assms
  by (simp_all add: RecordDbLatency_def RecordBBNClientLatency_def RecordBTCClientLatency_def observe_poller_def
      update_metric_def status_of_def)

text \<open>
  Every measured call is recorded exactly once: when the metrics are initialised, the name is valid and the call does not panic, the
  histogram of its wrapper gets one observation, under the name of the method and the status of its outcome, of the time
  between the two readings of the clock.
\<close>

theorem every_call_is_recorded_once:
  assumes "ready m" "ValidString method" "no_panic (fst (run f w))" "no_panic (fst (run g w))"
  shows "run (DbWithMetrics_run method f) (w, m) = (fst (run f w), (snd (run f w), recorded_once DbLatency method (fst (run f w)) m)) \<and>
    run (runBbnClientMethodWithMetrics method f) (w, m) =
      (fst (run f w), (snd (run f w), recorded_once BbnClientLatency method (fst (run f w)) m)) \<and>
    run (runBtcClientMethodWithMetrics method f) (w, m) =
      (fst (run f w), (snd (run f w), recorded_once BtcClientLatency method (fst (run f w)) m)) \<and>
    run (RecordPollerDuration method g) (w, m) =
      (fst (run g w), (snd (run g w), recorded_once PollerDurationHistogram method (fst (run g w)) m))"
  unfolding DbWithMetrics_run_def runBbnClientMethodWithMetrics_def runBtcClientMethodWithMetrics_def RecordPollerDuration_def
  using assms by (intro conjI run_measured) (simp_all only: record_functions)

definition sample_monitor :: monitor where
  "sample_monitor = \<lparr>mn_metrics = no_metrics\<lparr>ms_initialised := True\<rparr>, mn_now = int, mn_reads = 5\<rparr>"

theorem every_call_is_recorded_once_witness:
  "ms_updates (mn_metrics (snd (snd (run (DbWithMetrics_run ''GetNetworkInfo'' (GetNetworkInfo sample_env)) (initial_world, sample_monitor))))) =
   [(DbLatency, [''GetNetworkInfo'', ''error''], Observe 1)]"
proof -
  let ?f = "GetNetworkInfo sample_env" and ?g = "UpsertNetworkInfo sample_env \<lparr>ni_ChainID = ''x''\<rparr>"
  have "ready sample_monitor" "ValidString ''GetNetworkInfo''" "no_panic (fst (run ?f initial_world))" "no_panic (fst (run ?g initial_world))"
    by (simp_all add: sample_monitor_def no_panic_def GetNetworkInfo_def UpsertNetworkInfo_def initial_world_def)
  from every_call_is_recorded_once [OF this] show ?thesis
    by (simp add: recorded_once_def is_failure_def sample_monitor_def no_metrics_def GetNetworkInfo_def initial_world_def)
qed

text \<open>
  The metrics are well formed: \<^verbatim>\<open>Init\<close> registers them without a panic, a second \<^verbatim>\<open>Init\<close> changes nothing, and after
  it no recording function panics when the names it is given are valid UTF-8, since each passes as many label values as
  its metric has labels. Before \<^verbatim>\<open>Init\<close> the duration of an event is the only one that can be recorded.
\<close>

lemma metrics_never_panic:
  assumes "list_all ValidString [method, baseUrl, path, ty]"
  shows "(\<exists>st'. Init port st = (Ok (), st') \<and> ms_initialised st' \<and> ms_updates st' = ms_updates st \<and> Init port' st' = (Ok (), st') \<and>
     list_all (\<lambda>record. fst (record st') = Ok ())
       [RecordBTCClientLatency d method failure, RecordBBNClientLatency d method failure, RecordDbLatency d method failure,
        RecordBtcTipHeight height, IncBtcNotifierRegisterSpend failure, RecordExpiredDelegationsCount n,
        RecordBbnEventProcessingDuration d method retry failure,
        StartClientRequestDurationTimer startTime baseUrl method path endTime statusCode, RecordQueueSendError,
        RecordActiveTvl tvl, RecordActiveDelegations n, observe_poller d ty failure]) \<and>
   fst (RecordBbnEventProcessingDuration d method retry failure no_metrics) = Ok () \<and>
   list_all (\<lambda>record. \<exists>msg. fst (record no_metrics) = Panic msg)
     [RecordBTCClientLatency d method failure, RecordBBNClientLatency d method failure, RecordDbLatency d method failure,
      RecordBtcTipHeight height, IncBtcNotifierRegisterSpend failure, RecordExpiredDelegationsCount n,
      StartClientRequestDurationTimer startTime baseUrl method path endTime statusCode, RecordQueueSendError,
      RecordActiveTvl tvl, RecordActiveDelegations n, observe_poller d ty failure]"
proof -
  have "distinct (map (\<lambda>m. mo_Name (metric_opts m)) registered_metrics)"
    by (simp add: registered_metrics_def)
  then have "Init port st = (Ok (), if ms_initialised st then st else (initMetricsRouter port st)\<lparr>ms_initialised := True\<rparr>)"
    by (simp add: Init_def registerMetrics_def)
  then show ?thesis
    using assms by (simp add: Init_def initMetricsRouter_def RecordBTCClientLatency_def RecordBBNClientLatency_def RecordDbLatency_def RecordBtcTipHeight_def
        IncBtcNotifierRegisterSpend_def RecordExpiredDelegationsCount_def RecordBbnEventProcessingDuration_def
        StartClientRequestDurationTimer_def RecordQueueSendError_def RecordActiveTvl_def RecordActiveDelegations_def
        observe_poller_def update_metric_def no_metrics_def)
qed

end
