(* ===== verification/Ip_Address.thy ===== *)
theory Ip_Address
  imports Go_Utils
begin

text \<open>
  \<^verbatim>\<open>net.ParseIP\<close> of Go's standard library, which the configuration checks the host of the metrics server with
  (\<^verbatim>\<open>internal/config/metrics.go\<close>): the 16 bytes of an address in dotted decimal or in colon notation.
\<close>

section \<open>Dotted decimal\<close>

fun split_at :: "char \<Rightarrow> string \<Rightarrow> string list" where
  "split_at sep [] = [[]]"
| "split_at sep (c # cs) =
     (if c = sep then [] # split_at sep cs
      else (case split_at sep cs of [] \<Rightarrow> [[c]] | part # parts \<Rightarrow> (c # part) # parts))"

text \<open>An octet has no superfluous zero in front.\<close>

definition octet :: "string \<Rightarrow> bool" where
  "octet ds \<longleftrightarrow> ds \<noteq> [] \<and> list_all is_digit ds \<and> (length ds = 1 \<or> hd ds \<noteq> CHR ''0'') \<and> decimal_value 0 ds \<le> 255"

definition parseIPv4Fields :: "string \<Rightarrow> bytes option" where
  "parseIPv4Fields s =
     (let parts = split_at (CHR ''.'') s in
      if length parts = 4 \<and> list_all octet parts then Some (map (\<lambda>ds. word_of_nat (decimal_value 0 ds)) parts) else None)"

section \<open>Colon notation\<close>

definition is_hex :: "char \<Rightarrow> bool" where
  "is_hex c \<longleftrightarrow> hex_digit c \<noteq> None"

definition hex_value :: "string \<Rightarrow> nat" where
  "hex_value ds = fold (\<lambda>c v. v * 16 + the (hex_digit c)) ds 0"

text \<open>
  The loop over the groups: how many may still come, where the ellipsis was met, the bytes so far and the rest of the text. The result is
  the ellipsis, the bytes and what has not been used.
\<close>

fun ipv6_groups :: "nat \<Rightarrow> nat option \<Rightarrow> bytes \<Rightarrow> string \<Rightarrow> (nat option \<times> bytes \<times> string) option" where
  "ipv6_groups 0 ellipsis ip s = Some (ellipsis, ip, s)"
| "ipv6_groups (Suc n) ellipsis ip s =
     (let ds = takeWhile is_hex s; rest = dropWhile is_hex s; ip' = ip @ [word_of_nat (hex_value ds div 256), word_of_nat (hex_value ds)] in
      if ds = [] \<or> 4 < length ds then None
      else if rest \<noteq> [] \<and> hd rest = CHR ''.'' then
        (if ellipsis = None \<and> length ip \<noteq> 12 then None
         else if 16 < length ip + 4 then None
         else map_option (\<lambda>four. (ellipsis, ip @ four, [])) (parseIPv4Fields s))
      else if rest = [] then Some (ellipsis, ip', [])
      else if hd rest \<noteq> CHR '':'' \<or> length rest = 1 then None
      else if hd (tl rest) = CHR '':'' then
        (if ellipsis \<noteq> None then None
         else if length rest = 2 then Some (Some (length ip'), ip', [])
         else ipv6_groups n (Some (length ip')) ip' (drop 2 rest))
      else ipv6_groups n ellipsis ip' (tl rest))"

definition expand :: "nat option \<times> bytes \<times> string \<Rightarrow> bytes option" where
  "expand r = (case r of (ellipsis, ip, s) \<Rightarrow>
     if s \<noteq> [] then None
     else if length ip < 16 then
       (case ellipsis of None \<Rightarrow> None | Some n \<Rightarrow> Some (take n ip @ replicate (16 - length ip) 0 @ drop n ip))
     else if ellipsis \<noteq> None then None else Some ip)"

definition parseIPv6 :: "string \<Rightarrow> bytes option" where
  "parseIPv6 s =
     (if take 2 s = ''::'' then
        (if length s = 2 then Some (replicate 16 0)
         else Option.bind (ipv6_groups 8 (Some 0) [] (drop 2 s)) expand)
      else Option.bind (ipv6_groups 8 None [] s) expand)"

text \<open>The first character that tells the notations apart decides; an address with a zone is refused.\<close>

definition ParseIP :: "string \<Rightarrow> bytes option" where
  "ParseIP s =
     (case List.find (\<lambda>c. c \<in> {CHR ''.'', CHR '':'', CHR ''%''}) s of
        None \<Rightarrow> None
      | Some c \<Rightarrow>
          if c = CHR ''.'' then map_option ((@) (replicate 10 0 @ [0xFF, 0xFF])) (parseIPv4Fields s)
          else if c = CHR ''%'' \<or> CHR ''%'' \<in> set s then None
          else parseIPv6 s)"

text \<open>Every result has 16 bytes.\<close>

lemma parseIPv4Fields_length: "parseIPv4Fields s = Some ip \<Longrightarrow> length ip = 4"
  by (auto simp: parseIPv4Fields_def Let_def split: if_splits)

lemma ipv6_groups_length:
  "ipv6_groups n ellipsis ip s = Some r \<Longrightarrow> length ip + 2 * n = 16 \<Longrightarrow> length (fst (snd r)) \<le> 16"
proof (induction n arbitrary: ellipsis ip s)
  case (Suc n)
  have four: "length (ip @ four) \<le> 16" if "\<not> 16 < length ip + 4" "parseIPv4Fields s = Some four" for four
    using that parseIPv4Fields_length [of s four] by simp
  from Suc.prems show ?case
    by (simp only: ipv6_groups.simps Let_def split: if_splits option.splits)
       (use four in \<open>auto intro: Suc.IH\<close>)
qed auto

lemma expand_length: "expand r = Some ip \<Longrightarrow> length (fst (snd r)) \<le> 16 \<Longrightarrow> length ip = 16"
  by (auto simp: expand_def split: prod.splits if_splits option.splits)

lemma parseIPv6_length: "parseIPv6 s = Some ip \<Longrightarrow> length ip = 16"
  using ipv6_groups_length [of 8 _ "[]"] expand_length
  by (auto simp: parseIPv6_def bind_eq_Some_conv split: if_splits)

lemma ParseIP_length: "ParseIP s = Some ip \<Longrightarrow> length ip = 16"
  by (auto simp: ParseIP_def split: option.splits if_splits dest: parseIPv4Fields_length parseIPv6_length)

lemmas ip_eval = ParseIP_def parseIPv4Fields_def parseIPv6_def octet_def is_digit_def digit_val_def expand_def is_hex_def hex_value_def
  hex_digit_def Let_def

lemma ParseIP_local: "ParseIP ''127.0.0.1'' = Some [0, 0, 0, 0, 0, 0, 0, 0, 0, 0, 0xFF, 0xFF, 127, 0, 0, 1]"
  by (simp add: ip_eval eval_nat_numeral)

lemma ParseIP_name: "ParseIP ''localhost'' = None"
  by (simp add: ip_eval)

lemma ParseIP_octal: "ParseIP ''01.2.3.4'' = None"
  by (simp add: ip_eval)

lemma ParseIP_zone: "ParseIP ''fe80::1%eth0'' = None"
  by (simp add: ip_eval)

end
