(* ===== verification/Configuration.thy ===== *)
theory Configuration
  imports Database Ip_Address Complex_Main
begin

text \<open>
  \<^verbatim>\<open>internal/config\<close>: the configuration and its validation. The parser of the standard library for URLs,
  the validation of the queue's part and the reading of the file are parameters.
\<close>

section \<open>The standard library and the queue client\<close>

record Url =
  url_Scheme :: string
  url_Host :: string
  url_Port :: string

text \<open>
  \<open>'q\<close> is the configuration of the queue client. \<open>cl_params_Name\<close> are the names of the networks in the Bitcoin library,
  \<open>cl_Stat\<close> and \<open>cl_Read\<close> the file system and the reader of the file.
\<close>

record 'q config_lib =
  cl_Parse :: "string \<Rightarrow> string + Url"
  cl_Queue_Validate :: "'q \<Rightarrow> string option"
  cl_params_Name :: "ChainParams \<Rightarrow> string"
  cl_Stat :: "string \<Rightarrow> string option"

definition syntax_error :: "string \<Rightarrow> error" where
  "syntax_error s = OtherError (''strconv.Atoi: parsing '' @ s @ '': invalid syntax'')"

definition range_error :: "string \<Rightarrow> error" where
  "range_error s = OtherError (''strconv.Atoi: parsing '' @ s @ '': value out of range'')"

text \<open>\<^verbatim>\<open>strconv.Atoi\<close> on a 64-bit machine: an optional sign and digits.\<close>

definition Atoi :: "string \<Rightarrow> int result" where
  "Atoi s =
     (let signed = (s \<noteq> [] \<and> (hd s = CHR ''-'' \<or> hd s = CHR ''+''));
          negative = (s \<noteq> [] \<and> hd s = CHR ''-'');
          ds = (if signed then tl s else s) in
      if ds = [] \<or> \<not> list_all is_digit ds then Err (syntax_error s)
      else let n = int (decimal_value 0 ds) in
        if negative then (if n > 2 ^ 63 then Err (range_error s) else Ok (- n))
        else (if n \<ge> 2 ^ 63 then Err (range_error s) else Ok n))"

section \<open>Babylon\<close>

text \<open>A \<^verbatim>\<open>time.Duration\<close> is a signed 64-bit number of nanoseconds.\<close>

type_synonym Duration = i64

definition positive :: "Duration \<Rightarrow> bool" where
  "positive d \<longleftrightarrow> 0 < sint d"

record BBNConfig =
  bbnc_RPCAddr :: string
  bbnc_Timeout :: Duration
  bbnc_MaxRetryTimes :: u64
  bbnc_RetryInterval :: Duration

definition BBNConfig_Validate :: "'q config_lib \<Rightarrow> BBNConfig \<Rightarrow> unit result" where
  "BBNConfig_Validate lib cfg =
     bind_result (wrap_result ''cfg.RPCAddr is not correctly formatted'' (of_lib (cl_Parse lib (bbnc_RPCAddr cfg)))) (\<lambda>_.
     if \<not> positive (bbnc_Timeout cfg) then Err (OtherError ''cfg.Timeout must be positive'')
     else if bbnc_MaxRetryTimes cfg \<le> 0 then Err (OtherError ''cfg.MaxRetryTimes must be positive'')
     else if \<not> positive (bbnc_RetryInterval cfg) then Err (OtherError ''cfg.RetryInterval must be positive'')
     else Ok ())"

section \<open>Bitcoin\<close>

text \<open>A floating point number; \<open>None\<close> is NaN, with which every comparison is false.\<close>

type_synonym float64 = "rat option"

fun float_less :: "float64 \<Rightarrow> rat \<Rightarrow> bool" where
  "float_less None y \<longleftrightarrow> False"
| "float_less (Some x) y \<longleftrightarrow> x < y"

fun float_greater :: "float64 \<Rightarrow> rat \<Rightarrow> bool" where
  "float_greater None y \<longleftrightarrow> False"
| "float_greater (Some x) y \<longleftrightarrow> x > y"

record BTCConfig =
  btcc_RPCHost :: string
  btcc_RPCUser :: string
  btcc_RPCPass :: string
  btcc_PrunedNodeMaxPeers :: int
  btcc_BlockPollingInterval :: Duration
  btcc_TxPollingInterval :: Duration
  btcc_TxPollingIntervalJitter :: float64
  btcc_BlockCacheSize :: u64
  btcc_MaxRetryTimes :: u64
  btcc_RetryInterval :: Duration
  btcc_NetParams :: string
  btcc_LndLogLevel :: string

record ConnConfig =
  conn_Host :: string
  conn_User :: string
  conn_Pass :: string
  conn_DisableTLS :: bool
  conn_Params :: string
  conn_DisableConnectOnNew :: bool
  conn_DisableAutoReconnect :: bool
  conn_HTTPPostMode :: bool

definition ToConnConfig :: "'q config_lib \<Rightarrow> BTCConfig \<Rightarrow> ConnConfig result" where
  "ToConnConfig lib cfg =
     bind_result (wrap_result ''invalid BTC network params'' (GetBTCParams (btcc_NetParams cfg))) (\<lambda>params.
     Ok \<lparr>conn_Host = btcc_RPCHost cfg, conn_User = btcc_RPCUser cfg, conn_Pass = btcc_RPCPass cfg, conn_DisableTLS = True,
         conn_Params = cl_params_Name lib params, conn_DisableConnectOnNew = True, conn_DisableAutoReconnect = False,
         conn_HTTPPostMode = True\<rparr>)"

definition BTCConfig_Validate :: "BTCConfig \<Rightarrow> unit result" where
  "BTCConfig_Validate cfg =
     (if btcc_RPCHost cfg = '''' then Err (OtherError ''RPC host cannot be empty'')
      else if btcc_RPCUser cfg = '''' then Err (OtherError ''RPC user cannot be empty'')
      else if btcc_RPCPass cfg = '''' then Err (OtherError ''RPC password cannot be empty'')
      else if \<not> positive (btcc_BlockPollingInterval cfg) then Err (OtherError ''block polling interval should be positive'')
      else if \<not> positive (btcc_TxPollingInterval cfg) then Err (OtherError ''tx polling interval should be positive'')
      else if float_less (btcc_TxPollingIntervalJitter cfg) 0 \<or> float_greater (btcc_TxPollingIntervalJitter cfg) 1
        then Err (OtherError ''tx polling interval jitter should be between 0 and 1'')
      else if btcc_BlockCacheSize cfg \<le> 0 then Err (OtherError ''block cache size should be positive'')
      else if btcc_MaxRetryTimes cfg \<le> 0 then Err (OtherError ''max retry times should be positive'')
      else if \<not> positive (btcc_RetryInterval cfg) then Err (OtherError ''retry interval should be positive'')
      else if GetValidNetParams (btcc_NetParams cfg) = None then Err (OtherError ''invalid net params'')
      else Ok ())"

section \<open>Database, metrics and pollers\<close>

record DbConfig =
  dbc_Username :: string
  dbc_Password :: string
  dbc_DbName :: string
  dbc_Address :: string

definition DbConfig_Validate :: "'q config_lib \<Rightarrow> DbConfig \<Rightarrow> unit result" where
  "DbConfig_Validate lib cfg =
     (if dbc_Username cfg = '''' then Err (OtherError ''missing db username'')
      else if dbc_Password cfg = '''' then Err (OtherError ''missing db password'')
      else if dbc_Address cfg = '''' then Err (OtherError ''missing db address'')
      else if dbc_DbName cfg = '''' then Err (OtherError ''missing db name'')
      else bind_result (wrap_result ''invalid db address'' (of_lib (cl_Parse lib (dbc_Address cfg)))) (\<lambda>u.
        if url_Scheme u \<noteq> ''mongodb'' \<and> url_Scheme u \<noteq> ''mongodb+srv'' then Err (OtherError ''unsupported db scheme'')
        else if url_Host u = '''' then Err (OtherError ''missing host in db address'')
        else if url_Scheme u = ''mongodb'' then
          (if url_Port u = '''' then Err (OtherError ''missing port in db address'')
           else bind_result (wrap_result ''invalid port in db address'' (Atoi (url_Port u))) (\<lambda>portNum.
             if portNum < 1024 \<or> portNum > 65535
             then Err (OtherError ''port number must be between 1024 and 65535 (inclusive)'')
             else Ok ()))
        else Ok ()))"

record MetricsConfig =
  mtc_Host :: string
  mtc_Port :: int

definition MetricsConfig_Validate :: "MetricsConfig \<Rightarrow> unit result" where
  "MetricsConfig_Validate cfg =
     (if mtc_Port cfg < 1024 \<or> mtc_Port cfg > 65535
      then Err (OtherError ''metrics server port must be between 1024 and 65535 (inclusive)'')
      else case ParseIP (mtc_Host cfg) of
        None \<Rightarrow> Err (OtherError ''invalid metrics server host'')
      | Some ip \<Rightarrow> Ok ())"

definition GetMetricsPort :: "MetricsConfig \<Rightarrow> int" where
  "GetMetricsPort cfg = mtc_Port cfg"

definition defaultStatsPollingInterval :: Duration where
  "defaultStatsPollingInterval = 2 * 60 * 1000000000"

record PollerConfig =
  plc_ParamPollingInterval :: Duration
  plc_ExpiryCheckerPollingInterval :: Duration
  plc_ExpiredDelegationsLimit :: u64
  plc_StatsPollingInterval :: Duration

text \<open>The only validation that changes what it validates.\<close>

definition PollerConfig_Validate :: "PollerConfig \<Rightarrow> PollerConfig result" where
  "PollerConfig_Validate cfg =
     (if \<not> positive (plc_ParamPollingInterval cfg) then Err (OtherError ''param-polling-interval must be positive'')
      else if \<not> positive (plc_ExpiryCheckerPollingInterval cfg)
        then Err (OtherError ''expiry-checker-polling-interval must be positive'')
      else if plc_ExpiredDelegationsLimit cfg \<le> 0 then Err (OtherError ''expired-delegations-limit must be positive'')
      else Ok (if \<not> positive (plc_StatsPollingInterval cfg)
               then cfg\<lparr>plc_StatsPollingInterval := defaultStatsPollingInterval\<rparr> else cfg))"

section \<open>The whole configuration\<close>

record 'q Config =
  c_Db :: DbConfig
  c_BTC :: BTCConfig
  c_BBN :: BBNConfig
  c_Poller :: PollerConfig
  c_Queue :: 'q
  c_Metrics :: MetricsConfig

definition Config_Validate :: "'q config_lib \<Rightarrow> 'q Config \<Rightarrow> 'q Config result" where
  "Config_Validate lib cfg =
     bind_result (BBNConfig_Validate lib (c_BBN cfg)) (\<lambda>_.
     bind_result (DbConfig_Validate lib (c_Db cfg)) (\<lambda>_.
     bind_result (BTCConfig_Validate (c_BTC cfg)) (\<lambda>_.
     bind_result (MetricsConfig_Validate (c_Metrics cfg)) (\<lambda>_.
     bind_result (case cl_Queue_Validate lib (c_Queue cfg) of Some msg \<Rightarrow> Err (OtherError msg) | None \<Rightarrow> Ok ()) (\<lambda>_.
     bind_result (PollerConfig_Validate (c_Poller cfg)) (\<lambda>poller.
     Ok (cfg\<lparr>c_Poller := poller\<rparr>)))))))"

text \<open>\<open>read\<close> is what the configuration library reads from the file and the environment, \<open>unmarshal\<close> its decoding.\<close>

definition New :: "'q config_lib \<Rightarrow> (string \<Rightarrow> string + 'r) \<Rightarrow> ('r \<Rightarrow> string + 'q Config) \<Rightarrow> string \<Rightarrow> 'q Config result" where
  "New lib read unmarshal cfgFile =
     bind_result (case cl_Stat lib cfgFile of Some msg \<Rightarrow> Err (OtherError msg) | None \<Rightarrow> Ok ()) (\<lambda>_.
     bind_result (wrap_result ''failed to read config file'' (of_lib (read cfgFile))) (\<lambda>raw.
     bind_result (of_lib (unmarshal raw)) (\<lambda>cfg.
     Config_Validate lib cfg)))"

text \<open>The values of a configuration that the environment of the model holds.\<close>

definition configured :: "'q Config \<Rightarrow> env \<Rightarrow> env" where
  "configured cfg e = e\<lparr>cfg_NetParams := btcc_NetParams (c_BTC cfg),
     cfg_BTC_MaxRetryTimes := unat (btcc_MaxRetryTimes (c_BTC cfg)),
     cfg_BBN_MaxRetryTimes := unat (bbnc_MaxRetryTimes (c_BBN cfg)),
     cfg_ExpiredDelegationsLimit := plc_ExpiredDelegationsLimit (c_Poller cfg)\<rparr>"

section \<open>What the validation accepts\<close>

lemma positive_default: "positive defaultStatsPollingInterval"
  by (simp add: positive_def defaultStatsPollingInterval_def)

lemma PollerConfig_Validate_Ok:
  assumes "PollerConfig_Validate cfg = Ok cfg'"
  shows "positive (plc_ParamPollingInterval cfg') \<and> positive (plc_ExpiryCheckerPollingInterval cfg') \<and>
    0 < plc_ExpiredDelegationsLimit cfg' \<and> positive (plc_StatsPollingInterval cfg') \<and>
    (\<exists>interval. cfg' = cfg\<lparr>plc_StatsPollingInterval := interval\<rparr>) \<and> PollerConfig_Validate cfg' = Ok cfg'"
  using assms positive_default
  by (cases cfg) (auto simp: PollerConfig_Validate_def word_neq_0_conv split: if_splits)

lemma BBNConfig_Validate_Ok:
  "BBNConfig_Validate lib cfg = Ok u \<longleftrightarrow> (\<exists>url. cl_Parse lib (bbnc_RPCAddr cfg) = Inr url) \<and>
     positive (bbnc_Timeout cfg) \<and> 0 < bbnc_MaxRetryTimes cfg \<and> positive (bbnc_RetryInterval cfg)"
  by (cases "cl_Parse lib (bbnc_RPCAddr cfg)")
    (auto simp: BBNConfig_Validate_def word_neq_0_conv split: if_splits)

lemma GetValidNetParams_iff: "GetValidNetParams net \<noteq> None \<longleftrightarrow> (\<exists>params. GetBTCParams net = Ok params)"
proof -
  have "GetValidNetParams net \<noteq> None \<longleftrightarrow> net \<in> {BtcMainnet, BtcTestnet, BtcSimnet, BtcRegtest, BtcSignet}"
    by (simp add: GetValidNetParams_def exI [of "\<lambda>y :: bool. y" True])
  also have "\<dots> \<longleftrightarrow> (\<exists>params. GetBTCParams net = Ok params)" by (simp add: GetBTCParams_def)
  finally show ?thesis .
qed

lemma in_unit_interval: "float_less x 0 \<or> float_greater x 1 \<longleftrightarrow> \<not> (\<forall>y. x = Some y \<longrightarrow> 0 \<le> y \<and> y \<le> 1)"
  by (cases x) (auto simp: not_le)

lemma BTCConfig_Validate_Ok:
  "BTCConfig_Validate cfg = Ok u \<longleftrightarrow> btcc_RPCHost cfg \<noteq> '''' \<and> btcc_RPCUser cfg \<noteq> '''' \<and> btcc_RPCPass cfg \<noteq> '''' \<and>
    positive (btcc_BlockPollingInterval cfg) \<and> positive (btcc_TxPollingInterval cfg) \<and>
    (\<forall>x. btcc_TxPollingIntervalJitter cfg = Some x \<longrightarrow> 0 \<le> x \<and> x \<le> 1) \<and> 0 < btcc_BlockCacheSize cfg \<and>
    0 < btcc_MaxRetryTimes cfg \<and> positive (btcc_RetryInterval cfg) \<and> (\<exists>params. GetBTCParams (btcc_NetParams cfg) = Ok params)"
  unfolding BTCConfig_Validate_def in_unit_interval GetValidNetParams_iff [symmetric] by (simp add: word_neq_0_conv)

lemma DbConfig_Validate_Ok:
  assumes "DbConfig_Validate lib cfg = Ok u"
  shows "\<exists>url. cl_Parse lib (dbc_Address cfg) = Inr url \<and> url_Host url \<noteq> '''' \<and>
    (url_Scheme url = ''mongodb+srv'' \<or>
     url_Scheme url = ''mongodb'' \<and> (\<exists>port. Atoi (url_Port url) = Ok port \<and> 1024 \<le> port \<and> port \<le> 65535))"
  using assms by (auto simp: DbConfig_Validate_def not_less split: if_splits)

lemma Config_Validate_Ok:
  "Config_Validate lib cfg = Ok cfg' \<longleftrightarrow>
    BBNConfig_Validate lib (c_BBN cfg) = Ok () \<and> DbConfig_Validate lib (c_Db cfg) = Ok () \<and>
    BTCConfig_Validate (c_BTC cfg) = Ok () \<and> MetricsConfig_Validate (c_Metrics cfg) = Ok () \<and>
    cl_Queue_Validate lib (c_Queue cfg) = None \<and>
    (\<exists>poller. PollerConfig_Validate (c_Poller cfg) = Ok poller \<and> cfg' = cfg\<lparr>c_Poller := poller\<rparr>)"
proof -
  have step: "bind_result r k = Ok x \<longleftrightarrow> (\<exists>y. r = Ok y \<and> k y = Ok x)" for r :: "'x result" and k :: "'x \<Rightarrow> 'y result" and x
    by (cases r) auto
  have queue: "(case q of Some msg \<Rightarrow> Err (OtherError msg) | None \<Rightarrow> Ok ()) = Ok y \<longleftrightarrow> q = None" for q :: "string option" and y
    by (cases q) auto
  show ?thesis unfolding Config_Validate_def step queue by auto
qed

lemma MetricsConfig_Validate_Ok:
  "MetricsConfig_Validate cfg = Ok u \<Longrightarrow> 1024 \<le> GetMetricsPort cfg \<and> GetMetricsPort cfg \<le> 65535 \<and>
     (\<exists>ip. ParseIP (mtc_Host cfg) = Some ip \<and> length ip = 16)"
  by (auto simp: MetricsConfig_Validate_def GetMetricsPort_def split: if_splits option.splits dest: ParseIP_length)

lemma take_limit_progress: "0 < limit \<Longrightarrow> take_limit limit xs = [] \<longleftrightarrow> xs = []"
  by (simp add: take_limit_def word_neq_0_conv [symmetric] signed_eq_0_iff)

section \<open>What the validation guarantees to the rest of the program\<close>

text \<open>
  C35. A configuration that the validation accepts is safe to run with. The validation changes nothing but a
  polling interval of the statistics that is not positive, and accepts its own result again; then every interval
  of a ticker is positive (a ticker panics otherwise), the clients of both chains make at least one attempt, a
  pass of the expiry task that finds a due time lock takes up one at least, the port of the metrics server is
  neither privileged nor out of range and its host is an IP address, and the network name can be turned into the connection to the Bitcoin node.
\<close>

theorem validated_configuration_is_safe:
  assumes "Config_Validate lib cfg = Ok cfg'"
  shows "Config_Validate lib cfg' = Ok cfg' \<and>
    (\<exists>interval. cfg' = cfg\<lparr>c_Poller := (c_Poller cfg)\<lparr>plc_StatsPollingInterval := interval\<rparr>\<rparr>) \<and>
    list_all positive [plc_ParamPollingInterval (c_Poller cfg'), plc_ExpiryCheckerPollingInterval (c_Poller cfg'),
      plc_StatsPollingInterval (c_Poller cfg'), btcc_BlockPollingInterval (c_BTC cfg'), btcc_TxPollingInterval (c_BTC cfg'),
      btcc_RetryInterval (c_BTC cfg'), bbnc_Timeout (c_BBN cfg'), bbnc_RetryInterval (c_BBN cfg')] \<and>
    0 < cfg_BTC_MaxRetryTimes (configured cfg' e) \<and> 0 < cfg_BBN_MaxRetryTimes (configured cfg' e) \<and>
    (take_limit (cfg_ExpiredDelegationsLimit (configured cfg' e)) locks = [] \<longleftrightarrow> locks = []) \<and>
    1024 \<le> GetMetricsPort (c_Metrics cfg') \<and> GetMetricsPort (c_Metrics cfg') \<le> 65535 \<and>
    (\<exists>ip. ParseIP (mtc_Host (c_Metrics cfg')) = Some ip \<and> length ip = 16) \<and>
    (\<exists>conn. ToConnConfig lib (c_BTC cfg') = Ok conn \<and> conn_Host conn \<noteq> '''')"
proof -
  obtain poller where parts: "BBNConfig_Validate lib (c_BBN cfg) = Ok ()" "DbConfig_Validate lib (c_Db cfg) = Ok ()"
    "BTCConfig_Validate (c_BTC cfg) = Ok ()" "MetricsConfig_Validate (c_Metrics cfg) = Ok ()"
    "cl_Queue_Validate lib (c_Queue cfg) = None" "PollerConfig_Validate (c_Poller cfg) = Ok poller"
    and cfg': "cfg' = cfg\<lparr>c_Poller := poller\<rparr>"
    using assms unfolding Config_Validate_Ok by blast
  obtain interval where poller: "positive (plc_ParamPollingInterval poller)" "positive (plc_ExpiryCheckerPollingInterval poller)"
    "0 < plc_ExpiredDelegationsLimit poller" "positive (plc_StatsPollingInterval poller)"
    "poller = (c_Poller cfg)\<lparr>plc_StatsPollingInterval := interval\<rparr>" "PollerConfig_Validate poller = Ok poller"
    using PollerConfig_Validate_Ok [OF parts(6)] by blast
  have again: "Config_Validate lib cfg' = Ok cfg'"
    unfolding Config_Validate_Ok using parts poller(6) by (simp add: cfg')
  have changed: "\<exists>interval. cfg' = cfg\<lparr>c_Poller := (c_Poller cfg)\<lparr>plc_StatsPollingInterval := interval\<rparr>\<rparr>"
    unfolding cfg' poller(5) by blast
  have unat: "0 < unat x \<longleftrightarrow> 0 < x" for x :: u64 by (simp add: word_less_nat_alt)
  obtain params where params: "GetBTCParams (btcc_NetParams (c_BTC cfg)) = Ok params" "btcc_RPCHost (c_BTC cfg) \<noteq> ''''"
    using parts(3) unfolding BTCConfig_Validate_Ok by blast
  then have conn: "\<exists>conn. ToConnConfig lib (c_BTC cfg') = Ok conn \<and> conn_Host conn \<noteq> ''''"
    by (simp add: ToConnConfig_def cfg')
  have limit: "take_limit (cfg_ExpiredDelegationsLimit (configured cfg' e)) locks = [] \<longleftrightarrow> locks = []"
    using take_limit_progress [OF poller(3)] by (simp add: cfg' configured_def)
  have intervals: "list_all positive [plc_ParamPollingInterval (c_Poller cfg'), plc_ExpiryCheckerPollingInterval (c_Poller cfg'),
      plc_StatsPollingInterval (c_Poller cfg'), btcc_BlockPollingInterval (c_BTC cfg'), btcc_TxPollingInterval (c_BTC cfg'),
      btcc_RetryInterval (c_BTC cfg'), bbnc_Timeout (c_BBN cfg'), bbnc_RetryInterval (c_BBN cfg')]"
    using poller(1,2,4) parts(1,3) unfolding BBNConfig_Validate_Ok BTCConfig_Validate_Ok by (simp add: cfg')
  have attempts: "0 < cfg_BTC_MaxRetryTimes (configured cfg' e)" "0 < cfg_BBN_MaxRetryTimes (configured cfg' e)"
    using parts(1,3) unfolding BBNConfig_Validate_Ok BTCConfig_Validate_Ok by (simp_all add: cfg' configured_def unat)
  have port: "1024 \<le> GetMetricsPort (c_Metrics cfg')" "GetMetricsPort (c_Metrics cfg') \<le> 65535"
    and host: "\<exists>ip. ParseIP (mtc_Host (c_Metrics cfg')) = Some ip \<and> length ip = 16"
    using MetricsConfig_Validate_Ok [OF parts(4)] by (simp_all add: cfg')
  show ?thesis by (intro conjI again changed conn limit intervals attempts port host)
qed

section \<open>A concrete configuration\<close>

definition sample_lib :: "unit config_lib" where
  "sample_lib = \<lparr>cl_Parse = (\<lambda>s. if s = '''' then Inl ''empty url''
       else Inr \<lparr>url_Scheme = ''mongodb'', url_Host = s, url_Port = ''27017''\<rparr>),
     cl_Queue_Validate = (\<lambda>q. None),
     cl_params_Name = (\<lambda>params. ''regtest''), cl_Stat = (\<lambda>f. None)\<rparr>"

definition sample_config :: "unit Config" where
  "sample_config =
     \<lparr>c_Db = \<lparr>dbc_Username = ''user'', dbc_Password = ''secret'', dbc_DbName = ''indexer'', dbc_Address = ''localhost''\<rparr>,
      c_BTC = \<lparr>btcc_RPCHost = ''localhost'', btcc_RPCUser = ''user'', btcc_RPCPass = ''secret'', btcc_PrunedNodeMaxPeers = 0,
        btcc_BlockPollingInterval = 30, btcc_TxPollingInterval = 30, btcc_TxPollingIntervalJitter = Some (1 / 2),
        btcc_BlockCacheSize = 20, btcc_MaxRetryTimes = 5, btcc_RetryInterval = 3, btcc_NetParams = BtcRegtest,
        btcc_LndLogLevel = ''off''\<rparr>,
      c_BBN = \<lparr>bbnc_RPCAddr = ''localhost'', bbnc_Timeout = 20, bbnc_MaxRetryTimes = 3, bbnc_RetryInterval = 1\<rparr>,
      c_Poller = \<lparr>plc_ParamPollingInterval = 60, plc_ExpiryCheckerPollingInterval = 10, plc_ExpiredDelegationsLimit = 1000,
        plc_StatsPollingInterval = 0\<rparr>,
      c_Queue = (), c_Metrics = \<lparr>mtc_Host = ''127.0.0.1'', mtc_Port = 2112\<rparr>\<rparr>"

definition sample_validated :: "unit Config" where
  "sample_validated = sample_config\<lparr>c_Poller := (c_Poller sample_config)\<lparr>plc_StatsPollingInterval := defaultStatsPollingInterval\<rparr>\<rparr>"

lemma sample_config_accepted: "Config_Validate sample_lib sample_config = Ok sample_validated"
proof -
  have port: "Atoi ''27017'' = Ok 27017" by code_simp
  have params: "GetBTCParams BtcRegtest = Ok RegressionNetParams" by code_simp
  show ?thesis
    unfolding Config_Validate_Ok BBNConfig_Validate_Ok BTCConfig_Validate_Ok
    by (simp add: sample_validated_def sample_config_def sample_lib_def DbConfig_Validate_def port params MetricsConfig_Validate_def ParseIP_local
        PollerConfig_Validate_def positive_def)
qed

theorem validated_configuration_is_safe_witness:
  "\<forall>e. 0 < cfg_BTC_MaxRetryTimes (configured sample_validated e) \<and>
    (\<exists>conn. ToConnConfig sample_lib (c_BTC sample_validated) = Ok conn \<and> conn_Host conn \<noteq> '''')"
  using validated_configuration_is_safe [OF sample_config_accepted] by blast

end
