(* ===== verification/Command_Line.thy ===== *)
theory Command_Line
  imports Go_Utils
begin

text \<open>
  \<^verbatim>\<open>cmd/babylon-staking-indexer/cli/root.go\<close>: the flags and commands of the program, with the joining of paths that the
  default of the configuration file is made with.
\<close>

section \<open>Paths\<close>

text \<open>
  \<^verbatim>\<open>filepath.Clean\<close> on Unix: empty parts and \<^verbatim>\<open>.\<close> disappear, \<^verbatim>\<open>..\<close> removes the part before it, and above the root it
  disappears as well.
\<close>

definition clean_part :: "bool \<Rightarrow> string list \<Rightarrow> string \<Rightarrow> string list" where
  "clean_part rooted acc part =
     (if part = '''' \<or> part = ''.'' then acc
      else if part = ''..'' then
        (if acc \<noteq> [] \<and> last acc \<noteq> ''..'' then butlast acc else if rooted then acc else acc @ [part])
      else acc @ [part])"

fun join_parts :: "string list \<Rightarrow> string" where
  "join_parts [] = ''''"
| "join_parts [part] = part"
| "join_parts (part # parts) = part @ ''/'' @ join_parts parts"

definition Clean :: "string \<Rightarrow> string" where
  "Clean path =
     (let rooted = (path \<noteq> [] \<and> hd path = CHR ''/'');
          parts = foldl (clean_part rooted) [] (split_at CHR ''/'' path);
          cleaned = (if rooted then ''/'' else '''') @ join_parts parts
      in if cleaned = '''' then ''.'' else cleaned)"

text \<open>\<^verbatim>\<open>filepath.Join\<close> of two elements; empty ones are ignored.\<close>

definition Join :: "string \<Rightarrow> string \<Rightarrow> string" where
  "Join a b = (if a \<noteq> '''' then Clean (a @ ''/'' @ b) else if b \<noteq> '''' then Clean b else '''')"

section \<open>Flags and commands\<close>

text \<open>
  What \<^verbatim>\<open>cobra\<close> has found on the command line: the value of \<^verbatim>\<open>--config\<close>, and the values of \<^verbatim>\<open>--dry-run\<close> and
  \<^verbatim>\<open>--workers\<close> when the command \<^verbatim>\<open>fill-staker-addr\<close> is run. No command is run for the help and for no command.
\<close>

record invocation =
  inv_config :: string
  inv_fill :: "(bool \<times> int) option"

text \<open>The code outside the repository: the home directory, and the parser with the default of \<^verbatim>\<open>--config\<close>.\<close>

record cli_library =
  cli_UserHomeDir :: "string + string"
  cli_Execute :: "string \<Rightarrow> string + invocation"

definition defaultConfigFileName :: string where "defaultConfigFileName = ''config.yml''"

definition getDefaultConfigFile :: "string \<Rightarrow> string \<Rightarrow> string" where
  "getDefaultConfigFile homePath filename = Join homePath filename"

text \<open>\<open>Setup\<close> of the package \<^verbatim>\<open>cli\<close>; \<^verbatim>\<open>GetConfigPath\<close> reads the value that it leaves in \<^verbatim>\<open>cfgPath\<close>.\<close>

definition Setup_cli :: "cli_library \<Rightarrow> invocation result" where
  "Setup_cli cli =
     bind_result (of_lib (cli_UserHomeDir cli)) (\<lambda>homePath.
     let defaultConfigPath = getDefaultConfigFile homePath defaultConfigFileName in
     of_lib (cli_Execute cli defaultConfigPath))"

definition GetConfigPath :: "invocation \<Rightarrow> string" where
  "GetConfigPath found = inv_config found"

section \<open>The default of the configuration file\<close>

lemma split_at_not_Nil [simp]: "split_at c xs \<noteq> []"
  by (induction c xs rule: split_at.induct) (auto split: list.splits)

lemma split_at_append: "split_at c (xs @ c # ys) = split_at c xs @ split_at c ys"
  by (induction c xs rule: split_at.induct) (auto split: list.splits)


lemma join_parts_snoc: "join_parts (ps @ [p]) = (if ps = [] then p else join_parts ps @ ''/'' @ p)"
  by (induction ps rule: join_parts.induct) auto

lemma clean_part_nonempty: "[] \<notin> set acc \<Longrightarrow> [] \<notin> set (clean_part rooted acc part)"
  by (auto simp: clean_part_def dest: in_set_butlastD)

lemma clean_parts_nonempty: "[] \<notin> set acc \<Longrightarrow> [] \<notin> set (foldl (clean_part rooted) acc parts)"
  by (induction parts arbitrary: acc) (auto simp: clean_part_nonempty)

lemma join_parts_empty: "[] \<notin> set parts \<Longrightarrow> join_parts parts = [] \<Longrightarrow> parts = []"
  by (cases parts rule: join_parts.cases) auto

text \<open>The file is in the home directory: its path is the cleaned home directory with the name at the end.\<close>

lemma default_config_file:
  assumes "hd home = CHR ''/''" "home \<noteq> []"
  shows "getDefaultConfigFile home defaultConfigFileName =
    (if Clean home = ''/'' then ''/config.yml'' else Clean home @ ''/config.yml'')"
proof -
  let ?parts = "foldl (clean_part True) [] (split_at CHR ''/'' home)"
  have "split_at CHR ''/'' (home @ ''/config.yml'') = split_at CHR ''/'' home @ [''config.yml'']"
    using split_at_append [of "CHR ''/''" home "''config.yml''"] by simp
  then have "Clean (home @ ''/config.yml'') = ''/'' @ join_parts (?parts @ [''config.yml''])"
    using assms by (simp add: Clean_def clean_part_def)
  moreover have "Clean home = ''/'' @ join_parts ?parts" using assms by (simp add: Clean_def)
  moreover have "join_parts ?parts = [] \<Longrightarrow> ?parts = []"
    by (rule join_parts_empty [OF clean_parts_nonempty]) simp

  ultimately show ?thesis
    using assms by (simp add: getDefaultConfigFile_def defaultConfigFileName_def Join_def join_parts_snoc)
qed

end
