(* ===== verification/Startup.thy ===== *)
theory Startup
  imports Subscription Metrics Configuration Index_Setup Command_Line
begin

text \<open>
  How the process starts: \<^verbatim>\<open>main\<close> with the constructors that it calls, and \<^verbatim>\<open>StartIndexerSync\<close> of
  \<^verbatim>\<open>internal/services/service.go\<close> with the goroutines that it starts.
\<close>

section \<open>The process\<close>

text \<open>
  The goroutines in the order in which they are started. The last one, the block processor, runs in the main thread.
\<close>

datatype goroutine =
    PollerLoop Poller
  | MissedNotifications
  | NewHeights subscription
  | BlockProcessor

record process =
  pr_catalog :: catalog
  pr_metrics :: metrics_state
  pr_goroutines :: "goroutine list"

type_synonym 'a startup = "(world \<times> process, 'a) prog"

definition go :: "goroutine \<Rightarrow> unit startup" where
  "go g = atomically (\<lambda>(w, p). (Ok (), (w, p\<lparr>pr_goroutines := pr_goroutines p @ [g]\<rparr>)))"

text \<open>
  What the Bitcoin notifier is made of. A connection is given by its network and address; the dialer of the service goes to
  the configured host whatever address it is asked for.
\<close>

definition BuildDialer :: "string \<Rightarrow> string \<Rightarrow> string \<times> string" where
  "BuildDialer rpcHost addr = (''tcp'', rpcHost)"

record BitcoindConfig =
  bd_ChainParams :: ChainParams
  bd_Host :: string
  bd_User :: string
  bd_Pass :: string
  bd_Dialer :: "string \<Rightarrow> string \<times> string"
  bd_PrunedModeMaxPeers :: int
  bd_BlockPollingInterval :: Duration
  bd_TxPollingInterval :: Duration
  bd_TxPollingIntervalJitter :: float64

text \<open>
  The cache of the heights up to which the notifier has looked for a spend or a confirmation; the requests of the notifier
  are given by their printed form. The service uses one that remembers nothing.
\<close>

record HintCache =
  hc_CommitSpendHint :: "u32 \<Rightarrow> string list \<Rightarrow> unit result"
  hc_QuerySpendHint :: "string \<Rightarrow> u32 result"
  hc_PurgeSpendHint :: "string list \<Rightarrow> unit result"
  hc_CommitConfirmHint :: "u32 \<Rightarrow> string list \<Rightarrow> unit result"
  hc_QueryConfirmHint :: "string \<Rightarrow> u32 result"
  hc_PurgeConfirmHint :: "string list \<Rightarrow> unit result"

definition EmptyHintCache :: HintCache where
  "EmptyHintCache = \<lparr>hc_CommitSpendHint = (\<lambda>height spendRequests. Ok ()), hc_QuerySpendHint = (\<lambda>spendRequest. Ok 0),
     hc_PurgeSpendHint = (\<lambda>spendRequests. Ok ()), hc_CommitConfirmHint = (\<lambda>height confRequests. Ok ()),
     hc_QueryConfirmHint = (\<lambda>confRequest. Ok 0), hc_PurgeConfirmHint = (\<lambda>confRequests. Ok ())\<rparr>"

record BTCNotifier =
  ntf_ChainParams :: ChainParams
  ntf_SpendHintCache :: HintCache
  ntf_ConfirmHintCache :: HintCache
  ntf_BlockCacheSize :: u64

text \<open>The code outside the repository that the start calls, by its failures.\<close>

record 'q outside =
  out_ws :: websocket
  out_mongo_Connect :: "nat \<Rightarrow> DbConfig \<Rightarrow> string option"
  out_NewProduction :: "nat \<Rightarrow> string option"
  out_NewQueueManager :: "nat \<Rightarrow> 'q \<Rightarrow> string option"
  out_queue_Start :: "nat \<Rightarrow> string option"
  out_rpcclient_New :: "nat \<Rightarrow> ConnConfig \<Rightarrow> string option"
  out_query_New :: "nat \<Rightarrow> string \<Rightarrow> Duration \<Rightarrow> string option"
  out_NewBitcoindConn :: "nat \<Rightarrow> BitcoindConfig \<Rightarrow> string option"
  out_conn_Start :: "nat \<Rightarrow> string option"
  out_notifier_Start :: "nat \<Rightarrow> string option"

definition outside_call :: "(nat \<Rightarrow> string option) \<Rightarrow> unit startup" where
  "outside_call f = lift_prog (ask (\<lambda>t. answer (f t)))"

section \<open>Constructors\<close>

definition db_New :: "'q outside \<Rightarrow> DbConfig \<Rightarrow> unit startup" where
  "db_New out cfg = outside_call (\<lambda>t. out_mongo_Connect out t cfg)"

definition NewBTCClient :: "'q config_lib \<Rightarrow> 'q outside \<Rightarrow> BTCConfig \<Rightarrow> unit startup" where
  "NewBTCClient lib out cfg =
     andThen (Done (ToConnConfig lib cfg)) (\<lambda>connCfg.
     outside_call (\<lambda>t. out_rpcclient_New out t connCfg))"

definition NewBBNClient :: "'q outside \<Rightarrow> BBNConfig \<Rightarrow> unit startup" where
  "NewBBNClient out cfg = outside_call (\<lambda>t. out_query_New out t (bbnc_RPCAddr cfg) (bbnc_Timeout cfg))"

definition NewBTCNotifier :: "'q outside \<Rightarrow> BTCConfig \<Rightarrow> HintCache \<Rightarrow> BTCNotifier startup" where
  "NewBTCNotifier out cfg hintCache =
     andThen (Done (GetBTCParams (btcc_NetParams cfg))) (\<lambda>params.
     let bitcoindCfg = \<lparr>bd_ChainParams = params, bd_Host = btcc_RPCHost cfg, bd_User = btcc_RPCUser cfg, bd_Pass = btcc_RPCPass cfg,
       bd_Dialer = BuildDialer (btcc_RPCHost cfg), bd_PrunedModeMaxPeers = btcc_PrunedNodeMaxPeers cfg, bd_BlockPollingInterval = btcc_BlockPollingInterval cfg,
       bd_TxPollingInterval = btcc_TxPollingInterval cfg, bd_TxPollingIntervalJitter = btcc_TxPollingIntervalJitter cfg\<rparr> in
     andThen (outside_call (\<lambda>t. out_NewBitcoindConn out t bitcoindCfg)) (\<lambda>_.
     andThen (on_error (outside_call (out_conn_Start out)) (\<lambda>err. throw (OtherError ''unable to connect to bitcoind''))) (\<lambda>_.
     ret \<lparr>ntf_ChainParams = params, ntf_SpendHintCache = hintCache, ntf_ConfirmHintCache = hintCache,
          ntf_BlockCacheSize = btcc_BlockCacheSize cfg\<rparr>)))"

text \<open>The service starts with no version of the staking parameters in its memory.\<close>

definition NewService :: "unit startup" where
  "NewService = atomically (\<lambda>(w, p). (Ok (), (w\<lparr>w_params_version := 0\<rparr>, p)))"

section \<open>The service\<close>

text \<open>The durations that are recorded around the tasks of the pollers are left out: they change nothing else.\<close>

definition SyncGlobalParams :: "nat \<Rightarrow> env \<Rightarrow> PollerConfig \<Rightarrow> unit startup" where
  "SyncGlobalParams fuel e cfg = go (PollerLoop (NewPoller (plc_ParamPollingInterval cfg) (fetchAndSaveParams fuel e)))"

definition StartExpiryChecker :: "env \<Rightarrow> PollerConfig \<Rightarrow> unit startup" where
  "StartExpiryChecker e cfg = go (PollerLoop (NewPoller (plc_ExpiryCheckerPollingInterval cfg) (checkExpiry e)))"

definition StartStatsPoller :: "env \<Rightarrow> PollerConfig \<Rightarrow> unit startup" where
  "StartStatsPoller e cfg = go (PollerLoop (NewPoller (plc_StatsPollingInterval cfg) (calculateAndUpdateStats e)))"

text \<open>\<open>now\<close> is the time at which the subscription begins.\<close>

definition StartIndexerSync :: "nat \<Rightarrow> env \<Rightarrow> 'q outside \<Rightarrow> PollerConfig \<Rightarrow> int \<Rightarrow> unit startup" where
  "StartIndexerSync fuel e out cfg now =
     andThen (wrap_err ''failed to start BBN client'' (lift_prog (Start (out_ws out)))) (\<lambda>_.
     andThen (wrap_err ''failed to start btc chain notifier'' (outside_call (out_notifier_Start out))) (\<lambda>_.
     andThen (wrap_err ''failed to start the event consumer'' (outside_call (out_queue_Start out))) (\<lambda>_.
     andThen (lift_prog (fetchAndSaveNetworkInfo e)) (\<lambda>_.
     andThen (SyncGlobalParams fuel e cfg) (\<lambda>_.
     andThen (go MissedNotifications) (\<lambda>_.
     andThen (StartExpiryChecker e cfg) (\<lambda>_.
     andThen (StartStatsPoller e cfg) (\<lambda>_.
     andThen (wrap_err ''failed to subscribe to BBN events'' (lift_prog (SubscribeToBbnEvents (out_ws out) now))) (\<lambda>s.
     andThen (go (NewHeights s)) (\<lambda>_.
     go BlockProcessor))))))))))"

section \<open>The program\<close>

text \<open>\<^verbatim>\<open>log.Fatal\<close> ends the process.\<close>

definition fatal :: "string \<Rightarrow> ('s, 'a) prog \<Rightarrow> ('s, 'a) prog" where
  "fatal msg p = on_error p (\<lambda>err. panic msg)"

definition setup_db_model :: "mongo_admin \<Rightarrow> unit startup" where
  "setup_db_model a = atomically (\<lambda>(w, p).
     let (r, c) = run (Setup a) (pr_catalog p) in (r, (w, p\<lparr>pr_catalog := c\<rparr>)))"

definition init_metrics :: "int \<Rightarrow> unit startup" where
  "init_metrics metricsPort = atomically (\<lambda>(w, p). let (r, st) = Init metricsPort (pr_metrics p) in (r, (w, p\<lparr>pr_metrics := st\<rparr>)))"

text \<open>What follows the command line.\<close>

definition start_server ::
  "'q config_lib \<Rightarrow> (string \<Rightarrow> string + 'r) \<Rightarrow> ('r \<Rightarrow> string + 'q Config) \<Rightarrow> string \<Rightarrow> mongo_admin \<Rightarrow> 'q outside \<Rightarrow>
    nat \<Rightarrow> env \<Rightarrow> int \<Rightarrow> unit startup" where
  "start_server lib read unmarshal cfgPath a out fuel e now =
     andThen (fatal ''error while loading config file'' (Done (New lib read unmarshal cfgPath))) (\<lambda>cfg.
     andThen (fatal ''error while setting up staking db model'' (setup_db_model a)) (\<lambda>_.
     andThen (fatal ''error while creating db client'' (db_New out (c_Db cfg))) (\<lambda>_.
     andThen (fatal ''error while creating zap logger'' (outside_call (out_NewProduction out))) (\<lambda>_.
     andThen (fatal ''failed to initialize event consumer'' (outside_call (\<lambda>t. out_NewQueueManager out t (c_Queue cfg)))) (\<lambda>_.
     andThen (fatal ''error while creating btc client'' (NewBTCClient lib out (c_BTC cfg))) (\<lambda>_.
     andThen (fatal ''error while creating BBN query client'' (NewBBNClient out (c_BBN cfg))) (\<lambda>_.
     andThen (fatal ''error while creating btc notifier'' (NewBTCNotifier out (c_BTC cfg) EmptyHintCache)) (\<lambda>btcNotifier.
     andThen NewService (\<lambda>_.
     andThen (init_metrics (GetMetricsPort (c_Metrics cfg))) (\<lambda>_.
     fatal ''error while starting indexer sync'' (StartIndexerSync fuel (configured cfg e) out (c_Poller cfg) now)))))))))))"

text \<open>
  With the command \<^verbatim>\<open>fill-staker-addr\<close> the process runs it (theory \<open>Fill_Command\<close>) inside \<open>Setup_cli\<close> and ends with
  \<^verbatim>\<open>os.Exit\<close>. Otherwise, also after the help, the server starts.
\<close>

definition main ::
  "'q config_lib \<Rightarrow> (string \<Rightarrow> string + 'r) \<Rightarrow> ('r \<Rightarrow> string + 'q Config) \<Rightarrow> cli_library \<Rightarrow> mongo_admin \<Rightarrow> 'q outside \<Rightarrow>
    nat \<Rightarrow> env \<Rightarrow> int \<Rightarrow> unit startup" where
  "main lib read unmarshal cli a out fuel e now =
     andThen (fatal ''error while setting up cli'' (Done (Setup_cli cli))) (\<lambda>found.
     case inv_fill found of
       Some flags \<Rightarrow> ret ()
     | None \<Rightarrow> start_server lib read unmarshal (GetConfigPath found) a out fuel e now)"


end
