(* ===== verification/Startup_Spec.thy ===== *)
theory Startup_Spec
  imports Startup Service_Spec
begin

text \<open>
  What has been checked when the first goroutine runs. The start is followed with assertions before and after each
  step, one for the case that the program goes on and one for the case that it ends.
\<close>

section \<open>Assertions\<close>

definition triple :: "('s \<Rightarrow> bool) \<Rightarrow> ('s, 'a) prog \<Rightarrow> ('a \<Rightarrow> 's \<Rightarrow> bool) \<Rightarrow> ('s \<Rightarrow> bool) \<Rightarrow> bool" where
  "triple P p Q E \<longleftrightarrow> (\<forall>s. P s \<longrightarrow> (case run p s of (Ok x, s') \<Rightarrow> Q x s' | (Err err, s') \<Rightarrow> E s' | (Panic msg, s') \<Rightarrow> E s'))"

lemma triple_andThen:
  assumes "triple P p Q E" "\<And>x. triple (Q x) (k x) R E"
  shows "triple P (andThen p k) R E"
  unfolding triple_def
proof (intro allI impI)
  fix s assume s: "P s"
  obtain r s' where run: "run p s = (r, s')" by fastforce
  show "case run (andThen p k) s of (Ok x, s') \<Rightarrow> R x s' | (Err err, s') \<Rightarrow> E s' | (Panic msg, s') \<Rightarrow> E s'"
    using assms(1) [unfolded triple_def, rule_format, OF s] assms(2) run by (cases r) (simp_all add: triple_def)
qed

lemma triple_const: "(A \<Longrightarrow> triple (\<lambda>_. True) p Q E) \<Longrightarrow> triple (\<lambda>_. A) p Q E"
  by (simp add: triple_def)

lemma triple_Done: "(\<And>s x. P s \<Longrightarrow> r = Ok x \<Longrightarrow> Q x s) \<Longrightarrow> (\<And>s. P s \<Longrightarrow> E s) \<Longrightarrow> triple P (Done r) Q E"
  by (cases r) (auto simp: triple_def)

lemma triple_on_error: "triple P p Q F \<Longrightarrow> (\<And>err. triple F (h err) Q E) \<Longrightarrow> (\<And>s. F s \<Longrightarrow> E s) \<Longrightarrow> triple P (on_error p h) Q E"
  unfolding triple_def by (fastforce simp: run_on_error split: prod.splits result.splits)

lemma triple_wrap_err: "triple P p Q E \<Longrightarrow> triple P (wrap_err msg p) Q E"
  unfolding wrap_err_def by (erule triple_on_error) (auto intro: triple_Done)

lemma triple_fatal: "triple P p Q E \<Longrightarrow> triple P (fatal msg p) Q E"
  unfolding fatal_def by (erule triple_on_error) (auto intro: triple_Done)

lemma triple_atomically:
  "(\<And>s. P s \<Longrightarrow> case f s of (Ok x, s') \<Rightarrow> Q x s' | (Err err, s') \<Rightarrow> E s' | (Panic msg, s') \<Rightarrow> E s') \<Longrightarrow> triple P (atomically f) Q E"
  by (simp add: triple_def)

lemma triple_weaken: "triple P p Q E \<Longrightarrow> (\<And>s. P' s \<Longrightarrow> P s) \<Longrightarrow> (\<And>x s. Q x s \<Longrightarrow> Q' x s) \<Longrightarrow> (\<And>s. E s \<Longrightarrow> E' s) \<Longrightarrow> triple P' p Q' E'"
  unfolding triple_def by (fastforce split: prod.splits result.splits)

lemma triple_lift:
  assumes "triple (\<lambda>w. P (w, p)) f (\<lambda>x w. Q x (w, p)) (\<lambda>w. E (w, p))" "P (w, p)"
  shows "case run (lift_prog f) (w, p) of (Ok x, s') \<Rightarrow> Q x s' | (Err err, s') \<Rightarrow> E s' | (Panic msg, s') \<Rightarrow> E s'"
  using assms unfolding triple_def run_lift by (fastforce split: prod.splits result.splits)

lemma triple_lift_prog:
  "(\<And>p. triple (\<lambda>w. P (w, p)) f (\<lambda>x w. Q x (w, p)) (\<lambda>w. E (w, p))) \<Longrightarrow> triple P (lift_prog f) Q E"
  unfolding triple_def using triple_lift [of P _ f Q E] by (auto simp: triple_def)

section \<open>The network\<close>

definition reported :: "env \<Rightarrow> world \<Rightarrow> bool" where
  "reported e w \<longleftrightarrow> (\<exists>c t h. rpc_Status e t = Inr (c, h) \<and> w_network w = Some \<lparr>ni_ChainID = c\<rparr>)"

lemma triple_chain_id:
  "triple (\<lambda>_. True) (attempt (GetChainID e)) (\<lambda>r w. \<forall>c. r = Inr c \<longrightarrow> (\<exists>t h. rpc_Status e t = Inr (c, h))) (\<lambda>_. True)"
  unfolding triple_def using run_chain_id by (fastforce split: prod.splits result.splits)

lemma network_is_reported: "triple (\<lambda>_. True) (try_network_info n e) (\<lambda>_. reported e) (\<lambda>_. True)"
proof (induction n)
  case (Suc n)
  have upsert: "triple (\<lambda>_. True)
      (andThen (attempt (UpsertNetworkInfo e \<lparr>ni_ChainID = c\<rparr>)) (\<lambda>r. case r of Inl err \<Rightarrow> try_network_info n e | Inr _ \<Rightarrow> ret ()))
      (\<lambda>_. reported e) (\<lambda>_. True)" if "\<exists>t h. rpc_Status e t = Inr (c, h)" for c
  proof (rule triple_andThen [where Q = "\<lambda>r w. \<forall>u. r = Inr u \<longrightarrow> reported e w"])
    show "triple (\<lambda>_. True) (attempt (UpsertNetworkInfo e \<lparr>ni_ChainID = c\<rparr>)) (\<lambda>r w. \<forall>u. r = Inr u \<longrightarrow> reported e w) (\<lambda>_. True)"
      using that by (auto simp: triple_def UpsertNetworkInfo_def db_call_def reported_def split: option.splits fault.splits)
    fix r
    show "triple (\<lambda>w. \<forall>u. r = Inr u \<longrightarrow> reported e w) (case r of Inl err \<Rightarrow> try_network_info n e | Inr _ \<Rightarrow> ret ()) (\<lambda>_. reported e) (\<lambda>_. True)"
      by (cases r) (auto intro: triple_Done triple_weaken [OF Suc.IH])
  qed
  have again: "triple P (try_network_info n e) (\<lambda>_. reported e) (\<lambda>_. True)" for P
    by (rule triple_weaken [OF Suc.IH]) simp_all
  show ?case
    unfolding try_network_info.simps Let_def
  proof (rule triple_andThen [OF triple_chain_id], goal_cases)
    case (1 r)
    show ?case
    proof (cases r)
      case (Inr c)
      have stored: "triple (\<lambda>_. True) (attempt (GetNetworkInfo e)) (\<lambda>_ _. True) (\<lambda>_. True)"
        by (auto simp: triple_def split: prod.splits result.splits)
      show ?thesis
        unfolding Inr sum.case sum.inject simp_thms
      proof (rule triple_const)
        assume "\<exists>t h. rpc_Status e t = Inr (c, h)"
        from upsert [OF this] show "triple (\<lambda>_. True) (andThen (attempt (GetNetworkInfo e)) (\<lambda>stored.
            case stored of Inl err \<Rightarrow> if \<not> IsNotFoundError err then try_network_info n e
              else andThen (attempt (UpsertNetworkInfo e \<lparr>ni_ChainID = c\<rparr>)) (\<lambda>r. case r of Inl err \<Rightarrow> try_network_info n e | Inr _ \<Rightarrow> ret ())
            | Inr storedChain \<Rightarrow> if ni_ChainID storedChain \<noteq> c then panic ''chainID from bbn node is different from value stored in db''
              else andThen (attempt (UpsertNetworkInfo e \<lparr>ni_ChainID = c\<rparr>)) (\<lambda>r. case r of Inl err \<Rightarrow> try_network_info n e | Inr _ \<Rightarrow> ret ())))
            (\<lambda>_. reported e) (\<lambda>_. True)"
          by (intro triple_andThen [OF stored]) (auto simp del: andThen.simps intro: again triple_Done split: sum.splits)
      qed
    qed (simp add: again)
  qed
qed (auto intro: triple_Done)

lemma triple_assume: "(A \<Longrightarrow> triple P p Q E) \<Longrightarrow> triple (\<lambda>s. A \<and> P s) p Q E"
  by (simp add: triple_def)

lemma triple_preserves: "preserves P p \<Longrightarrow> (\<And>s. P s \<Longrightarrow> E s) \<Longrightarrow> triple P p (\<lambda>_. P) E"
  unfolding triple_def preserves_def by (fastforce split: prod.splits result.splits)

lemma triple_conj: "triple P p Q E \<Longrightarrow> triple P' p Q' E' \<Longrightarrow>
    triple (\<lambda>s. P s \<and> P' s) p (\<lambda>x s. Q x s \<and> Q' x s) (\<lambda>s. E s \<and> E' s)"
  unfolding triple_def by (fastforce split: prod.splits result.splits)

section \<open>What the start changes\<close>

text \<open>Beside the clock and the version in memory: nothing, and later the network.\<close>

definition same :: "world \<Rightarrow> world \<Rightarrow> bool" where
  "same w0 w \<longleftrightarrow> w\<lparr>w_clock := 0, w_params_version := 0\<rparr> = w0\<lparr>w_clock := 0, w_params_version := 0\<rparr>"

definition kept :: "world \<Rightarrow> world \<Rightarrow> bool" where
  "kept w0 w \<longleftrightarrow> w\<lparr>w_clock := 0, w_params_version := 0, w_network := None\<rparr> =
     w0\<lparr>w_clock := 0, w_params_version := 0, w_network := None\<rparr>"

lemma same_kept: "same w0 w \<Longrightarrow> kept w0 w"
  by (cases w; cases w0) (simp add: same_def kept_def)

lemma same_network: "same w0 w \<Longrightarrow> w_network w = w_network w0"
  by (cases w; cases w0) (simp add: same_def)

lemma kept_network: "kept w0 w \<Longrightarrow> kept w0 (w\<lparr>w_network := n\<rparr>)"
  by (cases w; cases w0) (simp add: kept_def)

lemma timeless_kept: "timeless (kept w0)"
  by (simp add: timeless_def kept_def tick_def)

lemma preserves_kept: "preserves (kept w0) (try_network_info n e)"
proof (induction n)
  case (Suc n)
  have chain: "preserves (kept w0) (attempt (GetChainID e))"
    unfolding GetChainID_def getStatus_def
    by (intro preserves_attempt preserves_andThen preserves_wrap_err preserves_client_call preserves_ask timeless_kept)
      (auto intro: preserves_Done)
  have get: "preserves (kept w0) (attempt (GetNetworkInfo e))"
    unfolding GetNetworkInfo_def by (intro preserves_attempt preserves_db_call timeless_kept) (auto split: option.splits)
  have put: "preserves (kept w0) (attempt (UpsertNetworkInfo e info))" for info
    unfolding UpsertNetworkInfo_def by (intro preserves_attempt preserves_db_call timeless_kept) (simp add: kept_network)
  have upsert: "preserves (kept w0) (andThen (attempt (UpsertNetworkInfo e info))
      (\<lambda>r. case r of Inl err \<Rightarrow> try_network_info n e | Inr _ \<Rightarrow> ret ()))" for info
    by (rule preserves_andThen [OF put]) (auto intro: Suc.IH preserves_Done split: sum.splits)
  show ?case
    unfolding try_network_info.simps Let_def
  proof (rule preserves_andThen [OF chain], goal_cases)
    case (1 r)
    show ?case
    proof (cases r)
      case (Inr c)
      show ?thesis
        unfolding Inr sum.case
        by (rule preserves_andThen [OF get]) (auto simp del: andThen.simps intro: Suc.IH upsert preserves_Done split: sum.splits)
    qed (simp add: Suc.IH)
  qed
qed (simp add: preserves_Done)

section \<open>The start of the service\<close>

definition goroutines_of :: "nat \<Rightarrow> env \<Rightarrow> PollerConfig \<Rightarrow> subscription \<Rightarrow> goroutine list" where
  "goroutines_of fuel e cfg s =
     [PollerLoop (NewPoller (plc_ParamPollingInterval cfg) (fetchAndSaveParams fuel e)), MissedNotifications,
      PollerLoop (NewPoller (plc_ExpiryCheckerPollingInterval cfg) (checkExpiry e)),
      PollerLoop (NewPoller (plc_StatsPollingInterval cfg) (calculateAndUpdateStats e)), NewHeights s, BlockProcessor]"

definition ready_to_start :: "world \<Rightarrow> world \<times> process \<Rightarrow> bool" where
  "ready_to_start w0 = (\<lambda>(w, p). same w0 w \<and> ms_initialised (pr_metrics p) \<and> pr_goroutines p = [])"

definition checked :: "env \<Rightarrow> world \<Rightarrow> goroutine list \<Rightarrow> world \<times> process \<Rightarrow> bool" where
  "checked e w0 gs = (\<lambda>(w, p). kept w0 w \<and> reported e w \<and> (\<forall>info. w_network w0 = Some info \<longrightarrow> w_network w = Some info) \<and>
     ms_initialised (pr_metrics p) \<and> pr_goroutines p = gs)"

definition stopped :: "nat \<Rightarrow> env \<Rightarrow> PollerConfig \<Rightarrow> world \<Rightarrow> world \<times> process \<Rightarrow> bool" where
  "stopped fuel e cfg w0 = (\<lambda>(w, p). kept w0 w \<and>
     (pr_goroutines p = [] \<or> (\<exists>s n. checked e w0 (take n (goroutines_of fuel e cfg s)) (w, p))))"

lemma triple_go: "triple (checked e w0 gs) (go g) (\<lambda>_. checked e w0 (gs @ [g])) E"
  unfolding go_def by (rule triple_atomically) (auto simp: checked_def)

lemma triple_ask:
  assumes "\<And>w p. P (w, p) \<Longrightarrow> P (tick w, p)" "\<And>s. P s \<Longrightarrow> E s"
  shows "triple (\<lambda>w. P (w, p)) (ask f) (\<lambda>_ w. P (w, p)) (\<lambda>w. E (w, p))"
  using assms by (auto simp: triple_def split: result.splits)

lemma triple_call:
  assumes "\<And>w p. P (w, p) \<Longrightarrow> P (tick w, p)" "\<And>s. P s \<Longrightarrow> E s"
  shows "triple P (lift_prog (ask f)) (\<lambda>_. P) E"
  by (rule triple_lift_prog) (rule triple_ask [where P = P and E = E, OF assms])

lemma ready_tick: "ready_to_start w0 (w, p) \<Longrightarrow> ready_to_start w0 (tick w, p)"
  by (simp add: ready_to_start_def same_def tick_def)

lemma ready_stopped: "ready_to_start w0 s \<Longrightarrow> stopped fuel e cfg w0 s"
  by (auto simp: ready_to_start_def stopped_def intro: same_kept)

lemma checked_tick: "checked e w0 gs (w, p) \<Longrightarrow> checked e w0 gs (tick w, p)"
  by (simp add: checked_def kept_def reported_def tick_def)

lemma checked_stopped: "checked e w0 (take n (goroutines_of fuel e cfg s)) t \<Longrightarrow> stopped fuel e cfg w0 t"
  by (cases t) (auto simp: stopped_def checked_def)

lemma triple_network:
  "triple (ready_to_start w0) (lift_prog (fetchAndSaveNetworkInfo e)) (\<lambda>_. checked e w0 []) (stopped fuel e cfg w0)"
proof (rule triple_lift_prog)
  fix p
  have old: "preserves (\<lambda>w. \<forall>info. w_network w0 = Some info \<longrightarrow> w_network w = Some info) (try_network_info 3 e)"
    unfolding preserves_def using network_is_kept by blast
  have "triple (\<lambda>w. True \<and> kept w0 w \<and> (\<forall>info. w_network w0 = Some info \<longrightarrow> w_network w = Some info)) (try_network_info 3 e)
    (\<lambda>_ w. reported e w \<and> kept w0 w \<and> (\<forall>info. w_network w0 = Some info \<longrightarrow> w_network w = Some info))
    (\<lambda>w. True \<and> kept w0 w \<and> (\<forall>info. w_network w0 = Some info \<longrightarrow> w_network w = Some info))"
    by (intro triple_conj network_is_reported triple_preserves preserves_kept old)
  then have "triple (\<lambda>w. (kept w0 w \<and> (\<forall>info. w_network w0 = Some info \<longrightarrow> w_network w = Some info))) (fetchAndSaveNetworkInfo e)
    (\<lambda>_ w. reported e w \<and> kept w0 w \<and> (\<forall>info. w_network w0 = Some info \<longrightarrow> w_network w = Some info)) (kept w0)"
    unfolding fetchAndSaveNetworkInfo_def by (rule triple_weaken) simp_all
  from triple_weaken [OF this, where P' = "\<lambda>w. ready_to_start w0 (w, p)"] show
    "triple (\<lambda>w. ready_to_start w0 (w, p)) (fetchAndSaveNetworkInfo e) (\<lambda>x w. checked e w0 [] (w, p)) (\<lambda>w. stopped fuel e cfg w0 (w, p))"
  proof (cases "ms_initialised (pr_metrics p) \<and> pr_goroutines p = []")
    case True
    show ?thesis
      by (rule triple_weaken [OF \<open>triple _ (fetchAndSaveNetworkInfo e) _ (kept w0)\<close>])
        (use True in \<open>auto simp: ready_to_start_def checked_def stopped_def same_kept same_network\<close>)
  qed (auto simp: triple_def ready_to_start_def)
qed

text \<open>After the network has been checked, the goroutines are started one by one; the subscription may still fail.\<close>

lemma triple_subscribe:
  assumes "\<And>w p. P (w, p) \<Longrightarrow> P (tick w, p)" "\<And>s. P s \<Longrightarrow> E s"
  shows "triple P (lift_prog (SubscribeToBbnEvents ws now)) (\<lambda>_. P) E"
proof (rule triple_lift_prog)
  fix p
  show "triple (\<lambda>w. P (w, p)) (SubscribeToBbnEvents ws now) (\<lambda>_ w. P (w, p)) (\<lambda>w. E (w, p))"
    unfolding SubscribeToBbnEvents_def IsRunning_def Subscribe_def
    by (rule triple_andThen [OF triple_ask [where P = P and E = E, OF assms]])
      (auto simp del: andThen.simps intro!: triple_wrap_err triple_andThen [OF triple_wrap_err [OF triple_ask [where P = P and E = E, OF assms]]]
        triple_Done assms(2))
qed

lemma triple_start_sync:
  "triple (ready_to_start w0) (StartIndexerSync fuel e out cfg now)
    (\<lambda>_ s. \<exists>sub. checked e w0 (goroutines_of fuel e cfg sub) s) (stopped fuel e cfg w0)"
proof -
  have call: "triple (ready_to_start w0) (lift_prog (ask f)) (\<lambda>_. ready_to_start w0) (stopped fuel e cfg w0)" for f :: "nat \<Rightarrow> string + unit"
    by (rule triple_call) (simp_all add: ready_tick ready_stopped)
  let ?four = "((([] @ [PollerLoop (NewPoller (plc_ParamPollingInterval cfg) (fetchAndSaveParams fuel e))]) @ [MissedNotifications]) @
      [PollerLoop (NewPoller (plc_ExpiryCheckerPollingInterval cfg) (checkExpiry e))]) @
      [PollerLoop (NewPoller (plc_StatsPollingInterval cfg) (calculateAndUpdateStats e))]"
  have four: "checked e w0 ?four s \<Longrightarrow> stopped fuel e cfg w0 s" for s
    by (rule checked_stopped [where n = 4 and s = undefined]) (simp add: goroutines_of_def)
  show ?thesis
    unfolding StartIndexerSync_def SyncGlobalParams_def StartExpiryChecker_def StartStatsPoller_def outside_call_def Start_def
    by (rule triple_andThen [OF triple_wrap_err [OF call]], rule triple_andThen [OF triple_wrap_err [OF call]],
        rule triple_andThen [OF triple_wrap_err [OF call]], rule triple_andThen [OF triple_network],
        rule triple_andThen [OF triple_go], rule triple_andThen [OF triple_go], rule triple_andThen [OF triple_go],
        rule triple_andThen [OF triple_go],
        rule triple_andThen [OF triple_wrap_err [OF triple_subscribe [where P = "checked e w0 ?four" and E = "stopped fuel e cfg w0", OF checked_tick four]]], assumption, assumption,
        rule triple_andThen [OF triple_go], rule triple_weaken [OF triple_go], assumption)
      (auto simp: goroutines_of_def)
qed

section \<open>The program\<close>

lemma New_pollers:
  assumes "New lib read unmarshal cfgPath = Ok cfg"
  shows "positive (plc_ParamPollingInterval (c_Poller cfg)) \<and> positive (plc_ExpiryCheckerPollingInterval (c_Poller cfg)) \<and>
    positive (plc_StatsPollingInterval (c_Poller cfg))"
proof -
  obtain cfg0 where "Config_Validate lib cfg0 = Ok cfg" using assms by (auto simp: New_def)
  then obtain poller where "PollerConfig_Validate (c_Poller cfg0) = Ok poller" "cfg = cfg0\<lparr>c_Poller := poller\<rparr>"
    unfolding Config_Validate_Ok by blast
  with PollerConfig_Validate_Ok [OF this(1)] show ?thesis by simp
qed

definition fresh :: "world \<Rightarrow> world \<times> process \<Rightarrow> bool" where
  "fresh w0 = (\<lambda>(w, p). same w0 w \<and> pr_goroutines p = [])"

lemma fresh_tick: "fresh w0 (w, p) \<Longrightarrow> fresh w0 (tick w, p)"
  by (simp add: fresh_def same_def tick_def)

lemma triple_outside: "(\<And>s. fresh w0 s \<Longrightarrow> E s) \<Longrightarrow> triple (fresh w0) (outside_call f) (\<lambda>_. fresh w0) E"
  unfolding outside_call_def by (rule triple_call) (simp_all add: fresh_tick)

lemma triple_constructors:
  assumes "\<And>s. fresh w0 s \<Longrightarrow> E s"
  shows "triple (fresh w0) (db_New out dbCfg) (\<lambda>_. fresh w0) E" "triple (fresh w0) (NewBTCClient lib out btcCfg) (\<lambda>_. fresh w0) E"
    "triple (fresh w0) (NewBBNClient out bbnCfg) (\<lambda>_. fresh w0) E" "triple (fresh w0) (NewBTCNotifier out btcCfg hints) (\<lambda>_. fresh w0) E"
    "triple (fresh w0) (setup_db_model a) (\<lambda>_. fresh w0) E" "triple (fresh w0) NewService (\<lambda>_. fresh w0) E"
    "triple (fresh w0) (init_metrics port) (\<lambda>_. ready_to_start w0) E"
proof -
  have call: "triple (fresh w0) (outside_call f) (\<lambda>_. fresh w0) E" for f by (rule triple_outside) (rule assms)
  show "triple (fresh w0) (db_New out dbCfg) (\<lambda>_. fresh w0) E" "triple (fresh w0) (NewBBNClient out bbnCfg) (\<lambda>_. fresh w0) E"
    unfolding db_New_def NewBBNClient_def by (rule call, rule call)
  show "triple (fresh w0) (NewBTCClient lib out btcCfg) (\<lambda>_. fresh w0) E"
    unfolding NewBTCClient_def by (rule triple_andThen [OF triple_Done [where Q = "\<lambda>_. fresh w0"]]) (auto intro: assms call)
  have conn: "triple (fresh w0) (on_error (outside_call f) (\<lambda>err. throw err')) (\<lambda>_. fresh w0) E" for f err'
    by (rule triple_on_error [OF triple_outside]) (auto intro!: assms triple_Done)
  show "triple (fresh w0) (NewBTCNotifier out btcCfg hints) (\<lambda>_. fresh w0) E"
    unfolding NewBTCNotifier_def Let_def
    by (rule triple_andThen [OF triple_Done [where Q = "\<lambda>_. fresh w0"]])
      (auto simp del: andThen.simps intro!: assms triple_andThen [OF call] triple_andThen [OF conn] triple_Done)
  show "triple (fresh w0) (setup_db_model a) (\<lambda>_. fresh w0) E" "triple (fresh w0) NewService (\<lambda>_. fresh w0) E"
    unfolding setup_db_model_def NewService_def
    by (rule triple_atomically, use assms in \<open>auto simp: fresh_def same_def split: prod.splits result.splits\<close>)+
  have init: "fst (Init port st) = Ok () \<Longrightarrow> ms_initialised (snd (Init port st))" for st
    by (auto simp: Init_def initMetricsRouter_def registerMetrics_def split: if_splits)
  show "triple (fresh w0) (init_metrics port) (\<lambda>_. ready_to_start w0) E"
    unfolding init_metrics_def
  proof (rule triple_atomically)
    fix s assume s: "fresh w0 s"
    obtain w p where wp: "s = (w, p)" by fastforce
    obtain r st where r: "Init port (pr_metrics p) = (r, st)" by fastforce
    from s wp have "fresh w0 (w, p\<lparr>pr_metrics := st\<rparr>)" by (simp add: fresh_def)
    with s wp r init [of "pr_metrics p"] show "case (case s of (w, p) \<Rightarrow> let (r, st) = Init port (pr_metrics p) in (r, w, p\<lparr>pr_metrics := st\<rparr>)) of
        (Ok x, s') \<Rightarrow> ready_to_start w0 s' | (Err err, s') \<Rightarrow> E s' | (Panic msg, s') \<Rightarrow> E s'"
      by (cases r) (simp_all add: assms ready_to_start_def fresh_def)
  qed
qed

text \<open>Whenever goroutines run, they are the first of those that the service starts, and everything has been checked.\<close>

definition sound_start :: "'q Config result \<Rightarrow> nat \<Rightarrow> env \<Rightarrow> world \<Rightarrow> world \<times> process \<Rightarrow> bool" where
  "sound_start config fuel e w0 = (\<lambda>(w, p). kept w0 w \<and> (pr_goroutines p = [] \<or>
     (\<exists>cfg s n. config = Ok cfg \<and> checked e w0 (take n (goroutines_of fuel (configured cfg e) (c_Poller cfg) s)) (w, p))))"

lemma fresh_sound: "fresh w0 s \<Longrightarrow> sound_start config fuel e w0 s"
  by (auto simp: fresh_def sound_start_def same_kept)

lemma reported_configured: "checked (configured cfg e) w0 gs s = checked e w0 gs s"
  by (simp add: checked_def reported_def configured_def)

lemma triple_server:
  "triple (fresh w0) (start_server lib read unmarshal cfgPath a out fuel e now)
    (\<lambda>_ s. \<exists>cfg sub. New lib read unmarshal cfgPath = Ok cfg \<and>
       checked e w0 (goroutines_of fuel (configured cfg e) (c_Poller cfg) sub) s)
    (sound_start (New lib read unmarshal cfgPath) fuel e w0)"
proof -
  let ?config = "New lib read unmarshal cfgPath"
  let ?E = "sound_start ?config fuel e w0"
  note steps = triple_constructors [of w0 ?E, OF fresh_sound]
  have start: "triple (ready_to_start w0) (StartIndexerSync fuel (configured cfg e) out (c_Poller cfg) now)
      (\<lambda>_ s. \<exists>cfg sub. ?config = Ok cfg \<and> checked e w0 (goroutines_of fuel (configured cfg e) (c_Poller cfg) sub) s) ?E"
    if "?config = Ok cfg" for cfg
    by (rule triple_weaken [OF triple_start_sync])
      (use that in \<open>auto simp: reported_configured stopped_def sound_start_def\<close>)
  show ?thesis
    unfolding start_server_def
    apply (rule triple_andThen [OF triple_fatal [OF triple_Done [where Q = "\<lambda>cfg s. ?config = Ok cfg \<and> fresh w0 s"]]], blast, erule fresh_sound)
    apply (rule triple_assume)
    apply (rule triple_andThen [OF triple_fatal [OF steps(5)]], assumption)
    apply (rule triple_andThen [OF triple_fatal [OF steps(1)]], assumption)
    apply (rule triple_andThen [OF triple_fatal [OF triple_outside]], erule fresh_sound)
    apply (rule triple_andThen [OF triple_fatal [OF triple_outside]], erule fresh_sound)
    apply (rule triple_andThen [OF triple_fatal [OF steps(2)]], assumption)
    apply (rule triple_andThen [OF triple_fatal [OF steps(3)]], assumption)
    apply (rule triple_andThen [OF triple_fatal [OF steps(4)]], assumption)
    apply (rule triple_andThen [OF steps(6)], assumption)
    apply (rule triple_andThen [OF steps(7)], assumption)
    apply (rule triple_fatal)
    apply (erule start)
    done
qed

lemma all_started:
  assumes "config = Ok cfg" "checked e w0 (goroutines_of fuel (configured cfg e) (c_Poller cfg) sub) (w, p)"
  shows "sound_start config fuel e w0 (w, p) \<and> length (pr_goroutines p) = 6"
proof -
  have "take 6 (goroutines_of fuel (configured cfg e) (c_Poller cfg) sub) = goroutines_of fuel (configured cfg e) (c_Poller cfg) sub"
    by (simp add: goroutines_of_def)
  then have "checked e w0 (take 6 (goroutines_of fuel (configured cfg e) (c_Poller cfg) sub)) (w, p)" using assms(2) by simp
  moreover have "kept w0 w" "length (pr_goroutines p) = 6" using assms(2) by (auto simp: checked_def goroutines_of_def)
  ultimately show ?thesis using assms(1) unfolding sound_start_def by blast
qed

section \<open>What has been checked\<close>

text \<open>
  C29. Nothing runs unchecked. Whatever fails on the way, the start changes nothing of the databases but the stored
  network; if it has started any goroutine, then the command line asked for no backfill, the configuration was accepted, the metrics are initialised (so
  that no recording meets a nil variable), the network in the database is one that the Babylon node reported and
  equals the one that was stored before, every poller has a positive interval, and the goroutines are the first of the
  six of the service, in their order. When the start succeeds, all six run.
\<close>

theorem nothing_runs_unchecked:
  assumes "run (main lib read unmarshal cli a out fuel e now) (w0, p0) = (r, (w, p))" "pr_goroutines p0 = []"
  shows "kept w0 w \<and> (pr_goroutines p \<noteq> [] \<longrightarrow>
     (\<exists>found cfg s n. Setup_cli cli = Ok found \<and> inv_fill found = None \<and>
        New lib read unmarshal (GetConfigPath found) = Ok cfg \<and>
        pr_goroutines p = take n (goroutines_of fuel (configured cfg e) (c_Poller cfg) s)) \<and>
     (\<forall>poller. PollerLoop poller \<in> set (pr_goroutines p) \<longrightarrow> 0 < sint (po_interval poller)) \<and>
     ms_initialised (pr_metrics p) \<and>
     (\<exists>c t h. rpc_Status e t = Inr (c, h) \<and> w_network w = Some \<lparr>ni_ChainID = c\<rparr> \<and>
        (\<forall>info. w_network w0 = Some info \<longrightarrow> ni_ChainID info = c))) \<and>
   (r = Ok () \<longrightarrow> length (pr_goroutines p) = 6 \<or> (\<exists>found. Setup_cli cli = Ok found \<and> inv_fill found \<noteq> None))"
proof (cases "\<exists>found. Setup_cli cli = Ok found \<and> inv_fill found = None")
  case False
  then have "run (main lib read unmarshal cli a out fuel e now) (w0, p0) =
      ((case Setup_cli cli of Ok found \<Rightarrow> Ok () | Err err \<Rightarrow> Panic ''error while setting up cli'' | Panic msg \<Rightarrow> Panic msg), (w0, p0))"
    by (cases "Setup_cli cli") (auto simp: main_def fatal_def)
  then show ?thesis using assms False by (cases "Setup_cli cli") (auto simp: kept_def)
next
  case True
  then obtain found where found: "Setup_cli cli = Ok found" "inv_fill found = None" by blast
  let ?config = "New lib read unmarshal (GetConfigPath found)"
  have server: "run (start_server lib read unmarshal (GetConfigPath found) a out fuel e now) (w0, p0) = (r, (w, p))"
    using assms(1) by (simp add: main_def fatal_def found)
  have "fresh w0 (w0, p0)" using assms(2) by (simp add: fresh_def same_def)
  from triple_server [of w0 lib read unmarshal "GetConfigPath found" a out fuel e now, unfolded triple_def, rule_format, OF this] server
  have final: "sound_start ?config fuel e w0 (w, p) \<and> (r = Ok () \<longrightarrow> length (pr_goroutines p) = 6)"
    by (cases r) (use all_started in \<open>fastforce+\<close>)
  show ?thesis
  proof (cases "pr_goroutines p = []")
    case False
    with final obtain cfg s n where cfg: "?config = Ok cfg"
      and c: "checked e w0 (take n (goroutines_of fuel (configured cfg e) (c_Poller cfg) s)) (w, p)"
      by (auto simp: sound_start_def)
    have gs: "pr_goroutines p = take n (goroutines_of fuel (configured cfg e) (c_Poller cfg) s)"
      and rest: "reported e w" "\<forall>info. w_network w0 = Some info \<longrightarrow> w_network w = Some info" "ms_initialised (pr_metrics p)"
      using c unfolding checked_def by blast+
    have pollers: "\<forall>poller. PollerLoop poller \<in> set (pr_goroutines p) \<longrightarrow> 0 < sint (po_interval poller)"
    proof (intro allI impI)
      fix poller assume "PollerLoop poller \<in> set (pr_goroutines p)"
      then have "PollerLoop poller \<in> set (goroutines_of fuel (configured cfg e) (c_Poller cfg) s)"
        unfolding gs by (rule in_set_takeD)
      then show "0 < sint (po_interval poller)" using New_pollers [OF cfg] by (auto simp: goroutines_of_def NewPoller_def positive_def)
    qed
    obtain chain t h where chain: "rpc_Status e t = Inr (chain, h)" "w_network w = Some \<lparr>ni_ChainID = chain\<rparr>"
      using rest(1) unfolding reported_def by blast
    have "\<forall>info. w_network w0 = Some info \<longrightarrow> ni_ChainID info = chain" using rest(2) chain(2) by auto
    then show ?thesis using final cfg gs pollers rest(3) chain found unfolding sound_start_def by blast
  qed (use final in \<open>auto simp: sound_start_def\<close>)
qed

definition sample_outside :: "unit outside" where
  "sample_outside = \<lparr>out_ws = \<lparr>ws_IsRunning = (\<lambda>t. True), ws_Start = (\<lambda>t. None), ws_Subscribe = (\<lambda>t subscriber query. Inr t),
       ws_Unsubscribe = (\<lambda>t subscriber query. None), ws_UnsubscribeAll = (\<lambda>t subscriber. None)\<rparr>,
     out_mongo_Connect = (\<lambda>t cfg. None), out_NewProduction = (\<lambda>t. None),
     out_NewQueueManager = (\<lambda>t cfg. None), out_queue_Start = (\<lambda>t. None), out_rpcclient_New = (\<lambda>t cfg. None),
     out_query_New = (\<lambda>t addr timeout. None), out_NewBitcoindConn = (\<lambda>t cfg. None), out_conn_Start = (\<lambda>t. None),
     out_notifier_Start = (\<lambda>t. None)\<rparr>"

definition sample_cli :: cli_library where
  "sample_cli = \<lparr>cli_UserHomeDir = Inr ''/root/'', cli_Execute = (\<lambda>path. Inr \<lparr>inv_config = path, inv_fill = None\<rparr>)\<rparr>"

lemma sample_cli_path: "Setup_cli sample_cli = Ok \<lparr>inv_config = ''/root/config.yml'', inv_fill = None\<rparr>"
  by code_simp

abbreviation sample_main :: "unit startup" where
  "sample_main \<equiv> main sample_lib Inr (\<lambda>raw. Inr sample_config) sample_cli sample_admin sample_outside 5 sample_env 0"

definition first_process :: process where
  "first_process = \<lparr>pr_catalog = empty_catalog, pr_metrics = no_metrics, pr_goroutines = []\<rparr>"

text \<open>The constructors succeed one after the other, and so does the service.\<close>

lemma run_outside [simp]: "f (w_clock w) = None \<Longrightarrow> run (outside_call f) (w, p) = (Ok (), (tick w, p))"
  by (simp add: outside_call_def run_lift)

lemma run_fatal: "run (fatal msg p) s = (case run p s of (Ok x, s') \<Rightarrow> (Ok x, s') | (Err err, s') \<Rightarrow> (Panic msg, s') | (Panic m, s') \<Rightarrow> (Panic m, s'))"
  by (auto simp: fatal_def run_on_error split: prod.splits result.splits)

lemma run_network:
  assumes "mongo_fault e = (\<lambda>t. None)" "\<forall>t. rpc_Status e t = Inr (c, h)" "w_network w = None"
  shows "\<exists>w'. run (fetchAndSaveNetworkInfo e) w = (Ok (), w')"
proof -
  have chain: "run (GetChainID e) v = (Ok c, tick v)" for v
    unfolding GetChainID_def getStatus_def run_andThen run_wrap_err
    by (subst run_client_call_Ok [where x = "(c, h)" and w' = "tick v"]) (simp_all add: assms(2))
  show ?thesis
    using assms(1,3)
    by (simp add: fetchAndSaveNetworkInfo_def numeral_3_eq_3 chain GetNetworkInfo_def UpsertNetworkInfo_def Let_def)
qed

lemma sample_sync:
  assumes "w_network w = None"
  shows "\<exists>s'. run (StartIndexerSync 5 (configured sample_validated sample_env) sample_outside (c_Poller sample_validated) 0) (w, p) = (Ok (), s')"
proof -
  have "\<exists>w'. run (fetchAndSaveNetworkInfo (configured sample_validated sample_env)) (tick (tick (tick w))) = (Ok (), w')"
    by (rule run_network) (simp_all add: configured_def sample_env_def assms)
  then obtain w' where w': "run (fetchAndSaveNetworkInfo (configured sample_validated sample_env)) (tick (tick (tick w))) = (Ok (), w')" ..
  show ?thesis
    by (simp add: StartIndexerSync_def Start_def run_lift sample_outside_def w' SyncGlobalParams_def StartExpiryChecker_def
        StartStatsPoller_def go_def SubscribeToBbnEvents_def IsRunning_def Subscribe_def)
qed

lemma sample_metrics: "\<exists>st'. Init port no_metrics = (Ok (), st')"
  by (simp add: Init_def initMetricsRouter_def registerMetrics_def no_metrics_def registered_metrics_def)

lemma sample_main_Ok: "\<exists>s'. run sample_main (initial_world, first_process) = (Ok (), s')"
proof -
  have connect: "ad_Connect sample_admin (cat_clock empty_catalog) = None" by (simp add: sample_admin_def)
  obtain c where created: "run (Setup sample_admin) empty_catalog = (Ok (), c)"
    using run_Setup [OF sample_admin_ok(1) connect] by blast
  have accepted: "New sample_lib Inr (\<lambda>raw. Inr sample_config) ''/root/config.yml'' = Ok sample_validated"
    using sample_config_accepted by (simp add: New_def sample_lib_def)
  obtain conn where conn: "ToConnConfig sample_lib (c_BTC sample_validated) = Ok conn"
    by (auto simp: ToConnConfig_def sample_validated_def sample_config_def GetBTCParams_def)
  obtain params where params: "GetBTCParams (btcc_NetParams (c_BTC sample_validated)) = Ok params"
    by (auto simp: sample_validated_def sample_config_def GetBTCParams_def)
  obtain st where st: "Init (GetMetricsPort (c_Metrics sample_validated)) no_metrics = (Ok (), st)"
    using sample_metrics by blast
  have calls: "run (db_New sample_outside dbc) (w, p) = (Ok (), (tick w, p))"
    "run (outside_call (out_NewProduction sample_outside)) (w, p) = (Ok (), (tick w, p))"
    "run (outside_call (\<lambda>t. out_NewQueueManager sample_outside t q)) (w, p) = (Ok (), (tick w, p))"
    "run (NewBTCClient sample_lib sample_outside (c_BTC sample_validated)) (w, p) = (Ok (), (tick w, p))"
    "run (NewBBNClient sample_outside bbc) (w, p) = (Ok (), (tick w, p))" for w p dbc q bbc
    by (simp_all add: db_New_def NewBTCClient_def NewBBNClient_def sample_outside_def conn)
  obtain ntf where ntf: "run (NewBTCNotifier sample_outside (c_BTC sample_validated) EmptyHintCache) (w, p) = (Ok ntf, (tick (tick w), p))" for w p
    by (simp add: NewBTCNotifier_def sample_outside_def params Let_def run_on_error)
  let ?w = "(tick (tick (tick (tick (tick (tick (tick initial_world)))))))\<lparr>w_params_version := 0\<rparr>"
  let ?p = "first_process\<lparr>pr_catalog := c, pr_metrics := st\<rparr>"
  have "w_network ?w = None" by (simp add: initial_world_def)
  from sample_sync [OF this, of ?p] obtain s' where
    sync: "run (StartIndexerSync 5 (configured sample_validated sample_env) sample_outside (c_Poller sample_validated) 0) (?w, ?p) = (Ok (), s')" ..
  have "run sample_main (initial_world, first_process) =
      run (fatal ''error while starting indexer sync''
        (StartIndexerSync 5 (configured sample_validated sample_env) sample_outside (c_Poller sample_validated) 0)) (?w, ?p)"
    by (simp add: main_def start_server_def GetConfigPath_def sample_cli_path run_fatal calls ntf accepted created setup_db_model_def
        NewService_def init_metrics_def st first_process_def)
  then show ?thesis using sync by (simp add: run_fatal)
qed

theorem nothing_runs_unchecked_witness:
  "(let (r, (w, p)) = run sample_main (initial_world, first_process) in r = Ok () \<and> length (pr_goroutines p) = 6)"
proof -
  obtain w p where run: "run sample_main (initial_world, first_process) = (Ok (), (w, p))" using sample_main_Ok by fastforce
  have start: "pr_goroutines first_process = []" by (simp add: first_process_def)
  from nothing_runs_unchecked [OF run start] run show ?thesis by (simp add: sample_cli_path)

qed

end
