(* ===== verification/Http_Client.thy ===== *)
theory Http_Client
  imports Metrics
begin

text \<open>
  \<^verbatim>\<open>internal/clients/base/base_client.go\<close> and the error type of \<^verbatim>\<open>internal/types/error.go\<close>: one request of the generic
  HTTP client, the classification of its outcome and its measuring. The encoding of JSON and the transport of the
  standard library are parameters.
\<close>

section \<open>Errors with a status\<close>

definition InternalServiceError :: string where "InternalServiceError = ''INTERNAL_SERVICE_ERROR''"
definition BadRequest :: string where "BadRequest = ''BAD_REQUEST''"
definition RequestTimeout :: string where "RequestTimeout = ''REQUEST_TIMEOUT''"

record api_error =
  te_Err :: error
  te_StatusCode :: nat
  te_ErrorCode :: string

definition StatusOK :: nat where "StatusOK = 200"
definition StatusBadRequest :: nat where "StatusBadRequest = 400"
definition StatusRequestTimeout :: nat where "StatusRequestTimeout = 408"
definition StatusInternalServerError :: nat where "StatusInternalServerError = 500"
definition UninitializedStatusCode :: nat where "UninitializedStatusCode = 0"

definition newError :: "nat \<Rightarrow> string \<Rightarrow> error \<Rightarrow> api_error" where
  "newError statusCode errorCode err =
     \<lparr>te_Err = err,
      te_StatusCode = (if statusCode = UninitializedStatusCode then StatusInternalServerError else statusCode),
      te_ErrorCode = (if errorCode = '''' then InternalServiceError else errorCode)\<rparr>"

definition NewErrorWithMsg :: "nat \<Rightarrow> string \<Rightarrow> string \<Rightarrow> api_error" where
  "NewErrorWithMsg statusCode errorCode msg = newError statusCode errorCode (OtherError msg)"

definition NewInternalServiceError :: "error \<Rightarrow> api_error" where
  "NewInternalServiceError err =
     \<lparr>te_Err = err, te_StatusCode = StatusInternalServerError, te_ErrorCode = InternalServiceError\<rparr>"

section \<open>The client\<close>

definition allowedMethods :: "string list" where
  "allowedMethods = [''GET'', ''POST'', ''PUT'', ''DELETE'', ''PATCH'', ''OPTIONS'']"

definition isAllowedMethod :: "string \<Rightarrow> bool" where
  "isAllowedMethod method = list_ex (\<lambda>allowedMethod. method = allowedMethod) allowedMethods"

record BaseHttpClient =
  hc_GetBaseURL :: string
  hc_GetDefaultRequestTimeout :: i64

record BaseClientOptions =
  co_Timeout :: i64
  co_Path :: string
  co_TemplatePath :: string
  co_Headers :: "(string \<times> string) list"

text \<open>The headers are listed in the order in which they are set.\<close>

record http_request =
  rq_Method :: string
  rq_URL :: string
  rq_Body :: "string option"
  rq_Headers :: "(string \<times> string) list"
  rq_Timeout :: i64

datatype context_error = DeadlineExceeded | Canceled

text \<open>
  \<open>hl_Do\<close> answers with an error or with a status and a body; \<open>hl_Err\<close> is the error of the caller's context when the
  call has come back.
\<close>

record ('i, 'r) http_lib =
  hl_Marshal :: "'i \<Rightarrow> string option"
  hl_NewRequest :: "string \<Rightarrow> string \<Rightarrow> string option"
  hl_Do :: "nat \<Rightarrow> http_request \<Rightarrow> string + nat \<times> string"
  hl_Err :: "nat \<Rightarrow> context_error option"
  hl_Decode :: "string \<Rightarrow> 'r option"

definition Millisecond :: i64 where "Millisecond = 1000000"

text \<open>Durations are already in nanoseconds; the product wraps around.\<close>

definition request_timeout :: "BaseHttpClient \<Rightarrow> BaseClientOptions \<Rightarrow> i64" where
  "request_timeout client opts = (if co_Timeout opts \<noteq> 0 then co_Timeout opts else hc_GetDefaultRequestTimeout client)"

definition show_int :: "int \<Rightarrow> string" where
  "show_int n = (if n < 0 then ''-'' @ decimal (nat (- n)) else decimal (nat n))"

definition response_outcome ::
  "('i, 'r) http_lib \<Rightarrow> i64 \<Rightarrow> string \<Rightarrow> string + nat \<times> string \<Rightarrow> context_error option \<Rightarrow> api_error + 'r" where
  "response_outcome lib timeout url answer ctxErr =
     (case answer of
        Inl msg \<Rightarrow>
          if ctxErr = Some DeadlineExceeded \<or> msg = ''context canceled''
          then Inl (NewErrorWithMsg StatusRequestTimeout RequestTimeout
                 (''request timeout after '' @ show_int (sint timeout) @ '' ms at '' @ url))
          else Inl (NewErrorWithMsg StatusInternalServerError InternalServiceError (''failed to send request to '' @ url))
      | Inr (statusCode, body) \<Rightarrow>
          if statusCode \<ge> StatusInternalServerError
          then Inl (NewErrorWithMsg statusCode InternalServiceError (''internal server error when calling '' @ url))
          else if statusCode \<ge> StatusBadRequest
          then Inl (NewErrorWithMsg statusCode BadRequest (''client error when calling '' @ url))
          else case hl_Decode lib body of
            None \<Rightarrow> Inl (NewErrorWithMsg StatusInternalServerError InternalServiceError (''failed to decode response from '' @ url))
          | Some out \<Rightarrow> Inr out)"

text \<open>Only POST and PUT send the input.\<close>

definition request_body :: "('i, 'r) http_lib \<Rightarrow> string \<Rightarrow> 'i option \<Rightarrow> api_error + string option" where
  "request_body lib method input =
     (case input of
        Some i \<Rightarrow>
          if method = ''POST'' \<or> method = ''PUT''
          then (case hl_Marshal lib i of
                  None \<Rightarrow> Inl (NewErrorWithMsg StatusInternalServerError InternalServiceError ''failed to marshal request body'')
                | Some body \<Rightarrow> Inr (Some body))
          else Inr None
      | None \<Rightarrow> Inr None)"

definition request_of :: "BaseHttpClient \<Rightarrow> string \<Rightarrow> BaseClientOptions \<Rightarrow> string option \<Rightarrow> http_request" where
  "request_of client method opts body =
     \<lparr>rq_Method = method, rq_URL = hc_GetBaseURL client @ co_Path opts, rq_Body = body, rq_Headers = co_Headers opts,
      rq_Timeout = request_timeout client opts * Millisecond\<rparr>"

definition sendRequest ::
  "('i, 'r) http_lib \<Rightarrow> BaseHttpClient \<Rightarrow> string \<Rightarrow> BaseClientOptions \<Rightarrow> 'i option \<Rightarrow> (nat, api_error + 'r) prog" where
  "sendRequest lib client method opts input =
     (if \<not> isAllowedMethod method
      then ret (Inl (NewInternalServiceError (OtherError (''method '' @ method @ '' is not allowed''))))
      else let url = hc_GetBaseURL client @ co_Path opts; timeout = request_timeout client opts in
        case request_body lib method input of
          Inl err \<Rightarrow> ret (Inl err)
        | Inr body \<Rightarrow> (case hl_NewRequest lib method url of
            Some msg \<Rightarrow> ret (Inl (NewErrorWithMsg StatusInternalServerError InternalServiceError msg))
          | None \<Rightarrow> atomically (\<lambda>t.
              (Ok (response_outcome lib timeout url (hl_Do lib t (request_of client method opts body)) (hl_Err lib t)), Suc t))))"

text \<open>The request with its timer.\<close>

definition SendRequest ::
  "('i, 'r) http_lib \<Rightarrow> BaseHttpClient \<Rightarrow> string \<Rightarrow> BaseClientOptions \<Rightarrow> 'i option \<Rightarrow> (nat \<times> monitor, api_error + 'r) prog" where
  "SendRequest lib client method opts input =
     andThen Now (\<lambda>startTime.
     let timer = StartClientRequestDurationTimer startTime (hc_GetBaseURL client) method (co_TemplatePath opts) in
     andThen (lift_prog (sendRequest lib client method opts input)) (\<lambda>result.
     andThen Now (\<lambda>endTime.
     case result of
       Inl err \<Rightarrow> andThen (record_metric (timer endTime (te_StatusCode err))) (\<lambda>_. ret (Inl err))
     | Inr out \<Rightarrow> andThen (record_metric (timer endTime StatusOK)) (\<lambda>_. ret (Inr out)))))"

section \<open>The classification of the outcomes\<close>

text \<open>The status and the code of an error fit together.\<close>

definition classified :: "api_error \<Rightarrow> bool" where
  "classified err \<longleftrightarrow>
     te_ErrorCode err = InternalServiceError \<and> 500 \<le> te_StatusCode err \<or>
     te_ErrorCode err = BadRequest \<and> 400 \<le> te_StatusCode err \<and> te_StatusCode err < 500 \<or>
     te_ErrorCode err = RequestTimeout \<and> te_StatusCode err = 408"

lemmas status_codes = StatusOK_def StatusBadRequest_def StatusRequestTimeout_def StatusInternalServerError_def UninitializedStatusCode_def
lemmas error_codes = InternalServiceError_def BadRequest_def RequestTimeout_def

lemma classified_new:
  "classified (NewInternalServiceError err)" "classified (NewErrorWithMsg StatusInternalServerError InternalServiceError msg)"
  "classified (NewErrorWithMsg StatusRequestTimeout RequestTimeout msg)"
  "500 \<le> status \<Longrightarrow> classified (NewErrorWithMsg status InternalServiceError msg)"
  "400 \<le> status \<Longrightarrow> status < 500 \<Longrightarrow> classified (NewErrorWithMsg status BadRequest msg)"
  by (simp_all add: classified_def NewInternalServiceError_def NewErrorWithMsg_def newError_def status_codes error_codes)

lemma classified_outcome: "response_outcome lib timeout url answer ctxErr = Inl err \<Longrightarrow> classified err"
  by (auto simp: response_outcome_def classified_new status_codes split: sum.splits if_splits option.splits)
     (auto simp: classified_def NewErrorWithMsg_def newError_def status_codes error_codes)

lemma timeout_outcome:
  "response_outcome lib timeout url answer ctxErr = Inl err \<Longrightarrow> te_ErrorCode err = RequestTimeout \<Longrightarrow>
    ctxErr = Some DeadlineExceeded \<or> answer = Inl ''context canceled''"
  by (auto simp: response_outcome_def NewErrorWithMsg_def newError_def status_codes error_codes split: sum.splits if_splits option.splits)

lemma success_outcome:
  "response_outcome lib timeout url answer ctxErr = Inr out \<Longrightarrow>
    \<exists>code body. answer = Inr (code, body) \<and> code < 400 \<and> hl_Decode lib body = Some out"
  by (auto simp: response_outcome_def status_codes split: sum.splits if_splits option.splits)

text \<open>Errors before anything is sent.\<close>

lemma early_errors:
  "te_ErrorCode (NewInternalServiceError err) \<noteq> RequestTimeout"
  "te_ErrorCode (NewErrorWithMsg StatusInternalServerError InternalServiceError msg) \<noteq> RequestTimeout"
  by (simp_all add: NewInternalServiceError_def NewErrorWithMsg_def newError_def error_codes)

lemma request_body_error:
  "request_body lib method input = Inl err \<Longrightarrow> classified err \<and> te_ErrorCode err \<noteq> RequestTimeout"
  by (auto simp: request_body_def classified_new early_errors split: option.splits if_splits)

lemma run_sendRequest:
  "\<exists>outcome t'. run (sendRequest lib client method opts input) t = (Ok outcome, t') \<and> t \<le> t' \<and> t' \<le> Suc t \<and>
    (\<forall>err. outcome = Inl err \<longrightarrow> classified err \<and> (te_ErrorCode err = RequestTimeout \<longrightarrow>
       hl_Err lib t = Some DeadlineExceeded \<or> (\<exists>rq. hl_Do lib t rq = Inl ''context canceled''))) \<and>
    (\<forall>out. outcome = Inr out \<longrightarrow> isAllowedMethod method \<and> t' = Suc t \<and>
      (\<exists>rq code body. rq_Method rq = method \<and> rq_URL rq = hc_GetBaseURL client @ co_Path opts \<and>
        hl_Do lib t rq = Inr (code, body) \<and> code < 400 \<and> hl_Decode lib body = Some out))"
proof (cases "isAllowedMethod method \<and> (\<exists>body. request_body lib method input = Inr body) \<and>
    hl_NewRequest lib method (hc_GetBaseURL client @ co_Path opts) = None")
  case True
  then obtain body where body: "request_body lib method input = Inr body" by blast
  let ?rq = "request_of client method opts body"
  let ?out = "response_outcome lib (request_timeout client opts) (hc_GetBaseURL client @ co_Path opts) (hl_Do lib t ?rq) (hl_Err lib t)"
  have "rq_Method ?rq = method" "rq_URL ?rq = hc_GetBaseURL client @ co_Path opts" by (simp_all add: request_of_def)
  moreover have "run (sendRequest lib client method opts input) t =
      (Ok (response_outcome lib (request_timeout client opts) (hc_GetBaseURL client @ co_Path opts) (hl_Do lib t ?rq) (hl_Err lib t)), Suc t)"
    using True body by (simp add: sendRequest_def Let_def)
  moreover have "classified err \<and> (te_ErrorCode err = RequestTimeout \<longrightarrow>
      hl_Err lib t = Some DeadlineExceeded \<or> (\<exists>rq. hl_Do lib t rq = Inl ''context canceled''))" if "?out = Inl err" for err
    using that classified_outcome timeout_outcome by blast
  moreover have "\<exists>code body. hl_Do lib t ?rq = Inr (code, body) \<and> code < 400 \<and> hl_Decode lib body = Some out"
    if "?out = Inr out" for out
    using success_outcome [OF that] by blast
  moreover have "t \<le> Suc t" "Suc t \<le> Suc t" by simp_all
  ultimately show ?thesis using True by (intro exI [of _ ?out] exI [of _ "Suc t"]) blast
next
  case False
  then show ?thesis
    by (auto simp: sendRequest_def Let_def classified_new early_errors dest: request_body_error split: sum.splits option.splits)
qed

text \<open>The timer records when its labels are valid, and panics otherwise.\<close>

lemma run_request_timer:
  assumes "ms_initialised st"
  shows "StartClientRequestDurationTimer startTime (hc_GetBaseURL client) method (co_TemplatePath opts) endTime status st =
    (if list_all ValidString [hc_GetBaseURL client, method, co_TemplatePath opts]
     then (Ok (), st\<lparr>ms_updates := ms_updates st @
       [(ClientRequestDurationHistogram, [hc_GetBaseURL client, method, co_TemplatePath opts, decimal status], Observe (endTime - startTime))]\<rparr>)
     else (Panic ''label value is not valid UTF-8'', st))"
  using assms by (simp add: StartClientRequestDurationTimer_def update_metric_def)

text \<open>
  C38. Every outcome of a request is classified: no request is retried, one observation is recorded for
  it, with the status 200 for a result and with the status of the error otherwise; the status and the code of an error
  fit together, so that a recorded status below 400 is a success. A result comes from a sent request with an allowed method whose answer
  has a status below 400 and can be decoded. A timeout is reported only when the caller's own context has passed its
  deadline, or for the bare error of a cancelled context: the timeout that the client sets itself shows as an
  internal error. No request panics, unless the base URL, the method or the template path is not valid UTF-8: then the
  recording panics after the answer has come, whatever it was.
\<close>

theorem requests_are_classified:
  assumes "ms_initialised (mn_metrics m)"
  shows "\<exists>outcome status t' m'. run (SendRequest lib client method opts input) (t, m) =
      (if list_all ValidString [hc_GetBaseURL client, method, co_TemplatePath opts] then Ok outcome
       else Panic ''label value is not valid UTF-8'', (t', m')) \<and>
    t \<le> t' \<and> t' \<le> Suc t \<and>
    ms_updates (mn_metrics m') = ms_updates (mn_metrics m) @
      (if list_all ValidString [hc_GetBaseURL client, method, co_TemplatePath opts]
       then [(ClientRequestDurationHistogram, [hc_GetBaseURL client, method, co_TemplatePath opts, decimal status],
         Observe (mn_now m (Suc (mn_reads m)) - mn_now m (mn_reads m)))] else []) \<and>
    (\<forall>err. outcome = Inl err \<longrightarrow> classified err \<and> te_StatusCode err = status \<and>
      (te_ErrorCode err = RequestTimeout \<longrightarrow> hl_Err lib t = Some DeadlineExceeded \<or>
         (\<exists>rq. hl_Do lib t rq = Inl ''context canceled''))) \<and>
    (\<forall>out. outcome = Inr out \<longrightarrow> status = 200 \<and> isAllowedMethod method \<and> t' = Suc t \<and>
      (\<exists>rq code body. rq_Method rq = method \<and> rq_URL rq = hc_GetBaseURL client @ co_Path opts \<and>
        hl_Do lib t rq = Inr (code, body) \<and> code < 400 \<and> hl_Decode lib body = Some out))"
proof -
  obtain outcome t' where send: "run (sendRequest lib client method opts input) t = (Ok outcome, t')" "t \<le> t'" "t' \<le> Suc t"
    "\<forall>err. outcome = Inl err \<longrightarrow> classified err \<and> (te_ErrorCode err = RequestTimeout \<longrightarrow>
       hl_Err lib t = Some DeadlineExceeded \<or> (\<exists>rq. hl_Do lib t rq = Inl ''context canceled''))"
    "\<forall>out. outcome = Inr out \<longrightarrow> isAllowedMethod method \<and> t' = Suc t \<and>
      (\<exists>rq code body. rq_Method rq = method \<and> rq_URL rq = hc_GetBaseURL client @ co_Path opts \<and>
        hl_Do lib t rq = Inr (code, body) \<and> code < 400 \<and> hl_Decode lib body = Some out)"
    using run_sendRequest [of lib client "method" "opts" input t] by (elim exE conjE) (rule that, assumption+)
  let ?valid = "list_all ValidString [hc_GetBaseURL client, method, co_TemplatePath opts]"
  let ?status = "case outcome of Inl err \<Rightarrow> te_StatusCode err | Inr out \<Rightarrow> 200"
  let ?new = "if ?valid then [(ClientRequestDurationHistogram, [hc_GetBaseURL client, method, co_TemplatePath opts, decimal ?status],
        Observe (mn_now m (Suc (mn_reads m)) - mn_now m (mn_reads m)))] else []"
  let ?m = "m\<lparr>mn_reads := Suc (Suc (mn_reads m)),
      mn_metrics := (mn_metrics m)\<lparr>ms_updates := ms_updates (mn_metrics m) @ ?new\<rparr>\<rparr>"
  have "run (SendRequest lib client method opts input) (t, m) =
      (if ?valid then Ok outcome else Panic ''label value is not valid UTF-8'', (t', ?m))"
    by (cases outcome) (simp_all add: SendRequest_def run_Now run_lift send(1) record_metric_def run_request_timer [OF assms]
      Let_def status_codes)
  moreover have "ms_updates (mn_metrics ?m) = ms_updates (mn_metrics m) @ ?new" by simp
  moreover have "\<forall>err. outcome = Inl err \<longrightarrow> te_StatusCode err = ?status" "\<forall>out. outcome = Inr out \<longrightarrow> ?status = 200" by auto
  ultimately show ?thesis
    using send(2-5) by (intro exI [of _ outcome] exI [of _ ?status] exI [of _ t'] exI [of _ ?m]) blast
qed

definition sample_http :: "(string, string) http_lib" where
  "sample_http = \<lparr>hl_Marshal = Some, hl_NewRequest = (\<lambda>method url. None), hl_Do = (\<lambda>t rq. if t = 0 then Inr (200, ''pong'')
     else Inl ''Get: context deadline exceeded''), hl_Err = (\<lambda>t. None), hl_Decode = Some\<rparr>"

definition sample_client :: BaseHttpClient where
  "sample_client = \<lparr>hc_GetBaseURL = ''http://localhost'', hc_GetDefaultRequestTimeout = 5000\<rparr>"

definition sample_options :: BaseClientOptions where
  "sample_options = \<lparr>co_Timeout = 0, co_Path = ''/ping'', co_TemplatePath = ''/ping'', co_Headers = []\<rparr>"

definition http_monitor :: monitor where
  "http_monitor = \<lparr>mn_metrics = no_metrics\<lparr>ms_initialised := True\<rparr>, mn_now = int, mn_reads = 0\<rparr>"

theorem requests_are_classified_witness:
  "\<exists>outcome t' m'. run (SendRequest sample_http sample_client ''GET'' sample_options None) (0, http_monitor) = (Ok outcome, (t', m')) \<and>
    length (ms_updates (mn_metrics m')) = 1"
proof -
  have "ms_initialised (mn_metrics http_monitor)" "ms_updates (mn_metrics http_monitor) = []" by (simp_all add: http_monitor_def no_metrics_def)
  moreover have "list_all ValidString [hc_GetBaseURL sample_client, ''GET'', co_TemplatePath sample_options]"
    by (simp add: sample_client_def sample_options_def)
  ultimately show ?thesis
    using requests_are_classified [of http_monitor sample_http sample_client "''GET''" sample_options None 0]
    unfolding if_P [OF \<open>list_all ValidString _\<close>] by fastforce
qed

text \<open>The client's own timeout, with a caller whose context has no deadline.\<close>

lemma own_timeout_is_internal:
  "\<exists>err. fst (run (sendRequest sample_http sample_client ''GET'' sample_options None) 1) = Ok (Inl err) \<and>
    te_StatusCode err = 500 \<and> te_ErrorCode err = InternalServiceError"
  by (simp add: sendRequest_def sample_http_def isAllowedMethod_def allowedMethods_def request_body_def Let_def response_outcome_def
      NewErrorWithMsg_def newError_def status_codes error_codes)

end
