(* ===== verification/Backfill.thy ===== *)
theory Backfill
  imports System
begin

text \<open>
  \<^verbatim>\<open>FillStakerAddr\<close> of \<^verbatim>\<open>internal/services/bootstrap.go\<close>: the goroutine that hands out the transaction hashes, the
  bounded channel and the pool of workers, step by step, with errors, cancellation and the indexer that may run beside
  it on the same database.
\<close>

section \<open>The goroutines and the channel\<close>

definition hashesSize :: nat where "hashesSize = 100"

text \<open>
  Where a worker is: at the head of its loop, at work on a hash, on its way out after an error that it has recorded,
  or out. A panic is caught by \<^verbatim>\<open>conc.WaitGroup\<close>, which raises it again in \<^verbatim>\<open>Wait\<close>.
\<close>

datatype worker =
    Selecting
  | Filling string "(world, unit) prog"
  | Cancelling
  | Left
  | Crashed string

text \<open>Where the function itself is: reading the records, waiting for the goroutines, or out.\<close>

datatype phase =
    Reading "(world, BTCDelegationDetails list) prog"
  | Running
  | Finished "unit result"

text \<open>
  The variables of the function and of its goroutines. \<open>po_next\<close> is the index of the range loop over the records.
  \<open>po_interrupted\<close> and \<open>po_done\<close> are not in the code: whether the caller has cancelled its context, and the hashes that
  a worker has finished without an error.
\<close>

record pool =
  po_phase :: phase
  po_records :: "BTCDelegationDetails list"
  po_next :: nat
  po_closed :: bool
  po_hashes :: "string list"
  po_workers :: "worker list"
  po_errs :: "error list"
  po_cancelled :: bool
  po_interrupted :: bool
  po_done :: "string list"

definition call_FillStakerAddr :: "env \<Rightarrow> pool" where
  "call_FillStakerAddr e = \<lparr>po_phase = Reading (GetDelegationsWithEmptyStakerAddress e), po_records = [], po_next = 0,
     po_closed = False, po_hashes = [], po_workers = [], po_errs = [], po_cancelled = False, po_interrupted = False,
     po_done = []\<rparr>"

text \<open>\<^verbatim>\<open>for range numWorkers\<close> does nothing for a number that is not positive.\<close>

definition start_workers :: "int \<Rightarrow> BTCDelegationDetails list \<Rightarrow> pool \<Rightarrow> pool" where
  "start_workers numWorkers records pl =
     pl\<lparr>po_phase := Running, po_records := records, po_workers := replicate (nat numWorkers) Selecting\<rparr>"

text \<open>\<^verbatim>\<open>addError\<close> appends under the mutex and cancels afterwards.\<close>

definition add_error :: "error \<Rightarrow> pool \<Rightarrow> pool" where
  "add_error err pl = pl\<lparr>po_errs := po_errs pl @ [err]\<rparr>"

definition cancel_pool :: "pool \<Rightarrow> pool" where
  "cancel_pool pl = pl\<lparr>po_cancelled := True\<rparr>"

text \<open>\<^verbatim>\<open>errors.Join\<close> is nil for no errors.\<close>

definition errors_Join :: "error list \<Rightarrow> unit result" where
  "errors_Join errs = (if errs = [] then Ok () else Err (JoinedErrors errs))"

text \<open>\<^verbatim>\<open>wg.Wait()\<close>: when all goroutines are out, the first panic is raised again.\<close>

fun worker_out :: "worker \<Rightarrow> bool" where
  "worker_out Left = True"
| "worker_out (Crashed msg) = True"
| "worker_out _ = False"

definition all_out :: "pool \<Rightarrow> bool" where
  "all_out pl \<longleftrightarrow> po_closed pl \<and> list_all worker_out (po_workers pl)"

fun panic_of :: "worker \<Rightarrow> string option" where
  "panic_of (Crashed msg) = Some msg"
| "panic_of _ = None"

definition wait_result :: "pool \<Rightarrow> unit result" where
  "wait_result pl = (case List.map_filter panic_of (po_workers pl) of msg # msgs \<Rightarrow> Panic msg | [] \<Rightarrow> errors_Join (po_errs pl))"

section \<open>Steps\<close>

text \<open>The goroutine that hands out the hashes. On its way out it closes the channel.\<close>

inductive sender_step :: "pool \<Rightarrow> pool \<Rightarrow> bool" where
  send: "\<not> po_closed pl \<Longrightarrow> po_next pl < length (po_records pl) \<Longrightarrow> length (po_hashes pl) < hashesSize \<Longrightarrow>
    sender_step pl (pl\<lparr>po_next := po_next pl + 1, po_hashes := po_hashes pl @ [d_StakingTxHashHex (po_records pl ! po_next pl)]\<rparr>)"
| send_cancelled: "\<not> po_closed pl \<Longrightarrow> po_next pl < length (po_records pl) \<Longrightarrow> po_cancelled pl \<Longrightarrow>
    sender_step pl (pl\<lparr>po_closed := True\<rparr>)"
| sent_all: "\<not> po_closed pl \<Longrightarrow> \<not> po_next pl < length (po_records pl) \<Longrightarrow> sender_step pl (pl\<lparr>po_closed := True\<rparr>)"

text \<open>One worker; when both branches of its \<^verbatim>\<open>select\<close> are ready, either is taken.\<close>

inductive worker_step :: "env \<Rightarrow> bool \<Rightarrow> world \<times> pool \<times> worker \<Rightarrow> world \<times> pool \<times> worker \<Rightarrow> bool" for e dryRun where
  cancelled: "po_cancelled pl \<Longrightarrow> worker_step e dryRun (w, pl, Selecting) (w, pl, Left)"
| closed: "po_closed pl \<Longrightarrow> po_hashes pl = [] \<Longrightarrow> worker_step e dryRun (w, pl, Selecting) (w, pl, Left)"
| receive: "po_hashes pl = h # hs \<Longrightarrow>
    worker_step e dryRun (w, pl, Selecting) (w, pl\<lparr>po_hashes := hs\<rparr>, Filling h (fill_one e dryRun h))"
| act: "worker_step e dryRun (w, pl, Filling h (Act f)) (snd (f w), pl, Filling h (fst (f w)))"
| ok: "worker_step e dryRun (w, pl, Filling h (Done (Ok u))) (w, pl\<lparr>po_done := po_done pl @ [h]\<rparr>, Selecting)"
| err: "worker_step e dryRun (w, pl, Filling h (Done (Err err))) (w, add_error err pl, Cancelling)"
| panic: "worker_step e dryRun (w, pl, Filling h (Done (Panic msg))) (w, pl, Crashed msg)"
| cancel: "worker_step e dryRun (w, pl, Cancelling) (w, cancel_pool pl, Left)"

inductive pool_step :: "env \<Rightarrow> int \<Rightarrow> bool \<Rightarrow> world \<times> pool \<Rightarrow> world \<times> pool \<Rightarrow> bool" for e numWorkers dryRun where
  read_act: "po_phase pl = Reading (Act f) \<Longrightarrow>
    pool_step e numWorkers dryRun (w, pl) (snd (f w), pl\<lparr>po_phase := Reading (fst (f w))\<rparr>)"
| read_ok: "po_phase pl = Reading (Done (Ok records)) \<Longrightarrow>
    pool_step e numWorkers dryRun (w, pl) (w, start_workers numWorkers records pl)"
| read_err: "po_phase pl = Reading (Done (Err err)) \<Longrightarrow>
    pool_step e numWorkers dryRun (w, pl) (w, pl\<lparr>po_phase := Finished (Err err)\<rparr>)"
| read_panic: "po_phase pl = Reading (Done (Panic msg)) \<Longrightarrow>
    pool_step e numWorkers dryRun (w, pl) (w, pl\<lparr>po_phase := Finished (Panic msg)\<rparr>)"
| sender: "po_phase pl = Running \<Longrightarrow> sender_step pl pl' \<Longrightarrow> pool_step e numWorkers dryRun (w, pl) (w, pl')"
| worker: "po_phase pl = Running \<Longrightarrow> i < length (po_workers pl) \<Longrightarrow>
    worker_step e dryRun (w, pl, po_workers pl ! i) (w', pl', k) \<Longrightarrow>
    pool_step e numWorkers dryRun (w, pl) (w', pl'\<lparr>po_workers := (po_workers pl)[i := k]\<rparr>)"
| wait: "po_phase pl = Running \<Longrightarrow> all_out pl \<Longrightarrow>
    pool_step e numWorkers dryRun (w, pl) (w, pl\<lparr>po_phase := Finished (wait_result pl)\<rparr>)"

section \<open>The process beside the indexer\<close>

text \<open>
  The indexer, and whoever else works on the database, goes on. The caller may cancel the context at any moment.
\<close>

type_synonym backfill = "world \<times> (world, unit) prog list \<times> pool"

inductive beside_step :: "env \<Rightarrow> backfill \<Rightarrow> backfill \<Rightarrow> bool" for e where
  indexer: "sys_step e (w, ps) (w', ps') \<Longrightarrow> beside_step e (w, ps, pl) (w', ps', pl)"
| interrupt: "beside_step e (w, ps, pl) (w, ps, cancel_pool (pl\<lparr>po_interrupted := True\<rparr>))"

inductive backfill_reachable :: "env \<Rightarrow> int \<Rightarrow> bool \<Rightarrow> world \<Rightarrow> backfill \<Rightarrow> bool" for e numWorkers dryRun w0 where
  call: "reachable e (w0, ps) \<Longrightarrow> backfill_reachable e numWorkers dryRun w0 (w0, ps, call_FillStakerAddr e)"
| own: "backfill_reachable e numWorkers dryRun w0 (w, ps, pl) \<Longrightarrow> pool_step e numWorkers dryRun (w, pl) (w', pl') \<Longrightarrow>
    backfill_reachable e numWorkers dryRun w0 (w', ps, pl')"
| beside: "backfill_reachable e numWorkers dryRun w0 s \<Longrightarrow> beside_step e s s' \<Longrightarrow> backfill_reachable e numWorkers dryRun w0 s'"

inductive_cases pool_stepE: "pool_step e numWorkers dryRun (w, pl) s'"
inductive_cases worker_stepE: "worker_step e dryRun (w, pl, k) s'"
inductive_cases beside_stepE: "beside_step e (w, ps, pl) s'"

end
