(* ===== verification/Backfill_Rules.thy ===== *)
theory Backfill_Rules
  imports Backfill Pipeline_Rules
begin

text \<open>
  The backfill step by step: programs with known actions and outcomes, the invariant of the pool, the measure that each of its steps
  decreases, and the programs it has to run as goroutines of the abstract system.
\<close>

section \<open>Programs whose actions and outcomes are known\<close>

text \<open>Whatever the other goroutines do between its actions: each action is in \<open>R\<close>, and every outcome satisfies \<open>P\<close>.\<close>

primrec follows :: "('w \<Rightarrow> 'w \<Rightarrow> bool) \<Rightarrow> ('a result \<Rightarrow> bool) \<Rightarrow> ('w, 'a) prog \<Rightarrow> bool" where
  "follows R P (Done r) \<longleftrightarrow> P r"
| "follows R P (Act g) \<longleftrightarrow> (\<forall>w. R w (snd (g w)) \<and> fst (map_prod (follows R P) id (g w)))"

lemma follows_Act [simp]: "follows R P (Act g) \<longleftrightarrow> (\<forall>w. R w (snd (g w)) \<and> follows R P (fst (g w)))"
  by simp

declare follows.simps(2) [simp del]

lemma follows_weaken: "follows R P p \<Longrightarrow> (\<And>r. P r \<Longrightarrow> Q r) \<Longrightarrow> follows R Q p"
  by (induction p rule: prog_actions_induct) auto

lemma follows_andThen:
  assumes "follows R P p" "\<And>err. P (Err err) \<Longrightarrow> Q (Err err)" "\<And>msg. P (Panic msg) \<Longrightarrow> Q (Panic msg)"
    and "\<And>x. P (Ok x) \<Longrightarrow> follows R Q (k x)"
  shows "follows R Q (andThen p k)"
  using assms by (induction p rule: prog_actions_induct) (auto split: result.splits)

lemma follows_on_error:
  assumes "follows R P p" "\<And>x. P (Ok x) \<Longrightarrow> Q (Ok x)" "\<And>msg. P (Panic msg) \<Longrightarrow> Q (Panic msg)"
    and "\<And>err. P (Err err) \<Longrightarrow> follows R Q (h err)"
  shows "follows R Q (on_error p h)"
  using assms by (induction p rule: prog_actions_induct) (auto split: result.splits)

section \<open>Programs that never panic\<close>

lemma calm_Done: "no_panic r \<Longrightarrow> follows R no_panic (Done r)"
  by simp

lemma calm_andThen: "follows R no_panic p \<Longrightarrow> (\<And>x. follows R no_panic (k x)) \<Longrightarrow> follows R no_panic (andThen p k)"
  by (rule follows_andThen [where P = no_panic]) simp_all

lemma calm_wrap_err: "follows R no_panic p \<Longrightarrow> follows R no_panic (wrap_err msg p)"
  unfolding wrap_err_def by (rule follows_on_error [where P = no_panic]) simp_all

lemma calm_client_call: "follows R no_panic p \<Longrightarrow> follows R no_panic (clientCallWithRetry n p)"
proof -
  assume "follows R no_panic p"
  then have "follows R no_panic (retry_last m p)" for m by (induction m) (auto intro: follows_on_error)
  then show ?thesis by (simp add: clientCallWithRetry_def)
qed

lemma calm_ask: "(\<And>w. R w (tick w)) \<Longrightarrow> follows R no_panic (ask f)"
  by (auto simp: ask_def atomically_def no_panic_def)

lemma calm_db_call:
  assumes "\<And>w. R w (tick w)" "\<And>w. R w (snd (act (tick w)))" "\<And>w. no_panic (fst (act w))"
  shows "follows R no_panic (db_call e act)"
  using assms by (simp add: db_call_def atomically_def split: option.splits fault.splits)

lemma calm_if: "(b \<Longrightarrow> follows R no_panic p) \<Longrightarrow> (\<not> b \<Longrightarrow> follows R no_panic q) \<Longrightarrow> follows R no_panic (if b then p else q)"
  by simp

text \<open>All that the work on a hash writes is a valid address of its delegation, and in a dry run nothing.\<close>

definition writes :: "env \<Rightarrow> bool \<Rightarrow> string \<Rightarrow> world \<Rightarrow> world \<Rightarrow> bool" where
  "writes e dryRun h w w' \<longleftrightarrow> w' = tick w \<or> (\<not> dryRun \<and> (\<exists>a. a \<noteq> '''' \<and> ValidateBabylonAddress e a = Ok () \<and>
     w' = update_delegation h (\<lambda>d. d\<lparr>d_StakerBabylonAddress := a\<rparr>) (tick w)))"

abbreviation calm :: "(world, 'a) prog \<Rightarrow> bool" where
  "calm \<equiv> follows (\<lambda>w w'. w' = tick w) no_panic"

lemma follows_fill: "follows (writes e dryRun h) no_panic (fill_one e dryRun h)"
proof -
  have valid: "no_panic (ValidateBabylonAddress e a)" for a
    by (auto simp: no_panic_def ValidateBabylonAddress_def split: option.splits elim!: bind_result.elims)
  have update: "follows (writes e dryRun h) no_panic (andThen (Done (ValidateBabylonAddress e a)) (\<lambda>_. if \<not> dryRun
      then wrap_err msg (UpdateDelegationStakerBabylonAddress e h a) else ret ()))" if "a \<noteq> ''''" for a msg
    using that valid [of a]
    by (cases "ValidateBabylonAddress e a")
      (auto simp: UpdateDelegationStakerBabylonAddress_def writes_def intro!: calm_wrap_err calm_db_call)
  show ?thesis
    unfolding fill_one_def BabylonStakerAddress_def
    by (intro calm_andThen calm_client_call calm_ask calm_if calm_Done update) (simp_all add: writes_def)
qed

lemma calm_unfilled: "calm (GetDelegationsWithEmptyStakerAddress e)"
  unfolding GetDelegationsWithEmptyStakerAddress_def by (intro calm_wrap_err calm_db_call) simp_all

section \<open>Addresses\<close>

definition addressed :: "world \<Rightarrow> string \<Rightarrow> bool" where
  "addressed w h \<longleftrightarrow> (\<exists>d \<in> set (w_delegations w). d_StakingTxHashHex d = h \<and> d_StakerBabylonAddress d \<noteq> '''')"

lemma addressed_mono: "below w w' \<Longrightarrow> addressed w h \<Longrightarrow> addressed w' h"
  unfolding addressed_def below_def known_def by (auto simp: older_def; metis)

lemma addressed_update:
  assumes "h \<in> hashes w" "a \<noteq> ''''"
  shows "addressed (update_delegation h (\<lambda>d. d\<lparr>d_StakerBabylonAddress := a\<rparr>) w) h"
proof (cases "modify_first (\<lambda>d. d_StakingTxHashHex d = h) (\<lambda>d. d\<lparr>d_StakerBabylonAddress := a\<rparr>) (w_delegations w)")
  case None
  with assms(1) show ?thesis by (auto simp: hashes_def)
next
  case (Some ds)
  then obtain xs d ys where "d_StakingTxHashHex d = h" "ds = xs @ d\<lparr>d_StakerBabylonAddress := a\<rparr> # ys"
    by (rule modify_first_SomeE)
  with assms(2) Some show ?thesis by (auto simp: addressed_def update_delegation_def)
qed

abbreviation filled :: "bool \<Rightarrow> string \<Rightarrow> world \<Rightarrow> 'a \<Rightarrow> bool" where
  "filled dryRun h \<equiv> \<lambda>v _. dryRun \<or> addressed v h"

lemma complies_fill_address:
  assumes "a \<noteq> ''''" "h \<in> hashes w"
  shows "guar e (filled dryRun h) w (UpdateDelegationStakerBabylonAddress e h a)"
  unfolding UpdateDelegationStakerBabylonAddress_def
proof (rule complies_db_call, goal_cases)
  case (1 w')
  then show ?case unfolding snd_conv using assms(1) by (intro good_update_delegation) (auto simp: older_def)
next
  case (2 w' x v)
  have "h \<in> hashes w'" using 2(1) assms(2) by (rule hashes_mono)
  then show ?case using 2(4) addressed_update assms(1) addressed_mono by (simp add: addressed_mono)
qed

lemma complies_fill_one:
  assumes "good e w" "h \<in> hashes w"
  shows "guar e (filled dryRun h) w (fill_one e dryRun h)"
  unfolding fill_one_def
proof (rule bind_any [OF complies_clients(4) [OF assms(1)] assms(1)])
  fix w' a assume w': "below w w'" "good e w'"
  have update: "guar e (filled dryRun h) w' (wrap_err msg (UpdateDelegationStakerBabylonAddress e h a))" if "a \<noteq> ''''" for msg
    by (rule world.complies_wrap_err [OF complies_fill_address [OF that hashes_mono [OF w'(1) assms(2)]] w'(2)])
  show "guar e (filled dryRun h) w'
      (if a = '''' then throw (OtherError ''empty staker address for tx'')
       else andThen (Done (ValidateBabylonAddress e a)) (\<lambda>_. if \<not> dryRun
         then wrap_err ''failed to update delegation staker addr'' (UpdateDelegationStakerBabylonAddress e h a) else ret ()))"
  proof (rule complies_if [OF world.complies_throw])
    assume "a \<noteq> ''''"
    then show "guar e (filled dryRun h) w' (andThen (Done (ValidateBabylonAddress e a)) (\<lambda>_. if \<not> dryRun
         then wrap_err ''failed to update delegation staker addr'' (UpdateDelegationStakerBabylonAddress e h a) else ret ()))"
      by (intro bind_Done complies_if update world.complies_ret_Q) simp_all
  qed
qed

text \<open>What has been read are delegations without an address, and it covers all of these.\<close>

definition covers :: "world \<Rightarrow> world \<Rightarrow> BTCDelegationDetails list \<Rightarrow> bool" where
  "covers w0 v records \<longleftrightarrow> (\<forall>d \<in> set records. known v d \<and> d_StakerBabylonAddress d = '''') \<and>
     d_StakingTxHashHex ` set records \<subseteq> hashes v \<and>
     (\<forall>h \<in> hashes w0. addressed v h \<or> h \<in> d_StakingTxHashHex ` set records)"

lemma covers_mono:
  assumes "below v v'" "covers w0 v records"
  shows "covers w0 v' records"
  using assms(2) known_mono [OF assms(1)] hashes_mono [OF assms(1)] addressed_mono [OF assms(1)] by (auto simp: covers_def)


lemma complies_unfilled:
  assumes "scan_ok e" "good e w0"
  shows "guar e (covers w0) w0 (GetDelegationsWithEmptyStakerAddress e)"
proof -
  have "guar e (covers w0) w0 (db_call e (\<lambda>w. (Ok (find_all e (\<lambda>d. d_StakerBabylonAddress d = '''') (w_delegations w) (w_clock w)), w)))"
  proof (rule complies_query, goal_cases)
    case (2 w' x v)
    then have x: "set x = {d \<in> set (w_delegations w'). d_StakerBabylonAddress d = ''''}" by (auto simp: set_find_all [OF assms(1)])
    have "addressed w' h \<or> h \<in> d_StakingTxHashHex ` set x" if "h \<in> hashes w0" for h
      using hashes_mono [OF 2(1) that] x by (auto simp: hashes_def addressed_def)
    then have "covers w0 w' x" using x known_self by (auto simp: covers_def hashes_def)
    then show ?case using covers_mono 2(4) by blast
  qed simp
  then show ?thesis
    unfolding GetDelegationsWithEmptyStakerAddress_def by (rule world.complies_wrap_err) (rule assms(2))
qed

section \<open>The invariant\<close>

fun in_flight :: "worker \<Rightarrow> string multiset" where
  "in_flight (Filling h p) = {#h#}"
| "in_flight _ = {#}"

text \<open>Where the hashes of the records are: not handed out yet, in the channel, at a worker, or finished.\<close>

definition accounted :: "pool \<Rightarrow> string multiset" where
  "accounted pl = mset (map d_StakingTxHashHex (drop (po_next pl) (po_records pl))) + mset (po_hashes pl) +
     (\<Sum>k \<in># mset (po_workers pl). in_flight k) + mset (po_done pl)"

definition all_hashes :: "pool \<Rightarrow> string multiset" where
  "all_hashes pl = mset (map d_StakingTxHashHex (po_records pl))"

fun worker_ok :: "env \<Rightarrow> bool \<Rightarrow> world \<Rightarrow> pool \<Rightarrow> worker \<Rightarrow> bool" where
  "worker_ok e dryRun w pl Selecting \<longleftrightarrow> True"
| "worker_ok e dryRun w pl (Filling h p) \<longleftrightarrow> follows (writes e dryRun h) no_panic p \<and> guar e (filled dryRun h) w p"
| "worker_ok e dryRun w pl Cancelling \<longleftrightarrow> po_errs pl \<noteq> []"
| "worker_ok e dryRun w pl Left \<longleftrightarrow> po_cancelled pl \<or> po_closed pl \<and> po_hashes pl = []"
| "worker_ok e dryRun w pl (Crashed msg) \<longleftrightarrow> False"

text \<open>The hashes: none is lost before an error, none is handed out twice, and those that are finished have an address.\<close>

definition hashes_ok :: "bool \<Rightarrow> world \<Rightarrow> world \<Rightarrow> pool \<Rightarrow> bool" where
  "hashes_ok dryRun w0 w pl \<longleftrightarrow> covers w0 w (po_records pl) \<and> (dryRun \<or> (\<forall>h \<in> set (po_done pl). addressed w h)) \<and>
     accounted pl \<subseteq># all_hashes pl \<and> (po_errs pl = [] \<longrightarrow> accounted pl = all_hashes pl)"

text \<open>The goroutines: why they may have stopped.\<close>

definition control_ok :: "int \<Rightarrow> pool \<Rightarrow> bool" where
  "control_ok numWorkers pl \<longleftrightarrow> length (po_workers pl) = nat numWorkers \<and>
     (po_cancelled pl \<longrightarrow> po_errs pl \<noteq> [] \<or> po_interrupted pl) \<and>
     (po_closed pl \<longrightarrow> po_cancelled pl \<or> length (po_records pl) \<le> po_next pl)"

definition fresh_pool :: "pool \<Rightarrow> bool" where
  "fresh_pool pl \<longleftrightarrow> po_next pl = 0 \<and> \<not> po_closed pl \<and> po_hashes pl = [] \<and> po_errs pl = [] \<and> po_done pl = [] \<and>
     (po_cancelled pl \<longrightarrow> po_interrupted pl)"

fun phase_ok :: "env \<Rightarrow> int \<Rightarrow> bool \<Rightarrow> world \<Rightarrow> world \<Rightarrow> pool \<Rightarrow> phase \<Rightarrow> bool" where
  "phase_ok e numWorkers dryRun w0 w pl (Reading p) \<longleftrightarrow> fresh_pool pl \<and> calm p \<and> guar e (covers w0) w p"
| "phase_ok e numWorkers dryRun w0 w pl Running \<longleftrightarrow>
     control_ok numWorkers pl \<and> hashes_ok dryRun w0 w pl \<and> (\<forall>k \<in> set (po_workers pl). worker_ok e dryRun w pl k)"
| "phase_ok e numWorkers dryRun w0 w pl (Finished r) \<longleftrightarrow> no_panic r \<and> (r = Ok () \<longrightarrow> po_errs pl = [] \<and> all_out pl \<and>
     control_ok numWorkers pl \<and> hashes_ok dryRun w0 w pl \<and> (\<forall>k \<in> set (po_workers pl). worker_ok e dryRun w pl k))"

definition pool_ok :: "env \<Rightarrow> int \<Rightarrow> bool \<Rightarrow> world \<Rightarrow> world \<times> pool \<Rightarrow> bool" where
  "pool_ok e numWorkers dryRun w0 s \<longleftrightarrow> (case s of (w, pl) \<Rightarrow>
     good e w \<and> phase_ok e numWorkers dryRun w0 w pl (po_phase pl))"

lemma no_flights [simp]: "(\<Sum>\<^sub># (replicate_mset n {#})) = ({#} :: 'a multiset)"
  by (induction n) simp_all

section \<open>Every step keeps the invariant\<close>


text \<open>Others move the state upwards.\<close>

lemma worker_ok_later: "below w w' \<Longrightarrow> worker_ok e dryRun w pl k \<Longrightarrow> worker_ok e dryRun w' pl k"
  by (cases k) (auto intro: world.complies_later)

lemma hashes_ok_later: "below w w' \<Longrightarrow> hashes_ok dryRun w0 w pl \<Longrightarrow> hashes_ok dryRun w0 w' pl"
  by (auto simp: hashes_ok_def dest: covers_mono addressed_mono)

lemma pool_ok_later:
  assumes "pool_ok e numWorkers dryRun w0 (w, pl)" "below w w'" "good e w'"
  shows "pool_ok e numWorkers dryRun w0 (w', pl)"
  using assms worker_ok_later [OF assms(2)] hashes_ok_later [OF assms(2)]
  by (cases "po_phase pl") (auto simp: pool_ok_def intro: world.complies_later)

lemma pool_ok_call:
  assumes "scan_ok e" "good e w0"
  shows "pool_ok e numWorkers dryRun w0 (w0, call_FillStakerAddr e)"
  using complies_unfilled [OF assms] calm_unfilled assms(2) by (simp add: pool_ok_def call_FillStakerAddr_def fresh_pool_def)

lemma pool_ok_interrupt:
  assumes "pool_ok e numWorkers dryRun w0 (w, pl)"
  shows "pool_ok e numWorkers dryRun w0 (w, cancel_pool (pl\<lparr>po_interrupted := True\<rparr>))"
proof -
  let ?pl = "cancel_pool (pl\<lparr>po_interrupted := True\<rparr>)"
  have "worker_ok e dryRun w ?pl k" if "worker_ok e dryRun w pl k" for k
    using that by (cases k) (auto simp: cancel_pool_def)
  then show ?thesis
    using assms by (cases "po_phase pl")
      (auto simp: pool_ok_def cancel_pool_def fresh_pool_def control_ok_def hashes_ok_def accounted_def all_hashes_def all_out_def)
qed

text \<open>The sender.\<close>

lemma sender_step_ok:
  assumes "sender_step pl pl'" "phase_ok e numWorkers dryRun w0 w pl Running"
  shows "phase_ok e numWorkers dryRun w0 w pl' Running \<and> po_phase pl' = po_phase pl"
  using assms(1)
proof cases
  case send
  have "accounted pl' = accounted pl"
    using send Cons_nth_drop_Suc [of "po_next pl" "po_records pl"] by (simp add: accounted_def flip: Cons_nth_drop_Suc)
  moreover have "worker_ok e dryRun w pl' k" if "worker_ok e dryRun w pl k" for k
    using that send by (cases k) auto
  ultimately show ?thesis using assms(2) send by (auto simp: control_ok_def hashes_ok_def all_hashes_def)
next
  case send_cancelled
  have "worker_ok e dryRun w pl' k" if "worker_ok e dryRun w pl k" for k
    using that send_cancelled by (cases k) auto
  then show ?thesis using assms(2) send_cancelled by (auto simp: control_ok_def hashes_ok_def accounted_def all_hashes_def)
next
  case sent_all
  have "worker_ok e dryRun w pl' k" if "worker_ok e dryRun w pl k" for k
    using that sent_all by (cases k) auto
  then show ?thesis using assms(2) sent_all by (auto simp: control_ok_def hashes_ok_def accounted_def all_hashes_def)
qed

text \<open>One worker among the others.\<close>

lemma update_worker:
  assumes "i < length ks"
  obtains rest where "mset ks = add_mset (ks ! i) rest" "\<And>k. mset (ks[i := k]) = add_mset k rest"
proof
  show "mset ks = add_mset (ks ! i) (mset ks - {#ks ! i#})" using assms by simp
  show "mset (ks[i := k]) = add_mset k (mset ks - {#ks ! i#})" for k using assms by (simp add: mset_update)
qed

lemma worker_step_world:
  assumes "worker_step e dryRun (w, pl, k) (w', pl', k')" "good e w" "worker_ok e dryRun w pl k"
  shows "below w w' \<and> good e w'"
  using assms(1)
proof cases
  case (act h f)
  then have "guar e (filled dryRun h) w (Act f)" using assms(3) by simp
  from world.complies_step [OF this assms(2)] show ?thesis using act by simp
qed (use assms(2) in simp_all)

lemma worker_step_others:
  assumes "worker_step e dryRun (w, pl, k) (w', pl', k')" "below w w'" "worker_ok e dryRun w pl k2"
  shows "worker_ok e dryRun w' (pl'\<lparr>po_workers := ks\<rparr>) k2"
proof -
  have "worker_ok e dryRun w pl' k2"
    using assms(1,3) by (cases k2; cases rule: worker_step.cases) (auto simp: add_error_def cancel_pool_def)
  then have "worker_ok e dryRun w' pl' k2" by (rule worker_ok_later [OF assms(2)])
  then show ?thesis by (cases k2) auto
qed

lemma worker_step_self:
  assumes "worker_step e dryRun (w, pl, k) (w', pl', k')" "good e w" "worker_ok e dryRun w pl k"
    and "set (po_hashes pl) \<subseteq> hashes w"
  shows "worker_ok e dryRun w' (pl'\<lparr>po_workers := ks\<rparr>) k'"
  using assms(1)
proof cases
  case (receive h hs)
  then show ?thesis using complies_fill_one [OF assms(2)] follows_fill assms(4) by simp
next
  case (act h f)
  then have "guar e (filled dryRun h) w (Act f)" using assms(3) by simp
  from world.complies_step [OF this assms(2)] show ?thesis using act assms(3) by simp
qed (use assms(3) in \<open>auto simp: add_error_def cancel_pool_def\<close>)

lemma worker_step_control:
  assumes "worker_step e dryRun (w, pl, po_workers pl ! i) (w', pl', k)" "control_ok numWorkers pl"
    and "worker_ok e dryRun w pl (po_workers pl ! i)"
  shows "control_ok numWorkers (pl'\<lparr>po_workers := (po_workers pl)[i := k]\<rparr>)"
  using assms by cases (auto simp: control_ok_def add_error_def cancel_pool_def)

lemma finished_address:
  assumes "guar e (filled dryRun h) w (Done (Ok u))" "good e w"
  shows "dryRun \<or> addressed w h"
  using assms below_refl by (blast elim: complies_OkE)

lemma worker_step_hashes:
  assumes "worker_step e dryRun (w, pl, po_workers pl ! i) (w', pl', k)" "i < length (po_workers pl)"
    and "hashes_ok dryRun w0 w pl" "good e w" "worker_ok e dryRun w pl (po_workers pl ! i)"
  shows "hashes_ok dryRun w0 w' (pl'\<lparr>po_workers := (po_workers pl)[i := k]\<rparr>)"
proof -
  obtain rest where rest: "mset (po_workers pl) = add_mset (po_workers pl ! i) rest"
    "\<And>k. mset ((po_workers pl)[i := k]) = add_mset k rest"
    using update_worker [OF assms(2)] by metis
  have "hashes_ok dryRun w0 w' pl"
    using hashes_ok_later worker_step_world [OF assms(1,4,5)] assms(3) by blast
  from assms(1) this show ?thesis
  proof cases
    case (ok h u)
    then have "guar e (filled dryRun h) w (Done (Ok u))" using assms(5) by simp
    then have "dryRun \<or> addressed w h" using assms(4) by (rule finished_address)

    then show ?thesis using ok assms(3) rest by (auto simp: hashes_ok_def accounted_def all_hashes_def)
  next
    case (err h err)
    have "accounted (pl'\<lparr>po_workers := (po_workers pl)[i := k]\<rparr>) \<subseteq># accounted pl"
      using err rest by (simp add: accounted_def add_error_def)
    then show ?thesis using err assms(3) by (auto simp: hashes_ok_def add_error_def all_hashes_def)
  next
    case (panic h msg)
    then show ?thesis using assms(5) by auto
  qed (use rest in \<open>auto simp: hashes_ok_def accounted_def all_hashes_def cancel_pool_def\<close>)
qed

lemma channel_hashes:
  assumes "hashes_ok dryRun w0 w pl"
  shows "set (po_hashes pl) \<subseteq> hashes w"
proof -
  have "set (po_hashes pl) \<subseteq> set_mset (accounted pl)" by (auto simp: accounted_def)
  also have "\<dots> \<subseteq> set_mset (all_hashes pl)" using assms by (intro set_mset_mono) (simp add: hashes_ok_def)
  also have "\<dots> \<subseteq> hashes w" using assms by (auto simp: hashes_ok_def covers_def all_hashes_def)
  finally show ?thesis .
qed

lemma pool_step_ok:
  assumes "pool_step e numWorkers dryRun (w, pl) (w', pl')" "pool_ok e numWorkers dryRun w0 (w, pl)"
  shows "below w w' \<and> pool_ok e numWorkers dryRun w0 (w', pl')"
  using assms(1)
proof cases
  case (read_act f)
  then have "guar e (covers w0) w (Act f)" "good e w" using assms(2) by (simp_all add: pool_ok_def)
  from world.complies_step [OF this] show ?thesis using read_act assms(2) by (simp add: pool_ok_def fresh_pool_def)
next
  case (read_ok records)
  then have fresh: "fresh_pool pl" and "guar e (covers w0) w (ret records)" "good e w" using assms(2) by (simp_all add: pool_ok_def)
  then have "covers w0 w records" by (auto elim!: complies_OkE)
  then show ?thesis
    using read_ok fresh \<open>good e w\<close>
    by (auto simp: pool_ok_def start_workers_def fresh_pool_def control_ok_def hashes_ok_def accounted_def all_hashes_def)
next
  case (sender)
  then have "phase_ok e numWorkers dryRun w0 w pl Running" using assms(2) by (simp add: pool_ok_def)
  from sender_step_ok [OF sender(3) this] show ?thesis using sender assms(2) by (simp add: pool_ok_def)
next
  case (worker i pl1 k)
  then have ok: "good e w" "control_ok numWorkers pl" "hashes_ok dryRun w0 w pl"
    "\<And>k. k \<in> set (po_workers pl) \<Longrightarrow> worker_ok e dryRun w pl k" "worker_ok e dryRun w pl (po_workers pl ! i)"
    using assms(2) by (simp_all add: pool_ok_def)
  note up = worker_step_world [OF worker(4) ok(1,5)]
  have "worker_ok e dryRun w' pl' k2" if "k2 \<in> set (po_workers pl')" for k2
  proof -
    have "k2 = k \<or> k2 \<in> set (po_workers pl)" using that worker(1) set_update_subset_insert by fastforce
    then show ?thesis
      using worker_step_self [OF worker(4) ok(1,5) channel_hashes [OF ok(3)]] worker_step_others [OF worker(4)] up ok(4) worker(1)
      by auto
  qed
  moreover have "po_phase pl' = Running" using worker(4,1,2) by cases (auto simp: add_error_def cancel_pool_def)
  ultimately show ?thesis
    using up worker_step_control [OF worker(4) ok(2,5)] worker_step_hashes [OF worker(4,3) ok(3,1,5)] worker(1)
    by (simp add: pool_ok_def)
next
  case (wait)
  have calm: "List.map_filter panic_of (po_workers pl) = []"
  proof -
    have "panic_of k = None" if "k \<in> set (po_workers pl)" for k
      using assms(2) wait(3) that by (cases k) (auto simp: pool_ok_def)
    then show ?thesis by (auto simp: map_filter_def filter_empty_conv)
  qed
  have "worker_ok e dryRun w (pl\<lparr>po_phase := r\<rparr>) k" if "worker_ok e dryRun w pl k" for r k using that by (cases k) auto
  with wait assms(2) calm show ?thesis
    by (auto simp: pool_ok_def wait_result_def errors_Join_def all_out_def control_ok_def hashes_ok_def accounted_def all_hashes_def)
qed (use assms(2) in \<open>auto simp: pool_ok_def\<close>)

lemma beside_step_ok:
  assumes "beside_step e (w, ps, pl) (w', ps', pl')" "scan_ok e" "sys_ok e (w, ps)" "pool_ok e numWorkers dryRun w0 (w, pl)"
  shows "below w w' \<and> sys_ok e (w', ps') \<and> pool_ok e numWorkers dryRun w0 (w', pl')"
  using assms(1)
proof cases
  case indexer
  from sys_step_ok [OF indexer(2) assms(3,2)] have "below w w'" "sys_ok e (w', ps')" by auto
  then show ?thesis using pool_ok_later [OF assms(4)] indexer by (simp add: sys_ok_def)
next
  case interrupt
  then show ?thesis using assms(3) pool_ok_interrupt [OF assms(4)] by simp
qed

lemma backfill_reachable_ok:
  assumes "backfill_reachable e numWorkers dryRun w0 s" "scan_ok e"
  shows "case s of (w, ps, pl) \<Rightarrow> below w0 w \<and> sys_ok e (w, ps) \<and> pool_ok e numWorkers dryRun w0 (w, pl)"
  using assms(1)
proof induction
  case (call ps)
  have "good e w0" "sys_ok e (w0, ps)" using reachable_good [OF assms(2) call] reachable_ok [OF assms(2) call] by auto
  then show ?case using pool_ok_call [OF assms(2)] by simp
next
  case (own w ps pl w' pl')
  then have "pool_ok e numWorkers dryRun w0 (w, pl)" "sys_ok e (w, ps)" "below w0 w" by auto
  moreover from pool_step_ok [OF own.hyps(2) this(1)] have "below w w'" "pool_ok e numWorkers dryRun w0 (w', pl')" by auto
  ultimately show ?case
    by (auto simp: sys_ok_def pool_ok_def intro: world.complies_later below_trans)
next
  case (beside s s')
  obtain w ps pl w' ps' pl' where s: "s = (w, ps, pl)" "s' = (w', ps', pl')" by (metis prod.exhaust)
  then show ?case
    using beside_step_ok [of e w ps pl w' ps' pl' numWorkers dryRun w0] beside assms(2) below_trans by auto
qed

section \<open>Termination\<close>

text \<open>How far each worker is from being out, and the pool from being finished.\<close>

fun worker_rank :: "worker \<Rightarrow> nat \<times> (world, unit) prog" where
  "worker_rank (Filling h p) = (3, p)"
| "worker_rank Selecting = (2, ret ())"
| "worker_rank Cancelling = (1, ret ())"
| "worker_rank _ = (0, ret ())"

fun phase_rank :: "phase \<Rightarrow> nat \<times> (world, unit) prog" where
  "phase_rank (Reading p) = (2, remaining p)"
| "phase_rank Running = (1, ret ())"
| "phase_rank (Finished r) = (0, ret ())"

definition pool_rank where
  "pool_rank pl = (phase_rank (po_phase pl), length (po_records pl) - po_next pl + (if po_closed pl then 0 else 1),
     length (po_hashes pl), image_mset worker_rank (mset (po_workers pl)))"

definition worker_order :: "((nat \<times> (world, unit) prog) \<times> (nat \<times> (world, unit) prog)) set" where
  "worker_order = less_than <*lex*> prog_order"

definition pool_order where
  "pool_order = worker_order <*lex*> less_than <*lex*> less_than <*lex*> mult worker_order"

lemma wf_pool_order: "wf pool_order"
  by (auto simp: pool_order_def worker_order_def wf_prog_order intro: wf_mult)

lemma sender_step_rank: "sender_step pl pl' \<Longrightarrow> (pool_rank pl', pool_rank pl) \<in> pool_order"
  by (cases rule: sender_step.cases) (auto simp: pool_rank_def pool_order_def worker_order_def)

lemma worker_step_rank:
  assumes "worker_step e dryRun (w, pl, po_workers pl ! i) (w', pl', k)" "i < length (po_workers pl)"
  shows "(pool_rank (pl'\<lparr>po_workers := (po_workers pl)[i := k]\<rparr>), pool_rank pl) \<in> pool_order"
proof -
  obtain rest where rest: "mset (po_workers pl) = add_mset (po_workers pl ! i) rest"
    "\<And>k. mset ((po_workers pl)[i := k]) = add_mset k rest"
    using update_worker [OF assms(2)] by metis
  have down: "(add_mset a M, add_mset b M) \<in> mult worker_order" if "(a, b) \<in> worker_order" for a b M
  proof -
    have "(add_mset a M, add_mset b M) \<in> mult1 worker_order"
      unfolding mult1_def mem_Collect_eq case_prod_conv
      by (rule exI [of _ b], rule exI [of _ M], rule exI [of _ "{#a#}"]) (use that in simp)
    then show ?thesis by (simp add: mult_def)
  qed
  from assms(1) show ?thesis
    by cases (auto simp: pool_rank_def pool_order_def rest add_error_def cancel_pool_def worker_order_def prog_order_step
        intro!: down [unfolded worker_order_def])
qed

lemma pool_step_rank:
  assumes "pool_step e numWorkers dryRun (w, pl) (w', pl')"
  shows "(pool_rank pl', pool_rank pl) \<in> pool_order"
  using assms
proof cases
  case sender
  then show ?thesis by (blast intro: sender_step_rank)
next
  case (worker i pl1 k)
  then show ?thesis using worker_step_rank by blast
qed (auto simp: pool_rank_def pool_order_def worker_order_def remaining_def prog_order_andThen start_workers_def simp del: andThen.simps)

lemma beside_steps:
  assumes "(beside_step e)\<^sup>*\<^sup>* s s'"
  shows "pool_rank (snd (snd s')) = pool_rank (snd (snd s))"
  using assms
proof (induction rule: rtranclp_induct)
  case (step s' s'')
  then show ?case by (auto elim!: beside_step.cases simp: pool_rank_def cancel_pool_def)
qed simp

text \<open>A pool that can do nothing by itself.\<close>

lemma worker_idle:
  assumes "\<nexists>t. worker_step e dryRun (w, pl, k) t"
  shows "worker_out k \<or> (k = Selecting \<and> \<not> po_cancelled pl \<and> po_hashes pl = [] \<and> \<not> po_closed pl)"
proof (cases k)
  case Selecting
  show ?thesis
  proof (cases "po_hashes pl")
    case Nil
    then show ?thesis using assms Selecting by (blast intro: worker_step.intros)
  next
    case (Cons h hs)
    then show ?thesis using assms Selecting by (blast intro: worker_step.intros)
  qed
next
  case (Filling h p)
  show ?thesis
  proof (cases p)
    case (Done r)
    then show ?thesis using assms Filling by (cases r) (blast intro: worker_step.intros)+
  next
    case (Act f)
    then show ?thesis using assms Filling by (blast intro: worker_step.intros)
  qed
next
  case Cancelling
  then show ?thesis using assms by (blast intro: worker_step.intros)
qed simp_all

lemma sender_idle:
  assumes "\<nexists>pl'. sender_step pl pl'" "\<not> po_closed pl"
  shows "\<not> po_cancelled pl \<and> hashesSize \<le> length (po_hashes pl)"
  using assms sender_step.intros by (metis not_less)

lemma pool_idle:
  assumes "\<nexists>s'. pool_step e numWorkers dryRun (w, pl) s'" "pool_ok e numWorkers dryRun w0 (w, pl)" "0 < numWorkers"
  shows "\<exists>r. po_phase pl = Finished r"
proof (cases "po_phase pl")
  case (Reading p)
  then show ?thesis
  proof (cases p)
    case (Done r)
    then show ?thesis using assms(1) Reading by (cases r) (blast intro: pool_step.intros)+
  next
    case (Act f)
    then show ?thesis using assms(1) Reading by (blast intro: pool_step.intros)
  qed
next
  case Running
  then have ok: "length (po_workers pl) = nat numWorkers" "\<And>k. k \<in> set (po_workers pl) \<Longrightarrow> worker_ok e dryRun w pl k"
    using assms(2) by (simp_all add: pool_ok_def control_ok_def)
  have idle: "worker_out k \<or> (k = Selecting \<and> \<not> po_cancelled pl \<and> po_hashes pl = [] \<and> \<not> po_closed pl)"
    if "k \<in> set (po_workers pl)" for k
  proof (rule worker_idle)
    from that obtain i where i: "i < length (po_workers pl)" "k = po_workers pl ! i" by (metis in_set_conv_nth)
    show "\<nexists>t. worker_step e dryRun (w, pl, k) t"
      using assms(1) pool_step.worker [OF Running i(1)] unfolding i(2) by (metis prod.exhaust)
  qed
  show ?thesis
  proof (cases "po_closed pl")
    case True
    then have "all_out pl" using idle by (auto simp: all_out_def list_all_iff)
    then show ?thesis using assms(1) pool_step.wait [OF Running] by blast
  next
    case False
    have "\<nexists>pl'. sender_step pl pl'" using assms(1) pool_step.sender [OF Running] by blast
    from sender_idle [OF this False] have full: "\<not> po_cancelled pl" "po_hashes pl \<noteq> []" by (auto simp: hashesSize_def)
    obtain k where k: "k \<in> set (po_workers pl)" using ok(1) assms(3) by (cases "po_workers pl") auto
    show ?thesis using idle [OF k] ok(2) [OF k] full False by (cases k) auto
  qed
qed simp

section \<open>The backfill as goroutines of the system\<close>

fun worker_threads :: "worker \<Rightarrow> (world, unit) prog multiset" where
  "worker_threads (Filling h p) = {#p#}"
| "worker_threads _ = {#}"

fun phase_threads :: "phase \<Rightarrow> (world, unit) prog multiset" where
  "phase_threads (Reading p) = {#remaining p#}"
| "phase_threads _ = {#}"

definition pool_threads :: "pool \<Rightarrow> (world, unit) prog multiset" where
  "pool_threads pl = phase_threads (po_phase pl) + (\<Sum>k \<in># mset (po_workers pl). worker_threads k)"

lemma system_beside:
  assumes "sys_step e (w, ps) (w', ps')" "runs_in_system e w (M + mset ps)"
  shows "runs_in_system e w' (M + mset ps')"
  using assms(1)
proof cases
  case (start p)
  then show ?thesis using system_start [OF assms(2), of p w'] by simp
next
  case (act i f)
  then have "Act f \<in># mset ps" by (metis nth_mem_mset)
  then obtain N where N: "mset ps = add_mset (Act f) N" by (rule mset_add)
  have "runs_in_system e (snd (f w)) (add_mset (fst (f w)) (M + N))" using assms(2) N by (intro system_act) simp
  then show ?thesis using act N by (simp add: mset_update)
next
  case (crash)
  obtain qs where qs: "reachable e (w, qs)" "M + mset ps \<subseteq># mset qs" using assms(2) by (auto simp: runs_in_system_def)
  obtain rs where rs: "mset rs = M + mset ps'" using ex_mset by blast
  have "M + mset ps' \<subseteq># M + mset ps" using crash by simp
  then have "mset rs \<subseteq># mset qs" unfolding rs using qs(2) by (rule subset_mset.order_trans)
  from reachable.step [OF qs(1) sys_step.crash [OF this]] have "reachable e (w', rs)" using crash by simp
  then show ?thesis using rs unfolding runs_in_system_def by auto
qed

lemma worker_step_system:
  assumes "worker_step e dryRun (w, pl, k) (w', pl', k')" "runs_in_system e w (worker_threads k + M)"
  shows "runs_in_system e w' (worker_threads k' + M)"
  using assms(1)
proof cases
  case (receive h hs)
  then show ?thesis
    using system_start [OF assms(2) starts.other [OF background.backfill [of e w dryRun h]]] by simp
next
  case (act h f)
  then show ?thesis using assms(2) system_act [of e w f M] by simp
qed (use assms(2) in \<open>auto elim!: system_drop\<close>)

lemma pool_step_system:
  assumes "pool_step e numWorkers dryRun (w, pl) (w', pl')" "runs_in_system e w (pool_threads pl + M)"
  shows "runs_in_system e w' (pool_threads pl' + M)"
  using assms(1)
proof cases
  case (read_act f)
  then show ?thesis
    using assms(2) system_andThen [of e w f] by (simp add: pool_threads_def remaining_def del: andThen.simps)
next
  case (read_ok records)
  show ?thesis using read_ok assms(2) by (auto simp: pool_threads_def start_workers_def elim!: system_drop)
next
  case sender
  then show ?thesis using assms(2) by (auto simp: pool_threads_def elim!: sender_step.cases)
next
  case (worker i pl1 k)
  obtain rest where rest: "mset (po_workers pl) = add_mset (po_workers pl ! i) rest"
    "\<And>k. mset ((po_workers pl)[i := k]) = add_mset k rest"
    using update_worker [OF worker(3)] by metis
  have "po_phase pl' = Running" using worker(4,1,2) by cases (auto simp: add_error_def cancel_pool_def)
  then show ?thesis
    using worker worker_step_system [OF worker(4), of "(\<Sum>k \<in># rest. worker_threads k) + M"] assms(2) rest
    by (simp add: pool_threads_def add.assoc)
qed (use assms(2) in \<open>auto simp: pool_threads_def elim!: system_drop\<close>)

lemma backfill_in_system:
  assumes "backfill_reachable e numWorkers dryRun w0 s"
  shows "case s of (w, ps, pl) \<Rightarrow> runs_in_system e w (pool_threads pl + mset ps)"
  using assms
proof induction
  case (call ps)
  then have "runs_in_system e w0 (mset ps)" unfolding runs_in_system_def by auto
  from system_start [OF this starts.other [OF background.unfilled]] show ?case
    by (simp add: pool_threads_def call_FillStakerAddr_def remaining_def)
next
  case (own w ps pl w' pl')
  then show ?case using pool_step_system [OF own.hyps(2)] by simp
next
  case (beside s s')
  from beside.hyps(2) show ?case
  proof cases
    case (indexer w ps w' ps' pl)
    then show ?thesis using system_beside [OF indexer(3)] beside.IH by simp
  next
    case interrupt
    then show ?thesis using beside.IH by (simp add: pool_threads_def cancel_pool_def)
  qed

qed

end
