(* ===== verification/Fill_Command.thy ===== *)
theory Fill_Command
  imports Startup Backfill_Rules
begin

text \<open>
  \<^verbatim>\<open>cmd/babylon-staking-indexer/cli/fill_staker_addr.go\<close>: the command that fills the missing staker addresses, from
  its flags to the code that the process exits with, beside an indexer that runs on the same database.
\<close>

section \<open>Before the backfill\<close>

text \<open>
  \<^verbatim>\<open>fillStakerAddrE\<close> up to the call of \<^verbatim>\<open>FillStakerAddr\<close>. The flags are declared with the command, so that reading
  them cannot fail. \<^verbatim>\<open>NewService\<close> only keeps its arguments.
\<close>

definition fillStakerAddrE ::
  "'q config_lib \<Rightarrow> (string \<Rightarrow> string + 'r) \<Rightarrow> ('r \<Rightarrow> string + 'q Config) \<Rightarrow> 'q outside \<Rightarrow> invocation \<Rightarrow> int \<Rightarrow> unit startup" where
  "fillStakerAddrE lib read unmarshal outs found numWorkers =
     andThen (Done (New lib read unmarshal (GetConfigPath found))) (\<lambda>cfg.
     andThen (db_New outs (c_Db cfg)) (\<lambda>_.
     if numWorkers \<le> 0 then throw (OtherError ''number of workers must be greater than 0'')
     else NewBBNClient outs (c_BBN cfg)))"

section \<open>The command\<close>

text \<open>
  A panic exits with 2. The command gives \<^verbatim>\<open>FillStakerAddr\<close> a context that nobody cancels.
\<close>

datatype command = Preparing "unit startup" process | Calling pool | Exited nat

fun exit_code :: "unit result \<Rightarrow> nat" where
  "exit_code (Ok u) = 0"
| "exit_code (Err err) = 1"
| "exit_code (Panic msg) = 2"

inductive command_step ::
  "env \<Rightarrow> int \<Rightarrow> bool \<Rightarrow> world \<times> (world, unit) prog list \<times> command \<Rightarrow> world \<times> (world, unit) prog list \<times> command \<Rightarrow> bool"
  for e numWorkers dryRun where
  prepare: "command_step e numWorkers dryRun (w, ps, Preparing (Act f) p)
    (fst (snd (f (w, p))), ps, Preparing (fst (f (w, p))) (snd (snd (f (w, p)))))"
| call: "command_step e numWorkers dryRun (w, ps, Preparing (Done (Ok u)) p) (w, ps, Calling (call_FillStakerAddr e))"
| fail: "r \<noteq> Ok () \<Longrightarrow> command_step e numWorkers dryRun (w, ps, Preparing (Done r) p) (w, ps, Exited (exit_code r))"
| fill: "pool_step e numWorkers dryRun (w, pl) (w', pl') \<Longrightarrow>
    command_step e numWorkers dryRun (w, ps, Calling pl) (w', ps, Calling pl')"
| exit: "po_phase pl = Finished r \<Longrightarrow> command_step e numWorkers dryRun (w, ps, Calling pl) (w, ps, Exited (exit_code r))"
| indexer: "sys_step e (w, ps) (w', ps') \<Longrightarrow> command_step e numWorkers dryRun (w, ps, c) (w', ps', c)"

text \<open>
  The run of \<^verbatim>\<open>fillStakerAddr\<close> with the flags, from any state of the indexer. The environment has the values of the
  configuration file, which the indexer reads as well.
\<close>

definition command_env ::
  "'q config_lib \<Rightarrow> (string \<Rightarrow> string + 'r) \<Rightarrow> ('r \<Rightarrow> string + 'q Config) \<Rightarrow> invocation \<Rightarrow> env \<Rightarrow> env" where
  "command_env lib read unmarshal found e =
     (case New lib read unmarshal (GetConfigPath found) of Ok cfg \<Rightarrow> configured cfg e | _ \<Rightarrow> e)"

definition command_starts ::
  "'q config_lib \<Rightarrow> (string \<Rightarrow> string + 'r) \<Rightarrow> ('r \<Rightarrow> string + 'q Config) \<Rightarrow> 'q outside \<Rightarrow> invocation \<Rightarrow> int \<Rightarrow>
    env \<Rightarrow> process \<Rightarrow> world \<times> (world, unit) prog list \<times> command \<Rightarrow> bool" where
  "command_starts lib read unmarshal outs found numWorkers e p s \<longleftrightarrow>
     (\<exists>w ps. s = (w, ps, Preparing (fillStakerAddrE lib read unmarshal outs found numWorkers) p) \<and>
       reachable (command_env lib read unmarshal found e) (w, ps))"

inductive_cases command_stepE: "command_step e numWorkers dryRun (w, ps, c) s'"

section \<open>Before the call nothing is written\<close>

text \<open>The preparation fails when there are no workers.\<close>

definition prepared :: "bool \<Rightarrow> unit startup \<Rightarrow> bool" where
  "prepared b = follows (\<lambda>s s'. fst s' = tick (fst s)) (\<lambda>r. r = Ok () \<longrightarrow> b)"

lemma follows_outside_call: "follows (\<lambda>s s'. fst s' = tick (fst s)) (\<lambda>r. True) (outside_call f)"
  by (simp add: outside_call_def ask_def atomically_def)

lemma fillStakerAddrE_prepared:
  "prepared (0 < numWorkers \<and> (\<exists>cfg. New lib read unmarshal (GetConfigPath found) = Ok cfg))
     (fillStakerAddrE lib read unmarshal outs found numWorkers)"
proof (cases "New lib read unmarshal (GetConfigPath found)")
  case (Ok cfg)
  let ?P = "\<lambda>r :: unit result. r = Ok () \<longrightarrow> 0 < numWorkers \<and> (\<exists>cfg. New lib read unmarshal (GetConfigPath found) = Ok cfg)"
  have "follows (\<lambda>s s'. fst s' = tick (fst s)) ?P (if numWorkers \<le> 0
      then throw (OtherError ''number of workers must be greater than 0'') else NewBBNClient outs (c_BBN cfg))"
    using Ok by (auto simp: NewBBNClient_def intro: follows_weaken [OF follows_outside_call])
  then show ?thesis
    by (auto simp: Ok prepared_def fillStakerAddrE_def db_New_def intro: follows_andThen [OF follows_outside_call])
qed (simp_all add: fillStakerAddrE_def prepared_def)

section \<open>The invariant\<close>

text \<open>\<open>w0\<close> is the state in which the command started, \<open>b\<close> what the preparation has checked.\<close>

fun stage_ok :: "env \<Rightarrow> int \<Rightarrow> bool \<Rightarrow> bool \<Rightarrow> world \<Rightarrow> world \<Rightarrow> command \<Rightarrow> bool" where
  "stage_ok e numWorkers dryRun b w0 w (Preparing q p) \<longleftrightarrow> prepared b q"
| "stage_ok e numWorkers dryRun b w0 w (Calling pl) \<longleftrightarrow> b \<and> \<not> po_interrupted pl \<and>
     (\<exists>w1. below w0 w1 \<and> pool_ok e numWorkers dryRun w1 (w, pl))"
| "stage_ok e numWorkers dryRun b w0 w (Exited n) \<longleftrightarrow>
     (n = 0 \<longrightarrow> b \<and> (0 < numWorkers \<longrightarrow> \<not> dryRun \<longrightarrow> (\<forall>h \<in> hashes w0. addressed w h)))"

definition command_ok :: "env \<Rightarrow> int \<Rightarrow> bool \<Rightarrow> bool \<Rightarrow> world \<Rightarrow> world \<times> (world, unit) prog list \<times> command \<Rightarrow> bool" where
  "command_ok e numWorkers dryRun b w0 s \<longleftrightarrow> (case s of (w, ps, c) \<Rightarrow>
     below w0 w \<and> sys_ok e (w, ps) \<and> stage_ok e numWorkers dryRun b w0 w c)"

lemma pool_step_not_interrupted:
  "pool_step e numWorkers dryRun (w, pl) (w', pl') \<Longrightarrow> po_interrupted pl' = po_interrupted pl"
  by (auto elim!: pool_stepE sender_step.cases worker_step.cases simp: start_workers_def add_error_def cancel_pool_def)

text \<open>All workers have left a finished pool, and no hash is left over.\<close>

lemma finished_pool:
  assumes "pool_ok e numWorkers dryRun w0 (w, pl)" "po_phase pl = Finished (Ok ())" "\<not> po_interrupted pl" "0 < numWorkers"
  shows "accounted pl = mset (po_done pl) \<and> all_hashes pl = mset (po_done pl)"
proof -
  have ok: "po_errs pl = []" "all_out pl" "control_ok numWorkers pl" "hashes_ok dryRun w0 w pl"
    "\<And>k. k \<in> set (po_workers pl) \<Longrightarrow> worker_ok e dryRun w pl k"
    using assms(1,2) by (simp_all add: pool_ok_def)
  then have live: "\<not> po_cancelled pl" "po_closed pl" "length (po_records pl) \<le> po_next pl"
    using assms(3) by (auto simp: control_ok_def all_out_def)
  have left: "k = Left" if "k \<in> set (po_workers pl)" for k
    using ok(2) ok(5) [OF that] that by (cases k) (auto simp: all_out_def list_all_iff)
  obtain k where "k \<in> set (po_workers pl)" using ok(3) assms(4) by (cases "po_workers pl") (auto simp: control_ok_def)
  then have "po_hashes pl = []" using left ok(5) live(1) by fastforce
  moreover have "image_mset in_flight (mset (po_workers pl)) = image_mset (\<lambda>k. {#}) (mset (po_workers pl))"
    by (rule image_mset_cong) (auto dest: left)

  then have "(\<Sum>k \<in># mset (po_workers pl). in_flight k) = {#}" by (simp add: image_mset_const_eq)

  ultimately have "accounted pl = mset (po_done pl)" using live(3) by (simp add: accounted_def)
  then show ?thesis using ok(1,4) by (simp add: hashes_ok_def)
qed

lemma finished_addresses:
  assumes "pool_ok e numWorkers dryRun w0 (w, pl)" "po_phase pl = Finished (Ok ())" "\<not> po_interrupted pl" "0 < numWorkers" "\<not> dryRun"
  shows "\<forall>h \<in> hashes w0. addressed w h"
proof -
  have "set (map d_StakingTxHashHex (po_records pl)) = set (po_done pl)"
    using finished_pool [OF assms(1-4)] by (metis all_hashes_def set_mset_mset)
  then show ?thesis using assms(1,2,5) by (auto simp: pool_ok_def hashes_ok_def covers_def)
qed

lemma command_step_ok:
  assumes "command_step e numWorkers dryRun s s'" "scan_ok e" "command_ok e numWorkers dryRun b w0 s"
  shows "command_ok e numWorkers dryRun b w0 s'"
  using assms(1)
proof cases
  case (prepare w ps f p)
  then have "good e w" "prepared b (Act f)" "below w0 w" using assms(3) by (simp_all add: command_ok_def sys_ok_def)
  moreover have "fst (snd (f (w, p))) = tick w" "prepared b (fst (f (w, p)))" using calculation(2) by (simp_all add: prepared_def)
  moreover have "below w (tick w)" "good e (tick w)" using good_tick [OF calculation(1)] by auto
  ultimately show ?thesis
    using prepare assms(3) below_trans by (auto simp: command_ok_def sys_ok_def intro: world.complies_later)
next
  case (call w ps u p)
  then show ?thesis
    using assms(2,3) pool_ok_call [OF assms(2)]
    by (auto simp: command_ok_def sys_ok_def prepared_def call_FillStakerAddr_def)
next
  case (fail r w ps p)
  then show ?thesis using assms(3) by (cases r) (auto simp: command_ok_def)
next
  case (fill w pl w' pl' ps)
  then obtain w1 where "below w0 w1" and ok: "pool_ok e numWorkers dryRun w1 (w, pl)" using assms(3) by (auto simp: command_ok_def)
  with pool_step_ok [OF fill(3) ok] have "below w w'" "\<exists>w1. below w0 w1 \<and> pool_ok e numWorkers dryRun w1 (w', pl')" by auto
  moreover from this(2) have "good e w'" by (auto simp: pool_ok_def)
  ultimately show ?thesis
    using fill assms(3) pool_step_not_interrupted [OF fill(3)] below_trans
    by (auto simp: command_ok_def sys_ok_def intro: world.complies_later)
next
  case (exit pl r w ps)
  then obtain w1 where w1: "below w0 w1" "pool_ok e numWorkers dryRun w1 (w, pl)" "\<not> po_interrupted pl"
    using assms(3) by (auto simp: command_ok_def)
  have "\<forall>h \<in> hashes w0. addressed w h" if "r = Ok ()" "0 < numWorkers" "\<not> dryRun"
    using finished_addresses [OF w1(2) _ w1(3) that(2,3)] exit that(1) hashes_mono [OF w1(1)] by blast
  then show ?thesis using exit assms(3) by (cases r) (auto simp: command_ok_def)
next
  case (indexer w ps w' ps' c)
  then have "below w w'" "sys_ok e (w', ps')" "below w0 w"
    using sys_step_ok [OF indexer(3) _ assms(2)] assms(3) by (auto simp: command_ok_def)
  moreover from this have "stage_ok e numWorkers dryRun b w0 w' c" if "stage_ok e numWorkers dryRun b w0 w c"
    using that by (cases c) (auto simp: sys_ok_def intro: pool_ok_later addressed_mono)
  ultimately show ?thesis using indexer assms(3) below_trans by (auto simp: command_ok_def)
qed


end
