(* ===== verification/Backfill_Spec.thy ===== *)
theory Backfill_Spec
  imports Fill_Command Startup_Spec
begin

text \<open>
  The command that fills the missing staker addresses: when it exits with success every delegation has an address, it
  always ends, and it writes nothing but addresses; with a concrete run.
\<close>

section \<open>A concrete run\<close>

text \<open>A delegation whose creation event has no staker address, and one worker.\<close>

abbreviation unaddressed_env :: env where
  "unaddressed_env \<equiv> sample_env\<lparr>lib_ParseTypedEvent :=
     (\<lambda>ev. Inr (MsgBTCDelegationCreated (sample_created\<lparr>bcd_StakerAddr := ''''\<rparr>)))\<rparr>"

definition fill_env :: env where
  "fill_env = configured sample_validated unaddressed_env"

lemma fill_env_simps [simp]:
  "mongo_fault fill_env = (\<lambda>t. None)" "mongo_order fill_env = (\<lambda>t n. [0..<n])" "queue_fault fill_env = (\<lambda>t. None)"
  "rpc_Block fill_env = (\<lambda>t height. Inr 2000)" "rpc_BTCDelegation fill_env = (\<lambda>t hash. Inr ''bbn1'')"
  "lib_ParseTypedEvent fill_env = (\<lambda>ev. Inr (MsgBTCDelegationCreated (sample_created\<lparr>bcd_StakerAddr := ''''\<rparr>)))"
  "lib_Deserialize fill_env = (\<lambda>bs. Inr sample_tx)" "lib_TxHash fill_env = (\<lambda>tx. ''h'')"
  "lib_GetFromBech32 fill_env = (\<lambda>a p. Inr [1])" "lib_VerifyAddressFormat fill_env = (\<lambda>bs. None)" "cfg_BBN_MaxRetryTimes fill_env = 3"
  by (simp_all add: fill_env_def configured_def sample_env_def sample_validated_def sample_config_def)

definition unfilled_world :: world where
  "unfilled_world = snd (run (process_item fill_env (sample_item 1 [EventBTCDelegationCreated])) initial_world)"

definition unfilled_delegation :: BTCDelegationDetails where
  "unfilled_delegation = sample_delegation\<lparr>d_StakerBabylonAddress := '''', d_StakingBTCTimestamp := 0, d_StartHeight := 0,
     d_EndHeight := 0, d_StateHistory := [hd (d_StateHistory sample_delegation)]\<rparr>"

lemma unfilled_world_eq:
  "unfilled_world = initial_world\<lparr>w_delegations := [unfilled_delegation], w_last_height := Some 1, w_clock := 3\<rparr>"
  by (simp add: unfilled_world_def unfilled_delegation_def sample_delegation_def prog_eval sample_eval numeral_3_eq_3
      del: andThen.simps on_error.simps retry_from.simps cong: continue_cong)

lemma unfilled_reachable: "\<exists>ps. reachable fill_env (unfilled_world, ps)"
  using steps_reachable [OF run_steps [OF starts.block [of fill_env initial_world]] reachable.init] unfolding unfilled_world_def by blast

lemma fill_env_ok: "scan_ok fill_env"
  by (simp add: scan_ok_def)

text \<open>Programs that run without an interruption.\<close>

lemma preparing_run:
  "(command_step e n dryRun)\<^sup>*\<^sup>* (w, ps, Preparing q p)
     (fst (snd (run q (w, p))), ps, Preparing (Done (fst (run q (w, p)))) (snd (snd (run q (w, p)))))"
proof (induction q arbitrary: w p rule: prog_actions_induct)
  case (Act f)
  obtain w' p' where s: "snd (f (w, p)) = (w', p')" by fastforce
  have "command_step e n dryRun (w, ps, Preparing (Act f) p) (w', ps, Preparing (fst (f (w, p))) p')"
    using command_step.prepare [of e n dryRun w ps f p] by (simp add: s)
  from converse_rtranclp_into_rtranclp [OF this Act] show ?case by (simp add: s)
qed simp

lemma reading_run:
  "(pool_step e n dryRun)\<^sup>*\<^sup>* (w, pl\<lparr>po_phase := Reading p\<rparr>) (snd (run p w), pl\<lparr>po_phase := Reading (Done (fst (run p w)))\<rparr>)"
proof (induction p arbitrary: w rule: prog_actions_induct)
  case (Act f)
  have "pool_step e n dryRun (w, pl\<lparr>po_phase := Reading (Act f)\<rparr>) (snd (f w), pl\<lparr>po_phase := Reading (fst (f w))\<rparr>)"
    using pool_step.read_act [of "pl\<lparr>po_phase := Reading (Act f)\<rparr>"] by simp
  from converse_rtranclp_into_rtranclp [OF this Act] show ?case by simp
qed simp

lemma filling_run:
  assumes "po_phase pl = Running"
  shows "(pool_step e n dryRun)\<^sup>*\<^sup>* (w, pl\<lparr>po_workers := [Filling h p]\<rparr>)
     (snd (run p w), pl\<lparr>po_workers := [Filling h (Done (fst (run p w)))]\<rparr>)"
proof (induction p arbitrary: w rule: prog_actions_induct)
  case (Act f)
  let ?pl = "pl\<lparr>po_workers := [Filling h (Act f)]\<rparr>"
  have "pool_step e n dryRun (w, ?pl) (snd (f w), ?pl\<lparr>po_workers := (po_workers ?pl)[0 := Filling h (fst (f w))]\<rparr>)"
    by (rule pool_step.worker) (use assms in \<open>simp_all add: worker_step.act\<close>)
  then have "pool_step e n dryRun (w, ?pl) (snd (f w), pl\<lparr>po_workers := [Filling h (fst (f w))]\<rparr>)" by simp
  from converse_rtranclp_into_rtranclp [OF this Act] show ?case by simp
qed simp

lemma calling_steps:
  "(pool_step e n dryRun)\<^sup>*\<^sup>* (w, pl) (w', pl') \<Longrightarrow> (command_step e n dryRun)\<^sup>*\<^sup>* (w, ps, Calling pl) (w', ps, Calling pl')"
  by (induction rule: rtranclp_induct2) (auto intro: command_step.fill rtranclp.rtrancl_into_rtrancl)

definition fill_steps :: "world \<times> pool \<Rightarrow> world \<times> pool \<Rightarrow> bool" where
  "fill_steps = (pool_step fill_env 1 False)\<^sup>*\<^sup>*"

lemma fill_steps_trans [trans]: "fill_steps s t \<Longrightarrow> fill_steps t u \<Longrightarrow> fill_steps s u"
  unfolding fill_steps_def by (rule rtranclp_trans)

lemma fill_steps_single: "pool_step fill_env 1 False s t \<Longrightarrow> fill_steps s t"
  by (simp add: fill_steps_def)

definition sample_pool :: "phase \<Rightarrow> nat \<Rightarrow> bool \<Rightarrow> string list \<Rightarrow> worker \<Rightarrow> string list \<Rightarrow> pool" where
  "sample_pool ph i shut hs k ds = \<lparr>po_phase = ph, po_records = [unfilled_delegation], po_next = i, po_closed = shut,
     po_hashes = hs, po_workers = [k], po_errs = [], po_cancelled = False, po_interrupted = False, po_done = ds\<rparr>"

lemma sample_pool_simps [simp]:
  "po_phase (sample_pool ph i shut hs k ds) = ph" "po_records (sample_pool ph i shut hs k ds) = [unfilled_delegation]"
  "po_next (sample_pool ph i shut hs k ds) = i" "po_closed (sample_pool ph i shut hs k ds) = shut"
  "po_hashes (sample_pool ph i shut hs k ds) = hs" "po_workers (sample_pool ph i shut hs k ds) = [k]"
  "po_errs (sample_pool ph i shut hs k ds) = []" "po_done (sample_pool ph i shut hs k ds) = ds"
  "(sample_pool ph i shut hs k ds)\<lparr>po_phase := ph'\<rparr> = sample_pool ph' i shut hs k ds"
  "(sample_pool ph i shut hs k ds)\<lparr>po_closed := shut'\<rparr> = sample_pool ph i shut' hs k ds"
  "(sample_pool ph i shut hs k ds)\<lparr>po_hashes := hs'\<rparr> = sample_pool ph i shut hs' k ds"
  "(sample_pool ph i shut hs k ds)\<lparr>po_next := i'\<rparr> = sample_pool ph i' shut hs k ds"
  "(sample_pool ph i shut hs k ds)\<lparr>po_workers := [k']\<rparr> = sample_pool ph i shut hs k' ds"
  "(sample_pool ph i shut hs k ds)\<lparr>po_done := ds'\<rparr> = sample_pool ph i shut hs k ds'"
  by (simp_all add: sample_pool_def)

text \<open>The preparation has asked two services.\<close>

definition call_world :: world where
  "call_world = tick (tick unfilled_world)"

definition filled_world :: world where
  "filled_world = snd (run (fill_one fill_env False ''h'') (tick call_world))"

lemma run_fill_one: "fst (run (fill_one fill_env False ''h'') (tick call_world)) = Ok ()"
  "w_delegations filled_world = [unfilled_delegation\<lparr>d_StakerBabylonAddress := ''bbn1''\<rparr>]"
  by (simp_all add: filled_world_def fill_one_def call_world_def unfilled_world_eq BabylonStakerAddress_def clientCallWithRetry_def numeral_3_eq_3
      run_on_error ValidateBabylonAddress_def UpdateDelegationStakerBabylonAddress_def update_delegation_def unfilled_delegation_def
      sample_delegation_def del: andThen.simps on_error.simps cong: continue_cong)

lemma sample_read:
  "fill_steps (call_world, call_FillStakerAddr fill_env) (tick call_world, sample_pool Running 0 False [] Selecting [])"
proof -
  let ?read = "GetDelegationsWithEmptyStakerAddress fill_env"
  have read: "run ?read call_world = (Ok [unfilled_delegation], tick call_world)"
    by (simp add: GetDelegationsWithEmptyStakerAddress_def call_world_def unfilled_world_eq find_all_def unfilled_delegation_def scan_def)
  have "fill_steps (call_world, call_FillStakerAddr fill_env)
      (tick call_world, (call_FillStakerAddr fill_env)\<lparr>po_phase := Reading (ret [unfilled_delegation])\<rparr>)"
    using reading_run [where e = fill_env and n = 1 and dryRun = False and w = call_world and pl = "call_FillStakerAddr fill_env" and p = ?read]
    by (simp add: read call_FillStakerAddr_def fill_steps_def)
  also have "fill_steps \<dots> (tick call_world, sample_pool Running 0 False [] Selecting [])"
    using pool_step.read_ok [of "(call_FillStakerAddr fill_env)\<lparr>po_phase := Reading (ret [unfilled_delegation])\<rparr>" "[unfilled_delegation]"
        fill_env 1 False "tick call_world"]
    by (intro fill_steps_single) (simp add: call_FillStakerAddr_def start_workers_def sample_pool_def)
  finally show ?thesis .
qed

lemma sample_worker:
  assumes "worker_step fill_env False (w, sample_pool Running i shut hs k ds, k) (w', sample_pool Running i' shut' hs' k ds', k')"
  shows "fill_steps (w, sample_pool Running i shut hs k ds) (w', sample_pool Running i' shut' hs' k' ds')"
  using pool_step.worker [of "sample_pool Running i shut hs k ds" 0 fill_env False w w' "sample_pool Running i' shut' hs' k ds'" k'] assms
  by (intro fill_steps_single) simp

lemma sample_sender:
  "fill_steps (w, sample_pool Running 0 False [] Selecting []) (w, sample_pool Running 1 False [''h''] Selecting [])"
  "fill_steps (w, sample_pool Running 1 False hs k ds) (w, sample_pool Running 1 True hs k ds)"
  using pool_step.sender [OF _ sender_step.send, of "sample_pool Running 0 False [] Selecting []"]
    pool_step.sender [OF _ sender_step.sent_all, of "sample_pool Running 1 False hs k ds"]
  by (simp_all add: fill_steps_single hashesSize_def unfilled_delegation_def sample_delegation_def)

lemma sample_filled:
  "fill_steps (call_world, call_FillStakerAddr fill_env) (filled_world, sample_pool (Finished (Ok ())) 1 True [] Left [''h''])"
proof -
  let ?fill = "fill_one fill_env False ''h''"
  have take: "fill_steps (tick call_world, sample_pool Running 1 False [''h''] Selecting [])
      (tick call_world, sample_pool Running 1 False [] (Filling ''h'' ?fill) [])"
    using worker_step.receive [of "sample_pool Running 1 False [''h''] Selecting []" "''h''" "[]"] by (intro sample_worker) simp
  have work: "fill_steps (tick call_world, sample_pool Running 1 False [] (Filling ''h'' ?fill) [])
      (filled_world, sample_pool Running 1 False [] (Filling ''h'' (ret ())) [])"
    using filling_run [where pl = "sample_pool Running 1 False [] Selecting []" and e = fill_env and n = 1 and dryRun = False
        and w = "tick call_world" and h = "''h''" and p = ?fill]
    by (simp add: run_fill_one(1) filled_world_def fill_steps_def)
  have ok: "fill_steps (filled_world, sample_pool Running 1 False [] (Filling ''h'' (ret ())) [])
      (filled_world, sample_pool Running 1 False [] Selecting [''h''])"
    using worker_step.ok [of fill_env False filled_world "sample_pool Running 1 False [] (Filling ''h'' (ret ())) []" "''h''" "()"]
    by (intro sample_worker) simp
  have leave: "fill_steps (filled_world, sample_pool Running 1 True [] Selecting [''h''])
      (filled_world, sample_pool Running 1 True [] Left [''h''])"
    by (intro sample_worker worker_step.closed) simp_all
  have wait: "fill_steps (filled_world, sample_pool Running 1 True [] Left [''h''])
      (filled_world, sample_pool (Finished (Ok ())) 1 True [] Left [''h''])"
    using pool_step.wait [of "sample_pool Running 1 True [] Left [''h'']" fill_env 1 False filled_world]
    by (intro fill_steps_single) (simp add: all_out_def wait_result_def errors_Join_def map_filter_def)
  show ?thesis
    by (rule fill_steps_trans [OF sample_read] fill_steps_trans [OF sample_sender(1)] fill_steps_trans [OF take]
        fill_steps_trans [OF work] fill_steps_trans [OF ok] fill_steps_trans [OF sample_sender(2)] fill_steps_trans [OF leave] wait)+
qed

text \<open>The command, from its preparation to its exit.\<close>

abbreviation sample_found :: invocation where
  "sample_found \<equiv> \<lparr>inv_config = ''/root/config.yml'', inv_fill = Some (False, 1)\<rparr>"

abbreviation sample_fill :: "unit startup" where
  "sample_fill \<equiv> fillStakerAddrE sample_lib Inr (\<lambda>raw. Inr sample_config) sample_outside sample_found 1"

lemma sample_accepted: "New sample_lib Inr (\<lambda>raw. Inr sample_config) (GetConfigPath sample_found) = Ok sample_validated"
  using sample_config_accepted by (simp add: New_def sample_lib_def)

lemma sample_command_env:
  "command_env sample_lib Inr (\<lambda>raw. Inr sample_config) sample_found unaddressed_env = fill_env"
  by (simp add: command_env_def sample_accepted fill_env_def)

lemma sample_command:
  "(command_step fill_env 1 False)\<^sup>*\<^sup>* (unfilled_world, ps, Preparing sample_fill first_process) (filled_world, ps, Exited 0)"
proof -
  have "run sample_fill (unfilled_world, first_process) = (Ok (), (call_world, first_process))"
    by (simp add: fillStakerAddrE_def sample_accepted db_New_def NewBBNClient_def sample_outside_def call_world_def)
  then have "(command_step fill_env 1 False)\<^sup>*\<^sup>* (unfilled_world, ps, Preparing sample_fill first_process)
      (call_world, ps, Preparing (ret ()) first_process)"
    using preparing_run [where e = fill_env and n = 1 and dryRun = False and w = unfilled_world and ps = ps and q = sample_fill
        and p = first_process] by simp
  also have "command_step fill_env 1 False \<dots> (call_world, ps, Calling (call_FillStakerAddr fill_env))" by (rule command_step.call)
  also have "(command_step fill_env 1 False)\<^sup>*\<^sup>* (call_world, ps, Calling (call_FillStakerAddr fill_env))
      (filled_world, ps, Calling (sample_pool (Finished (Ok ())) 1 True [] Left [''h'']))"
    using sample_filled unfolding fill_steps_def by (rule calling_steps)
  also have "command_step fill_env 1 False (filled_world, ps, Calling (sample_pool (Finished (Ok ())) 1 True [] Left [''h'']))
      (filled_world, ps, Exited 0)"
    using command_step.exit [of "sample_pool (Finished (Ok ())) 1 True [] Left [''h'']" "Ok ()"] by simp
  finally show ?thesis .
qed

lemma call_world_reachable: "\<exists>ps. reachable fill_env (call_world, ps)"
proof -
  have boot: "snd (run (andThen (GetLastProcessedBbnHeight fill_env) (\<lambda>_. ret ())) w) = tick w" for w
    by (simp add: GetLastProcessedBbnHeight_def split: option.splits)
  have step: "\<exists>ps. reachable fill_env (tick w, ps)" if "reachable fill_env (w, ps)" for w ps
    using steps_reachable [OF run_steps [OF starts.boot [of fill_env w]] that] unfolding boot by blast
  obtain ps where "reachable fill_env (unfilled_world, ps)" using unfilled_reachable ..
  then obtain ps' where "reachable fill_env (tick unfilled_world, ps')" using step by blast
  then show ?thesis unfolding call_world_def by (rule step)
qed

lemma pool_steps_reachable:
  assumes "(pool_step e n dryRun)\<^sup>*\<^sup>* (w, pl) (w', pl')" "backfill_reachable e n dryRun w0 (w, ps, pl)"
  shows "backfill_reachable e n dryRun w0 (w', ps, pl')"
  using assms by (induction rule: rtranclp_induct2) (auto intro: backfill_reachable.own)

lemma sample_pool_reachable:
  "\<exists>ps. backfill_reachable fill_env 1 False call_world (filled_world, ps, sample_pool (Finished (Ok ())) 1 True [] Left [''h''])"
proof -
  obtain ps where "reachable fill_env (call_world, ps)" using call_world_reachable ..
  from pool_steps_reachable [OF sample_filled [unfolded fill_steps_def] backfill_reachable.call [OF this]] show ?thesis ..
qed

section \<open>The command\<close>

text \<open>
  C15. The exit code of \<^verbatim>\<open>fill-staker-addr\<close> can be trusted. Whatever fails, however its goroutines interleave and
  whatever the indexer does to the same database meanwhile: the process exits with 0 only if the configuration was
  accepted and there was at least one worker, and then, unless it was a dry run, every delegation that was in the
  database when the command started has a staker address that is not empty.
\<close>

theorem filled_on_success:
  assumes "scan_ok e" "command_starts lib read unmarshal outs found numWorkers e p (w0, ps0, c0)"
    and "(command_step (command_env lib read unmarshal found e) numWorkers dryRun)\<^sup>*\<^sup>* (w0, ps0, c0) (w, ps, Exited 0)"
  shows "0 < numWorkers \<and> (\<exists>cfg. New lib read unmarshal (GetConfigPath found) = Ok cfg) \<and>
    (\<not> dryRun \<longrightarrow> (\<forall>d \<in> set (w_delegations w0). \<exists>d' \<in> set (w_delegations w).
       d_StakingTxHashHex d' = d_StakingTxHashHex d \<and> d_StakerBabylonAddress d' \<noteq> ''''))"
proof -
  let ?e = "command_env lib read unmarshal found e"
  let ?b = "0 < numWorkers \<and> (\<exists>cfg. New lib read unmarshal (GetConfigPath found) = Ok cfg)"
  have scan: "scan_ok ?e" using assms(1) by (simp add: command_env_def scan_ok_def configured_def split: result.split)
  have "sys_ok ?e (w0, ps0)" using assms(2) reachable_ok [OF scan] by (auto simp: command_starts_def)
  then have "command_ok ?e numWorkers dryRun ?b w0 (w0, ps0, c0)"
    using assms(2) fillStakerAddrE_prepared by (auto simp: command_starts_def command_ok_def)
  with assms(3) have "command_ok ?e numWorkers dryRun ?b w0 (w, ps, Exited 0)"
    by (induction rule: rtranclp_induct) (use command_step_ok [OF _ scan] in blast)+
  then show ?thesis by (auto simp: command_ok_def hashes_def addressed_def)
qed

theorem filled_on_success_witness:
  "d_StakerBabylonAddress (hd (w_delegations unfilled_world)) = '''' \<and>
   (\<exists>d' \<in> set (w_delegations filled_world). d_StakingTxHashHex d' = d_StakingTxHashHex (hd (w_delegations unfilled_world)) \<and>
      d_StakerBabylonAddress d' \<noteq> '''')"
proof -
  obtain ps where ps: "reachable fill_env (unfilled_world, ps)" using unfilled_reachable ..
  have scan: "scan_ok unaddressed_env" by (simp add: scan_ok_def)
  have start: "command_starts sample_lib Inr (\<lambda>raw. Inr sample_config) sample_outside sample_found 1 unaddressed_env first_process
      (unfilled_world, ps, Preparing sample_fill first_process)"
    using ps by (simp add: command_starts_def sample_command_env)
  have steps: "(command_step (command_env sample_lib Inr (\<lambda>raw. Inr sample_config) sample_found unaddressed_env) 1 False)\<^sup>*\<^sup>*
      (unfilled_world, ps, Preparing sample_fill first_process) (filled_world, ps, Exited 0)"
    unfolding sample_command_env by (rule sample_command)
  from filled_on_success [OF scan start steps] show ?thesis
    by (simp add: unfilled_world_eq unfilled_delegation_def)
qed

section \<open>The pool of workers\<close>

text \<open>
  C36. The backfill ends. With at least one worker, its goroutines can perform only finitely many steps, however the
  indexer and the caller interleave with them, and whenever none of them can make a step, all are out and the function
  has returned: an error of one worker never leaves another or the sender waiting at the channel.
\<close>

theorem backfill_ends:
  assumes "scan_ok e" "0 < numWorkers"
  shows "wf {((w', pl'), (w, pl)). \<exists>ps u psu plu. (beside_step e)\<^sup>*\<^sup>* (w, ps, pl) (u, psu, plu) \<and>
      pool_step e numWorkers dryRun (u, plu) (w', pl')} \<and>
    (\<forall>w0 w ps pl. backfill_reachable e numWorkers dryRun w0 (w, ps, pl) \<and> (\<nexists>s'. pool_step e numWorkers dryRun (w, pl) s') \<longrightarrow>
      (\<exists>r. po_phase pl = Finished r))"
proof
  have "{((w', pl'), (w, pl)). \<exists>ps u psu plu. (beside_step e)\<^sup>*\<^sup>* (w, ps, pl) (u, psu, plu) \<and>
      pool_step e numWorkers dryRun (u, plu) (w', pl')} \<subseteq> inv_image pool_order (\<lambda>s. pool_rank (snd s))"
    using pool_step_rank beside_steps by fastforce
  then show "wf {((w', pl'), (w, pl)). \<exists>ps u psu plu. (beside_step e)\<^sup>*\<^sup>* (w, ps, pl) (u, psu, plu) \<and>
      pool_step e numWorkers dryRun (u, plu) (w', pl')}"
    by (rule wf_subset [OF wf_inv_image [OF wf_pool_order]])
  have "\<exists>r. po_phase pl = Finished r"
    if "backfill_reachable e numWorkers dryRun w0 (w, ps, pl)" "\<nexists>s'. pool_step e numWorkers dryRun (w, pl) s'" for w0 w ps pl
    using pool_idle [OF that(2) _ assms(2)] backfill_reachable_ok [OF that(1) assms(1)] by blast
  then show "\<forall>w0 w ps pl. backfill_reachable e numWorkers dryRun w0 (w, ps, pl) \<and> (\<nexists>s'. pool_step e numWorkers dryRun (w, pl) s') \<longrightarrow>
      (\<exists>r. po_phase pl = Finished r)" by blast
qed

theorem backfill_ends_witness:
  "wf {((w', pl'), (w, pl)). \<exists>ps u psu plu. (beside_step fill_env)\<^sup>*\<^sup>* (w, ps, pl) (u, psu, plu) \<and>
      pool_step fill_env 1 False (u, plu) (w', pl')} \<and>
   (\<exists>r. po_phase (sample_pool (Finished (Ok ())) 1 True [] Left [''h'']) = Finished r)"
proof -
  have one: "0 < (1 :: int)" by simp
  have "\<nexists>s'. pool_step fill_env 1 False (filled_world, sample_pool (Finished (Ok ())) 1 True [] Left [''h'']) s'"
    by (auto elim!: pool_stepE)
  with backfill_ends [OF fill_env_ok one, of False] sample_pool_reachable show ?thesis by blast
qed

text \<open>
  C37. The backfill writes addresses only. Each step of it leaves the state as it is but for the clock, or sets the
  address of a delegation that it has read without one, and that is still stored, to a valid address that is not empty; in
  a dry run it writes nothing.
\<close>

theorem backfill_writes_addresses_only:
  assumes "scan_ok e" "backfill_reachable e numWorkers dryRun w0 (w, ps, pl)" "pool_step e numWorkers dryRun (w, pl) (w', pl')"
  shows "w' = w \<or> w' = tick w \<or> (\<not> dryRun \<and> (\<exists>d \<in> set (po_records pl). d_StakerBabylonAddress d = '''' \<and>
    (\<exists>d1 \<in> set (w_delegations w). older d d1) \<and>
    (\<exists>a. a \<noteq> '''' \<and> ValidateBabylonAddress e a = Ok () \<and>
      w' = update_delegation (d_StakingTxHashHex d) (\<lambda>d. d\<lparr>d_StakerBabylonAddress := a\<rparr>) (tick w))))"
proof -
  have ok: "pool_ok e numWorkers dryRun w0 (w, pl)" using backfill_reachable_ok [OF assms(2,1)] by simp
  from assms(3) show ?thesis
  proof cases
    case (read_act f)
    then have "calm (Act f)" using ok by (simp add: pool_ok_def)
    then show ?thesis using read_act by simp
  next
    case (worker i pl1 k)
    from worker(4) show ?thesis
    proof cases
      case (act h f)
      then have mem: "Filling h (Act f) \<in> set (po_workers pl)" using worker(3) by (metis nth_mem)
      have "h \<in># accounted pl" using mem by (force simp: accounted_def)
      moreover have hashes: "hashes_ok dryRun w0 w pl" using ok worker(2) by (simp add: pool_ok_def)
      then have "accounted pl \<subseteq># all_hashes pl" by (simp add: hashes_ok_def)
      ultimately have "h \<in># all_hashes pl" by (rule mset_subset_eqD [rotated])
      then obtain d where d: "d \<in> set (po_records pl)" "h = d_StakingTxHashHex d" by (auto simp: all_hashes_def)
      then have "d_StakerBabylonAddress d = ''''" "known w d" using hashes by (simp_all add: hashes_ok_def covers_def)
      moreover have "writes e dryRun h w w'" using mem ok worker(2) act by (fastforce simp: pool_ok_def)
      ultimately show ?thesis using d unfolding writes_def known_def by blast
    qed simp_all
  qed simp_all
qed

text \<open>The run up to the step that writes the address: the Babylon node has been asked.\<close>

abbreviation writing_address :: "(world, unit) prog" where
  "writing_address \<equiv> wrap_err ''failed to update delegation staker addr'' (UpdateDelegationStakerBabylonAddress fill_env ''h'' ''bbn1'')"

abbreviation writing_pool :: pool where
  "writing_pool \<equiv> sample_pool Running 1 False [] (Filling ''h'' writing_address) []"

lemma fill_one_asks: "\<exists>f. fill_one fill_env False ''h'' = Act f \<and> (\<forall>w. f w = (writing_address, tick w))"
  by (simp add: fill_one_def BabylonStakerAddress_def clientCallWithRetry_def numeral_3_eq_3 ask_def atomically_def ValidateBabylonAddress_def)

lemma sample_writing: "fill_steps (call_world, call_FillStakerAddr fill_env) (tick (tick call_world), writing_pool)"
proof -
  let ?fill = "fill_one fill_env False ''h''"
  obtain f where f: "?fill = Act f" "f (tick call_world) = (writing_address, tick (tick call_world))" using fill_one_asks by blast
  have take: "fill_steps (tick call_world, sample_pool Running 1 False [''h''] Selecting [])
      (tick call_world, sample_pool Running 1 False [] (Filling ''h'' ?fill) [])"
    using worker_step.receive [of "sample_pool Running 1 False [''h''] Selecting []" "''h''" "[]"] by (intro sample_worker) simp
  have ask: "fill_steps (tick call_world, sample_pool Running 1 False [] (Filling ''h'' (Act f)) []) (tick (tick call_world), writing_pool)"
    using worker_step.act [of fill_env False "tick call_world" "sample_pool Running 1 False [] (Filling ''h'' (Act f)) []" "''h''" f]
    by (intro sample_worker) (simp add: f(2))
  show ?thesis
    by (rule fill_steps_trans [OF sample_read] fill_steps_trans [OF sample_sender(1)] fill_steps_trans [OF take] ask [folded f(1)])+
qed

lemma sample_write:
  "\<exists>w' pl'. pool_step fill_env 1 False (tick (tick call_world), writing_pool) (w', pl') \<and>
    w_delegations w' = [unfilled_delegation\<lparr>d_StakerBabylonAddress := ''bbn1''\<rparr>]"
proof -
  obtain g where g: "writing_address = Act g" "w_delegations (snd (g (tick (tick call_world)))) = [unfilled_delegation\<lparr>d_StakerBabylonAddress := ''bbn1''\<rparr>]"
    by (simp add: wrap_err_def UpdateDelegationStakerBabylonAddress_def db_call_def atomically_def update_delegation_def call_world_def
      unfilled_world_eq unfilled_delegation_def sample_delegation_def)
  have "pool_step fill_env 1 False (tick (tick call_world), writing_pool)
      (snd (g (tick (tick call_world))), writing_pool\<lparr>po_workers := (po_workers writing_pool)[0 := Filling ''h'' (fst (g (tick (tick call_world))))]\<rparr>)"
    by (rule pool_step.worker) (simp_all add: g(1) worker_step.act)
  with g(2) show ?thesis by blast
qed

theorem backfill_writes_addresses_only_witness:
  "\<exists>w' pl'. pool_step fill_env 1 False (tick (tick call_world), writing_pool) (w', pl') \<and>
    w_delegations w' = [unfilled_delegation\<lparr>d_StakerBabylonAddress := ''bbn1''\<rparr>] \<and>
    (\<exists>d a. d \<in> set (po_records writing_pool) \<and> d_StakerBabylonAddress d = '''' \<and> a \<noteq> '''' \<and>
      w' = update_delegation (d_StakingTxHashHex d) (\<lambda>d. d\<lparr>d_StakerBabylonAddress := a\<rparr>) (tick (tick (tick call_world))))"
proof -
  obtain ps where "reachable fill_env (call_world, ps)" using call_world_reachable ..
  from pool_steps_reachable [OF sample_writing [unfolded fill_steps_def] backfill_reachable.call [OF this]]
  have reach: "backfill_reachable fill_env 1 False call_world (tick (tick call_world), ps, writing_pool)" .
  obtain w' pl' where step: "pool_step fill_env 1 False (tick (tick call_world), writing_pool) (w', pl')"
    "w_delegations w' = [unfilled_delegation\<lparr>d_StakerBabylonAddress := ''bbn1''\<rparr>]" using sample_write by blast
  have "w_delegations (tick (tick call_world)) = [unfilled_delegation]" by (simp add: call_world_def unfilled_world_eq)
  then have "w' \<noteq> tick (tick call_world)" "w' \<noteq> tick (tick (tick call_world))"
    using step(2) by (auto simp: unfilled_delegation_def sample_delegation_def)
  with backfill_writes_addresses_only [OF fill_env_ok reach step(1)] step show ?thesis by blast
qed

end
