(* ===== verification/Spend_Effects.thy ===== *)
theory Spend_Effects
  imports Script_Spec
begin

text \<open>
  What the spend of a watched output does when no call fails: the document of the delegation, the message to the
  consumers, the time lock and the goroutine that each way of spending a staking output, an unbonding output or the
  change of a slashing transaction leaves behind.
\<close>

section \<open>The effect of a handler\<close>

text \<open>
  The delegations are those of \<open>ds\<close>, and to the queue, the time locks and the goroutines the given ones have
  been added.
\<close>

definition leaves_behind ::
  "world \<Rightarrow> (string \<Rightarrow> BTCDelegationDetails option) \<Rightarrow> StakingEvent list \<Rightarrow> TimeLockDocument list \<Rightarrow> SpendJob list \<Rightarrow> world \<Rightarrow> bool" where
  "leaves_behind w ds msgs locks jobs w' \<longleftrightarrow>
     docs w' = ds \<and> w_queue w' = w_queue w @ msgs \<and> w_timelocks w' = w_timelocks w @ locks \<and> w_jobs w' = w_jobs w @ jobs"

lemma leaves_behind_tick [simp]:
  "leaves_behind (tick w) ds msgs locks jobs = leaves_behind w ds msgs locks jobs"
  "leaves_behind w ds msgs locks jobs (tick w') = leaves_behind w ds msgs locks jobs w'"
  by (simp_all add: leaves_behind_def fun_eq_iff)

lemma leaves_behind_nothing: "leaves_behind w (docs w) [] [] [] w"
  by (simp add: leaves_behind_def)

lemma leaves_behind_updated:
  assumes "keyed w" "docs w h = Some d" "d_State d \<in> set qs"
  shows "leaves_behind w ((docs w)(h \<mapsto> apply_update s (options_of opts) d)) [] [] []
    (updated h (\<lambda>d. d_State d \<in> set qs) (apply_update s (options_of opts)) w)"
  using docs_updated(1) [OF assms(1,2), of "\<lambda>d. d_State d \<in> set qs" "apply_update s (options_of opts)"] assms(3)
  by (simp add: leaves_behind_def apply_update_key)

text \<open>The guarded update on a stored document, in a qualified state and in another one.\<close>

lemma run_update_refused:
  assumes "no_faults e" "keyed w" "docs w h = Some d" "d_State d \<notin> set qs" "qs \<noteq> []"
  shows "run (UpdateBTCDelegationState e h qs s opts) w =
    (Err (NotFoundError h ''BTC delegation not found or current state is not qualified states''), tick w)"
proof -
  have k: "distinct (map d_StakingTxHashHex (w_delegations w))" using assms(2) by (simp add: keyed_def)
  have "update_doc d_StakingTxHashHex h (\<lambda>d. d_State d \<in> set qs) (apply_update s (options_of opts)) (w_delegations w) = None"
    using store.change_defined [OF k, of h "\<lambda>d. d_State d \<in> set qs" "apply_update s (options_of opts)"] assms(3,4)
    by (auto simp: docs_def)
  then show ?thesis by (simp add: run_update [OF assms(1,5)])
qed

lemma run_params_found:
  assumes "no_faults e" "find_doc fst v (w_staking_params w) = Some (v', params)"
  shows "run (GetStakingParams e v) w = (Ok params, tick w)"
  using assms(2) by (simp add: GetStakingParams_def no_faultsD [OF assms(1)])

lemmas update_doc_eval =
  apply_update_def options_of_def stateRecord_of_def set_slashing_def empty_options_def db_defs

lemma qualified_nonempty [simp]:
  "QualifiedStatesForUnbondedEarly \<noteq> []" "QualifiedStatesForSlashed \<noteq> []" "QualifiedStatesForWithdrawn \<noteq> []"
  by (simp_all add: qualified_defs)

text \<open>The active delegation of the sample, with its parameters.\<close>

definition active_params_world :: world where
  "active_params_world = params_world\<lparr>w_delegations := [active_delegation], w_timelocks := []\<rparr>"

lemma active_params:
  "keyed active_params_world" "docs active_params_world ''h'' = Some active_delegation"
  "find_doc fst (d_ParamsVersion active_delegation) (w_staking_params active_params_world) = Some (0, FromBbnStakingParams sample_params)"
  "w_timelocks active_params_world = []"
  by (simp_all add: docs_def keyed_def find_doc_def active_params_world_def sample_worlds sample_delegation_defs)

section \<open>The unbonding path\<close>

lemma accepted_unbonding_parses:
  assumes "validateUnbondingTxOutput e tx delegation params = Ok True"
  shows "\<exists>bytes registered. hex_DecodeString (d_UnbondingTx delegation) = Ok bytes \<and>
    lib_NewBTCTxFromBytes e bytes = Inr registered \<and> lib_TxHash e registered = lib_TxHash e tx"
  using assms by (auto simp: validateUnbondingTxOutput_def Let_def split: if_splits)

lemma run_register_unbonding:
  assumes "hex_DecodeString (d_UnbondingTx d) = Ok bytes" "lib_NewBTCTxFromBytes e bytes = Inr registered"
  shows "run (registerUnbondingSpendNotification e d) w = (Ok (), w\<lparr>w_jobs := w_jobs w @
    [\<lparr>job_OutPoint = \<lparr>op_Hash = lib_TxHash e registered, op_Index = 0\<rparr>, job_Tx = registered, job_OutputIdx = 0,
      job_HeightHint = d_StartHeight d, job_Watch = WatchUnbonding d\<rparr>]\<rparr>)"
  using assms by (simp add: registerUnbondingSpendNotification_def)

text \<open>
  C16. A spend of the staking output through the unbonding path moves an ACTIVE or UNBONDING delegation to UNBONDING with
  the sub-state EARLY_UNBONDING, the time of the block and the height of the spend; a delegation in another state stays as it is,
  which is no error. When the output is that of the registered unbonding transaction, the unbonding message is sent, one
  time lock is recorded that ends the unbonding time after the spend, and the first output of the transaction is watched; when the
  output is another one, the state has moved all the same, and there is neither message, time lock nor watch.
\<close>

theorem unbonding_spend_takes_effect:
  assumes "no_faults e" "keyed w" "docs w h = Some d"
    and "find_doc fst (d_ParamsVersion d) (w_staking_params w) = Some (v, params)"
    and "isSpendingStakingTxUnbondingPath e tx d params = Ok True" "validateUnbondingTxOutput e tx d params = Ok valid"
    and "\<forall>t. btc_GetBlockHash e t (ucast height) = Inr hash" "\<forall>t. btc_GetBlock e t hash = Inr time"
  shows "\<exists>w' ds. run (handleSpendingStakingTransaction e tx i height h) w = (Ok (), w') \<and>
    ds = (if d_State d = StateActive \<or> d_State d = StateUnbonding
      then (docs w)(h \<mapsto> d\<lparr>d_State := StateUnbonding, d_SubState := SubStateEarlyUnbonding,
        d_UnbondingBTCTimestamp := time, d_UnbondingStartHeight := height,
        d_StateHistory := d_StateHistory d @ [\<lparr>sr_State = StateUnbonding, sr_SubState = SubStateEarlyUnbonding,
          sr_BbnHeight = 0, sr_BtcHeight = height, sr_BbnEventType = ''''\<rparr>]\<rparr>)
      else docs w) \<and>
    (if valid
     then \<exists>registered. lib_TxHash e registered = lib_TxHash e tx \<and>
       leaves_behind w ds [staking_event UnbondingStakingEventType d]
         [NewTimeLockDocument h (height + d_UnbondingTime d) SubStateEarlyUnbonding]
         [\<lparr>job_OutPoint = \<lparr>op_Hash = lib_TxHash e tx, op_Index = 0\<rparr>, job_Tx = registered, job_OutputIdx = 0,
           job_HeightHint = d_StartHeight d, job_Watch = WatchUnbonding d\<rparr>] w'
     else leaves_behind w ds [] [] [] w')"
proof -
  let ?opts = "[WithSubState SubStateEarlyUnbonding, WithBtcHeight height, WithUnbondingBTCTimestamp time, WithUnbondingStartHeight height]"
  let ?qs = QualifiedStatesForUnbondedEarly
  let ?w0 = "tick (tick (tick (tick w)))"
  define ds where "ds = (if d_State d \<in> set ?qs then (docs w)(h \<mapsto> apply_update StateUnbonding (options_of ?opts) d) else docs w)"
  define w1 where "w1 = (if d_State d \<in> set ?qs
    then updated h (\<lambda>d. d_State d \<in> set ?qs) (apply_update StateUnbonding (options_of ?opts)) (tick ?w0) else tick ?w0)"
  have key: "d_StakingTxHashHex d = h" using docs_key assms(3) by blast
  have w0: "keyed ?w0" "docs ?w0 h = Some d" using assms(2,3) by simp_all
  have update: "run (on_error (UpdateBTCDelegationState e h ?qs StateUnbonding ?opts)
      (\<lambda>err. if IsNotFoundError err then ret () else throw (Wrapped ''failed to update BTC delegation state'' err))) ?w0 = (Ok (), w1)"
    using run_update_found [OF assms(1) w0] run_update_refused [OF assms(1) w0] by (simp add: run_on_error w1_def)
  have left: "leaves_behind w ds [] [] [] w1"
    using leaves_behind_updated [of "tick ?w0" h d ?qs StateUnbonding ?opts] assms(2,3) leaves_behind_nothing [of w]
    by (simp add: ds_def w1_def)
  have ds: "ds = (if d_State d = StateActive \<or> d_State d = StateUnbonding
      then (docs w)(h \<mapsto> d\<lparr>d_State := StateUnbonding, d_SubState := SubStateEarlyUnbonding,
        d_UnbondingBTCTimestamp := time, d_UnbondingStartHeight := height,
        d_StateHistory := d_StateHistory d @ [\<lparr>sr_State = StateUnbonding, sr_SubState = SubStateEarlyUnbonding,
          sr_BbnHeight = 0, sr_BtcHeight = height, sr_BbnEventType = ''''\<rparr>]\<rparr>)
      else docs w)"
    by (simp add: ds_def qualified_defs update_doc_eval)
  note steps = handleSpendingStakingTransaction_def run_get_found [OF assms(1)] run_params_found [OF assms(1)]
    run_timestamp [OF assms(7,8)] update Let_def
  show ?thesis
  proof (cases valid)
    case True
    from accepted_unbonding_parses [of e tx d params] assms(6) True obtain bytes registered where
      *: "hex_DecodeString (d_UnbondingTx d) = Ok bytes" "lib_NewBTCTxFromBytes e bytes = Inr registered" "lib_TxHash e registered = lib_TxHash e tx"
      by auto
    let ?job = "\<lparr>job_OutPoint = \<lparr>op_Hash = lib_TxHash e tx, op_Index = 0\<rparr>, job_Tx = registered, job_OutputIdx = 0,
      job_HeightHint = d_StartHeight d, job_Watch = WatchUnbonding d\<rparr>"
    let ?w2 = "(tick (tick w1))\<lparr>w_queue := w_queue w1 @ [staking_event UnbondingStakingEventType d],
      w_timelocks := w_timelocks w1 @ [NewTimeLockDocument h (height + d_UnbondingTime d) SubStateEarlyUnbonding],
      w_jobs := w_jobs w1 @ [?job]\<rparr>"
    have "fst (run (handleSpendingStakingTransaction e tx i height h) w) = Ok () \<and>
      leaves_behind w ds [staking_event UnbondingStakingEventType d]
         [NewTimeLockDocument h (height + d_UnbondingTime d) SubStateEarlyUnbonding] [?job]
        (snd (run (handleSpendingStakingTransaction e tx i height h) w))"
      using assms(3-6) True key * left
      by (simp add: steps run_emit [OF assms(1)] run_save_timelock [OF assms(1)] run_register_unbonding [OF *(1,2)] leaves_behind_def
          del: andThen.simps on_error.simps)
    with True *(3) ds show ?thesis by (metis prod.collapse)
  next
    case False
    have "run (handleSpendingStakingTransaction e tx i height h) w = (Ok (), w1)"
      using assms(3-6) False key by (simp add: steps del: andThen.simps on_error.simps)
    with False left ds show ?thesis by auto
  qed
qed


theorem unbonding_spend_takes_effect_witness:
  "\<exists>w'. run (handleSpendingStakingTransaction sample_env unbonding_tx 0 50 ''h'') active_params_world = (Ok (), w') \<and>
     w_timelocks w' = [NewTimeLockDocument ''h'' 57 SubStateEarlyUnbonding]"
proof -
  have path: "isSpendingStakingTxUnbondingPath sample_env unbonding_tx active_delegation (FromBbnStakingParams sample_params) = Ok True"
    by (simp add: unbonding_tx_def sample_delegation_defs watch_eval prog_eval params_eval sample_tx_def to_uint16_def)
  from unbonding_spend_takes_effect [OF sample_env_ok(2) active_params(1-3) path unbonding_tx_accepted, of 50 "''b''" 1000 0]
  show ?thesis by (auto simp: leaves_behind_def active_params(4) sample_delegation_defs)
qed

section \<open>Withdrawal and slashing\<close>

definition withdrawal_of :: "env \<Rightarrow> MsgTx \<Rightarrow> u32 \<Rightarrow> DelegationSubState \<Rightarrow> BTCDelegationDetails \<Rightarrow> BTCDelegationDetails" where
  "withdrawal_of e tx height sub d = d\<lparr>d_State := StateWithdrawn, d_SubState := sub, d_WithdrawalTx := \<lparr>wt_TxHash = lib_TxHash e tx\<rparr>,
     d_StateHistory := d_StateHistory d @ [\<lparr>sr_State = StateWithdrawn, sr_SubState = sub, sr_BbnHeight = 0, sr_BtcHeight = height,
       sr_BbnEventType = ''''\<rparr>]\<rparr>"

lemma withdrawal_of_eq:
  "apply_update StateWithdrawn (options_of [WithSubState sub, WithBtcHeight height, WithWithdrawalTx (lib_TxHash e tx)]) d =
   withdrawal_of e tx height sub d"
  by (simp add: withdrawal_of_def update_doc_eval)

lemma run_state_found:
  assumes "no_faults e" "docs w h = Some d"
  shows "run (GetBTCDelegationState e h) w = (Ok (d_State d), tick w)"
  by (simp add: GetBTCDelegationState_def run_get_found [OF assms])

lemma withdrawal_effect:
  assumes "no_faults e" "keyed w" "docs w (d_StakingTxHashHex d) = Some d'"
  shows "if d_State d' \<in> set QualifiedStatesForWithdrawn
    then \<exists>w'. run (handleWithdrawal e d sub height tx) w = (Ok (), w') \<and>
      leaves_behind w ((docs w)(d_StakingTxHashHex d \<mapsto> withdrawal_of e tx height sub d')) [] [] [] w'
    else \<exists>err. run (handleWithdrawal e d sub height tx) w = (Err err, tick w)"
proof -
  have w1: "keyed (tick w)" "docs (tick w) (d_StakingTxHashHex d) = Some d'" using assms(2,3) by simp_all
  show ?thesis
    using leaves_behind_updated [of "tick (tick w)" "d_StakingTxHashHex d" d' QualifiedStatesForWithdrawn StateWithdrawn
        "[WithSubState sub, WithBtcHeight height, WithWithdrawalTx (lib_TxHash e tx)]"] assms(2,3)
    by (simp add: handleWithdrawal_def run_state_found [OF assms(1)] run_update_found [OF assms(1) w1] withdrawal_of_eq
        del: andThen.simps on_error.simps)
qed

text \<open>What a slashing leaves behind: the watch of the change output and its time lock.\<close>

lemma slashing_change_effect:
  assumes "no_faults e" "find_doc fst (d_ParamsVersion d) (w_staking_params w) = Some (v, params)"
  shows "\<exists>w'. run (startWatchingSlashingChange e tx height d sub) w = (Ok (), w') \<and>
    leaves_behind w (docs w) [] [NewTimeLockDocument (d_StakingTxHashHex d) (height + sp_UnbondingTimeBlocks params) sub]
      [\<lparr>job_OutPoint = \<lparr>op_Hash = lib_TxHash e tx, op_Index = 1\<rparr>, job_Tx = tx, job_OutputIdx = 1,
        job_HeightHint = d_StartHeight d, job_Watch = WatchSlashingChange d sub\<rparr>] w'"
  using assms(2)
  by (simp add: startWatchingSlashingChange_def run_params_found [OF assms(1)] run_save_timelock [OF assms(1)] Let_def leaves_behind_def
      del: andThen.simps on_error.simps)

lemma leaves_behind_trans:
  "leaves_behind w ds msgs locks jobs w1 \<Longrightarrow> leaves_behind w1 (docs w1) msgs' locks' jobs' w2 \<Longrightarrow>
   leaves_behind w ds (msgs @ msgs') (locks @ locks') (jobs @ jobs') w2"
  by (simp add: leaves_behind_def)

lemma updated_params [simp]: "w_staking_params (updated h cond f w) = w_staking_params w"
  by (auto simp: updated_def split: option.splits)

text \<open>The update to SLASHED and the watch of the change, which both slashing handlers end with.\<close>

definition slash :: "env \<Rightarrow> MsgTx \<Rightarrow> u32 \<Rightarrow> BTCDelegationDetails \<Rightarrow> DelegationSubState \<Rightarrow> UpdateOption list \<Rightarrow> (world, unit) prog" where
  "slash e tx height d sub opts =
     andThen (wrap_err ''failed to update BTC delegation state''
       (UpdateBTCDelegationState e (d_StakingTxHashHex d) QualifiedStatesForSlashed StateSlashed opts))
       (\<lambda>_. startWatchingSlashingChange e tx height d sub)"

lemma slash_effect:
  assumes "no_faults e" "keyed w" "docs w (d_StakingTxHashHex d) = Some d'"
    and "find_doc fst (d_ParamsVersion d) (w_staking_params w) = Some (v, params)"
  shows "if d_State d' \<in> set QualifiedStatesForSlashed
    then \<exists>w'. run (slash e tx height d sub opts) w = (Ok (), w') \<and>
      leaves_behind w ((docs w)(d_StakingTxHashHex d \<mapsto> apply_update StateSlashed (options_of opts) d')) []
        [NewTimeLockDocument (d_StakingTxHashHex d) (height + sp_UnbondingTimeBlocks params) sub]
        [\<lparr>job_OutPoint = \<lparr>op_Hash = lib_TxHash e tx, op_Index = 1\<rparr>, job_Tx = tx, job_OutputIdx = 1,
          job_HeightHint = d_StartHeight d, job_Watch = WatchSlashingChange d sub\<rparr>] w'
    else \<exists>err. run (slash e tx height d sub opts) w = (Err err, tick w)"
proof (cases "d_State d' \<in> set QualifiedStatesForSlashed")
  case True
  let ?h = "d_StakingTxHashHex d"
  let ?w1 = "updated ?h (\<lambda>d. d_State d \<in> set QualifiedStatesForSlashed) (apply_update StateSlashed (options_of opts)) (tick w)"
  have update: "run (UpdateBTCDelegationState e ?h QualifiedStatesForSlashed StateSlashed opts) w = (Ok (), ?w1)"
    using run_update_found [OF assms(1-3) True] .
  have first: "leaves_behind w ((docs w)(?h \<mapsto> apply_update StateSlashed (options_of opts) d')) [] [] [] ?w1"
    using leaves_behind_updated [of "tick w" ?h d' QualifiedStatesForSlashed StateSlashed opts] assms(2,3) True by simp
  have params: "find_doc fst (d_ParamsVersion d) (w_staking_params ?w1) = Some (v, params)" using assms(4) by simp
  obtain w' where "run (startWatchingSlashingChange e tx height d sub) ?w1 = (Ok (), w')"
    "leaves_behind ?w1 (docs ?w1) [] [NewTimeLockDocument ?h (height + sp_UnbondingTimeBlocks params) sub]
      [\<lparr>job_OutPoint = \<lparr>op_Hash = lib_TxHash e tx, op_Index = 1\<rparr>, job_Tx = tx, job_OutputIdx = 1,
        job_HeightHint = d_StartHeight d, job_Watch = WatchSlashingChange d sub\<rparr>] w'"
    using slashing_change_effect [OF assms(1) params] by blast
  with leaves_behind_trans [OF first this(2)] True show ?thesis
    by (simp add: slash_def update del: andThen.simps)
next
  case False
  with run_update_refused [OF assms(1-3) False] show ?thesis by (simp add: slash_def del: andThen.simps)
qed

definition staking_slashing_of :: "string \<Rightarrow> u32 \<Rightarrow> i64 \<Rightarrow> BTCDelegationDetails \<Rightarrow> BTCDelegationDetails" where
  "staking_slashing_of txHex height time d = d\<lparr>d_State := StateSlashed, d_SubState := SubStateTimelockSlashing,
     d_SlashingTx := (d_SlashingTx d)\<lparr>st_SlashingTxHex := txHex, st_SpendingHeight := height, st_SlashingBTCTimestamp := time\<rparr>,
     d_StateHistory := d_StateHistory d @ [\<lparr>sr_State = StateSlashed, sr_SubState = SubStateTimelockSlashing, sr_BbnHeight = 0,
       sr_BtcHeight = height, sr_BbnEventType = ''''\<rparr>]\<rparr>"

definition unbonding_slashing_of :: "string \<Rightarrow> u32 \<Rightarrow> i64 \<Rightarrow> BTCDelegationDetails \<Rightarrow> BTCDelegationDetails" where
  "unbonding_slashing_of txHex height time d = d\<lparr>d_State := StateSlashed, d_SubState := SubStateEarlyUnbondingSlashing,
     d_SlashingTx := (d_SlashingTx d)\<lparr>st_UnbondingSlashingTxHex := txHex, st_SpendingHeight := height,
       st_UnbondingSlashingBTCTimestamp := time\<rparr>,
     d_StateHistory := d_StateHistory d @ [\<lparr>sr_State = StateSlashed, sr_SubState = SubStateEarlyUnbondingSlashing, sr_BbnHeight = 0,
       sr_BtcHeight = height, sr_BbnEventType = ''''\<rparr>]\<rparr>"

lemma slashing_of_eq:
  "apply_update StateSlashed (options_of [WithSubState SubStateTimelockSlashing, WithStakingSlashingTx txHex height time, WithBtcHeight height]) d =
     staking_slashing_of txHex height time d"
  "apply_update StateSlashed (options_of [WithSubState SubStateEarlyUnbondingSlashing, WithUnbondingSlashingTx txHex height time, WithBtcHeight height]) d =
     unbonding_slashing_of txHex height time d"
  by (simp_all add: staking_slashing_of_def unbonding_slashing_of_def update_doc_eval)

lemma staking_slashed_effect:
  assumes "no_faults e" "keyed w" "docs w (d_StakingTxHashHex d) = Some d'"
    and "find_doc fst (d_ParamsVersion d) (w_staking_params w) = Some (v, params)"
    and slashing: "lib_SlashingTxToHex e tx = Inr txHex"
      "\<forall>t. btc_GetBlockHash e t (ucast height) = Inr hash" "\<forall>t. btc_GetBlock e t hash = Inr time"
  shows "if d_State d' \<in> set QualifiedStatesForSlashed
    then \<exists>w'. run (staking_slashed e tx height d) w = (Ok (), w') \<and>
      leaves_behind w ((docs w)(d_StakingTxHashHex d \<mapsto> staking_slashing_of txHex height time d'))
        [staking_event UnbondingStakingEventType d]
        [NewTimeLockDocument (d_StakingTxHashHex d) (height + sp_UnbondingTimeBlocks params) SubStateTimelockSlashing]
        [\<lparr>job_OutPoint = \<lparr>op_Hash = lib_TxHash e tx, op_Index = 1\<rparr>, job_Tx = tx, job_OutputIdx = 1,
          job_HeightHint = d_StartHeight d, job_Watch = WatchSlashingChange d SubStateTimelockSlashing\<rparr>] w'
    else \<exists>err w'. run (staking_slashed e tx height d) w = (Err err, w') \<and>
      leaves_behind w (docs w) [staking_event UnbondingStakingEventType d] [] [] w'"
proof -
  let ?opts = "[WithSubState SubStateTimelockSlashing, WithStakingSlashingTx txHex height time, WithBtcHeight height]"
  let ?sent = "tick (tick ((tick w)\<lparr>w_queue := w_queue w @ [staking_event UnbondingStakingEventType d]\<rparr>))"
  have run: "run (staking_slashed e tx height d) w = run (slash e tx height d SubStateTimelockSlashing ?opts) ?sent"
    by (simp add: staking_slashed_def slash_def slashing(1) run_emit [OF assms(1)] run_timestamp [OF slashing(2,3)]
        del: andThen.simps on_error.simps)
  have sent: "keyed ?sent" "docs ?sent (d_StakingTxHashHex d) = Some d'"
    "find_doc fst (d_ParamsVersion d) (w_staking_params ?sent) = Some (v, params)" using assms(2-4) by simp_all
  from slash_effect [OF assms(1) sent, of tx height SubStateTimelockSlashing ?opts] show ?thesis
    unfolding run slashing_of_eq by (auto simp: leaves_behind_def split: if_splits)
qed

text \<open>
  C17. The other ways of spending a staking output. Through the time lock path: a delegation that may be withdrawn becomes
  WITHDRAWN with the hash of the transaction. Through the slashing path: the unbonding message is sent, and a delegation that may
  be slashed becomes SLASHED with the transaction, the height and the time; a time lock ends the unbonding period
  of the parameters after the spend and the second output of the slashing transaction is watched. In any other state the handler fails and the
  delegation stays. Through none of the paths: nothing changes, and the spend is in order exactly when the spending transaction is
  that of a known delegation that expands another one.
\<close>

theorem staking_spend_takes_effect:
  assumes "no_faults e" "keyed w" "docs w h = Some d"
    and "find_doc fst (d_ParamsVersion d) (w_staking_params w) = Some (v, params)"
    and "isSpendingStakingTxUnbondingPath e tx d params = Ok False"
      "isSpendingStakingTxTimeLockPath e tx i d params = Ok withdrawal" "isSpendingStakingTxSlashingPath e tx i d params = Ok slashing"
    and slash: "lib_SlashingTxToHex e tx = Inr txHex"
      "\<forall>t. btc_GetBlockHash e t (ucast height) = Inr hash" "\<forall>t. btc_GetBlock e t hash = Inr time"
  shows "\<exists>r w'. run (handleSpendingStakingTransaction e tx i height h) w = (r, w') \<and>
    (if withdrawal
     then if d_State d \<in> {StateActive, StateUnbonding, StateWithdrawable, StateSlashed}
       then r = Ok () \<and> leaves_behind w ((docs w)(h \<mapsto> withdrawal_of e tx height SubStateTimelock d)) [] [] [] w'
       else (\<exists>err. r = Err err) \<and> leaves_behind w (docs w) [] [] [] w'
     else if slashing
     then if d_State d \<in> {StateActive, StateUnbonding, StateWithdrawable}
       then r = Ok () \<and> leaves_behind w ((docs w)(h \<mapsto> staking_slashing_of txHex height time d))
         [staking_event UnbondingStakingEventType d]
         [NewTimeLockDocument h (height + sp_UnbondingTimeBlocks params) SubStateTimelockSlashing]
         [\<lparr>job_OutPoint = \<lparr>op_Hash = lib_TxHash e tx, op_Index = 1\<rparr>, job_Tx = tx, job_OutputIdx = 1,
           job_HeightHint = d_StartHeight d, job_Watch = WatchSlashingChange d SubStateTimelockSlashing\<rparr>] w'
       else (\<exists>err. r = Err err) \<and> leaves_behind w (docs w) [staking_event UnbondingStakingEventType d] [] [] w'
     else leaves_behind w (docs w) [] [] [] w' \<and>
       (r = Ok ()) = (\<exists>n. docs w (lib_TxHash e tx) = Some n \<and> d_PreviousStakingTxHashHex n \<noteq> ''''))"
proof -
  let ?w2 = "tick (tick w)"
  have key: "d_StakingTxHashHex d = h" using docs_key assms(3) by blast
  have w2: "keyed ?w2" "docs ?w2 (d_StakingTxHashHex d) = Some d"
    "find_doc fst (d_ParamsVersion d) (w_staking_params ?w2) = Some (v, params)" using assms(2-4) key by simp_all
  have run: "run (handleSpendingStakingTransaction e tx i height h) w =
    run (if withdrawal then handleWithdrawal e d SubStateTimelock height tx
      else if slashing then staking_slashed e tx height d else staking_expanded e tx) ?w2"
    using assms(4-7)
    by (simp add: handleSpendingStakingTransaction_def run_get_found [OF assms(1,3)] run_params_found [OF assms(1)]
        del: andThen.simps on_error.simps)
  consider "withdrawal" | "\<not> withdrawal" "slashing" | "\<not> withdrawal" "\<not> slashing" by blast
  then show ?thesis
  proof cases
    case 1
    then show ?thesis
      using withdrawal_effect [OF assms(1) w2(1,2), of SubStateTimelock height tx] leaves_behind_nothing [of w] unfolding run key
      by (auto simp: qualified_defs split: if_splits)
  next
    case 2
    then show ?thesis
      using staking_slashed_effect [OF assms(1) w2 slash] unfolding run key
      by (auto simp: qualified_defs split: if_splits)
  next
    case 3
    have "run (staking_expanded e tx) ?w2 = (if \<exists>n. docs w (lib_TxHash e tx) = Some n \<and> d_PreviousStakingTxHashHex n \<noteq> ''''
       then Ok () else Err (OtherError ''spending tx is not unbonding, withdrawal, slashing or delegation expansion''), tick ?w2)"
      using run_get [OF assms(1), of "lib_TxHash e tx" ?w2]
      by (auto simp: staking_expanded_def docs_def del: andThen.simps on_error.simps split: option.splits)
    with 3 leaves_behind_nothing [of w] show ?thesis unfolding run by auto
  qed
qed

theorem staking_spend_takes_effect_witness:
  "\<exists>w'. run (handleSpendingStakingTransaction sample_env slash_tx 0 60 ''h'') active_params_world = (Ok (), w') \<and>
     docs w' ''h'' = Some (staking_slashing_of ''0c'' 60 1000 active_delegation) \<and>
     w_timelocks w' = [NewTimeLockDocument ''h'' 80 SubStateTimelockSlashing]"
proof -
  have paths: "isSpendingStakingTxUnbondingPath sample_env slash_tx active_delegation (FromBbnStakingParams sample_params) = Ok False"
    "isSpendingStakingTxTimeLockPath sample_env slash_tx 0 active_delegation (FromBbnStakingParams sample_params) = Ok False"
    "isSpendingStakingTxSlashingPath sample_env slash_tx 0 active_delegation (FromBbnStakingParams sample_params) = Ok True"
    by (simp_all add: slash_tx_def withdraw_tx_def sample_delegation_defs watch_eval prog_eval params_eval sample_tx_def to_uint16_def)
  have active: "d_State active_delegation = StateActive" by (simp add: sample_delegation_defs)
  have period: "sp_UnbondingTimeBlocks (FromBbnStakingParams sample_params) = 20" by (simp add: params_eval)
  from staking_spend_takes_effect [OF sample_env_ok(2) active_params(1-3) paths, of "''0c''" 60 "''b''" 1000] active period
  show ?thesis by (auto simp: leaves_behind_def active_params(4))
qed

section \<open>The unbonding output and the change of a slashing transaction\<close>

text \<open>
  C34. The spend of an unbonding output takes effect once. The handler works on the delegation that was read when the output was registered: the
  parameters and the height hint are its own, the state is that of the document that is stored now. A spend through the time lock
  path stores WITHDRAWN with EARLY_UNBONDING, and nothing else; one through the slashing path stores SLASHED with
  EARLY_UNBONDING_SLASHING and the slashing transaction, saves the time lock of the change for the unbonding time of the
  parameters and starts one goroutine to watch the change, without a message. In every other state, so also when the spend is delivered again after a
  withdrawal, and for any other spend, the handler fails and changes nothing.
\<close>

theorem unbonding_output_spend_takes_effect:
  assumes "no_faults e" "keyed w" "docs w (d_StakingTxHashHex d) = Some d'"
    and "find_doc fst (d_ParamsVersion d) (w_staking_params w) = Some (v, params)"
    and "isSpendingUnbondingTxTimeLockPath e tx d i params = Ok withdrawal" "isSpendingUnbondingTxSlashingPath e tx d i params = Ok slashing"
    and "lib_SlashingTxToHex e tx = Inr txHex"
      "\<forall>t. btc_GetBlockHash e t (ucast height) = Inr hash" "\<forall>t. btc_GetBlock e t hash = Inr time"
  shows "\<exists>r w'. run (handleSpendingUnbondingTransaction e tx height i d) w = (r, w') \<and>
    (if withdrawal
     then if d_State d' \<in> {StateActive, StateUnbonding, StateWithdrawable, StateSlashed}
       then r = Ok () \<and> leaves_behind w ((docs w)(d_StakingTxHashHex d \<mapsto> withdrawal_of e tx height SubStateEarlyUnbonding d')) [] [] [] w'
       else (\<exists>err. r = Err err) \<and> leaves_behind w (docs w) [] [] [] w'
     else if slashing
     then if d_State d' \<in> {StateActive, StateUnbonding, StateWithdrawable}
       then r = Ok () \<and> leaves_behind w ((docs w)(d_StakingTxHashHex d \<mapsto> unbonding_slashing_of txHex height time d')) []
         [NewTimeLockDocument (d_StakingTxHashHex d) (height + sp_UnbondingTimeBlocks params) SubStateEarlyUnbondingSlashing]
         [\<lparr>job_OutPoint = \<lparr>op_Hash = lib_TxHash e tx, op_Index = 1\<rparr>, job_Tx = tx, job_OutputIdx = 1,
           job_HeightHint = d_StartHeight d, job_Watch = WatchSlashingChange d SubStateEarlyUnbondingSlashing\<rparr>] w'
       else (\<exists>err. r = Err err) \<and> leaves_behind w (docs w) [] [] [] w'
     else (\<exists>err. r = Err err) \<and> leaves_behind w (docs w) [] [] [] w')"
proof -
  let ?opts = "[WithSubState SubStateEarlyUnbondingSlashing, WithUnbondingSlashingTx txHex height time, WithBtcHeight height]"
  let ?w1 = "tick w" and ?w3 = "tick (tick (tick w))"
  have w1: "keyed ?w1" "docs ?w1 (d_StakingTxHashHex d) = Some d'"
    and w3: "keyed ?w3" "docs ?w3 (d_StakingTxHashHex d) = Some d'"
      "find_doc fst (d_ParamsVersion d) (w_staking_params ?w3) = Some (v, params)" using assms(2-4) by simp_all
  note steps = handleSpendingUnbondingTransaction_def run_params_found [OF assms(1)] run_timestamp [OF assms(8,9)] slash_def
  consider "withdrawal" | "\<not> withdrawal" "slashing" | "\<not> withdrawal" "\<not> slashing" by blast
  then show ?thesis
  proof cases
    case 1
    then have "run (handleSpendingUnbondingTransaction e tx height i d) w = run (handleWithdrawal e d SubStateEarlyUnbonding height tx) ?w1"
      using assms(4-7) by (simp add: steps del: andThen.simps on_error.simps)
    with 1 show ?thesis
      using withdrawal_effect [OF assms(1) w1, of SubStateEarlyUnbonding height tx] leaves_behind_nothing [of w]
      by (auto simp: qualified_defs split: if_splits)
  next
    case 2
    then have "run (handleSpendingUnbondingTransaction e tx height i d) w = run (slash e tx height d SubStateEarlyUnbondingSlashing ?opts) ?w3"
      using assms(4-7) by (simp add: steps del: andThen.simps on_error.simps)
    with 2 show ?thesis
      using slash_effect [OF assms(1) w3, of tx height SubStateEarlyUnbondingSlashing ?opts] leaves_behind_nothing [of w]
      by (auto simp: qualified_defs slashing_of_eq split: if_splits)
  next
    case 3
    then have "run (handleSpendingUnbondingTransaction e tx height i d) w =
        (Err (OtherError ''spending tx is neither withdrawal nor slashing''), ?w1)"
      using assms(4-7) by (simp add: steps del: andThen.simps on_error.simps)
    with 3 leaves_behind_nothing [of w] show ?thesis by auto
  qed
qed

definition unbonding_slash_tx :: MsgTx where
  "unbonding_slash_tx = withdraw_tx\<lparr>tx_TxIn := [\<lparr>ti_PreviousOutPoint = \<lparr>op_Hash = ''h'', op_Index = 0\<rparr>, ti_Witness = [[22], [0]], ti_Sequence = 0\<rparr>]\<rparr>"

theorem unbonding_output_spend_takes_effect_witness:
  "\<exists>w'. run (handleSpendingUnbondingTransaction sample_env unbonding_slash_tx 60 0 active_delegation) active_params_world = (Ok (), w') \<and>
     docs w' ''h'' = Some (unbonding_slashing_of ''0c'' 60 1000 active_delegation) \<and>
     w_timelocks w' = [NewTimeLockDocument ''h'' 80 SubStateEarlyUnbondingSlashing]"
proof -
  have paths: "isSpendingUnbondingTxTimeLockPath sample_env unbonding_slash_tx active_delegation 0 (FromBbnStakingParams sample_params) = Ok False"
    "isSpendingUnbondingTxSlashingPath sample_env unbonding_slash_tx active_delegation 0 (FromBbnStakingParams sample_params) = Ok True"
    by (simp_all add: isSpendingUnbondingTxTimeLockPath_def isSpendingUnbondingTxSlashingPath_def unbonding_slash_tx_def withdraw_tx_def
        sample_delegation_defs watch_eval prog_eval params_eval sample_tx_def to_uint16_def)
  have active: "d_State active_delegation = StateActive" "d_StakingTxHashHex active_delegation = ''h''"
    by (simp_all add: sample_delegation_defs)
  have period: "sp_UnbondingTimeBlocks (FromBbnStakingParams sample_params) = 20" by (simp add: params_eval)
  have doc: "docs active_params_world (d_StakingTxHashHex active_delegation) = Some active_delegation"
    using active_params(2) active(2) by simp
  from unbonding_output_spend_takes_effect [OF sample_env_ok(2) active_params(1) doc active_params(3) paths, of "''0c''" 60 "''b''" 1000]
    active period show ?thesis by (auto simp: leaves_behind_def active_params(4))
qed

text \<open>The change of a slashing transaction: its spend is a withdrawal.\<close>

theorem slashing_change_spend_takes_effect:
  assumes "no_faults e" "keyed w" "docs w (d_StakingTxHashHex d) = Some d'"
  shows "\<exists>w'. run (watchForSpendSlashingChange e detail d sub) w = (Ok (), w') \<and>
    leaves_behind w
      (if d_State d' \<in> {StateActive, StateUnbonding, StateWithdrawable, StateSlashed}
       then (docs w)(d_StakingTxHashHex d \<mapsto> withdrawal_of e (sd_SpendingTx detail) (sd_SpendingHeight detail) sub d')
       else docs w) [] [] [] w'"
proof -
  have w1: "keyed (tick w)" "docs (tick w) (d_StakingTxHashHex d) = Some d'" using assms(2,3) by simp_all
  show ?thesis
    using leaves_behind_updated [of "tick (tick w)" "d_StakingTxHashHex d" d' QualifiedStatesForWithdrawn StateWithdrawn
        "[WithSubState sub, WithBtcHeight (sd_SpendingHeight detail), WithWithdrawalTx (lib_TxHash e (sd_SpendingTx detail))]"]
      leaves_behind_nothing [of w] assms(2,3)
    by (auto simp: watchForSpendSlashingChange_def run_on_error run_state_found [OF assms(1)] run_update_found [OF assms(1) w1]
        withdrawal_of_eq qualified_defs simp del: andThen.simps on_error.simps)
qed

end
