(* ===== verification/Text_Utils.thy ===== *)
theory Text_Utils
  imports Utf8
begin

text \<open>
  \<^verbatim>\<open>SafeUnescape\<close> of \<^verbatim>\<open>internal/utils/utils.go\<close> with the part of \<^verbatim>\<open>strconv\<close> that it rests on.
\<close>

section \<open>\<^verbatim>\<open>strconv.Unquote\<close>\<close>

abbreviation "backslash \<equiv> CHR 0x5C"
abbreviation "double_quote \<equiv> CHR 0x22"
abbreviation "single_quote \<equiv> CHR 0x27"
abbreviation "back_quote \<equiv> CHR 0x60"
abbreviation "newline \<equiv> CHR 0x0A"
abbreviation "carriage_return \<equiv> CHR 0x0D"

text \<open>The number that \<open>n\<close> digits denote, in base 16 and in base 8, and what follows them.\<close>

fun hex_digits :: "nat \<Rightarrow> nat \<Rightarrow> string \<Rightarrow> (nat \<times> string) option" where
  "hex_digits 0 v s = Some (v, s)"
| "hex_digits (Suc n) v [] = None"
| "hex_digits (Suc n) v (c # s) = (case hex_digit c of None \<Rightarrow> None | Some x \<Rightarrow> hex_digits n (v * 16 + x) s)"

fun octal_digits :: "nat \<Rightarrow> nat \<Rightarrow> string \<Rightarrow> (nat \<times> string) option" where
  "octal_digits 0 v s = Some (v, s)"
| "octal_digits (Suc n) v [] = None"
| "octal_digits (Suc n) v (c # s) = (if within 48 55 c then octal_digits n (v * 8 + (code c - 48)) s else None)"

text \<open>What stands after a backslash: the bytes that it denotes and the rest.\<close>

definition rune_escape :: "nat \<Rightarrow> string \<Rightarrow> (string \<times> string) option" where
  "rune_escape n s = (case hex_digits n 0 s of
     None \<Rightarrow> None
   | Some (v, rest) \<Rightarrow> if ValidRune v then Some (AppendRune v, rest) else None)"

definition escape :: "char \<Rightarrow> char \<Rightarrow> string \<Rightarrow> (string \<times> string) option" where
  "escape quote c s =
     (if c = CHR ''a'' then Some ([CHR 0x07], s)
      else if c = CHR ''b'' then Some ([CHR 0x08], s)
      else if c = CHR ''f'' then Some ([CHR 0x0C], s)
      else if c = CHR ''n'' then Some ([newline], s)
      else if c = CHR ''r'' then Some ([carriage_return], s)
      else if c = CHR ''t'' then Some ([CHR 0x09], s)
      else if c = CHR ''v'' then Some ([CHR 0x0B], s)
      else if c = CHR ''x'' then map_option (\<lambda>(v, rest). ([char_of v], rest)) (hex_digits 2 0 s)
      else if c = CHR ''u'' then rune_escape 4 s
      else if c = CHR ''U'' then rune_escape 8 s
      else if within 48 55 c then
        (case octal_digits 2 (code c - 48) s of
           None \<Rightarrow> None
         | Some (v, rest) \<Rightarrow> if 255 < v then None else Some ([char_of v], rest))
      else if c = backslash then Some ([backslash], s)
      else if c = single_quote \<or> c = double_quote then (if c = quote then Some ([c], s) else None)
      else None)"

text \<open>
  One character of a quoted string. An escape that denotes a byte appends that byte; any other character is appended in UTF-8, so
  that a byte that belongs to no encoding becomes \<open>RuneError\<close>.
\<close>

definition UnquoteChar :: "char \<Rightarrow> string \<Rightarrow> (string \<times> string) option" where
  "UnquoteChar quote s =
     (case s of
        [] \<Rightarrow> None
      | c # rest \<Rightarrow>
          if c = quote then None
          else if 0x80 \<le> code c then (let (r, size) = DecodeRune s in Some (AppendRune r, drop size s))
          else if c \<noteq> backslash then Some ([c], rest)
          else (case rest of [] \<Rightarrow> None | c' # rest' \<Rightarrow> escape quote c' rest'))"

lemma octal_digits_shorter: "octal_digits n v s = Some (v', rest) \<Longrightarrow> length rest \<le> length s"
  by (induction n v s rule: octal_digits.induct) (auto split: if_splits)

lemma hex_digits_shorter: "hex_digits n v s = Some (v', rest) \<Longrightarrow> length rest \<le> length s"
  by (induction n v s rule: hex_digits.induct) (auto split: option.splits)

lemma escape_shorter: "escape quote c s = Some (out, rest) \<Longrightarrow> length rest \<le> length s"
  by (auto simp: escape_def rune_escape_def split: if_splits option.splits dest: octal_digits_shorter hex_digits_shorter)

lemma UnquoteChar_shorter: "UnquoteChar quote s = Some (out, rest) \<Longrightarrow> length rest < length s"
  using DecodeRune_size [of s]
  by (auto simp: UnquoteChar_def split: list.splits if_splits prod.splits dest!: escape_shorter)

text \<open>
  The characters up to the closing quote and what follows it; a newline has to be escaped, and between single quotes stands one character
  at most.
\<close>

function unquote_chars :: "char \<Rightarrow> string \<Rightarrow> (string \<times> string) option" where
  "unquote_chars quote s =
     (case s of
        [] \<Rightarrow> None
      | c # rest \<Rightarrow>
          if c = quote then Some ([], rest)
          else if c = newline then None
          else (case UnquoteChar quote s of
                  None \<Rightarrow> None
                | Some (out, rest') \<Rightarrow>
                    if quote = single_quote
                    then (case rest' of [] \<Rightarrow> None | c' # rest'' \<Rightarrow> if c' = quote then Some (out, rest'') else None)
                    else map_option (map_prod ((@) out) id) (unquote_chars quote rest')))"
  by pat_completeness auto
termination
  by (relation "measure (length \<circ> snd)") (auto dest: UnquoteChar_shorter)

declare unquote_chars.simps [simp del]

definition Unquote :: "string \<Rightarrow> string result" where
  "Unquote s =
     (case s of
        [] \<Rightarrow> Err (OtherError ''invalid syntax'')
      | quote # rest \<Rightarrow>
          (case Index quote rest of
             None \<Rightarrow> Err (OtherError ''invalid syntax'')
           | Some n \<Rightarrow>
               if quote = back_quote then
                 (if Suc n = length rest then Ok (filter (\<lambda>c. c \<noteq> carriage_return) (take n rest))
                  else Err (OtherError ''invalid syntax''))
               else if quote = double_quote \<or> quote = single_quote then
                 (case unquote_chars quote rest of
                    Some (out, []) \<Rightarrow> Ok out
                  | _ \<Rightarrow> Err (OtherError ''invalid syntax''))
               else Err (OtherError ''invalid syntax'')))"

section \<open>Names of networks and \<^verbatim>\<open>SafeUnescape\<close>\<close>

type_synonym SupportedBtcNetwork = string

definition SupportedBtcNetwork_String :: "SupportedBtcNetwork \<Rightarrow> string" where
  "SupportedBtcNetwork_String c = c"

definition SafeUnescape :: "string \<Rightarrow> string" where
  "SafeUnescape s = (case Unquote s of Ok unquoted \<Rightarrow> unquoted | _ \<Rightarrow> s)"

text \<open>The quotes of a string of ASCII characters, with its special characters escaped, are removed again.\<close>

definition quote_char :: "char \<Rightarrow> string" where
  "quote_char c =
     (if c = double_quote \<or> c = backslash then [backslash, c]
      else if c = newline then [backslash, CHR ''n''] else [c])"

definition ascii_quoted :: "string \<Rightarrow> string" where
  "ascii_quoted s = double_quote # concat (map quote_char s) @ [double_quote]"

lemma Index_append_self: "\<exists>n. Index c (xs @ [c]) = Some n"
  by (induction xs) (auto split: option.splits)

lemma unquote_chars_step:
  assumes "UnquoteChar quote (c # cs) = Some (out, rest)" "c \<noteq> quote" "c \<noteq> newline" "quote \<noteq> single_quote"
  shows "unquote_chars quote (c # cs) = map_option (map_prod ((@) out) id) (unquote_chars quote rest)"
  using assms by (subst unquote_chars.simps) simp

lemma unquote_quote_char:
  assumes "code c < 0x80"
  shows "unquote_chars double_quote (quote_char c @ s) = map_option (map_prod ((@) [c]) id) (unquote_chars double_quote s)"
proof -
  have "UnquoteChar double_quote (quote_char c @ s) = Some ([c], s)"
    using assms by (simp add: quote_char_def UnquoteChar_def escape_def within_def)
  moreover obtain c' cs where "quote_char c = c' # cs" "c' \<noteq> double_quote" "c' \<noteq> newline" 
    by (cases "c = double_quote \<or> c = backslash"; cases "c = newline") (auto simp: quote_char_def)
  ultimately show ?thesis using unquote_chars_step [of double_quote c' "cs @ s" "[c]" s] by simp
qed

lemma unquote_ascii:
  "list_all (\<lambda>c. code c < 0x80) s \<Longrightarrow> unquote_chars double_quote (concat (map quote_char s) @ [double_quote]) = Some (s, [])"
proof (induction s)
  case Nil
  then show ?case by (simp add: unquote_chars.simps)
next
  case (Cons c s)
  then show ?case by (simp add: unquote_quote_char)
qed

lemma SafeUnescape_quoted: "list_all (\<lambda>c. code c < 0x80) s \<Longrightarrow> SafeUnescape (ascii_quoted s) = s"
  using Index_append_self [of double_quote "concat (map quote_char s)"]
  by (auto simp: SafeUnescape_def Unquote_def ascii_quoted_def unquote_ascii)

text \<open>A string that does not begin with a quote is returned as it is.\<close>

lemma SafeUnescape_plain: "hd s \<notin> {double_quote, single_quote, back_quote} \<Longrightarrow> SafeUnescape s = s"
  by (auto simp: SafeUnescape_def Unquote_def split: list.splits option.splits)

lemma SafeUnescape_idle: "SafeUnescape [double_quote, CHR ''a'', newline, double_quote] = [double_quote, CHR ''a'', newline, double_quote]"
  by (simp add: SafeUnescape_def Unquote_def unquote_chars.simps UnquoteChar_def)

end
