(* ===== verification/Tracing.thy ===== *)
theory Tracing
  imports Go_Utils
begin

text \<open>
  \<^verbatim>\<open>internal/observability/tracing\<close> and its use by \<^verbatim>\<open>internal/utils/poller\<close>: the logger that a context carries. A context is
  the chain of the values that have been attached to it; of these only the loggers are told apart, each with the
  fields that it adds to its messages.
\<close>

datatype Context = Background | WithLogger "(string \<times> string) list" Context

text \<open>\<^verbatim>\<open>log.Ctx\<close>: the logger that was attached last.\<close>

fun Ctx :: "Context \<Rightarrow> (string \<times> string) list option" where
  "Ctx Background = None"
| "Ctx (WithLogger logged ctx) = Some logged"

text \<open>The new logger is made from the global one, not from that of the context; \<open>uuid\<close> is the identifier that was drawn.\<close>

definition InjectTraceID :: "(string \<times> string) list \<Rightarrow> string \<Rightarrow> Context \<Rightarrow> Context" where
  "InjectTraceID global uuid ctx = WithLogger (global @ [(''traceId'', uuid)]) ctx"

text \<open>
  The context that \<^verbatim>\<open>Poller.Start\<close> gives to its \<open>n\<close>-th call of the poll method: the variable is overwritten, so that each call has
  the context of the call before as its parent.
\<close>

fun poll_context :: "(string \<times> string) list \<Rightarrow> (nat \<Rightarrow> string) \<Rightarrow> Context \<Rightarrow> nat \<Rightarrow> Context" where
  "poll_context global uuids ctx 0 = InjectTraceID global (uuids 0) ctx"
| "poll_context global uuids ctx (Suc n) = InjectTraceID global (uuids (Suc n)) (poll_context global uuids ctx n)"

text \<open>Each poll logs with its own identifier and with no other one, and the chain grows with every tick, without a bound.\<close>

fun layers :: "Context \<Rightarrow> nat" where
  "layers Background = 0"
| "layers (WithLogger logged ctx) = Suc (layers ctx)"

lemma poll_logger: "Ctx (poll_context global uuids ctx n) = Some (global @ [(''traceId'', uuids n)])"
  by (cases n) (simp_all add: InjectTraceID_def)

lemma contexts_pile_up: "layers (poll_context global uuids ctx n) = layers ctx + Suc n"
  by (induction n) (simp_all add: InjectTraceID_def)

end
