(* ===== verification/Test_Utils.thy ===== *)
theory Test_Utils
  imports Go_Utils
begin

text \<open>
  \<^verbatim>\<open>testutil\<close>: the ports that concurrent tests allocate, random names and the version of Babylon that the tests run against.
\<close>

section \<open>Ports\<close>

definition basePort :: int where "basePort = 20000"
definition portRange :: int where "portRange = 30000"

text \<open>
  A call of \<^verbatim>\<open>AllocateUniquePort\<close> has some attempts left, closes the listener of a port that it has entered into the map, has
  returned a port or has failed the test.
\<close>

datatype Caller = Trying nat | Closing nat int | Returned int | Fatal

text \<open>
  The mutex makes the look at the map, the attempt to listen and the entry one step. The draw is any number below the range, and whether
  the port can be listened on and closed is up to the system.
\<close>

inductive port_step :: "int set \<times> Caller list \<Rightarrow> int set \<times> Caller list \<Rightarrow> bool" where
  call: "port_step (allocated, cs) (allocated, cs @ [Trying 10])"
| exists: "i < length cs \<Longrightarrow> cs ! i = Trying (Suc n) \<Longrightarrow> 0 \<le> draw \<Longrightarrow> draw < portRange \<Longrightarrow> basePort + draw \<in> allocated \<Longrightarrow>
    port_step (allocated, cs) (allocated, cs[i := Trying n])"
| not_listening: "i < length cs \<Longrightarrow> cs ! i = Trying (Suc n) \<Longrightarrow> 0 \<le> draw \<Longrightarrow> draw < portRange \<Longrightarrow> basePort + draw \<notin> allocated \<Longrightarrow>
    port_step (allocated, cs) (allocated, cs[i := Trying n])"
| listening: "i < length cs \<Longrightarrow> cs ! i = Trying (Suc n) \<Longrightarrow> 0 \<le> draw \<Longrightarrow> draw < portRange \<Longrightarrow> basePort + draw \<notin> allocated \<Longrightarrow>
    port_step (allocated, cs) (insert (basePort + draw) allocated, cs[i := Closing n (basePort + draw)])"
| closed: "i < length cs \<Longrightarrow> cs ! i = Closing n port \<Longrightarrow> port_step (allocated, cs) (allocated, cs[i := Returned port])"
| not_closed: "i < length cs \<Longrightarrow> cs ! i = Closing n port \<Longrightarrow> port_step (allocated, cs) (allocated, cs[i := Trying n])"
| fatal: "i < length cs \<Longrightarrow> cs ! i = Trying 0 \<Longrightarrow> port_step (allocated, cs) (allocated, cs[i := Fatal])"

text \<open>No two calls have the same port, whichever way they are interleaved.\<close>

fun has_port :: "Caller \<Rightarrow> int \<Rightarrow> bool" where
  "has_port (Closing n p) port = (p = port)"
| "has_port (Returned p) port = (p = port)"
| "has_port _ port = False"

definition ports_unique :: "int set \<times> Caller list \<Rightarrow> bool" where
  "ports_unique s \<longleftrightarrow> (\<forall>i < length (snd s). \<forall>port. has_port (snd s ! i) port \<longrightarrow>
     port \<in> fst s \<and> (\<forall>j < length (snd s). has_port (snd s ! j) port \<longrightarrow> i = j)) \<and>
   fst s \<subseteq> {basePort ..< basePort + portRange}"

lemma ports_unique_update:
  assumes "ports_unique (allocated, cs)" "i < length cs" "\<And>port. has_port c port \<Longrightarrow> has_port (cs ! i) port"
  shows "ports_unique (allocated, cs[i := c])"
  using assms unfolding ports_unique_def by (simp add: nth_list_update) blast

lemma ports_unique_step: "port_step s s' \<Longrightarrow> ports_unique s \<Longrightarrow> ports_unique s'"
proof (induction rule: port_step.induct)
  case (call allocated cs)
  then show ?case by (auto simp: ports_unique_def nth_append less_Suc_eq)
next
  case (listening i cs n draw allocated)
  have "\<forall>j < length cs. \<not> has_port (cs ! j) (basePort + draw)" using listening(5,6) by (auto simp: ports_unique_def)
  then show ?case using listening(1-4,6) by (auto simp: ports_unique_def nth_list_update)
qed (rule ports_unique_update; simp)+

theorem allocated_ports_are_unique:
  assumes "port_step\<^sup>*\<^sup>* ({}, []) (allocated, cs)" "i < length cs" "j < length cs" "cs ! i = Returned port" "cs ! j = Returned port"
  shows "i = j \<and> 20000 \<le> port \<and> port < 50000"
proof -
  have "ports_unique s" if "port_step\<^sup>*\<^sup>* ({}, []) s" for s
    using that
  proof induction
    case base
    show ?case by (simp add: ports_unique_def)
  next
    case (step s s')
    then show ?case by (metis ports_unique_step)
  qed
  then have unique: "ports_unique (allocated, cs)" using assms(1) .
  have has: "has_port (cs ! i) port" "has_port (cs ! j) port" using assms(4,5) by simp_all
  have "port \<in> allocated" "i = j" using unique has assms(2,3) unfolding ports_unique_def by auto
  moreover have "allocated \<subseteq> {basePort ..< basePort + portRange}" using unique by (simp add: ports_unique_def)
  ultimately show ?thesis by (auto simp: basePort_def portRange_def)
qed

section \<open>Names and versions\<close>

text \<open>\<open>draws i\<close> is the number that the system's generator gives for the \<open>i\<close>-th letter, or its error.\<close>

definition RandomAlphaNum :: "(nat \<Rightarrow> string + nat) \<Rightarrow> int \<Rightarrow> string result" where
  "RandomAlphaNum draws n =
     (if n \<le> 0 then Err (OtherError ''length must be greater than 0'')
      else map_result (\<lambda>i. bind_result (of_lib (draws i)) (\<lambda>num. Ok (letters ! num))) [0..<nat n])"

text \<open>The file and its parser are outside; the parsed file is the list of the required modules with their versions.\<close>

definition GetBabylonVersion ::
  "(string \<Rightarrow> string + bytes) \<Rightarrow> (bytes \<Rightarrow> string + (string \<times> string) list) \<Rightarrow> string result" where
  "GetBabylonVersion read_file parse_file =
     bind_result (of_lib (read_file ''../go.mod'')) (\<lambda>data.
     bind_result (of_lib (parse_file data)) (\<lambda>require.
     case List.find (\<lambda>m. fst m = ''github.com/babylonlabs-io/babylon/v4'') require of
       Some m \<Rightarrow> Ok (snd m)
     | None \<Rightarrow> Err (OtherError ''module github.com/babylonlabs-io/babylon/v4 not found'')))"

lemma RandomAlphaNum_Ok:
  assumes draws: "\<And>i n. draws i = Inr n \<Longrightarrow> n < length letters" and "RandomAlphaNum draws n = Ok s"
  shows "0 < n \<and> int (length s) = n \<and> set s \<subseteq> set letters"
proof -
  from assms(2) have n: "0 < n" and all: "list_all2 (\<lambda>i c. bind_result (of_lib (draws i)) (\<lambda>num. Ok (letters ! num)) = Ok c) [0..<nat n] s"
    by (auto simp: RandomAlphaNum_def map_result_eq_Ok split: if_splits)
  have letter: "c \<in> set letters" if "bind_result (of_lib (draws i)) (\<lambda>num. Ok (letters ! num)) = Ok c" for i c
    using that draws [of i] by (cases "draws i") auto
  have "c \<in> set letters" if "c \<in> set s" for c
    using that list_all2_nthD2 [OF all] letter by (fastforce simp: in_set_conv_nth)
  with n list_all2_lengthD [OF all] show ?thesis by auto
qed

end
