(* ===== verification/Spec2Isabelle.thy ===== *)
theory Spec2Isabelle
  imports Lifecycle Event_Invariants Block_Spec Expiry_Spec Stats_Spec Script_Spec Service_Spec Pipeline_Spec Subscription_Spec
    Metrics_Spec Startup_Spec Http_Client Backfill_Spec
    Spend_Effects Utf8 Text_Utils Tracing Test_Utils
begin

text \<open>
  A verification library for the Babylon staking indexer, the Go service under \<^verbatim>\<open>internal/\<close> that follows the
  Babylon chain and the Bitcoin chain and keeps a MongoDB database of staking delegations.

  \<^bold>\<open>The program.\<close> The indexer reads the events of each Babylon block (\<^verbatim>\<open>internal/services/bootstrap.go\<close>), parses
  them (\<^verbatim>\<open>events.go\<close>) and gives them to a handler (\<^verbatim>\<open>delegation.go\<close>, \<^verbatim>\<open>finality_provider.go\<close>), which updates the
  database (\<^verbatim>\<open>internal/db\<close>), sends messages to a queue (\<^verbatim>\<open>consumer_events.go\<close>) and starts goroutines that wait
  until a Bitcoin output is spent (\<^verbatim>\<open>delegation_helpers.go\<close>). When it is, a watcher classifies the spending
  transaction and updates the delegation (\<^verbatim>\<open>watch_btc_events.go\<close>). Pollers end time locks
  (\<^verbatim>\<open>expiry_checker.go\<close>), compute statistics (\<^verbatim>\<open>stats_poller.go\<close>) and fetch parameters (\<^verbatim>\<open>global_params.go\<close>).
  All these run at the same time on one database, any call may fail, and the process may stop at any moment.

  \<^bold>\<open>How it is modelled.\<close> The record \<open>world\<close> (theory \<open>World\<close>) is everything the goroutines share: the collections
  as lists of documents, the queue, the goroutines that have been started (\<open>w_jobs\<close>) and registered
  (\<open>w_watches\<close>) for spends, the latest parameter version in memory, and a clock that counts the calls. A
  goroutine is a program (\<open>prog\<close> in \<open>Prelude\<close>): a tree of atomic actions on the world, one for each call of the
  database, the queue, a node or the memory of the process, with the control flow of the code between them.
  Errors are values of the datatype \<open>error\<close>; a panic and \<^verbatim>\<open>log.Fatal\<close> are the outcome \<open>Panic\<close>. The record \<open>env\<close> is
  the code outside the repository: what the nodes answer at each moment of the clock, which calls fail, before
  their effect (\<open>Lost\<close>) or after it (\<open>Unacked\<close>), the order in which the server scans a collection, the indexes that the
  database has, the Bitcoin script library, the Cosmos event parser, and the configuration. Two hypotheses about it have names:
  \<open>scan_ok\<close>, a query meets every document once, and \<open>no_faults\<close>, no call of the database or the queue fails;
  the properties of the whole process need only the first.

  \<^bold>\<open>The theories\<close>, each named after what it models, with the names of the code kept:
  \<^item> \<open>Prelude\<close>: words, errors, programs and their sequential execution, collections as lists.
  \<^item> \<open>Keyed_Collection\<close>: a collection with a primary key, its contract as a locale and what follows from it.
  \<^item> \<open>Rely_Guarantee\<close>: programs that run among others, all of which move the state upwards in an order and keep
    an invariant; the calculus is proved in a locale.
  \<^item> \<open>Indexer_Types\<close> (\<^verbatim>\<open>internal/types\<close>), \<open>Go_Utils\<close> (\<^verbatim>\<open>internal/utils\<close>, \<^verbatim>\<open>pkg\<close>), \<open>Db_Model\<close> (\<^verbatim>\<open>internal/db/model\<close>),
    \<open>Database\<close> (\<^verbatim>\<open>internal/db\<close>), \<open>Chain_Clients\<close> (\<^verbatim>\<open>internal/clients\<close>).
  \<^item> \<open>Event_Parsing\<close>, \<open>Event_Processor\<close> (\<^verbatim>\<open>events.go\<close>), \<open>Consumer_Events\<close> (\<^verbatim>\<open>consumer_events.go\<close>,
    \<^verbatim>\<open>delegation_helpers.go\<close>, \<^verbatim>\<open>btc_notifier.go\<close>), \<open>Delegation_Events\<close> (\<^verbatim>\<open>delegation.go\<close>),
    \<open>Finality_Provider_Events\<close> (\<^verbatim>\<open>finality_provider.go\<close>), \<open>Btc_Scripts\<close> and \<open>Spend_Watchers\<close>
    (\<^verbatim>\<open>watch_btc_events.go\<close>), \<open>Pollers\<close> (\<^verbatim>\<open>expiry_checker.go\<close>, \<^verbatim>\<open>stats_poller.go\<close>, \<^verbatim>\<open>global_params.go\<close>,
    \<^verbatim>\<open>utils/poller\<close>), \<open>Bootstrap\<close> (\<^verbatim>\<open>bootstrap.go\<close>, \<^verbatim>\<open>subscription.go\<close>).
  \<^item> \<open>World_Invariant\<close>: the abstract state machine of a delegation (\<open>legal\<close>), the order \<open>below\<close> that every action
    moves upwards in, and the invariant \<open>good\<close>. \<open>World_Rules\<close>, \<open>Database_Rules\<close> and \<open>Handler_Rules\<close> prove for each
    action, database operation and handler that it complies.
  \<^item> \<open>System\<close>: the whole process as a step relation: goroutines start at any time and any number of times, their
    actions interleave arbitrarily, and a crash loses everything but the database and the queue, and perhaps the
    goroutines of other processes on the same database. This allows more schedules than the code has, so the safety
    properties hold for all of the code's.
  \<^item> \<open>Block_Pipeline\<close> (\<^verbatim>\<open>processBlocksSequentially\<close> of \<^verbatim>\<open>bootstrap.go\<close>): the goroutine that fetches blocks, the
    bounded channel and the goroutine that processes them as two step relations with cancellation, errors and
    panics, beside all other goroutines. \<open>Frame_Rules\<close> shows that these leave the stored height alone,
    \<open>Pipeline_Rules\<close> holds the invariant of the pipeline, the measure that its steps decrease and the simulation by
    \<open>System\<close>.
  \<^item> \<open>Subscription\<close> (\<^verbatim>\<open>Subscribe\<close> of \<^verbatim>\<open>bbnclient.go\<close>, \<^verbatim>\<open>subscription.go\<close>): the websocket subscription with its renewal, as
    a function on what its \<^verbatim>\<open>select\<close> receives. \<open>Chain_Follower\<close> composes it with the goroutine that announces the
    heights, the unbuffered channels between them and the block processor into one step relation from the websocket to the
    database; \<open>Chain_Rules\<close> holds its invariant (the last height on its way is the last one delivered), its measure
    and its projection onto \<open>Block_Pipeline\<close>, \<open>Pipeline_Sample\<close> a concrete run.
  \<^item> \<open>Backfill\<close> (\<^verbatim>\<open>FillStakerAddr\<close> of \<^verbatim>\<open>bootstrap.go\<close>): the goroutine that hands out the hashes, the bounded channel and
    the pool of workers, with errors, panics and cancellation, beside an indexer on the same database.
    \<open>Backfill_Rules\<close> accounts for every hash as a multiset, measures the steps and shows that the pool is a set of
    goroutines of \<open>System\<close>. \<open>Fill_Command\<close> (\<^verbatim>\<open>cli/fill_staker_addr.go\<close>) is the command around it, up to the exit code.
  \<^item> \<open>Metrics\<close> (\<^verbatim>\<open>internal/observability/metrics\<close>) and \<open>Interfaces\<close> (\<^verbatim>\<open>internal/db/interface.go\<close>, \<^verbatim>\<open>db/metrics.go\<close>, the
    interfaces and \<^verbatim>\<open>metrics.go\<close> of the clients): the records of operations, their implementations by the
    operations above, and the wrappers that measure each call on a larger state.
  \<^item> \<open>Configuration\<close> (\<^verbatim>\<open>internal/config\<close>), \<open>Index_Setup\<close> (\<^verbatim>\<open>internal/db/model/setup.go\<close>), \<open>Command_Line\<close>
    (\<^verbatim>\<open>cli/root.go\<close>), \<open>Startup\<close> (\<^verbatim>\<open>main.go\<close>, \<^verbatim>\<open>service.go\<close>, \<^verbatim>\<open>notifier.go\<close> and the constructors of the clients),
    \<open>Http_Client\<close> (\<^verbatim>\<open>internal/clients/base\<close>, \<^verbatim>\<open>types/error.go\<close>).
  \<^item> Parts of Go's standard library that the program's results depend on: \<open>Json_Scanner\<close> (\<^verbatim>\<open>json.Valid\<close>, for the attributes
    of events), \<open>Ip_Address\<close> (\<^verbatim>\<open>net.ParseIP\<close>, for the configuration), \<open>Text_Utils\<close> (\<^verbatim>\<open>SafeUnescape\<close> with \<^verbatim>\<open>strconv.Unquote\<close>),
    \<open>Utf8\<close> (\<^verbatim>\<open>unicode/utf8\<close>, for these and for the labels of the metrics).
  \<^item> \<open>Tracing\<close> (\<^verbatim>\<open>internal/observability/tracing\<close> and the contexts of \<^verbatim>\<open>utils/poller\<close>), \<open>Test_Utils\<close> (\<^verbatim>\<open>testutil\<close>: concurrent tests that allocate ports).
  \<^item> \<open>Sample\<close>: a concrete environment and runs, on which the properties are instantiated.

  \<^bold>\<open>What is shown.\<close> \<open>Lifecycle\<close> holds the properties of the whole process (C1 to C11): histories are paths of the
  state machine, documents persist, terminal states absorb, messages are sent before the state that they
  announce is stored, delegations become withdrawable only after the tip, keys are unique (the versions of the parameters
  when the indexes of \<open>Index_Setup\<close> are there). \<open>Sequential\<close>,
  \<open>Handler_Spec\<close>, \<open>Event_Effects\<close> and \<open>Event_Invariants\<close> look at one program that runs alone: the effect of the
  guarded update and of the events on the map of the delegations, what a replay does, and what every event
  keeps whatever fails (C18 to C21, C24, C25). \<open>Spend_Effects\<close> does the same for the spends of the watched outputs: what
  every path of a staking output, an unbonding output and a slashing change leaves behind (C16, C17, C34). \<open>Pipeline_Spec\<close> has the way of a block among all goroutines: no
  block is skipped, everything that the node delivers is processed in finitely many steps, and the process is a schedule of
  \<open>System\<close>, whose properties therefore hold of it (C12 to C14). \<open>Backfill_Spec\<close> shows what the exit code of the
  backfill means, that its workers end and what they write (C15, C36, C37). \<open>Block_Spec\<close> has the enumeration of the
  parameter versions (C31), \<open>Expiry_Spec\<close> and \<open>Stats_Spec\<close> the periodic tasks (C22, C23, C32), \<open>Script_Spec\<close> the
  classification of spends (C26 to C28), \<open>Startup_Spec\<close> what has been checked when the first goroutine starts, by
  assertions before and after each step (C29), \<open>Subscription_Spec\<close> the time in which a dead subscription is replaced
  (C30), \<open>Metrics_Spec\<close> that the metrics change nothing and record each call once (C33),
  \<open>Configuration\<close>, \<open>Http_Client\<close> and \<open>Index_Setup\<close> what validation, requests and setup guarantee (C35, C38, C39),
  \<open>Service_Spec\<close> numbers (C40).

  \<^bold>\<open>Bounds.\<close> The only fuel is the number of parameter versions that one pass asks for; C31 shows that any number
  above the versions that the chain has gives the complete result. The retries have the constants of the code.
  Heights, indices and amounts are words of the width of the code; Go's \<^verbatim>\<open>int64\<close> and \<^verbatim>\<open>uint64\<close> are both 64-bit
  words, compared in the order that the code uses. A conversion \<^verbatim>\<open>uint16(x)\<close> keeps the low bits. The properties of
  the block processor assume that the chain never reaches the largest 64-bit height, where its loop would not end.

  \<^bold>\<open>What is not modelled.\<close> Logging; timestamps of the statistics documents; what the
  command line library makes of the arguments, and the HTTP server of the metrics beyond its address; the contents of
  Bitcoin scripts; the grammar of URLs, whose details differ between the versions of Go (\<^verbatim>\<open>url.Parse\<close> is a parameter of
  \<open>Configuration\<close>). The recording calls of the handlers are left out of their programs, which C33 justifies for the wrappers.
  MongoDB operations have their documented meaning on the list of documents; sums of amounts are words of 64 bits, where
  the server would change to a double and the driver would refuse a value above the largest signed one, both far above the
  supply of bitcoins. The generated mocks and the end-to-end tests,
  which start containers and nodes and call their libraries, are not part of the program.
\<close>

end
